(* ===== verification/Fleet_Prelude.thy ===== *)
theory Fleet_Prelude
  imports Complex_Main "HOL-Library.AList" "HOL-Library.Multiset"
    "HOL-Library.List_Lexorder" "HOL-Library.Char_ord" "HOL-Library.Product_Lexorder"
begin

text \<open>
  Shared vocabulary of the development: Go maps as association lists, the order in which a
  \<^verbatim>\<open>range\<close> loop visits a map, random identifiers, IEEE floats as the code compares them, and the
  generic lemmas on them that the component theories use.

  A Go \<^verbatim>\<open>map[string]*T\<close> is an association list with distinct keys. A pointer obtained from such a
  map is represented by its key, so writing through the pointer is \<open>mupd\<close> at that key. A loop whose
  body touches only the entry it visits is \<open>mmap\<close> or \<open>mfilter\<close>; a loop whose body reaches outside
  its entry is a \<open>fold\<close> over the keys in an order supplied by the environment (\<open>range_order\<close>).
\<close>

named_theorems gomap_simps "lookups, keys and counts of updated Go maps"

type_synonym 'v gomap = "(string \<times> 'v) list"

subsection \<open>Operations on Go maps\<close>

definition mkeys :: "'v gomap \<Rightarrow> string list" where
  "mkeys m = map fst m"

definition mput :: "string \<Rightarrow> 'v \<Rightarrow> 'v gomap \<Rightarrow> 'v gomap" where
  "mput k v m = AList.update k v m"

definition mupd :: "string \<Rightarrow> ('v \<Rightarrow> 'v) \<Rightarrow> 'v gomap \<Rightarrow> 'v gomap" where
  "mupd k f m = map (\<lambda>(k', v). (k', if k' = k then f v else v)) m"

definition mmap :: "('v \<Rightarrow> 'v) \<Rightarrow> 'v gomap \<Rightarrow> 'v gomap" where
  "mmap f m = map (\<lambda>(k, v). (k, f v)) m"

definition mfilter :: "(string \<Rightarrow> 'v \<Rightarrow> bool) \<Rightarrow> 'v gomap \<Rightarrow> 'v gomap" where
  "mfilter P m = filter (\<lambda>(k, v). P k v) m"

definition mcount :: "('v \<Rightarrow> bool) \<Rightarrow> 'v gomap \<Rightarrow> nat" where
  "mcount P m = length (filter (\<lambda>(k, v). P v) m)"

abbreviation mwf :: "'v gomap \<Rightarrow> bool" where
  "mwf m \<equiv> distinct (mkeys m)"

lemma mkeys_Nil [simp]: "mkeys [] = []"
  by (simp add: mkeys_def)

lemma mkeys_Cons [simp]: "mkeys (p # m) = fst p # mkeys m"
  by (simp add: mkeys_def)

lemma mkeys_mupd [gomap_simps, simp]: "mkeys (mupd k f m) = mkeys m"
  by (induction m) (auto simp: mupd_def)

lemma mkeys_mmap [gomap_simps, simp]: "mkeys (mmap f m) = mkeys m"
  by (induction m) (auto simp: mmap_def)

lemma set_mkeys_mput [gomap_simps, simp]: "set (mkeys (mput k v m)) = insert k (set (mkeys m))"
  by (auto simp: mkeys_def mput_def AList.update_keys)

lemma mwf_mput [gomap_simps, simp]: "mwf (mput k v m) = mwf m"
  by (auto simp: mkeys_def mput_def AList.update_keys)

lemma mwf_mfilter [simp]: "mwf m \<Longrightarrow> mwf (mfilter P m)"
  by (simp add: mkeys_def mfilter_def distinct_map_filter)

lemma in_mkeys_iff: "k \<in> set (mkeys m) \<longleftrightarrow> map_of m k \<noteq> None"
  by (simp add: mkeys_def map_of_eq_None_iff)

lemma map_of_mput [gomap_simps, simp]: "map_of (mput k v m) = (map_of m)(k \<mapsto> v)"
  by (simp add: mput_def AList.update_conv')

lemma map_of_mupd [gomap_simps, simp]:
  "map_of (mupd k f m) k' = (if k' = k then map_option f (map_of m k) else map_of m k')"
  by (induction m) (auto simp: mupd_def)

lemma map_of_mmap [gomap_simps, simp]: "map_of (mmap f m) k = map_option f (map_of m k)"
  by (induction m) (auto simp: mmap_def)

lemma map_of_mfilter [gomap_simps]:
  assumes "mwf m"
  shows "map_of (mfilter P m) k =
    (case map_of m k of None \<Rightarrow> None | Some v \<Rightarrow> if P k v then Some v else None)"
  using assms
proof (induction m)
  case Nil
  then show ?case by (simp add: mfilter_def)
next
  case (Cons p m)
  obtain k' v where p: "p = (k', v)" by (cases p)
  from Cons.prems p have "mwf m" and nin: "map_of m k' = None"
    by (simp_all add: in_mkeys_iff)
  then show ?case using Cons.IH p
    by (auto simp: mfilter_def split: option.splits)
qed

lemma map_of_mfilter_SomeD:
  "mwf m \<Longrightarrow> map_of (mfilter P m) k = Some v \<Longrightarrow> map_of m k = Some v \<and> P k v"
  by (auto simp: map_of_mfilter split: option.splits if_splits)

lemma mem_iff_map_of: "mwf m \<Longrightarrow> (k, v) \<in> set m \<longleftrightarrow> map_of m k = Some v"
  by (auto simp: mkeys_def dest: map_of_SomeD)

subsection \<open>Counting the entries of a map\<close>

lemma mcount_Nil [simp]: "mcount P [] = 0"
  by (simp add: mcount_def)

lemma mcount_Cons [simp]: "mcount P (p # m) = of_bool (P (snd p)) + mcount P m"
  by (cases p) (simp add: mcount_def)

lemma mupd_absent: "map_of m k = None \<Longrightarrow> mupd k f m = m"
  by (induction m) (auto simp: mupd_def split: if_splits)

lemma mupd_Cons: "mupd k f (p # m) = (fst p, if fst p = k then f (snd p) else snd p) # mupd k f m"
  by (cases p) (simp add: mupd_def)

lemma mcount_mupd:
  assumes "mwf m" "map_of m k = Some v"
  shows "mcount P (mupd k f m) + of_bool (P v) = mcount P m + of_bool (P (f v))"
  using assms
proof (induction m)
  case Nil
  then show ?case by simp
next
  case (Cons p m)
  show ?case
  proof (cases "fst p = k")
    case True
    with Cons.prems have "map_of m k = None" "v = snd p"
      by (auto simp: in_mkeys_iff)
    with True show ?thesis by (simp add: mupd_Cons mupd_absent)
  next
    case False
    with Cons show ?thesis by (simp add: mupd_Cons)
  qed
qed

lemma mcount_mput_fresh: "map_of m k = None \<Longrightarrow> mcount P (mput k v m) = mcount P m + of_bool (P v)"
  by (induction m) (auto simp: mput_def split: if_splits)

lemma mcount_mmap: "mcount P (mmap f m) = mcount (\<lambda>v. P (f v)) m"
  by (induction m) (auto simp: mmap_def)

lemma mcount_mono: "(\<And>k v. (k, v) \<in> set m \<Longrightarrow> P v \<Longrightarrow> Q v) \<Longrightarrow> mcount P m \<le> mcount Q m"
proof (induction m)
  case (Cons p m)
  have "mcount P m \<le> mcount Q m" by (rule Cons.IH) (auto intro: Cons.prems)
  moreover have "P (snd p) \<Longrightarrow> Q (snd p)" using Cons.prems[of "fst p" "snd p"] by simp
  ultimately show ?case by (cases "P (snd p)") auto
qed simp

lemma mcount_mfilter_le: "mcount P (mfilter Q m) \<le> mcount P m"
  by (induction m) (auto simp: mfilter_def)

lemma mcount_0_iff: "mcount P m = 0 \<longleftrightarrow> (\<forall>(k, v) \<in> set m. \<not> P v)"
  by (induction m) auto

lemma mcount_0_lookup: "mwf m \<Longrightarrow> mcount P m = 0 \<longleftrightarrow> (\<forall>k v. map_of m k = Some v \<longrightarrow> \<not> P v)"
  by (auto simp: mcount_0_iff mem_iff_map_of)

lemma mcount_posI: "map_of m k = Some v \<Longrightarrow> P v \<Longrightarrow> 0 < mcount P m"
  by (induction m) (auto split: if_splits)

subsection \<open>Range loops and random identifiers\<close>

text \<open>
  Go leaves the order of a \<^verbatim>\<open>range\<close> over a map open. The environment supplies, for the loop with
  number \<open>site\<close>, the order in which the keys are visited; all the language promises is that it
  visits each key once.
\<close>

type_synonym range_fn = "nat \<Rightarrow> string list \<Rightarrow> string list"

definition range_order :: "range_fn \<Rightarrow> bool" where
  "range_order ro \<longleftrightarrow> (\<forall>site ks. mset (ro site ks) = mset ks)"

lemma range_order_set: "range_order ro \<Longrightarrow> set (ro site ks) = set ks"
  by (metis range_order_def mset_eq_setD)

lemma range_order_distinct: "range_order ro \<Longrightarrow> distinct (ro site ks) = distinct ks"
  by (metis range_order_def mset_eq_imp_distinct_iff)

lemma range_order_id [simp]: "range_order (\<lambda>_ ks. ks)"
  by (simp add: range_order_def)

text \<open>The entries of a map in the order a range loop visits them.\<close>

definition range_entries :: "range_fn \<Rightarrow> nat \<Rightarrow> 'v gomap \<Rightarrow> (string \<times> 'v) list" where
  "range_entries ro site m = List.map_filter (\<lambda>k. map_option (Pair k) (map_of m k)) (ro site (mkeys m))"

lemma range_entries_iff:
  "range_order ro \<Longrightarrow> (k, v) \<in> set (range_entries ro site m) \<longleftrightarrow> map_of m k = Some v"
  by (force simp: range_entries_def List.map_filter_def range_order_set in_mkeys_iff)

lemma range_entries_keys:
  "range_order ro \<Longrightarrow> map fst (range_entries ro site m) = ro site (mkeys m)"
proof -
  assume ro: "range_order ro"
  have "map fst (List.map_filter (\<lambda>k. map_option (Pair k) (map_of m k)) ks) = ks"
    if "set ks \<subseteq> set (mkeys m)" for ks
    using that
  proof (induction ks)
    case (Cons k ks)
    then obtain v where "map_of m k = Some v" by (auto simp: in_mkeys_iff)
    then show ?case using Cons by (simp add: List.map_filter_def)
  qed (simp add: List.map_filter_def)
  then show ?thesis by (simp add: range_entries_def range_order_set[OF ro])
qed

text \<open>\<^verbatim>\<open>delete(m, k)\<close>.\<close>

definition mdel :: "string \<Rightarrow> 'v gomap \<Rightarrow> 'v gomap" where
  "mdel k m = mfilter (\<lambda>k' v. k' \<noteq> k) m"

lemma map_of_mdel [simp]: "map_of (mdel k m) k' = (if k' = k then None else map_of m k')"
  by (induction m) (auto simp: mdel_def mfilter_def)

lemma mwf_mdel [simp]: "mwf m \<Longrightarrow> mwf (mdel k m)"
  by (simp add: mdel_def)

lemma mdel_absent: "k \<notin> set (mkeys m) \<Longrightarrow> mdel k m = m"
  by (force simp: mdel_def mfilter_def mkeys_def filter_id_conv)

lemma length_mdel: "mwf m \<Longrightarrow> length (mdel k m) = (if k \<in> set (mkeys m) then length m - 1 else length m)"
proof (induction m)
  case (Cons p m)
  have "mdel k (p # m) = (if fst p = k then mdel k m else p # mdel k m)"
    by (cases p) (simp add: mdel_def mfilter_def)
  with Cons mdel_absent[of k m] show ?case by (cases m) auto
qed (simp add: mdel_def mfilter_def)

lemma length_mput: "length (mput k v m) = (if k \<in> set (mkeys m) then length m else Suc (length m))"
  by (induction m) (auto simp: mput_def mkeys_def)

lemma length_mfilter_le: "length (mfilter P m) \<le> length m"
  by (simp add: mfilter_def)

text \<open>
  \<^verbatim>\<open>id()\<close> of token.go reads sixteen random bytes and prints them in hex. The stream of results is a
  function of the number of draws; the code relies on no two draws being equal.
\<close>

type_synonym id_stream = "nat \<Rightarrow> string"

definition id_source :: "id_stream \<Rightarrow> bool" where
  "id_source rnd \<longleftrightarrow> inj rnd \<and> (\<forall>n. rnd n \<noteq> '''')"

lemma id_sourceD: "id_source rnd \<Longrightarrow> rnd i = rnd j \<longleftrightarrow> i = j" "id_source rnd \<Longrightarrow> rnd i \<noteq> ''''"
  by (auto simp: id_source_def inj_def)

subsection \<open>IEEE floats as the code compares them\<close>

datatype float64 = NaN | PosInf | NegInf | Fin rat

instantiation float64 :: ord
begin

fun less_eq_float64 :: "float64 \<Rightarrow> float64 \<Rightarrow> bool" where
  "less_eq_float64 NaN _ = False"
| "less_eq_float64 _ NaN = False"
| "less_eq_float64 NegInf _ = True"
| "less_eq_float64 _ PosInf = True"
| "less_eq_float64 (Fin x) (Fin y) = (x \<le> y)"
| "less_eq_float64 _ _ = False"

fun less_float64 :: "float64 \<Rightarrow> float64 \<Rightarrow> bool" where
  "less_float64 NaN _ = False"
| "less_float64 _ NaN = False"
| "less_float64 (Fin x) (Fin y) = (x < y)"
| "less_float64 NegInf y = (y \<noteq> NegInf)"
| "less_float64 (Fin x) y = (y = PosInf)"
| "less_float64 PosInf _ = False"

instance ..

end

definition IsNaN :: "float64 \<Rightarrow> bool" where
  "IsNaN f = (f = NaN)"

definition IsInf :: "float64 \<Rightarrow> bool" where
  "IsInf f = (f = PosInf \<or> f = NegInf)"

fun finite_float :: "float64 \<Rightarrow> bool" where
  "finite_float (Fin _) = True"
| "finite_float _ = False"

lemma finite_float_iff: "finite_float f \<longleftrightarrow> \<not> IsNaN f \<and> \<not> IsInf f"
  by (cases f) (auto simp: IsNaN_def IsInf_def)

subsection \<open>Errors of fallible operations\<close>

text \<open>
  The sentinel errors of the manager, the panic of a nil dereference, and every
  \<^verbatim>\<open>fmt.Errorf\<close> by its text.
\<close>

datatype fleet_error =
    ErrNotFound | ErrBusy | ErrForbidden | ErrLease
  | ErrPolicyConflict | ErrPolicyInvalid
  | NilPanic
  | CtxDone
  | StoreFailure string
  | Errorf string

type_synonym 'a result = "fleet_error + 'a"

definition bindE :: "'a result \<Rightarrow> ('a \<Rightarrow> 'b result) \<Rightarrow> 'b result" where
  "bindE r f = (case r of Inl e \<Rightarrow> Inl e | Inr a \<Rightarrow> f a)"

lemma bindE_simps [simp]: "bindE (Inl e) f = Inl e" "bindE (Inr a) f = f a"
  by (simp_all add: bindE_def)

lemma bindE_eq_Inr: "bindE r f = Inr b \<longleftrightarrow> (\<exists>a. r = Inr a \<and> f a = Inr b)"
  by (cases r) simp_all

fun foldE :: "('a \<Rightarrow> 's \<Rightarrow> 's result) \<Rightarrow> 'a list \<Rightarrow> 's \<Rightarrow> 's result" where
  "foldE f [] s = Inr s"
| "foldE f (x # xs) s = bindE (f x s) (foldE f xs)"

subsection \<open>What steps preserve\<close>

text \<open>
  The contract of a preservation argument: a reflexive and transitive relation between the state
  before and the state after. A client proves it of each step; it then holds of every loop of such
  steps, whatever the order of the keys, of the loops that may fail, and of sequences.
\<close>

locale step_rel =
  fixes R :: "'s \<Rightarrow> 's \<Rightarrow> bool"
  assumes R_refl: "R s s"
    and R_trans: "R s t \<Longrightarrow> R t u \<Longrightarrow> R s u"
begin

lemma fold_R: "(\<And>k s. k \<in> set ks \<Longrightarrow> R s (body k s)) \<Longrightarrow> R s (fold body ks s)"
proof (induction ks arbitrary: s)
  case (Cons k ks)
  have "R s (body k s)" using Cons.prems by simp
  moreover have "R (body k s) (fold body ks (body k s))" using Cons by simp
  ultimately show ?case using R_trans by simp
qed (simp add: R_refl)

lemma foldE_R:
  "(\<And>k s s'. k \<in> set ks \<Longrightarrow> body k s = Inr s' \<Longrightarrow> R s s') \<Longrightarrow> foldE body ks s = Inr t \<Longrightarrow> R s t"
proof (induction ks arbitrary: s)
  case (Cons k ks)
  then obtain s' where s': "body k s = Inr s'" "foldE body ks s' = Inr t"
    by (auto simp: bindE_eq_Inr)
  have "R s s'" by (rule Cons.prems(1)[OF _ s'(1)]) simp
  moreover have "R s' t" by (rule Cons.IH[OF _ s'(2)], rule Cons.prems(1)) simp_all
  ultimately show ?case by (rule R_trans)
qed (simp add: R_refl)

lemma R_if: "(b \<Longrightarrow> R s t) \<Longrightarrow> (\<not> b \<Longrightarrow> R s u) \<Longrightarrow> R s (if b then t else u)"
  by simp

end

end
