(* ===== verification/Go_Stdlib.thy ===== *)
theory Go_Stdlib
  imports Fleet_Prelude "HOL-Library.Log_Nat"
begin

text \<open>
  The parts of Go's standard library the modelled code calls, on byte strings (\<^typ>\<open>string\<close>, one
  character per byte): \<^verbatim>\<open>strings\<close>, \<^verbatim>\<open>strconv\<close>, \<^verbatim>\<open>encoding/base64\<close> (RawURLEncoding) and
  binary64 rounding of decimal literals. The lemmas at the end of each group are what the
  components use: printing and parsing integers, and the base64 round trip.
\<close>

subsection \<open>strings\<close>

definition HasPrefix :: "string \<Rightarrow> string \<Rightarrow> bool" where
  "HasPrefix s p \<longleftrightarrow> take (length p) s = p"

definition HasSuffix :: "string \<Rightarrow> string \<Rightarrow> bool" where
  "HasSuffix s p \<longleftrightarrow> length p \<le> length s \<and> drop (length s - length p) s = p"

definition TrimPrefix :: "string \<Rightarrow> string \<Rightarrow> string" where
  "TrimPrefix s p = (if HasPrefix s p then drop (length p) s else s)"

definition TrimSuffix :: "string \<Rightarrow> string \<Rightarrow> string" where
  "TrimSuffix s p = (if HasSuffix s p then take (length s - length p) s else s)"

text \<open>\<^verbatim>\<open>strings.Split\<close> with a one-byte separator.\<close>

fun split_on :: "char \<Rightarrow> string \<Rightarrow> string list" where
  "split_on c [] = [[]]"
| "split_on c (x # xs) =
     (if x = c then [] # split_on c xs
      else case split_on c xs of [] \<Rightarrow> [[x]] | p # ps \<Rightarrow> (x # p) # ps)"

lemma split_on_nonempty [simp]: "split_on c s \<noteq> []"
  by (induction s) (auto split: list.splits)

lemma split_on_absent: "c \<notin> set s \<Longrightarrow> split_on c s = [s]"
  by (induction s) auto

lemma split_on_append: "c \<notin> set s \<Longrightarrow> split_on c (s @ c # t) = s # split_on c t"
  by (induction s) auto

lemma split_on_join: "split_on c s = p # ps \<Longrightarrow> s = p @ concat (map ((#) c) ps)"
proof (induction s arbitrary: p ps)
  case (Cons x xs)
  obtain q qs where q: "split_on c xs = q # qs" by (meson list.exhaust split_on_nonempty)
  have "xs = q @ concat (map ((#) c) qs)" by (rule Cons.IH[OF q])
  then have "concat (map ((#) c) (split_on c xs)) = c # xs" using q by simp
  with Cons.prems q Cons.IH[OF q] show ?case by (cases "x = c") auto
qed simp

lemma HasPrefix_TrimPrefix: "HasPrefix s p \<Longrightarrow> s = p @ TrimPrefix s p"
  by (simp add: HasPrefix_def TrimPrefix_def) (metis append_take_drop_id)

subsection \<open>strconv: integers\<close>

definition is_digit :: "char \<Rightarrow> bool" where
  "is_digit c \<longleftrightarrow> CHR ''0'' \<le> c \<and> c \<le> CHR ''9''"

definition digit_char :: "nat \<Rightarrow> char" where
  "digit_char n = char_of (48 + n)"

definition digit_val :: "char \<Rightarrow> nat" where
  "digit_val c = of_char c - 48"

fun show_nat :: "nat \<Rightarrow> string" where
  "show_nat n = (if n < 10 then [digit_char n] else show_nat (n div 10) @ [digit_char (n mod 10)])"

declare show_nat.simps [simp del]

text \<open>\<^verbatim>\<open>strconv.Itoa\<close>, \<^verbatim>\<open>fmt.Sprint\<close> and the verb \<^verbatim>\<open>%d\<close>.\<close>

definition itoa :: "int \<Rightarrow> string" where
  "itoa i = (if i < 0 then CHR ''-'' # show_nat (nat (- i)) else show_nat (nat i))"

definition digits_val :: "string \<Rightarrow> nat" where
  "digits_val ds = foldl (\<lambda>n c. n * 10 + digit_val c) 0 ds"

definition all_digits :: "string \<Rightarrow> bool" where
  "all_digits ds \<longleftrightarrow> ds \<noteq> [] \<and> list_all is_digit ds"

text \<open>\<^verbatim>\<open>strconv.Atoi\<close> on a 64-bit platform: an optional sign, digits, and the range of int64.\<close>

definition Atoi :: "string \<Rightarrow> int option" where
  "Atoi s =
     (let neg = (s \<noteq> [] \<and> hd s = CHR ''-'');
          ds = (if s \<noteq> [] \<and> (hd s = CHR ''-'' \<or> hd s = CHR ''+'') then tl s else s);
          v = int (digits_val ds);
          i = (if neg then - v else v)
      in if all_digits ds \<and> - (2 ^ 63) \<le> i \<and> i < 2 ^ 63 then Some i else None)"

lemma of_char_digit_char: "n < 10 \<Longrightarrow> of_char (digit_char n) = (48 + n :: nat)"
  by (simp add: digit_char_def of_char_of)

lemma is_digit_iff: "is_digit c \<longleftrightarrow> (48::nat) \<le> of_char c \<and> of_char c \<le> (57::nat)"
  by (simp add: is_digit_def less_eq_char_def)

lemma is_digit_digit_char [simp]: "n < 10 \<Longrightarrow> is_digit (digit_char n)"
  by (simp add: is_digit_iff of_char_digit_char)

lemma digit_val_digit_char [simp]: "n < 10 \<Longrightarrow> digit_val (digit_char n) = n"
  by (simp add: digit_val_def of_char_digit_char)

lemma show_nat_nonempty [simp]: "show_nat n \<noteq> []"
  by (subst show_nat.simps) simp

lemma show_nat_digits: "list_all is_digit (show_nat n)"
proof (induction n rule: show_nat.induct)
  case (1 n)
  then show ?case by (subst show_nat.simps) auto
qed

lemma digits_val_snoc: "digits_val (ds @ [c]) = digits_val ds * 10 + digit_val c"
  by (simp add: digits_val_def)

lemma digits_val_show_nat [simp]: "digits_val (show_nat n) = n"
proof (induction n rule: show_nat.induct)
  case (1 n)
  show ?case
  proof (cases "n < 10")
    case True
    then show ?thesis by (simp add: show_nat.simps[of n] digits_val_def)
  next
    case False
    with "1.IH" show ?thesis by (simp add: show_nat.simps[of n] digits_val_snoc)
  qed
qed

lemma hd_show_nat: "hd (show_nat n) \<noteq> CHR ''-''" "hd (show_nat n) \<noteq> CHR ''+''"
proof -
  have "is_digit (hd (show_nat n))"
    using show_nat_digits[of n] by (cases "show_nat n") auto
  then show "hd (show_nat n) \<noteq> CHR ''-''" "hd (show_nat n) \<noteq> CHR ''+''"
    by (auto simp: is_digit_iff)
qed

lemma Atoi_itoa: "- (2 ^ 63) \<le> i \<Longrightarrow> i < 2 ^ 63 \<Longrightarrow> Atoi (itoa i) = Some i"
  by (cases "i < 0") (simp_all add: Atoi_def itoa_def all_digits_def show_nat_digits hd_show_nat Let_def)

lemma itoa_inj: "itoa i = itoa j \<Longrightarrow> i = j"
  by (metis (no_types, opaque_lifting) digits_val_show_nat hd_show_nat(1) int_nat_eq itoa_def
      linorder_not_less list.inject list.sel(1) minus_equation_iff nat_eq_iff neg_equal_iff_equal
      nless_le order_less_imp_le neg_0_less_iff_less)

subsection \<open>strconv: floats\<close>

text \<open>
  A finite binary64 value is a mantissa and a binary exponent. \<open>round64 n d\<close> is the value nearest to
  \<open>n / d\<close> with ties to even, subnormals included; overflow does not arise below the bound the
  callers check.
\<close>

type_synonym bin64 = "int \<times> int"

definition pow2 :: "int \<Rightarrow> int" where
  "pow2 e = 2 ^ nat e"

definition round_half_even :: "int \<Rightarrow> int \<Rightarrow> int" where
  "round_half_even n d =
     (let q = n div d; r = n mod d
      in if 2 * r > d \<or> (2 * r = d \<and> odd q) then q + 1 else q)"

definition round64 :: "int \<Rightarrow> int \<Rightarrow> bin64" where
  "round64 n d =
     (if n = 0 then (0, 0)
      else let e0 = bitlen n - bitlen d - 53;
               e1 = (if n * pow2 (- e0) \<ge> 2 ^ 53 * d * pow2 e0 then e0 + 1 else e0);
               e = max e1 (- 1074)
           in (round_half_even (n * pow2 (- e)) (d * pow2 e), e))"

definition mul64 :: "bin64 \<Rightarrow> int \<Rightarrow> bin64" where
  "mul64 x k = (let (m, e) = x in round64 (m * k * pow2 e) (pow2 (- e)))"

definition bin64_gt :: "bin64 \<Rightarrow> int \<Rightarrow> bool" where
  "bin64_gt x k = (let (m, e) = x in m * pow2 e > k * pow2 (- e))"

definition bin64_ceil :: "bin64 \<Rightarrow> int" where
  "bin64_ceil x = (let (m, e) = x in - ((- (m * pow2 e)) div pow2 (- e)))"

text \<open>
  \<^verbatim>\<open>strconv.ParseFloat\<close> on decimal literals: a sign, digits with an optional fraction, an optional
  decimal exponent. The result is the exact sign, numerator and denominator; the special spellings
  of infinities and NaN are reported as \<open>None\<close>, which its only caller treats alike.
\<close>

fun span_digits :: "string \<Rightarrow> string \<times> string" where
  "span_digits [] = ([], [])"
| "span_digits (c # cs) =
     (if is_digit c then (let (ds, rest) = span_digits cs in (c # ds, rest)) else ([], c # cs))"

definition parse_exponent :: "string \<Rightarrow> int option" where
  "parse_exponent s =
     (case s of
        [] \<Rightarrow> Some 0
      | c # cs \<Rightarrow>
          if c = CHR ''e'' \<or> c = CHR ''E''
          then (let ds = (if cs \<noteq> [] \<and> (hd cs = CHR ''-'' \<or> hd cs = CHR ''+'') then tl cs else cs)
                in if all_digits ds
                   then Some (if cs \<noteq> [] \<and> hd cs = CHR ''-'' then - int (digits_val ds)
                              else int (digits_val ds))
                   else None)
          else None)"

definition ParseFloat :: "string \<Rightarrow> (bool \<times> int \<times> int) option" where
  "ParseFloat raw =
     (let neg = (raw \<noteq> [] \<and> hd raw = CHR ''-'');
          s = (if raw \<noteq> [] \<and> (hd raw = CHR ''-'' \<or> hd raw = CHR ''+'') then tl raw else raw);
          (ip, rest) = span_digits s;
          (fp, rest') = (case rest of [] \<Rightarrow> ([], [])
             | c # cs \<Rightarrow> if c = CHR ''.'' then span_digits cs else ([], c # cs))
      in if ip = [] \<and> fp = [] then None
         else case parse_exponent rest' of
           None \<Rightarrow> None
         | Some e \<Rightarrow>
             (let v = int (digits_val (ip @ fp)); x = e - int (length fp)
              in Some (neg, v * 10 ^ nat x, 10 ^ nat (- x))))"

subsection \<open>encoding/base64, RawURLEncoding\<close>

text \<open>The alphabet \<^verbatim>\<open>A-Z a-z 0-9 - _\<close>, by position.\<close>

definition b64_char :: "nat \<Rightarrow> char" where
  "b64_char n =
     (if n < 26 then char_of (n + 65)
      else if n < 52 then char_of (n + 71)
      else if n < 62 then char_of (n - 4)
      else if n = 62 then CHR ''-''
      else CHR ''_'')"

definition b64_val :: "char \<Rightarrow> nat option" where
  "b64_val c =
     (let n = of_char c
      in if 65 \<le> n \<and> n \<le> 90 then Some (n - 65)
         else if 97 \<le> n \<and> n \<le> 122 then Some (n - 71)
         else if 48 \<le> n \<and> n \<le> 57 then Some (n + 4)
         else if n = 45 then Some 62
         else if n = 95 then Some 63
         else None)"

fun b64_encode :: "string \<Rightarrow> string" where
  "b64_encode [] = []"
| "b64_encode [x] = (let a = of_char x in [b64_char (a div 4), b64_char (a mod 4 * 16)])"
| "b64_encode [x, y] =
     (let a = of_char x; b = of_char y
      in [b64_char (a div 4), b64_char (a mod 4 * 16 + b div 16), b64_char (b mod 16 * 4)])"
| "b64_encode (x # y # z # rest) =
     (let a = of_char x; b = of_char y; c = of_char z
      in [b64_char (a div 4), b64_char (a mod 4 * 16 + b div 16),
          b64_char (b mod 16 * 4 + c div 64), b64_char (c mod 64)] @ b64_encode rest)"

fun b64_groups :: "nat list \<Rightarrow> string option" where
  "b64_groups [] = Some []"
| "b64_groups [p] = None"
| "b64_groups [p, q] = Some [char_of (p * 4 + q div 16)]"
| "b64_groups [p, q, r] = Some [char_of (p * 4 + q div 16), char_of (q mod 16 * 16 + r div 4)]"
| "b64_groups (p # q # r # t # rest) =
     map_option (\<lambda>xs. [char_of (p * 4 + q div 16), char_of (q mod 16 * 16 + r div 4),
                       char_of (r mod 4 * 64 + t)] @ xs) (b64_groups rest)"

text \<open>The decoder skips carriage returns and line feeds, and rejects every other foreign byte.\<close>

definition not_newline :: "char \<Rightarrow> bool" where
  "not_newline c \<longleftrightarrow> (of_char c :: nat) \<noteq> 10 \<and> (of_char c :: nat) \<noteq> 13"

definition b64_decode :: "string \<Rightarrow> string option" where
  "b64_decode s = Option.bind (those (map b64_val (filter not_newline s))) b64_groups"

lemma of_char_b64_char:
  "n < 64 \<Longrightarrow> (of_char (b64_char n) :: nat) =
     (if n < 26 then n + 65 else if n < 52 then n + 71 else if n < 62 then n - 4
      else if n = 62 then 45 else 95)"
  by (auto simp: b64_char_def)

lemma b64_val_char: "n < 64 \<Longrightarrow> b64_val (b64_char n) = Some n"
  by (auto simp: b64_val_def of_char_b64_char Let_def)

lemma b64_char_clean:
  assumes "n < 64"
  shows "b64_char n \<noteq> CHR ''.'' \<and> not_newline (b64_char n)"
proof -
  have "(of_char (b64_char n) :: nat) \<notin> {10, 13, 46}"
    using assms by (auto simp: of_char_b64_char)
  then show ?thesis by (auto simp: not_newline_def)
qed

lemma byte_parts:
  fixes a :: nat
  assumes "a < 256"
  shows "a div 4 < 64" "a mod 4 < 4" "a div 16 < 16" "a mod 16 < 16" "a div 64 < 4" "a mod 64 < 64"
  using assms by (simp_all add: less_mult_imp_div_less)

lemma b64_sextets:
  fixes a b c :: nat
  assumes "a < 256" "b < 256" "c < 256"
  shows "a div 4 < 64" "a mod 4 * 16 < 64" "a mod 4 * 16 + b div 16 < 64"
    "b mod 16 * 4 < 64" "b mod 16 * 4 + c div 64 < 64" "c mod 64 < 64"
  using byte_parts[OF assms(1)] byte_parts[OF assms(2)] byte_parts[OF assms(3)] by linarith+

lemma b64_encode_clean: "c \<in> set (b64_encode s) \<Longrightarrow> c \<noteq> CHR ''.'' \<and> not_newline c"
proof (induction s rule: b64_encode.induct)
  case (2 x)
  note b = nat_of_char_less_256[of x]
  from 2 show ?case using b64_sextets[OF b b b] by (auto simp: Let_def b64_char_clean)
next
  case (3 x y)
  note b = nat_of_char_less_256[of x] nat_of_char_less_256[of y]
  from 3 show ?case using b64_sextets[OF b b(2)] by (auto simp: Let_def b64_char_clean)
next
  case (4 x y z rest)
  note b = nat_of_char_less_256[of x] nat_of_char_less_256[of y] nat_of_char_less_256[of z]
  from 4 show ?case using b64_sextets[OF b] by (auto simp: Let_def b64_char_clean)
qed simp

lemma digit_pair: "x < k \<Longrightarrow> (m * k + x) div k = m" "x < k \<Longrightarrow> (m * k + x) mod k = x"
  for m k x :: nat
  by simp_all

lemma b64_groups_sextets:
  fixes a b c :: nat
  assumes "a < 256" "b < 256" "c < 256"
  shows "a div 4 * 4 + a mod 4 * 16 div 16 = a"
    "a div 4 * 4 + (a mod 4 * 16 + b div 16) div 16 = a"
    "(a mod 4 * 16 + b div 16) mod 16 * 16 + b mod 16 * 4 div 4 = b"
    "(a mod 4 * 16 + b div 16) mod 16 * 16 + (b mod 16 * 4 + c div 64) div 4 = b"
    "(b mod 16 * 4 + c div 64) mod 4 * 64 + c mod 64 = c"
  by (simp_all only: digit_pair byte_parts[OF assms(1)] byte_parts[OF assms(2)]
      byte_parts[OF assms(3)] div_mult_mod_eq nonzero_mult_div_cancel_right numeral_neq_zero
      not_False_eq_True)

lemma b64_round: "Option.bind (those (map b64_val (b64_encode s))) b64_groups = Some s"
proof (induction s rule: b64_encode.induct)
  case 1
  then show ?case by simp
next
  case (2 x)
  note b = nat_of_char_less_256[of x]
  show ?case using b64_sextets[OF b b b] b64_groups_sextets[OF b b b]
    by (simp add: Let_def b64_val_char)
next
  case (3 x y)
  note b = nat_of_char_less_256[of x] nat_of_char_less_256[of y]
  show ?case using b64_sextets[OF b b(2)] b64_groups_sextets[OF b b(2)]
    by (simp add: Let_def b64_val_char)
next
  case (4 x y z rest)
  note b = nat_of_char_less_256[of x] nat_of_char_less_256[of y] nat_of_char_less_256[of z]
  obtain vs where vs: "those (map b64_val (b64_encode rest)) = Some vs" "b64_groups vs = Some rest"
    using 4 by (cases "those (map b64_val (b64_encode rest))") auto
  show ?case using b64_sextets[OF b] b64_groups_sextets[OF b] vs
    by (simp add: Let_def b64_val_char)
qed

theorem b64_decode_encode: "b64_decode (b64_encode s) = Some s"
proof -
  have "filter not_newline (b64_encode s) = b64_encode s"
    using b64_encode_clean by (auto simp: filter_id_conv)
  then show ?thesis by (simp add: b64_decode_def b64_round)
qed

end
