(* ===== verification/Agones_Config.thy ===== *)
theory Agones_Config
  imports Go_Stdlib
begin

text \<open>
  Kubernetes connection settings and their validation (\<^verbatim>\<open>internal/agones/config.go\<close>), with the
  resource quantities of \<^verbatim>\<open>internal/agones/client.go\<close>, whose values are compared as exact
  rationals. URL and IP parsing are answered by the environment (\<open>net_env\<close>).
\<close>

subsection \<open>Quantities\<close>

text \<open>
  The regular expression \<^verbatim>\<open>^([0-9]+(?:\.[0-9]+)?)([numkKMGTP]i?|[eE][+-]?[0-9]+)?$\<close>: the digits
  before and after the point, and the unit.
\<close>

definition is_unit_char :: "char \<Rightarrow> bool" where
  "is_unit_char c \<longleftrightarrow> c \<in> set ''numkKMGTP''"

definition unit_ok :: "string \<Rightarrow> bool" where
  "unit_ok u \<longleftrightarrow>
     (case u of
        [] \<Rightarrow> True
      | c # cs \<Rightarrow>
          (is_unit_char c \<and> (cs = [] \<or> cs = ''i''))
          \<or> ((c = CHR ''e'' \<or> c = CHR ''E'')
             \<and> all_digits (if cs \<noteq> [] \<and> (hd cs = CHR ''+'' \<or> hd cs = CHR ''-'') then tl cs else cs)))"

definition quantity_parts :: "string \<Rightarrow> (string \<times> string \<times> string) option" where
  "quantity_parts raw =
     (let (ip, rest) = span_digits raw
      in if ip = [] then None
         else case rest of
           [] \<Rightarrow> Some (ip, [], [])
         | c # cs \<Rightarrow>
             if c = CHR ''.''
             then (let (fp, u) = span_digits cs
                   in if fp \<noteq> [] \<and> unit_ok u then Some (ip, fp, u) else None)
             else if unit_ok rest then Some (ip, [], rest) else None)"

definition unit_power :: "char \<Rightarrow> int" where
  "unit_power c =
     (if c = CHR ''n'' then - 9 else if c = CHR ''u'' then - 6 else if c = CHR ''m'' then - 3
      else if c = CHR ''k'' then 3 else if c = CHR ''K'' then 3 else if c = CHR ''M'' then 6
      else if c = CHR ''G'' then 9 else if c = CHR ''T'' then 12 else 15)"

definition unit_scale :: "string \<Rightarrow> (int \<times> int) option" where
  \<comment> \<open>base and exponent of the unit\<close>
  "unit_scale u =
     (if length u > 1 \<and> (hd u = CHR ''e'' \<or> hd u = CHR ''E'')
      then (case Atoi (tl u) of
              None \<Rightarrow> None
            | Some x \<Rightarrow> if x < - 30 \<or> x > 30 then None else Some (10, x))
      else if u \<noteq> []
      then (let x = unit_power (hd u)
            in if HasSuffix u ''i''
               then (if x < 3 then None else Some (2, x div 3 * 10))
               else Some (10, x))
      else Some (10, 0))"

definition quantityValue :: "string \<Rightarrow> rat option" where
  "quantityValue raw =
     (case quantity_parts raw of
        None \<Rightarrow> None
      | Some (ip, fp, u) \<Rightarrow>
          if length raw > 32 then None
          else case unit_scale u of
            None \<Rightarrow> None
          | Some (base, x) \<Rightarrow>
              (let v = of_nat (digits_val (ip @ fp)) / 10 ^ length fp;
                   factor = of_int base ^ nat \<bar>x\<bar>
               in Some (if x < 0 then v / factor else v * factor)))"

definition eq_quantity :: "string \<Rightarrow> string \<Rightarrow> bool" where
  "eq_quantity x y =
     (case quantityValue x of None \<Rightarrow> False | Some av \<Rightarrow> quantityValue y = Some av)"

definition sameQuantities :: "string gomap \<Rightarrow> string gomap \<Rightarrow> bool" where
  "sameQuantities a b \<longleftrightarrow> length a = length b \<and>
     list_all (\<lambda>(k, raw). eq_quantity raw (case map_of b k of None \<Rightarrow> '''' | Some v \<Rightarrow> v)) a"

lemma quantityValue_empty [simp]: "quantityValue '''' = None"
  by (simp add: quantityValue_def quantity_parts_def)

lemma eq_quantity_iff: "eq_quantity x y \<longleftrightarrow> (\<exists>v. quantityValue x = Some v \<and> quantityValue y = Some v)"
  by (auto simp: eq_quantity_def split: option.splits)

lemma eq_quantity_empty [simp]: "\<not> eq_quantity x ''''"
  by (simp add: eq_quantity_iff)

lemma unit_scale_base: "unit_scale u = Some (base, x) \<Longrightarrow> base = 2 \<or> base = 10"
  by (auto simp: unit_scale_def Let_def split: option.splits if_splits)

lemma quantityValue_nonneg: "quantityValue raw = Some v \<Longrightarrow> 0 \<le> v"
  by (auto simp: quantityValue_def Let_def dest!: unit_scale_base
      split: option.splits if_splits prod.splits)

lemma sameQuantities_value:
  assumes "mwf a" "sameQuantities a b" "map_of a k = Some x"
  shows "\<exists>y. map_of b k = Some y \<and> eq_quantity x y"
proof -
  have "(k, x) \<in> set a" using assms(3) by (rule map_of_SomeD)
  with assms(2) have "eq_quantity x (case map_of b k of None \<Rightarrow> '''' | Some v \<Rightarrow> v)"
    by (auto simp: sameQuantities_def list_all_iff)
  then show ?thesis by (cases "map_of b k") auto
qed

text \<open>
  With equal sizes and distinct keys, matching every entry of the first map means the second has
  exactly the same keys: the comparison is symmetric although the code walks only one map.
\<close>

lemma sameQuantities_lookup:
  assumes "mwf a" "mwf b" "sameQuantities a b"
  shows "set (mkeys a) = set (mkeys b)"
proof -
  have sub: "set (mkeys a) \<subseteq> set (mkeys b)"
  proof
    fix k
    assume "k \<in> set (mkeys a)"
    then obtain x where "map_of a k = Some x" by (auto simp: in_mkeys_iff)
    from sameQuantities_value[OF assms(1,3) this] show "k \<in> set (mkeys b)"
      by (auto simp: in_mkeys_iff)
  qed
  have "card (set (mkeys a)) = card (set (mkeys b))"
    using assms distinct_card[of "mkeys a"] distinct_card[of "mkeys b"]
    by (simp add: sameQuantities_def mkeys_def)
  then show ?thesis using sub by (intro card_subset_eq) auto
qed

lemma sameQuantities_sym:
  assumes "mwf a" "mwf b" "sameQuantities a b"
  shows "sameQuantities b a"
proof -
  have "eq_quantity y (case map_of a k of None \<Rightarrow> '''' | Some v \<Rightarrow> v)" if "(k, y) \<in> set b" for k y
  proof -
    have "k \<in> set (mkeys a)"
      using that sameQuantities_lookup[OF assms] by (force simp: mkeys_def)
    then obtain x where x: "map_of a k = Some x" by (auto simp: in_mkeys_iff)
    from sameQuantities_value[OF assms(1,3) x] that assms(2) x show ?thesis
      by (auto simp: mem_iff_map_of eq_quantity_iff)
  qed
  then show ?thesis using assms(3) by (auto simp: sameQuantities_def list_all_iff)
qed

subsection \<open>Names and labels\<close>

definition lower_alnum :: "char \<Rightarrow> bool" where
  "lower_alnum c \<longleftrightarrow> (CHR ''a'' \<le> c \<and> c \<le> CHR ''z'') \<or> is_digit c"

definition alnum :: "char \<Rightarrow> bool" where
  "alnum c \<longleftrightarrow> lower_alnum c \<or> (CHR ''A'' \<le> c \<and> c \<le> CHR ''Z'')"

definition hex_lower :: "char \<Rightarrow> bool" where
  "hex_lower c \<longleftrightarrow> (CHR ''a'' \<le> c \<and> c \<le> CHR ''f'') \<or> is_digit c"

text \<open>\<^verbatim>\<open>^[a-z0-9]([-a-z0-9]*[a-z0-9])?$\<close>\<close>

definition dnsLabel :: "string \<Rightarrow> bool" where
  "dnsLabel s \<longleftrightarrow> s \<noteq> [] \<and> lower_alnum (hd s) \<and> lower_alnum (last s)
     \<and> list_all (\<lambda>c. lower_alnum c \<or> c = CHR ''-'') s"

text \<open>\<^verbatim>\<open>^([A-Za-z0-9]([-A-Za-z0-9_.]*[A-Za-z0-9])?)?$\<close>\<close>

definition labelValue :: "string \<Rightarrow> bool" where
  "labelValue s \<longleftrightarrow> s = [] \<or> (alnum (hd s) \<and> alnum (last s)
     \<and> list_all (\<lambda>c. alnum c \<or> c \<in> set ''-_.'') s)"

text \<open>\<^verbatim>\<open>^\S+@sha256:[a-f0-9]{64}$\<close>\<close>

definition imageDigest :: "string \<Rightarrow> bool" where
  "imageDigest s \<longleftrightarrow>
     (let n = length s - 72; h = take n s; t = drop n s
      in length s > 72 \<and> take 8 t = ''@sha256:'' \<and> list_all hex_lower (drop 8 t)
         \<and> list_all (\<lambda>c. of_char c \<notin> {9, 10, 12, 13, 32 :: nat}) h)"

definition validLabel :: "string \<Rightarrow> bool" where
  "validLabel s \<longleftrightarrow> length s > 0 \<and> length s \<le> 63 \<and> dnsLabel s"

definition validLabelKey :: "string \<Rightarrow> bool" where
  "validLabelKey s \<longleftrightarrow>
     (let parts = split_on (CHR ''/'') s; name = last parts
      in length parts \<le> 2 \<and> length name > 0 \<and> length name \<le> 63 \<and> labelValue name
         \<and> (length parts = 2 \<longrightarrow>
              length (hd parts) \<le> 253 \<and> list_all validLabel (split_on (CHR ''.'') (hd parts))))"

subsection \<open>Settings\<close>

record KConfig =
  k_APIURL :: string
  k_TokenFile :: string
  k_CAFile :: string
  k_Namespace :: string
  k_Pool :: string
  k_DeploymentID :: string
  k_GameImage :: string
  k_PortName :: string
  k_GamePort :: int
  k_CPURequest :: string
  k_CPULimit :: string
  k_MemoryRequest :: string
  k_MemoryLimit :: string
  k_NodeSelector :: "string gomap"
  k_ImagePullSecret :: string
  k_Local :: bool

text \<open>What \<^verbatim>\<open>url.Parse\<close> and \<^verbatim>\<open>net.ParseIP\<close> report about a string.\<close>

record Url =
  u_Scheme :: string
  u_Host :: string
  u_Hostname :: string
  u_HasUser :: bool
  u_Opaque :: string
  u_RawQuery :: string
  u_ForceQuery :: bool
  u_Port :: string
  u_Fragment :: string
  u_RawPath :: string
  u_Path :: string

record net_env =
  url_Parse :: "string \<Rightarrow> Url option"
  ip_loopback :: "string \<Rightarrow> bool option"

definition ascii_lower :: "char \<Rightarrow> char" where
  "ascii_lower c = (if CHR ''A'' \<le> c \<and> c \<le> CHR ''Z'' then char_of (of_char c + 32 :: nat) else c)"

definition is_space :: "char \<Rightarrow> bool" where
  "is_space c \<longleftrightarrow> of_char c \<in> {9, 10, 11, 12, 13, 32 :: nat}"

definition KConfig_Validate :: "net_env \<Rightarrow> KConfig \<Rightarrow> unit result" where
  "KConfig_Validate net c =
     (case url_Parse net (k_APIURL c) of
        None \<Rightarrow> Inl (Errorf ''invalid Kubernetes API URL'')
      | Some u \<Rightarrow>
        (if u_Host u = '''' \<or> u_HasUser u \<or> u_Opaque u \<noteq> '''' \<or> u_RawQuery u \<noteq> '''' \<or> u_Fragment u \<noteq> ''''
            \<or> u_RawPath u \<noteq> '''' \<or> \<not> list_all (\<lambda>ch. ch = CHR ''/'') (u_Path u)
         then Inl (Errorf ''invalid Kubernetes API URL'')
         else let localHost = (case ip_loopback net (u_Hostname u) of
                                 Some b \<Rightarrow> b | None \<Rightarrow> map ascii_lower (u_Hostname u) = ''localhost'')
         in if u_Scheme u \<noteq> ''https'' \<and> \<not> (k_Local c \<and> localHost \<and> u_Scheme u = ''http'')
         then Inl (Errorf ''Kubernetes API requires HTTPS; explicit local mode permits loopback HTTP only'')
         else if k_TokenFile c = '''' \<or> (\<not> k_Local c \<and> k_CAFile c = '''')
         then Inl (Errorf ''Kubernetes token file and CA file are required'')
         else if \<not> validLabel (k_Namespace c) \<or> \<not> validLabel (k_Pool c) \<or> k_DeploymentID c = ''''
            \<or> length (k_DeploymentID c) > 256 \<or> \<not> validLabel (k_PortName c)
            \<or> k_GamePort c < 1 \<or> k_GamePort c > 65535
         then Inl (Errorf ''invalid Agones namespace, pool, deployment or game port'')
         else if k_GameImage c = '''' \<or> is_space (hd (k_GameImage c)) \<or> is_space (last (k_GameImage c))
            \<or> \<not> list_all (\<lambda>ch. of_char ch \<notin> {9, 10, 13, 32 :: nat}) (k_GameImage c)
            \<or> (\<not> k_Local c \<and> \<not> imageDigest (k_GameImage c))
         then Inl (Errorf ''AGONES_GAME_IMAGE must be a sha256 digest reference in production'')
         else if \<not> list_all (\<lambda>q. q = '''' \<or> quantityValue q \<noteq> None)
                    [k_CPURequest c, k_CPULimit c, k_MemoryRequest c, k_MemoryLimit c]
         then Inl (Errorf ''invalid Kubernetes resource quantity'')
         else if length (k_NodeSelector c) > 16 then Inl (Errorf ''too many node selectors'')
         else if \<not> list_all (\<lambda>(k, v). validLabelKey k \<and> length v \<le> 63 \<and> labelValue v) (k_NodeSelector c)
         then Inl (Errorf ''invalid node selector'')
         else if map_of (k_NodeSelector c) ''kubernetes.io/os'' \<noteq> None
            \<and> map_of (k_NodeSelector c) ''kubernetes.io/os'' \<noteq> Some ''linux''
         then Inl (Errorf ''Linux game image requires Linux nodes'')
         else if k_ImagePullSecret c \<noteq> '''' \<and> \<not> validLabel (k_ImagePullSecret c)
         then Inl (Errorf ''invalid image pull secret name'')
         else Inr ()))"

text \<open>\<^verbatim>\<open>Snapshot\<close> copies the selector map; as a value it is the same configuration.\<close>

definition KConfig_Snapshot :: "KConfig \<Rightarrow> KConfig" where
  "KConfig_Snapshot c = c\<lparr>k_NodeSelector := map (\<lambda>(k, v). (k, v)) (k_NodeSelector c)\<rparr>"

lemma KConfig_Snapshot_id [simp]: "KConfig_Snapshot c = c"
  by (simp add: KConfig_Snapshot_def)

lemma KConfig_valid_quantities:
  "KConfig_Validate net c = Inr () \<Longrightarrow>
   list_all (\<lambda>q. q = '''' \<or> quantityValue q \<noteq> None)
     [k_CPURequest c, k_CPULimit c, k_MemoryRequest c, k_MemoryLimit c]"
  by (simp add: KConfig_Validate_def Let_def split: option.splits if_splits)

lemma KConfig_valid_digest:
  "KConfig_Validate net c = Inr () \<Longrightarrow> \<not> k_Local c \<Longrightarrow> imageDigest (k_GameImage c)"
  by (simp add: KConfig_Validate_def Let_def split: option.splits if_splits)

end
