(* ===== verification/Fleet_State.thy ===== *)
theory Fleet_State
  imports Fleet_Prelude
begin

text \<open>
  The durable control-plane state: \<^verbatim>\<open>internal/state/state.go\<close> and \<^verbatim>\<open>internal/state/policy.go\<close>.
  One record per struct with the fields in the order of the source (prefixed, since Isabelle field
  names are global), the string-valued phases as datatypes, and the pure functions on the state.
  Times and counters are unbounded integers: Unix seconds and revision numbers stay far from the
  63-bit limit.
\<close>

subsection \<open>Phases\<close>

datatype WorkerState =
    WRequested | WStarting | WUnknown | WLaunching | WBootstrapping
  | WReady | WSuspect | WDraining | WStopping | WStopped | WFailed | WLost

datatype AllocState =
    AWaiting | APreparing | APrepared | AAssigned | AActive | ACancelling
  | ACompleted | ACancelled | AExpired | AFailed

datatype CommandType = PrepareRoom | CancelRoom | DrainCmd

fun worker_state_text :: "WorkerState \<Rightarrow> string" where
  "worker_state_text WRequested = ''requested''"
| "worker_state_text WStarting = ''starting''"
| "worker_state_text WUnknown = ''unknown''"
| "worker_state_text WLaunching = ''launching''"
| "worker_state_text WBootstrapping = ''bootstrapping''"
| "worker_state_text WReady = ''ready''"
| "worker_state_text WSuspect = ''suspect''"
| "worker_state_text WDraining = ''draining''"
| "worker_state_text WStopping = ''stopping''"
| "worker_state_text WStopped = ''stopped''"
| "worker_state_text WFailed = ''failed''"
| "worker_state_text WLost = ''lost''"

subsection \<open>Structs\<close>

record CapacityPolicy =
  p_Revision :: int
  p_RoomsPerInstance :: int
  p_CPURequestMillicores :: int
  p_CPULimitMillicores :: int
  p_UpdatedAt :: int
  p_UpdatedBy :: string

record PolicyAudit =
  pa_At :: int
  pa_Actor :: string
  pa_Before :: CapacityPolicy
  pa_After :: CapacityPolicy

record LatencyWindow =
  lw_WindowSeconds :: int
  lw_Count :: int
  lw_P50 :: "float64 option"
  lw_P95 :: "float64 option"
  lw_P99 :: "float64 option"
  lw_Max :: "float64 option"
  lw_LastSampleAgeSeconds :: "float64 option"

record Metrics =
  me_ServerLastACKToReadyMS :: "LatencyWindow option"
  me_ServerLastACKToSettlementMS :: "LatencyWindow option"
  me_SimulationWorkers :: "int option"
  me_AuditWorkers :: "int option"
  me_ClientPresentationToReadyMS :: "LatencyWindow option"
  me_ClientPresentationToSettlementMS :: "LatencyWindow option"
  me_ServerFirstACKToReadyMS :: "LatencyWindow option"
  me_ServerFirstACKToSettlementMS :: "LatencyWindow option"
  me_SimulationQueueMS :: "LatencyWindow option"
  me_SimulationWorkMS :: "LatencyWindow option"
  me_SimulationPending :: int
  me_SimulationActive :: int
  me_SimulationOldestSeconds :: float64
  me_FrameP99MS :: float64
  me_MemoryBytes :: int
  me_AuditPending :: int
  me_AuditActive :: int
  me_PendingResults :: int

record Worker =
  w_PolicyRevision :: int
  w_CPURequest :: string
  w_CPULimit :: string
  w_ID :: string
  w_ProviderID :: string
  w_ProviderReady :: bool
  w_ProviderExpiresAt :: int
  w_BootID :: string
  w_State :: WorkerState
  w_Region :: string
  w_BuildHash :: string
  w_Host :: string
  w_Port :: int
  w_MaxRooms :: int
  w_CreatedAt :: int
  w_UpdatedAt :: int
  w_LastHeartbeat :: int
  w_LastSequence :: nat
  w_NextCheckAt :: int
  w_IdleSince :: int
  w_Ready :: bool
  w_Draining :: bool
  w_DrainAck :: bool
  w_PlayerCount :: int
  w_Metrics :: Metrics
  w_Error :: string
  w_InitialAllocationID :: string

record Session =
  se_ID :: string
  se_UserID :: string
  se_Seat :: int
  se_ExpiresAt :: int
  se_Connected :: bool
  se_EverConnected :: bool
  se_ReconnectUntil :: int

record Allocation =
  a_ID :: string
  a_RequestKey :: string
  a_RoomID :: string
  a_WorkerID :: string
  a_PreferredWorkerID :: string
  a_UserIDs :: "string list"
  a_State :: AllocState
  a_Epoch :: int
  a_Revision :: int
  a_CreatedAt :: int
  a_ExpiresAt :: int
  a_Sessions :: "Session list"
  a_Error :: string
  a_TerminalAt :: int
  a_NotifiedRevision :: int

record Command =
  c_ID :: string
  c_Type :: CommandType
  c_WorkerID :: string
  c_RoomID :: string
  c_AllocationID :: string
  c_Epoch :: int
  c_UserIDs :: "string list"
  c_ExpiresAt :: int
  c_Done :: bool
  c_Attempts :: int
  c_NotBefore :: int

record FleetState =
  s_CapacityPolicy :: "CapacityPolicy option"
  s_PolicyAudit :: "PolicyAudit list"
  s_Profile :: string
  s_Revision :: int
  s_Leader :: string
  s_LeaseUntil :: int
  s_NextCreateAt :: int
  s_CreationBlockedReason :: string
  s_Workers :: "Worker gomap"
  s_Allocations :: "Allocation gomap"
  s_Commands :: "Command gomap"

subsection \<open>Functions of state.go\<close>

definition NewState :: FleetState where
  "NewState = \<lparr>s_CapacityPolicy = None, s_PolicyAudit = [], s_Profile = '''', s_Revision = 0,
     s_Leader = '''', s_LeaseUntil = 0, s_NextCreateAt = 0, s_CreationBlockedReason = '''',
     s_Workers = [], s_Allocations = [], s_Commands = []\<rparr>"

definition Terminal :: "AllocState \<Rightarrow> bool" where
  "Terminal phase \<longleftrightarrow> phase = ACompleted \<or> phase = ACancelled \<or> phase = AExpired \<or> phase = AFailed"

definition LiveWorker :: "WorkerState \<Rightarrow> bool" where
  "LiveWorker phase \<longleftrightarrow> phase \<noteq> WStopped \<and> phase \<noteq> WFailed \<and> phase \<noteq> WLost"

definition holds_room :: "string \<Rightarrow> Allocation \<Rightarrow> bool" where
  "holds_room wid a \<longleftrightarrow> a_WorkerID a = wid \<and> \<not> Terminal (a_State a)"

definition Occupied :: "FleetState \<Rightarrow> string \<Rightarrow> int" where
  "Occupied s wid = int (mcount (holds_room wid) (s_Allocations s))"

lemma Terminal_simps [simp]:
  "\<not> Terminal AWaiting" "\<not> Terminal APreparing" "\<not> Terminal APrepared" "\<not> Terminal AAssigned"
  "\<not> Terminal AActive" "\<not> Terminal ACancelling"
  "Terminal ACompleted" "Terminal ACancelled" "Terminal AExpired" "Terminal AFailed"
  by (simp_all add: Terminal_def)

lemma Occupied_nonneg [simp]: "0 \<le> Occupied s wid"
  by (simp add: Occupied_def)

lemma Occupied_0_iff:
  "mwf (s_Allocations s) \<Longrightarrow>
   Occupied s wid = 0 \<longleftrightarrow> (\<forall>k a. map_of (s_Allocations s) k = Some a \<longrightarrow> \<not> holds_room wid a)"
  by (simp add: Occupied_def mcount_0_lookup)

lemma Occupied_posI:
  "map_of (s_Allocations s) k = Some a \<Longrightarrow> holds_room wid a \<Longrightarrow> 0 < Occupied s wid"
  using mcount_posI[of "s_Allocations s" k a "holds_room wid"] by (simp add: Occupied_def)

subsection \<open>What the JSON encoder accepts\<close>

text \<open>
  \<^verbatim>\<open>json.Marshal\<close> of a state fails exactly when one of its floats is NaN or infinite; every other
  field type is encodable. All floats of a state are in the metrics of its workers.
\<close>

fun opt_all :: "('a \<Rightarrow> bool) \<Rightarrow> 'a option \<Rightarrow> bool" where
  "opt_all P None = True"
| "opt_all P (Some x) = P x"

definition window_finite :: "LatencyWindow \<Rightarrow> bool" where
  "window_finite w \<longleftrightarrow> list_all (opt_all finite_float)
     [lw_P50 w, lw_P95 w, lw_P99 w, lw_Max w, lw_LastSampleAgeSeconds w]"

definition metrics_windows :: "Metrics \<Rightarrow> LatencyWindow option list" where
  "metrics_windows m =
     [me_ClientPresentationToReadyMS m, me_ClientPresentationToSettlementMS m,
      me_ServerFirstACKToReadyMS m, me_ServerFirstACKToSettlementMS m,
      me_SimulationQueueMS m, me_SimulationWorkMS m,
      me_ServerLastACKToReadyMS m, me_ServerLastACKToSettlementMS m]"

definition metrics_finite :: "Metrics \<Rightarrow> bool" where
  "metrics_finite m \<longleftrightarrow> finite_float (me_SimulationOldestSeconds m) \<and> finite_float (me_FrameP99MS m)
     \<and> list_all (opt_all window_finite) (metrics_windows m)"

definition encodable :: "FleetState \<Rightarrow> bool" where
  "encodable s \<longleftrightarrow> list_all (\<lambda>(k, w). metrics_finite (w_Metrics w)) (s_Workers s)"

definition zero_metrics :: Metrics where
  "zero_metrics = \<lparr>me_ServerLastACKToReadyMS = None, me_ServerLastACKToSettlementMS = None,
     me_SimulationWorkers = None, me_AuditWorkers = None,
     me_ClientPresentationToReadyMS = None, me_ClientPresentationToSettlementMS = None,
     me_ServerFirstACKToReadyMS = None, me_ServerFirstACKToSettlementMS = None,
     me_SimulationQueueMS = None, me_SimulationWorkMS = None,
     me_SimulationPending = 0, me_SimulationActive = 0, me_SimulationOldestSeconds = Fin 0,
     me_FrameP99MS = Fin 0, me_MemoryBytes = 0, me_AuditPending = 0, me_AuditActive = 0,
     me_PendingResults = 0\<rparr>"

lemma metrics_finite_zero [simp]: "metrics_finite zero_metrics"
  by (simp add: metrics_finite_def zero_metrics_def metrics_windows_def)

lemma encodable_lookup:
  "mwf (s_Workers s) \<Longrightarrow>
   encodable s \<longleftrightarrow> (\<forall>k w. map_of (s_Workers s) k = Some w \<longrightarrow> metrics_finite (w_Metrics w))"
  by (auto simp: encodable_def list_all_iff mem_iff_map_of)

lemma encodable_NewState [simp]: "encodable NewState"
  by (simp add: encodable_def NewState_def)

end
