(* ===== verification/Fleet_Config.thy ===== *)
theory Fleet_Config
  imports Agones_Config Fleet_State
begin

text \<open>
  The manager's configuration (\<^verbatim>\<open>pkg/fleetmanager/config.go\<close>): the struct, its validation and the
  validation of the environment passed to game servers. Reading the process environment is in \<^verbatim>\<open>Fleet_Env\<close>.
\<close>

record Config =
  cfg_DeploymentID :: string
  cfg_DatabaseURL :: string
  cfg_ControlURL :: string
  cfg_BuildHash :: string
  cfg_Region :: string
  cfg_PortName :: string
  cfg_MaxRooms :: int
  cfg_MinInstances :: int
  cfg_MaxInstances :: int
  cfg_Kubernetes :: KConfig
  cfg_AdminToken :: string
  cfg_SigningKey :: string
  cfg_ServerEnvironment :: "string gomap"
  cfg_AllowHTTP :: bool
  cfg_Mode :: string
  cfg_Interval :: int
  cfg_LaunchTimeout :: int
  cfg_AllocationTimeout :: int
  cfg_PrepareTimeout :: int
  cfg_ReservationTTL :: int
  cfg_ReconnectSeconds :: int
  cfg_HeartbeatTimeout :: int
  cfg_LostTimeout :: int
  cfg_IdleSeconds :: int
  cfg_ProviderPollSeconds :: int
  cfg_MinLifetimeForAdmission :: int
  cfg_MaxQueueAgeSeconds :: float64

subsection \<open>UTF-8 and the encoded size of the environment\<close>

definition byte_in :: "nat \<Rightarrow> nat \<Rightarrow> char \<Rightarrow> bool" where
  "byte_in lo hi c \<longleftrightarrow> lo \<le> of_char c \<and> of_char c \<le> hi"

abbreviation cont :: "char \<Rightarrow> bool" where
  "cont \<equiv> byte_in 128 191"

text \<open>\<^verbatim>\<open>utf8.ValidString\<close>: shortest encodings of code points that are not surrogates.\<close>

fun utf8_valid :: "string \<Rightarrow> bool" where
  "utf8_valid [] = True"
| "utf8_valid (a # s) =
     (if byte_in 0 127 a then utf8_valid s
      else case s of
        [] \<Rightarrow> False
      | b # s2 \<Rightarrow>
        if byte_in 194 223 a then cont b \<and> utf8_valid s2
        else case s2 of
          [] \<Rightarrow> False
        | c # s3 \<Rightarrow>
          if byte_in 224 239 a
          then (if byte_in 224 224 a then byte_in 160 191 b
                else if byte_in 237 237 a then byte_in 128 159 b else cont b)
               \<and> cont c \<and> utf8_valid s3
          else case s3 of
            [] \<Rightarrow> False
          | d # s4 \<Rightarrow>
            byte_in 240 244 a
            \<and> (if byte_in 240 240 a then byte_in 144 191 b
                else if byte_in 244 244 a then byte_in 128 143 b else cont b)
            \<and> cont c \<and> cont d \<and> utf8_valid s4)"

text \<open>
  The length of a JSON string literal as \<^verbatim>\<open>encoding/json\<close> writes it: HTML-sensitive characters,
  control characters and the two line separators become six-byte escapes.
\<close>

fun json_text_len :: "string \<Rightarrow> nat" where
  "json_text_len [] = 0"
| "json_text_len (a # s) =
     (let n = of_char a :: nat
      in if n = 34 \<or> n = 92 \<or> n = 8 \<or> n = 9 \<or> n = 10 \<or> n = 12 \<or> n = 13 then 2 + json_text_len s
         else if n < 32 \<or> n = 38 \<or> n = 60 \<or> n = 62 then 6 + json_text_len s
         else case s of
           b # c # s3 \<Rightarrow>
             if n = 226 \<and> (of_char b :: nat) = 128 \<and> byte_in 168 169 c then 6 + json_text_len s3
             else 1 + json_text_len s
         | _ \<Rightarrow> 1 + json_text_len s)"

definition json_map_len :: "string gomap \<Rightarrow> nat" where
  "json_map_len m = 2 + sum_list (map (\<lambda>(k, v). json_text_len k + json_text_len v + 5) m) + (length m - 1)"

subsection \<open>Validation\<close>

definition ascii_upper :: "char \<Rightarrow> char" where
  "ascii_upper c = (if CHR ''a'' \<le> c \<and> c \<le> CHR ''z'' then char_of (of_char c - 32 :: nat) else c)"

definition env_name_char :: "nat \<Rightarrow> char \<Rightarrow> bool" where
  "env_name_char i c \<longleftrightarrow> (CHR ''A'' \<le> c \<and> c \<le> CHR ''Z'') \<or> (CHR ''a'' \<le> c \<and> c \<le> CHR ''z'')
     \<or> c = CHR ''_'' \<or> (i > 0 \<and> is_digit c)"

definition env_entry_error :: "string \<Rightarrow> string \<Rightarrow> fleet_error option" where
  "env_entry_error name value =
     (if length name = 0 \<or> length name > 128 \<or> HasPrefix (map ascii_upper name) ''AGONES_''
         \<or> HasPrefix (map ascii_upper name) ''FLEET_''
      then Some (Errorf ''AGONES_FLEET_SERVER_ENV_JSON contains an invalid or reserved variable name'')
      else if \<not> list_all (\<lambda>(i, c). env_name_char i c) (enumerate 0 name)
      then Some (Errorf ''AGONES_FLEET_SERVER_ENV_JSON variable names must match [A-Za-z_][A-Za-z0-9_]*'')
      else if length value > 8192 \<or> \<not> utf8_valid value \<or> char_of (0 :: nat) \<in> set value
      then Some (Errorf ''AGONES_FLEET_SERVER_ENV_JSON values must be UTF-8 without NUL and at most 8 KiB'')
      else None)"

fun first_error :: "string gomap \<Rightarrow> fleet_error option" where
  "first_error [] = None"
| "first_error ((k, v) # m) = (case env_entry_error k v of Some e \<Rightarrow> Some e | None \<Rightarrow> first_error m)"

definition validateServerEnvironment :: "string gomap \<Rightarrow> unit result" where
  "validateServerEnvironment values =
     (if length values > 64
      then Inl (Errorf ''AGONES_FLEET_SERVER_ENV_JSON permits at most 64 variables'')
      else case first_error values of
        Some e \<Rightarrow> Inl e
      | None \<Rightarrow>
          if json_map_len values > 32768
          then Inl (Errorf ''AGONES_FLEET_SERVER_ENV_JSON encoded size must not exceed 32 KiB'')
          else Inr ())"

definition Config_Validate :: "net_env \<Rightarrow> Config \<Rightarrow> unit result" where
  "Config_Validate net c =
     (if cfg_DeploymentID c = '''' \<or> cfg_BuildHash c = '''' \<or> length (cfg_BuildHash c) > 256
         \<or> cfg_Region c = '''' \<or> length (cfg_Region c) > 128 \<or> cfg_ControlURL c = ''''
      then Inl (Errorf ''deployment, build, region and control URL are required'')
      else if length (cfg_SigningKey c) \<noteq> 32 \<or> length (cfg_AdminToken c) < 32
      then Inl (Errorf ''signing key must be 32 bytes and admin token at least 32 characters'')
      else if cfg_MaxRooms c < 1 \<or> cfg_MaxRooms c > 512 \<or> cfg_MaxInstances c < 1
         \<or> cfg_MaxInstances c > 1000 \<or> cfg_MinInstances c < 0 \<or> cfg_MinInstances c > cfg_MaxInstances c
      then Inl (Errorf ''invalid capacity'')
      else if cfg_Interval c \<le> 0 \<or> cfg_PrepareTimeout c < 1 \<or> cfg_PrepareTimeout c > 120
         \<or> cfg_ReservationTTL c \<noteq> 60 \<or> cfg_ReconnectSeconds c < 1 \<or> cfg_LaunchTimeout c < 1
         \<or> cfg_AllocationTimeout c < 1 \<or> cfg_HeartbeatTimeout c < 1
         \<or> cfg_LostTimeout c \<le> cfg_HeartbeatTimeout c \<or> cfg_IdleSeconds c < 1
         \<or> cfg_ProviderPollSeconds c < 1 \<or> cfg_MinLifetimeForAdmission c < 60
      then Inl (Errorf ''invalid lifecycle timeouts'')
      else (case url_Parse net (cfg_ControlURL c) of
        None \<Rightarrow> Inl (Errorf ''invalid control URL'')
      | Some u \<Rightarrow>
        (if u_Host u = '''' \<or> u_HasUser u \<or> u_RawQuery u \<noteq> '''' \<or> u_Fragment u \<noteq> ''''
        then Inl (Errorf ''invalid control URL'')
        else if u_Scheme u \<noteq> ''https''
           \<and> \<not> (u_Scheme u = ''http'' \<and> cfg_AllowHTTP c \<and> cfg_Mode c = ''local'')
        then Inl (Errorf ''control URL requires HTTPS (HTTP is limited to explicit local mode)'')
        else if cfg_Mode c \<noteq> ''production'' \<and> cfg_Mode c \<noteq> ''local''
        then Inl (Errorf ''unknown fleet mode'')
        else (case KConfig_Validate net (cfg_Kubernetes c) of
          Inl e \<Rightarrow> Inl e
        | Inr _ \<Rightarrow>
          (if k_DeploymentID (cfg_Kubernetes c) \<noteq> cfg_DeploymentID c
             \<or> k_PortName (cfg_Kubernetes c) \<noteq> cfg_PortName c
          then Inl (Errorf ''Kubernetes profile differs from fleet identity'')
          else validateServerEnvironment (cfg_ServerEnvironment c))))))"

text \<open>\<^verbatim>\<open>snapshot\<close> copies the slices and maps of the configuration: the same value.\<close>

definition Config_snapshot :: "Config \<Rightarrow> Config" where
  "Config_snapshot c = c\<lparr>cfg_SigningKey := [] @ cfg_SigningKey c,
     cfg_Kubernetes := KConfig_Snapshot (cfg_Kubernetes c),
     cfg_ServerEnvironment := map (\<lambda>(k, v). (k, v)) (cfg_ServerEnvironment c)\<rparr>"

lemma Config_snapshot_id [simp]: "Config_snapshot c = c"
  by (simp add: Config_snapshot_def)

subsection \<open>What a valid configuration gives\<close>

text \<open>The bounds the manager's invariants rest on, apart from strings and URLs.\<close>

definition config_bounds :: "Config \<Rightarrow> bool" where
  "config_bounds c \<longleftrightarrow> 1 \<le> cfg_MaxRooms c \<and> cfg_MaxRooms c \<le> 512 \<and> 1 \<le> cfg_MaxInstances c
     \<and> 0 \<le> cfg_MinInstances c \<and> cfg_MinInstances c \<le> cfg_MaxInstances c
     \<and> 1 \<le> cfg_PrepareTimeout c \<and> cfg_PrepareTimeout c \<le> 120 \<and> cfg_ReservationTTL c = 60
     \<and> 1 \<le> cfg_ReconnectSeconds c \<and> 1 \<le> cfg_HeartbeatTimeout c
     \<and> cfg_HeartbeatTimeout c < cfg_LostTimeout c"

lemma Config_Validate_bounds: "Config_Validate net c = Inr () \<Longrightarrow> config_bounds c"
  by (simp add: Config_Validate_def config_bounds_def split: if_splits option.splits)

lemma Config_Validate_env:
  "Config_Validate net c = Inr () \<Longrightarrow> validateServerEnvironment (cfg_ServerEnvironment c) = Inr ()"
  by (simp add: Config_Validate_def split: if_splits option.splits sum.splits)

lemma first_error_None: "first_error m = None \<Longrightarrow> (k, v) \<in> set m \<Longrightarrow> env_entry_error k v = None"
  by (induction m rule: first_error.induct) (auto split: option.splits)

text \<open>No accepted variable can shadow one of the controller's own \<^verbatim>\<open>AGONES_*\<close> variables.\<close>

lemma env_not_reserved:
  assumes "validateServerEnvironment m = Inr ()" "(k, v) \<in> set m"
  shows "\<not> HasPrefix k ''AGONES_''"
proof
  assume pre: "HasPrefix k ''AGONES_''"
  have "map ascii_upper ''AGONES_'' = ''AGONES_''"
    by (simp add: ascii_upper_def less_eq_char_def)
  then have "HasPrefix (map ascii_upper k) ''AGONES_''"
    using pre by (metis HasPrefix_def length_map take_map)
  moreover have "env_entry_error k v = None"
    using assms by (auto simp: validateServerEnvironment_def split: if_splits option.splits
        intro: first_error_None)
  ultimately show False by (simp add: env_entry_error_def split: if_splits)
qed

end
