(* ===== verification/Fleet_Store.thy ===== *)
theory Fleet_Store
  imports Fleet_State
begin

text \<open>
  The transactional store: the \<^verbatim>\<open>Store\<close> interface and its two implementations, \<^verbatim>\<open>Memory\<close>
  (\<^verbatim>\<open>internal/state/state.go\<close>) and \<^verbatim>\<open>Postgres\<close> (\<^verbatim>\<open>internal/state/postgres.go\<close>). A transaction
  body is a function from the state it reads to an error or the state it leaves together with what
  its closure captured. The locale \<open>txn_store\<close> is the contract every caller relies on; both
  implementations are interpreted in it.
\<close>

type_synonym 'r txn_body = "FleetState \<Rightarrow> (FleetState \<times> 'r) result"

definition bump :: "FleetState \<Rightarrow> FleetState" where
  "bump s = s\<lparr>s_Revision := s_Revision s + 1\<rparr>"

subsection \<open>The contract\<close>

text \<open>
  A call either leaves the committed state as it was or installs what the body returned, with the
  revision one higher; it reports success only in the second case, and a body that fails never
  changes anything. \<open>good\<close> is what the representation must satisfy for the contract to hold.
\<close>

locale txn_store =
  fixes committed :: "'m \<Rightarrow> FleetState"
    and update :: "'env \<Rightarrow> 'r txn_body \<Rightarrow> 'm \<Rightarrow> 'r result \<times> 'm"
    and good :: "'m \<Rightarrow> bool"
  assumes commit_or_keep: "good m \<Longrightarrow> update env f m = (r, m') \<Longrightarrow>
      committed m' = committed m \<or> (\<exists>s' x. f (committed m) = Inr (s', x) \<and> committed m' = bump s')"
    and success_commits: "good m \<Longrightarrow> update env f m = (Inr x, m') \<Longrightarrow>
      \<exists>s'. f (committed m) = Inr (s', x) \<and> committed m' = bump s'"
    and failure_keeps: "good m \<Longrightarrow> f (committed m) = Inl e \<Longrightarrow> update env f m = (r, m') \<Longrightarrow>
      (\<exists>e'. r = Inl e') \<and> committed m' = committed m"
    and good_keeps: "good m \<Longrightarrow> update env f m = (r, m') \<Longrightarrow> encodable (committed m') \<Longrightarrow> good m'"
begin

lemma update_keeps:
  assumes "good m" "update env f m = (r, m')" "I (committed m)"
    and "\<And>s s' x. I s \<Longrightarrow> f s = Inr (s', x) \<Longrightarrow> I (bump s')"
  shows "I (committed m')"
proof -
  from commit_or_keep[OF assms(1,2)]
  consider "committed m' = committed m"
    | s' x where "f (committed m) = Inr (s', x)" "committed m' = bump s'"
    by blast
  then show ?thesis using assms(3,4) by cases auto
qed

lemma revision_step:
  assumes "good m" "update env f m = (r, m')"
    and "\<And>s s' x. f s = Inr (s', x) \<Longrightarrow> s_Revision s' = s_Revision s"
  shows "s_Revision (committed m') \<in> {s_Revision (committed m), s_Revision (committed m) + 1}"
proof -
  from commit_or_keep[OF assms(1,2)]
  consider "committed m' = committed m"
    | s' x where "f (committed m) = Inr (s', x)" "committed m' = bump s'"
    by blast
  then show ?thesis by cases (auto simp: bump_def dest: assms(3))
qed

fun run_updates :: "('env \<times> 'r txn_body) list \<Rightarrow> 'm \<Rightarrow> 'm" where
  "run_updates [] m = m"
| "run_updates ((env, f) # us) m = run_updates us (snd (update env f m))"

lemma run_keeps:
  assumes "good m" "I (committed m)"
    and body: "\<And>env f s s' x. (env, f) \<in> set us \<Longrightarrow> I s \<Longrightarrow> f s = Inr (s', x) \<Longrightarrow> I (bump s')"
    and enc: "\<And>s. I s \<Longrightarrow> encodable s"
  shows "I (committed (run_updates us m)) \<and> good (run_updates us m)"
  using assms(1,2) body
proof (induction us arbitrary: m)
  case Nil
  then show ?case by simp
next
  case (Cons u us)
  obtain env f where u: "u = (env, f)" by (cases u)
  obtain r m' where up: "update env f m = (r, m')" by (cases "update env f m")
  have "I (committed m')"
  proof (rule update_keeps[where I = I, OF Cons.prems(1) up Cons.prems(2)])
    fix s s' x
    assume "I s" "f s = Inr (s', x)"
    then show "I (bump s')" by (intro Cons.prems(3)[of env f s s' x]) (simp_all add: u)
  qed
  moreover from this have "good m'" by (intro good_keeps[OF Cons.prems(1) up] enc)
  moreover have "\<And>env f s s' x. (env, f) \<in> set us \<Longrightarrow> I s \<Longrightarrow> f s = Inr (s', x) \<Longrightarrow> I (bump s')"
    using Cons.prems(3) by (metis list.set_intros(2))
  ultimately show ?case using Cons.IH[of m'] u up by simp
qed

end

subsection \<open>Memory\<close>

record Memory =
  mem_state :: FleetState

definition NewMemory :: Memory where
  "NewMemory = \<lparr>mem_state = NewState\<rparr>"

text \<open>
  \<^verbatim>\<open>clone\<close> goes through JSON and ignores both errors: a state that cannot be encoded comes back as
  the empty state.
\<close>

definition clone :: "FleetState \<Rightarrow> FleetState" where
  "clone s = (if encodable s then s else NewState)"

definition Memory_View :: "fleet_error option \<Rightarrow> Memory \<Rightarrow> FleetState result" where
  "Memory_View ctx_err m = (case ctx_err of Some e \<Rightarrow> Inl e | None \<Rightarrow> Inr (clone (mem_state m)))"

definition Memory_Update :: "fleet_error option \<Rightarrow> 'r txn_body \<Rightarrow> Memory \<Rightarrow> 'r result \<times> Memory" where
  "Memory_Update ctx_err fn m =
     (case ctx_err of Some e \<Rightarrow> (Inl e, m)
      | None \<Rightarrow> (case fn (clone (mem_state m)) of
          Inl e \<Rightarrow> (Inl e, m)
        | Inr (s', x) \<Rightarrow> (Inr x, \<lparr>mem_state = s'\<lparr>s_Revision := s_Revision s' + 1\<rparr>\<rparr>)))"

interpretation mem: txn_store mem_state Memory_Update "\<lambda>m. encodable (mem_state m)"
  by unfold_locales
    (auto simp: Memory_Update_def clone_def bump_def split: option.splits sum.splits prod.splits)

subsection \<open>Postgres\<close>

text \<open>
  The table maps a namespace to a payload. The environment says which database calls fail; a failing
  commit may or may not have been applied. \<open>pe_size\<close> is the length of the encoded payload.
\<close>

datatype CommitOutcome = CommitOk | CommitRejected | CommitLostReply

record pg_env =
  pe_begin_ok :: bool
  pe_select_ok :: bool
  pe_decode_ok :: bool
  pe_exec_ok :: bool
  pe_commit :: CommitOutcome
  pe_size :: "FleetState \<Rightarrow> nat"

record Postgres =
  pg_DB :: "FleetState gomap"
  pg_Namespace :: string

definition NewPostgres :: "bool \<Rightarrow> FleetState gomap \<Rightarrow> string \<Rightarrow> Postgres result" where
  "NewPostgres insert_ok db namespace =
     (if namespace = '''' then Inl (Errorf ''fleet namespace is required'')
      else if \<not> insert_ok then Inl (StoreFailure ''insert'')
      else Inr \<lparr>pg_DB = (case map_of db namespace of None \<Rightarrow> mput namespace NewState db | Some _ \<Rightarrow> db),
                pg_Namespace = namespace\<rparr>)"

definition Postgres_View :: "pg_env \<Rightarrow> Postgres \<Rightarrow> FleetState result" where
  "Postgres_View env p =
     (if \<not> pe_select_ok env then Inl (StoreFailure ''select'')
      else case map_of (pg_DB p) (pg_Namespace p) of
        None \<Rightarrow> Inl (StoreFailure ''no rows'')
      | Some s \<Rightarrow> if pe_decode_ok env then Inr s else Inl (StoreFailure ''decode''))"

definition Postgres_Update :: "pg_env \<Rightarrow> 'r txn_body \<Rightarrow> Postgres \<Rightarrow> 'r result \<times> Postgres" where
  "Postgres_Update env fn p =
     (if \<not> pe_begin_ok env then (Inl (StoreFailure ''begin''), p)
      else case Postgres_View env p of
        Inl e \<Rightarrow> (Inl e, p)
      | Inr s \<Rightarrow> (case fn s of
          Inl e \<Rightarrow> (Inl e, p)
        | Inr (s', x) \<Rightarrow>
            (let s'' = s'\<lparr>s_Revision := s_Revision s' + 1\<rparr>;
                 p' = p\<lparr>pg_DB := mput (pg_Namespace p) s'' (pg_DB p)\<rparr>
             in if \<not> encodable s'' then (Inl (StoreFailure ''encode''), p)
                else if pe_size env s'' > 16 * 2 ^ 20
                then (Inl (Errorf ''fleet state exceeds the initial store capacity; prune terminal history or shard pools''), p)
                else if \<not> pe_exec_ok env then (Inl (StoreFailure ''update''), p)
                else (case pe_commit env of
                    CommitOk \<Rightarrow> (Inr x, p')
                  | CommitRejected \<Rightarrow> (Inl (StoreFailure ''commit''), p)
                  | CommitLostReply \<Rightarrow> (Inl (StoreFailure ''commit''), p')))))"

definition pg_committed :: "Postgres \<Rightarrow> FleetState" where
  "pg_committed p = (case map_of (pg_DB p) (pg_Namespace p) of None \<Rightarrow> NewState | Some s \<Rightarrow> s)"

definition pg_good :: "Postgres \<Rightarrow> bool" where
  "pg_good p \<longleftrightarrow> map_of (pg_DB p) (pg_Namespace p) \<noteq> None"

lemmas pg_defs = Postgres_Update_def Postgres_View_def pg_committed_def pg_good_def Let_def bump_def

interpretation pg: txn_store pg_committed Postgres_Update pg_good
  by unfold_locales
    (auto simp: pg_defs split: option.splits sum.splits prod.splits if_splits CommitOutcome.splits)

lemma NewPostgres_good:
  "NewPostgres ok db ns = Inr p \<Longrightarrow> pg_good p \<and> pg_Namespace p = ns"
  by (auto simp: NewPostgres_def pg_good_def split: if_splits option.splits)

text \<open>An oversized or unencodable state is refused before it reaches the table.\<close>

lemma Postgres_Update_bounded:
  assumes "pg_good p" "Postgres_Update env f p = (Inr x, p')"
  shows "encodable (pg_committed p') \<and> pe_size env (pg_committed p') \<le> 16 * 2 ^ 20"
  using assms
  by (auto simp: pg_defs split: option.splits sum.splits prod.splits if_splits CommitOutcome.splits)

end
