(* ===== verification/Fleet_Policy.thy ===== *)
theory Fleet_Policy
  imports Fleet_Config Fleet_Store
begin

text \<open>
  The capacity policy (\<^verbatim>\<open>pkg/fleetmanager/policy.go\<close>): validation of an update, the CPU quantity
  reader with its binary64 arithmetic, the optimistic update with its bounded audit trail, and the
  projection of live workers onto the policy.
\<close>

subsection \<open>CPU quantities in millicores\<close>

definition cpuMilli :: "string \<Rightarrow> int" where
  "cpuMilli raw =
     (if raw = '''' then 0
      else let milli = HasSuffix raw ''m'';
               s = (if milli then TrimSuffix raw ''m'' else raw);
               k = (if milli then 1 else 1000)
           in case ParseFloat s of
                None \<Rightarrow> 0
              | Some (neg, n, d) \<Rightarrow>
                  (let f = round64 n d; p = mul64 f k
                   in if (neg \<and> fst f \<noteq> 0) \<or> bin64_gt p 1000000000 then 0 else bin64_ceil p))"

subsection \<open>The policy in force and its update\<close>

record PolicyUpdate =
  pu_ExpectedRevision :: int
  pu_RoomsPerInstance :: int
  pu_CPURequestMillicores :: int
  pu_CPULimitMillicores :: int
  pu_Actor :: string

definition actor_char :: "char \<Rightarrow> bool" where
  "actor_char c \<longleftrightarrow> (CHR ''a'' \<le> c \<and> c \<le> CHR ''z'') \<or> (CHR ''A'' \<le> c \<and> c \<le> CHR ''Z'')
     \<or> (CHR ''0'' \<le> c \<and> c \<le> CHR ''9'') \<or> c \<in> set ''._@-''"

definition PolicyUpdate_Validate :: "PolicyUpdate \<Rightarrow> unit result" where
  "PolicyUpdate_Validate p =
     (if pu_ExpectedRevision p < 1 \<or> pu_RoomsPerInstance p < 1 \<or> pu_RoomsPerInstance p > 512
         \<or> pu_CPURequestMillicores p < 100 \<or> pu_CPURequestMillicores p > 64000
         \<or> pu_CPURequestMillicores p \<noteq> pu_CPULimitMillicores p
         \<or> length (pu_Actor p) < 1 \<or> length (pu_Actor p) > 64
      then Inl ErrPolicyInvalid
      else if \<not> list_all actor_char (pu_Actor p) then Inl ErrPolicyInvalid
      else Inr ())"

definition policy :: "Config \<Rightarrow> FleetState \<Rightarrow> CapacityPolicy" where
  "policy cfg s =
     (case s_CapacityPolicy s of
        Some p \<Rightarrow> p
      | None \<Rightarrow> \<lparr>p_Revision = 1, p_RoomsPerInstance = cfg_MaxRooms cfg,
          p_CPURequestMillicores = cpuMilli (k_CPURequest (cfg_Kubernetes cfg)),
          p_CPULimitMillicores = cpuMilli (k_CPULimit (cfg_Kubernetes cfg)),
          p_UpdatedAt = 0, p_UpdatedBy = ''deployment''\<rparr>)"

definition UpdatePolicy :: "Config \<Rightarrow> int \<Rightarrow> PolicyUpdate \<Rightarrow> unit txn_body" where
  "UpdatePolicy cfg now inp s =
     (case PolicyUpdate_Validate inp of
        Inl e \<Rightarrow> Inl e
      | Inr _ \<Rightarrow>
          (let old = policy cfg s
           in if p_Revision old \<noteq> pu_ExpectedRevision inp then Inl ErrPolicyConflict
              else let p = \<lparr>p_Revision = p_Revision old + 1,
                            p_RoomsPerInstance = pu_RoomsPerInstance inp,
                            p_CPURequestMillicores = pu_CPURequestMillicores inp,
                            p_CPULimitMillicores = pu_CPULimitMillicores inp,
                            p_UpdatedAt = now, p_UpdatedBy = pu_Actor inp\<rparr>;
                       audit = s_PolicyAudit s @
                         [\<lparr>pa_At = p_UpdatedAt p, pa_Actor = pu_Actor inp, pa_Before = old, pa_After = p\<rparr>];
                       audit' = (if length audit > 100 then drop (length audit - 100) audit else audit)
                   in Inr (s\<lparr>s_CapacityPolicy := Some p, s_PolicyAudit := audit'\<rparr>, ())))"

record EffectiveInstance =
  ei_worker_id :: string
  ei_state :: WorkerState
  ei_rooms_per_instance :: int
  ei_cpu_request_millicores :: int
  ei_cpu_limit_millicores :: int
  ei_policy_revision :: int
  ei_requires_replacement :: bool

record PolicyView =
  pv_revision :: int
  pv_desired :: CapacityPolicy
  pv_effective_instances :: "EffectiveInstance list"
  pv_requires_replacement_count :: nat
  pv_max_instances :: int
  pv_min_instances :: int
  pv_memory_request :: string
  pv_memory_limit :: string
  pv_node_selector :: "string gomap"
  pv_audit :: "PolicyAudit list"

definition effective_instance :: "CapacityPolicy \<Rightarrow> Worker \<Rightarrow> EffectiveInstance" where
  "effective_instance p w =
     \<lparr>ei_worker_id = w_ID w, ei_state = w_State w, ei_rooms_per_instance = w_MaxRooms w,
      ei_cpu_request_millicores = cpuMilli (w_CPURequest w),
      ei_cpu_limit_millicores = cpuMilli (w_CPULimit w),
      ei_policy_revision = w_PolicyRevision w,
      ei_requires_replacement = (w_MaxRooms w \<noteq> p_RoomsPerInstance p
        \<or> cpuMilli (w_CPURequest w) \<noteq> p_CPURequestMillicores p
        \<or> cpuMilli (w_CPULimit w) \<noteq> p_CPULimitMillicores p)\<rparr>"

definition Policy :: "Config \<Rightarrow> FleetState \<Rightarrow> PolicyView" where
  "Policy cfg s =
     (let p = policy cfg s;
          live = filter (\<lambda>w. LiveWorker (w_State w)) (map snd (s_Workers s));
          instances = map (effective_instance p) live
      in \<lparr>pv_revision = p_Revision p, pv_desired = p,
          pv_effective_instances = sort_key ei_worker_id instances,
          pv_requires_replacement_count = length (filter ei_requires_replacement instances),
          pv_max_instances = cfg_MaxInstances cfg, pv_min_instances = cfg_MinInstances cfg,
          pv_memory_request = k_MemoryRequest (cfg_Kubernetes cfg),
          pv_memory_limit = k_MemoryLimit (cfg_Kubernetes cfg),
          pv_node_selector = k_NodeSelector (cfg_Kubernetes cfg),
          pv_audit = s_PolicyAudit s\<rparr>)"

subsection \<open>Lemmas\<close>

lemma PolicyUpdate_Validate_ok:
  "PolicyUpdate_Validate p = Inr u \<Longrightarrow>
     1 \<le> pu_RoomsPerInstance p \<and> pu_RoomsPerInstance p \<le> 512
     \<and> 100 \<le> pu_CPURequestMillicores p \<and> pu_CPURequestMillicores p \<le> 64000
     \<and> pu_CPULimitMillicores p = pu_CPURequestMillicores p"
  by (auto simp: PolicyUpdate_Validate_def split: if_splits)

lemma UpdatePolicy_frame:
  assumes "UpdatePolicy cfg now inp s = Inr (s', u)"
  shows "s_Workers s' = s_Workers s \<and> s_Allocations s' = s_Allocations s
    \<and> s_Commands s' = s_Commands s \<and> s_Leader s' = s_Leader s \<and> s_Revision s' = s_Revision s"
  using assms by (auto simp: UpdatePolicy_def Let_def split: sum.splits if_splits)

lemma UpdatePolicy_policy:
  assumes "UpdatePolicy cfg now inp s = Inr (s', u)"
  shows "p_Revision (policy cfg s) = pu_ExpectedRevision inp"
    "policy cfg s' = \<lparr>p_Revision = p_Revision (policy cfg s) + 1,
       p_RoomsPerInstance = pu_RoomsPerInstance inp,
       p_CPURequestMillicores = pu_CPURequestMillicores inp,
       p_CPULimitMillicores = pu_CPULimitMillicores inp,
       p_UpdatedAt = now, p_UpdatedBy = pu_Actor inp\<rparr>"
    "PolicyUpdate_Validate inp = Inr ()"
  using assms
  by (auto simp: UpdatePolicy_def policy_def Let_def split: sum.splits if_splits)

lemma UpdatePolicy_audit:
  assumes "UpdatePolicy cfg now inp s = Inr (s', u)" "length (s_PolicyAudit s) \<le> 100"
  shows "length (s_PolicyAudit s') \<le> 100" "s_PolicyAudit s' \<noteq> []"
    "last (s_PolicyAudit s') = \<lparr>pa_At = now, pa_Actor = pu_Actor inp,
       pa_Before = policy cfg s, pa_After = policy cfg s'\<rparr>"
  using assms
  by (auto simp: UpdatePolicy_def policy_def Let_def split: sum.splits if_splits)

end
