(* ===== verification/Fleet_Token.thy ===== *)
theory Fleet_Token
  imports Go_Stdlib
begin

text \<open>
  Admission tokens: \<^verbatim>\<open>pkg/fleetmanager/token.go\<close>. HMAC-SHA256 is a function \<open>mac\<close> of key and
  message, and the JSON encoding of the claims a pair of functions \<open>mar\<close>/\<open>unm\<close>; base64 and the token
  syntax are computed.
\<close>

type_synonym mac_fn = "string \<Rightarrow> string \<Rightarrow> string"

record AdmissionClaims =
  cl_SchemaVersion :: int
  cl_UserID :: string
  cl_WorkerID :: string
  cl_BootID :: string
  cl_RoomID :: string
  cl_AllocationID :: string
  cl_ReservationID :: string
  cl_Seat :: int
  cl_Epoch :: int
  cl_ExpiresAt :: int
  cl_Nonce :: string
  cl_Resume :: bool

definition derive :: "mac_fn \<Rightarrow> string \<Rightarrow> string \<Rightarrow> string" where
  "derive mac key purpose = mac key purpose"

definition encoded :: "string \<Rightarrow> string" where
  "encoded key = b64_encode key"

definition sign :: "mac_fn \<Rightarrow> (AdmissionClaims \<Rightarrow> string) \<Rightarrow> string \<Rightarrow> AdmissionClaims \<Rightarrow> string" where
  "sign mac mar key c =
     (let payload = encoded (mar c) in payload @ ''.'' @ encoded (derive mac key payload))"

definition claims_ok :: "AdmissionClaims \<Rightarrow> int \<Rightarrow> bool" where
  "claims_ok c now \<longleftrightarrow> \<not> (cl_SchemaVersion c \<noteq> 1 \<or> cl_UserID c = '''' \<or> cl_WorkerID c = ''''
     \<or> cl_BootID c = '''' \<or> cl_RoomID c = '''' \<or> cl_AllocationID c = '''' \<or> cl_ReservationID c = ''''
     \<or> cl_Nonce c = '''' \<or> cl_Epoch c < 1 \<or> cl_Seat c < 0 \<or> cl_ExpiresAt c \<le> now
     \<or> cl_ExpiresAt c > now + 60)"

definition VerifyAdmission ::
  "mac_fn \<Rightarrow> (string \<Rightarrow> AdmissionClaims option) \<Rightarrow> string \<Rightarrow> string \<Rightarrow> int \<Rightarrow> AdmissionClaims result" where
  "VerifyAdmission mac unm key token now =
     (if length token > 4096 then Inl (Errorf ''invalid admission token'')
      else let p = split_on (CHR ''.'') token
      in if length p \<noteq> 2 then Inl (Errorf ''invalid admission token'')
      else case b64_decode (p ! 1) of
        None \<Rightarrow> Inl (Errorf ''invalid admission signature'')
      | Some sig \<Rightarrow>
        (if sig \<noteq> derive mac key (p ! 0) then Inl (Errorf ''invalid admission signature'')
         else case b64_decode (p ! 0) of
           None \<Rightarrow> Inl (Errorf ''invalid admission payload'')
         | Some raw \<Rightarrow>
           (case unm raw of
              None \<Rightarrow> Inl (Errorf ''invalid admission payload'')
            | Some claims \<Rightarrow>
                if claims_ok claims now then Inr claims
                else Inl (Errorf ''invalid admission claims''))))"

lemma encoded_no_dot: "CHR ''.'' \<notin> set (encoded s)"
  using b64_encode_clean by (auto simp: encoded_def)

lemma split_sign:
  "split_on (CHR ''.'') (sign mac mar key c) =
     [encoded (mar c), encoded (derive mac key (encoded (mar c)))]"
  by (simp add: sign_def Let_def split_on_append[OF encoded_no_dot] split_on_absent[OF encoded_no_dot])

lemma VerifyAdmission_sign:
  assumes "length (sign mac mar key c) \<le> 4096" "unm (mar c) = Some c"
  shows "VerifyAdmission mac unm key (sign mac mar key c) now =
    (if claims_ok c now then Inr c else Inl (Errorf ''invalid admission claims''))"
  using assms by (simp add: VerifyAdmission_def split_sign b64_decode_encode encoded_def Let_def)

text \<open>Whatever is accepted carries, byte for byte, the signature of its own payload.\<close>

lemma VerifyAdmission_authentic:
  assumes "VerifyAdmission mac unm key token now = Inr c"
  shows "\<exists>payload sigtext raw. split_on (CHR ''.'') token = [payload, sigtext]
    \<and> b64_decode sigtext = Some (derive mac key payload)
    \<and> b64_decode payload = Some raw \<and> unm raw = Some c \<and> claims_ok c now"
proof -
  let ?p = "split_on (CHR ''.'') token"
  have two: "length ?p = 2"
    using assms by (simp add: VerifyAdmission_def Let_def split: if_splits)
  then obtain a b where p: "?p = [a, b]"
    by (cases ?p; cases "tl ?p") auto
  show ?thesis using assms
    by (auto simp: VerifyAdmission_def Let_def p split: if_splits option.splits)
qed

end
