(* ===== verification/Fleet_Provider.thy ===== *)
theory Fleet_Provider
  imports Go_Stdlib
begin

text \<open>
  The hosting boundary: \<^verbatim>\<open>internal/provider/provider.go\<close>. The data exchanged with a host and the
  classification of its errors. The provider itself is a parameter of the manager's operations.
\<close>

text \<open>A value of \<^verbatim>\<open>map[string]any\<close>, as far as the code distinguishes it: a string or something else.\<close>

datatype any = AnyString string | AnyOther

fun any_string :: "any option \<Rightarrow> string" where
  "any_string (Some (AnyString s)) = s"
| "any_string _ = ''''"

record CPUResources =
  cr_Request :: string
  cr_Limit :: string

record StartRequest =
  sr_CPUResources :: "CPUResources option"
  sr_Name :: string
  sr_Region :: string
  sr_CustomData :: "any gomap"
  sr_EnvironmentVariables :: "string gomap"

record Port =
  po_Name :: string
  po_Host :: string
  po_ExternalPort :: int
  po_InternalPort :: int
  po_Protocol :: string

record Instance =
  in_InstanceID :: string
  in_Status :: string
  in_NetworkPorts :: "Port list"
  in_CustomData :: "any gomap"
  in_TTL :: int
  in_StartedAt :: string

definition empty_instance :: Instance where
  "empty_instance = \<lparr>in_InstanceID = '''', in_Status = '''', in_NetworkPorts = [], in_CustomData = [],
     in_TTL = 0, in_StartedAt = ''''\<rparr>"

datatype ctx_cause = Canceled | DeadlineExceeded | OtherCause

record APIError =
  ae_Operation :: string
  ae_StatusCode :: int
  ae_Reason :: string
  ae_RetryAfter :: int
  ae_OutcomeUnknown :: bool
  ae_Cause :: "ctx_cause option"

text \<open>An error returned by a provider call: an \<^verbatim>\<open>*APIError\<close> or any other error.\<close>

datatype prov_error = API APIError | OtherError string

definition APIError_Error :: "APIError \<Rightarrow> string" where
  "APIError_Error e =
     (if ae_StatusCode e \<noteq> 0
      then ''agones '' @ ae_Operation e @ '': '' @ ae_Reason e @ '' (HTTP '' @ itoa (ae_StatusCode e) @ '')''
      else ''agones '' @ ae_Operation e @ '': '' @ ae_Reason e)"

definition APIError_Unwrap :: "APIError \<Rightarrow> ctx_cause option" where
  "APIError_Unwrap e =
     (if ae_Cause e = Some Canceled \<or> ae_Cause e = Some DeadlineExceeded then ae_Cause e else None)"

definition Retryable :: "APIError \<Rightarrow> bool" where
  "Retryable e \<longleftrightarrow> \<not> ae_OutcomeUnknown e \<and> APIError_Unwrap e \<noteq> Some Canceled
     \<and> (ae_Reason e = ''transport_error'' \<or> ae_StatusCode e = 408 \<or> ae_StatusCode e = 429
        \<or> ae_StatusCode e \<ge> 500)"

fun IsOutcomeUnknown :: "prov_error \<Rightarrow> bool" where
  "IsOutcomeUnknown (API e) = ae_OutcomeUnknown e"
| "IsOutcomeUnknown (OtherError _) = False"

fun IsRetryable :: "prov_error \<Rightarrow> bool" where
  "IsRetryable (API e) = Retryable e"
| "IsRetryable (OtherError _) = False"

text \<open>\<^verbatim>\<open>errors.As(err, &apiError) && p(apiError)\<close>.\<close>

fun api_error_is :: "(APIError \<Rightarrow> bool) \<Rightarrow> prov_error \<Rightarrow> bool" where
  "api_error_is p (API e) = p e"
| "api_error_is p (OtherError _) = False"

text \<open>An unknown outcome is never classified as retryable.\<close>

lemma unknown_not_retryable: "IsOutcomeUnknown e \<Longrightarrow> \<not> IsRetryable e"
  by (cases e) (auto simp: Retryable_def)

end
