(* ===== verification/Fleet_Manager.thy ===== *)
theory Fleet_Manager
  imports Fleet_Policy Fleet_Token Fleet_Provider
begin

text \<open>
  The manager's synchronous operations: \<^verbatim>\<open>pkg/fleetmanager/manager.go\<close>, with the admission test
  \<^verbatim>\<open>eligible\<close> of \<^verbatim>\<open>lifecycle.go\<close>. Each operation is the body of one store transaction. A running
  transaction is a \<open>txn\<close>: the state being edited and the number of identifiers drawn so far from
  the random source \<open>rnd\<close>. \<open>ro\<close> answers the order of range loops, \<open>now\<close> the clock.
\<close>

record txn =
  t_s :: FleetState
  t_n :: nat

abbreviation t_workers :: "txn \<Rightarrow> Worker gomap" where
  "t_workers t \<equiv> s_Workers (t_s t)"
abbreviation t_allocs :: "txn \<Rightarrow> Allocation gomap" where
  "t_allocs t \<equiv> s_Allocations (t_s t)"
abbreviation t_cmds :: "txn \<Rightarrow> Command gomap" where
  "t_cmds t \<equiv> s_Commands (t_s t)"

definition upd_worker :: "string \<Rightarrow> (Worker \<Rightarrow> Worker) \<Rightarrow> txn \<Rightarrow> txn" where
  "upd_worker k f t = t\<lparr>t_s := (t_s t)\<lparr>s_Workers := mupd k f (t_workers t)\<rparr>\<rparr>"

definition upd_alloc :: "string \<Rightarrow> (Allocation \<Rightarrow> Allocation) \<Rightarrow> txn \<Rightarrow> txn" where
  "upd_alloc k f t = t\<lparr>t_s := (t_s t)\<lparr>s_Allocations := mupd k f (t_allocs t)\<rparr>\<rparr>"

definition upd_allocs :: "(Allocation \<Rightarrow> Allocation) \<Rightarrow> txn \<Rightarrow> txn" where
  "upd_allocs f t = t\<lparr>t_s := (t_s t)\<lparr>s_Allocations := mmap f (t_allocs t)\<rparr>\<rparr>"

definition upd_cmds :: "(Command \<Rightarrow> Command) \<Rightarrow> txn \<Rightarrow> txn" where
  "upd_cmds f t = t\<lparr>t_s := (t_s t)\<lparr>s_Commands := mmap f (t_cmds t)\<rparr>\<rparr>"

definition new_command :: "id_stream \<Rightarrow> (string \<Rightarrow> Command) \<Rightarrow> txn \<Rightarrow> txn" where
  "new_command rnd mk t =
     (let c = mk (rnd (t_n t))
      in t\<lparr>t_s := (t_s t)\<lparr>s_Commands := mput (c_ID c) c (t_cmds t)\<rparr>, t_n := Suc (t_n t)\<rparr>)"

definition upd_cmd :: "string \<Rightarrow> (Command \<Rightarrow> Command) \<Rightarrow> txn \<Rightarrow> txn" where
  "upd_cmd k f t = t\<lparr>t_s := (t_s t)\<lparr>s_Commands := mupd k f (t_cmds t)\<rparr>\<rparr>"

subsection \<open>Users, allocations\<close>

definition validUsers :: "string list \<Rightarrow> bool" where
  "validUsers users \<longleftrightarrow> length users = 2 \<and> users ! 0 \<noteq> '''' \<and> users ! 1 \<noteq> '''' \<and> users ! 0 \<noteq> users ! 1
     \<and> length (users ! 0) \<le> 128 \<and> length (users ! 1) \<le> 128"

definition contains :: "string list \<Rightarrow> string \<Rightarrow> bool" where
  "contains users user \<longleftrightarrow> list_ex (\<lambda>u. u = user) users"

definition sameUsers :: "string list \<Rightarrow> string list \<Rightarrow> bool" where
  "sameUsers a b \<longleftrightarrow> length a = length b \<and> sort a = sort b"

definition touch :: "Allocation \<Rightarrow> Allocation" where
  "touch a = a\<lparr>a_Revision := a_Revision a + 1\<rparr>"

definition finish :: "AllocState \<Rightarrow> string \<Rightarrow> int \<Rightarrow> Allocation \<Rightarrow> Allocation" where
  "finish phase reason now a = touch (a\<lparr>a_State := phase, a_Error := reason, a_TerminalAt := now\<rparr>)"

text \<open>
  The scan of \<^verbatim>\<open>allocation\<close>: the first visited allocation that has the request key or that holds one
  of the users decides.
\<close>

fun alloc_scan :: "string list \<Rightarrow> string \<Rightarrow> (string \<times> Allocation) list \<Rightarrow> string result option" where
  "alloc_scan users key [] = None"
| "alloc_scan users key ((k, a) # rest) =
     (if a_RequestKey a = key
      then Some (if \<not> sameUsers (a_UserIDs a) users then Inl ErrForbidden else Inr k)
      else if \<not> Terminal (a_State a) \<and> list_ex (contains (a_UserIDs a)) users
      then Some (Inl ErrBusy)
      else alloc_scan users key rest)"

definition new_allocation ::
  "id_stream \<Rightarrow> nat \<Rightarrow> string list \<Rightarrow> string \<Rightarrow> int \<Rightarrow> int \<Rightarrow> Allocation" where
  "new_allocation rnd n users key now timeout =
     \<lparr>a_ID = rnd n, a_RequestKey = key, a_RoomID = rnd (n + 1), a_WorkerID = '''',
      a_PreferredWorkerID = '''', a_UserIDs = users, a_State = AWaiting, a_Epoch = 1, a_Revision = 1,
      a_CreatedAt = now, a_ExpiresAt = now + timeout, a_Sessions = [], a_Error = '''',
      a_TerminalAt = 0, a_NotifiedRevision = 0\<rparr>"

definition allocation ::
  "range_fn \<Rightarrow> id_stream \<Rightarrow> string list \<Rightarrow> string \<Rightarrow> int \<Rightarrow> int \<Rightarrow> txn \<Rightarrow> (string \<times> txn) result" where
  "allocation ro rnd users key now timeout t =
     (if \<not> validUsers users \<or> key = '''' \<or> length key > 256
      then Inl (Errorf ''two distinct users and a bounded request key are required'')
      else case alloc_scan users key (range_entries ro 0 (t_allocs t)) of
        Some (Inl e) \<Rightarrow> Inl e
      | Some (Inr k) \<Rightarrow> Inr (k, t)
      | None \<Rightarrow>
          (let a = new_allocation rnd (t_n t) users key now timeout
           in Inr (a_ID a, t\<lparr>t_s := (t_s t)\<lparr>s_Allocations := mput (a_ID a) a (t_allocs t)\<rparr>,
                             t_n := t_n t + 2\<rparr>)))"

definition Allocate ::
  "Config \<Rightarrow> range_fn \<Rightarrow> id_stream \<Rightarrow> int \<Rightarrow> string list \<Rightarrow> string \<Rightarrow> txn \<Rightarrow> (string \<times> txn) result" where
  "Allocate cfg ro rnd now users key t =
     bindE (allocation ro rnd users key now (cfg_AllocationTimeout cfg) t)
       (\<lambda>(k, t'). case map_of (t_allocs t') k of
          None \<Rightarrow> Inl NilPanic
        | Some a \<Rightarrow> Inr (a_ID a, t'))"

subsection \<open>Cancellation\<close>

definition withdraw :: "string \<Rightarrow> Command \<Rightarrow> Command" where
  "withdraw aid c = (if c_AllocationID c = aid \<and> c_Type c = PrepareRoom then c\<lparr>c_Done := True\<rparr> else c)"

definition cancel_command :: "Config \<Rightarrow> int \<Rightarrow> Allocation \<Rightarrow> string \<Rightarrow> Command" where
  "cancel_command cfg now a i =
     \<lparr>c_ID = i, c_Type = CancelRoom, c_WorkerID = a_WorkerID a, c_RoomID = a_RoomID a,
      c_AllocationID = a_ID a, c_Epoch = a_Epoch a, c_UserIDs = [],
      c_ExpiresAt = now + cfg_PrepareTimeout cfg, c_Done = False, c_Attempts = 0, c_NotBefore = 0\<rparr>"

definition cancel_phase :: "string \<Rightarrow> AllocState" where
  "cancel_phase reason = (if reason = ''cancelled'' then ACancelled else AExpired)"

definition cancel :: "Config \<Rightarrow> id_stream \<Rightarrow> string \<Rightarrow> int \<Rightarrow> string \<Rightarrow> txn \<Rightarrow> txn" where
  "cancel cfg rnd reason now k t =
     (case map_of (t_allocs t) k of
        None \<Rightarrow> t
      | Some a \<Rightarrow>
          if Terminal (a_State a) \<or> a_State a = ACancelling then t
          else if a_WorkerID a = '''' then upd_alloc k (finish (cancel_phase reason) reason now) t
          else new_command rnd (cancel_command cfg now a)
                 (upd_cmds (withdraw (a_ID a))
                   (upd_alloc k (\<lambda>a. touch (a\<lparr>a_State := ACancelling, a_Error := reason\<rparr>)) t)))"

definition Cancel ::
  "Config \<Rightarrow> id_stream \<Rightarrow> int \<Rightarrow> string \<Rightarrow> string \<Rightarrow> txn \<Rightarrow> txn result" where
  "Cancel cfg rnd now user allocationID t =
     (case map_of (t_allocs t) allocationID of
        None \<Rightarrow> Inl ErrNotFound
      | Some a \<Rightarrow>
          if \<not> contains (a_UserIDs a) user then Inl ErrForbidden
          else if Terminal (a_State a) \<or> a_State a = ACancelling then Inr t
          else if a_State a = AActive then Inl ErrBusy
          else Inr (cancel cfg rnd ''cancelled'' now allocationID t))"

subsection \<open>Workers\<close>

definition new_worker_record ::
  "Config \<Rightarrow> CapacityPolicy \<Rightarrow> string \<Rightarrow> int \<Rightarrow> int \<Rightarrow> Worker" where
  "new_worker_record cfg p i now maxRooms =
     \<lparr>w_PolicyRevision = p_Revision p,
      w_CPURequest = (if p_Revision p > 1 then itoa (p_CPURequestMillicores p) @ ''m''
                      else k_CPURequest (cfg_Kubernetes cfg)),
      w_CPULimit = (if p_Revision p > 1 then itoa (p_CPULimitMillicores p) @ ''m''
                    else k_CPULimit (cfg_Kubernetes cfg)),
      w_ID = i, w_ProviderID = '''', w_ProviderReady = False, w_ProviderExpiresAt = 0, w_BootID = '''',
      w_State = WRequested, w_Region = cfg_Region cfg, w_BuildHash = cfg_BuildHash cfg, w_Host = '''',
      w_Port = 0, w_MaxRooms = maxRooms, w_CreatedAt = now, w_UpdatedAt = now, w_LastHeartbeat = 0,
      w_LastSequence = 0, w_NextCheckAt = now, w_IdleSince = 0, w_Ready = False, w_Draining = False,
      w_DrainAck = False, w_PlayerCount = 0, w_Metrics = zero_metrics, w_Error = '''',
      w_InitialAllocationID = ''''\<rparr>"

definition newWorker :: "Config \<Rightarrow> id_stream \<Rightarrow> int \<Rightarrow> int \<Rightarrow> txn \<Rightarrow> string \<times> txn" where
  "newWorker cfg rnd now maxRooms t =
     (let w = new_worker_record cfg (policy cfg (t_s t)) (rnd (t_n t)) now maxRooms
      in (w_ID w, t\<lparr>t_s := (t_s t)\<lparr>s_Workers := mput (w_ID w) w (t_workers t)\<rparr>, t_n := Suc (t_n t)\<rparr>))"

definition counts_live :: "Worker \<Rightarrow> bool" where
  "counts_live w \<longleftrightarrow> w_State w \<noteq> WStopped \<and> \<not> (w_State w = WFailed \<and> w_ProviderID w = '''')"

definition liveCount :: "FleetState \<Rightarrow> int" where
  "liveCount s = int (mcount counts_live (s_Workers s))"

definition Create ::
  "Config \<Rightarrow> range_fn \<Rightarrow> id_stream \<Rightarrow> int \<Rightarrow> int \<Rightarrow> string list \<Rightarrow> string list \<Rightarrow> txn \<Rightarrow> (string \<times> txn) result" where
  "Create cfg ro rnd now maxPlayers users latency_regions t =
     (if maxPlayers < 2 \<or> maxPlayers mod 2 \<noteq> 0 \<or> maxPlayers > 1024
      then Inl (Errorf ''maxPlayers must be an even physical-instance capacity within this profile'')
      else if length users > 0 \<and> \<not> validUsers users
      then Inl (Errorf ''initial DM room requires exactly two distinct users'')
      else if list_ex (\<lambda>r. r \<noteq> cfg_Region cfg) latency_regions
      then Inl (Errorf ''this manager is configured for a single region'')
      else if maxPlayers > p_RoomsPerInstance (policy cfg (t_s t)) * 2 then Inl ErrBusy
      else if liveCount (t_s t) \<ge> cfg_MaxInstances cfg \<or> s_CreationBlockedReason (t_s t) \<noteq> ''''
      then Inl ErrBusy
      else let (wid, t1) = newWorker cfg rnd now (maxPlayers div 2) t
      in if length users > 0
         then bindE (allocation ro rnd users (''create:'' @ wid) now (cfg_AllocationTimeout cfg) t1)
                (\<lambda>(k, t2). case map_of (t_allocs t2) k of
                   None \<Rightarrow> Inl NilPanic
                 | Some a \<Rightarrow>
                     Inr (wid, upd_worker wid (\<lambda>w. w\<lparr>w_InitialAllocationID := a_ID a\<rparr>)
                                 (upd_alloc k (\<lambda>a. a\<lparr>a_PreferredWorkerID := wid\<rparr>) t2)))
         else Inr (wid, t1))"

definition eligible :: "Config \<Rightarrow> Worker \<Rightarrow> int \<Rightarrow> bool" where
  "eligible cfg w now \<longleftrightarrow>
     w_State w = WReady \<and> w_ProviderReady w \<and> w_BuildHash w = cfg_BuildHash cfg
     \<and> w_Region w = cfg_Region cfg \<and> \<not> w_Draining w \<and> w_Ready w \<and> w_Host w \<noteq> '''' \<and> w_BootID w \<noteq> ''''
     \<and> now - w_LastHeartbeat w \<le> cfg_HeartbeatTimeout cfg
     \<and> me_SimulationOldestSeconds (w_Metrics w) \<le> cfg_MaxQueueAgeSeconds cfg
     \<and> me_FrameP99MS (w_Metrics w) \<le> Fin 100
     \<and> (w_ProviderExpiresAt w = 0 \<or> w_ProviderExpiresAt w - now > cfg_MinLifetimeForAdmission cfg)"

subsection \<open>Reservations\<close>

definition mk_sessions :: "id_stream \<Rightarrow> nat \<Rightarrow> int \<Rightarrow> string list \<Rightarrow> Session list" where
  "mk_sessions rnd n expires uids =
     map (\<lambda>(i, u). \<lparr>se_ID = rnd (n + i), se_UserID = u, se_Seat = int i, se_ExpiresAt = expires,
                     se_Connected = False, se_EverConnected = False, se_ReconnectUntil = 0\<rparr>)
       (enumerate 0 uids)"

definition reserve ::
  "id_stream \<Rightarrow> int \<Rightarrow> int \<Rightarrow> string list \<Rightarrow> nat \<Rightarrow> Allocation \<Rightarrow> (Allocation \<times> nat) result" where
  "reserve rnd now ttl users n a =
     (if \<not> sameUsers (a_UserIDs a) users then Inl ErrForbidden
      else if a_State a = AAssigned \<or> a_State a = AActive then Inr (a, n)
      else if a_State a \<noteq> APrepared then Inl ErrBusy
      else Inr (touch (a\<lparr>a_Sessions := mk_sessions rnd n (now + ttl) (a_UserIDs a),
                         a_State := AAssigned, a_ExpiresAt := now + ttl\<rparr>),
                n + length (a_UserIDs a)))"

definition reserve_at ::
  "Config \<Rightarrow> id_stream \<Rightarrow> int \<Rightarrow> string list \<Rightarrow> string \<Rightarrow> txn \<Rightarrow> txn result" where
  \<comment> \<open>\<open>reserve\<close> on the allocation stored at a key\<close>
  "reserve_at cfg rnd now users k t =
     (case map_of (t_allocs t) k of
        None \<Rightarrow> Inl NilPanic
      | Some a \<Rightarrow>
          bindE (reserve rnd now (cfg_ReservationTTL cfg) users (t_n t) a)
            (\<lambda>(a', n'). Inr ((upd_alloc k (\<lambda>_. a') t)\<lparr>t_n := n'\<rparr>)))"

record InstanceInfo =
  ii_Id :: string
  ii_CreateTime :: int
  ii_PlayerCount :: int
  ii_Status :: WorkerState
  ii_DnsName :: string
  ii_Port :: int
  ii_ProviderInstanceID :: string
  ii_Region :: string
  ii_BuildHash :: string
  ii_MaxRooms :: int
  ii_Draining :: bool
  ii_LastHeartbeat :: int

definition instanceInfo :: "Worker \<Rightarrow> InstanceInfo" where
  "instanceInfo w = \<lparr>ii_Id = w_ID w, ii_CreateTime = w_CreatedAt w, ii_PlayerCount = w_PlayerCount w,
     ii_Status = w_State w, ii_DnsName = w_Host w, ii_Port = w_Port w,
     ii_ProviderInstanceID = w_ProviderID w, ii_Region = w_Region w, ii_BuildHash = w_BuildHash w,
     ii_MaxRooms = w_MaxRooms w, ii_Draining = w_Draining w, ii_LastHeartbeat = w_LastHeartbeat w\<rparr>"

definition sessionInfo :: "Allocation \<Rightarrow> (string \<times> string) list" where
  "sessionInfo a = map (\<lambda>s. (se_UserID s, se_ID s)) (a_Sessions a)"

definition Join ::
  "Config \<Rightarrow> id_stream \<Rightarrow> int \<Rightarrow> int \<Rightarrow> string \<Rightarrow> string list \<Rightarrow> string \<Rightarrow> txn
     \<Rightarrow> ((InstanceInfo \<times> (string \<times> string) list) \<times> txn) result" where
  "Join cfg rnd now1 now2 workerID users allocationID t =
     (case (map_of (t_allocs t) allocationID, map_of (t_workers t) workerID) of
        (Some a, Some w) \<Rightarrow>
          if a_WorkerID a \<noteq> workerID then Inl ErrForbidden
          else if \<not> eligible cfg w now1 then Inl ErrBusy
          else bindE (reserve_at cfg rnd now2 users allocationID t)
                 (\<lambda>t'. case map_of (t_allocs t') allocationID of
                    None \<Rightarrow> Inl NilPanic
                  | Some a' \<Rightarrow> Inr ((instanceInfo w, sessionInfo a'), t'))
      | _ \<Rightarrow> Inl ErrNotFound)"

subsection \<open>Queries and updates on workers\<close>

definition Get :: "string \<Rightarrow> FleetState \<Rightarrow> InstanceInfo result" where
  "Get workerID s =
     (case map_of (s_Workers s) workerID of
        None \<Rightarrow> Inl ErrNotFound
      | Some w \<Rightarrow> if w_State w = WStopped then Inl ErrNotFound else Inr (instanceInfo w))"

record list_filter =
  lf_State :: string
  lf_Region :: string

definition list_matches :: "list_filter \<Rightarrow> Worker \<Rightarrow> bool" where
  "list_matches f w \<longleftrightarrow> w_State w \<noteq> WStopped
     \<and> (lf_State f = '''' \<or> lf_State f = worker_state_text (w_State w))
     \<and> (lf_Region f = '''' \<or> lf_Region f = w_Region w)"

definition list_ids :: "list_filter \<Rightarrow> string \<Rightarrow> FleetState \<Rightarrow> string list" where
  "list_ids f after s = sort (map fst (filter (\<lambda>(k, w). k > after \<and> list_matches f w) (s_Workers s)))"

text \<open>\<open>parse_query\<close> is the JSON decoding of the query string into the filter struct.\<close>

definition ListInstances ::
  "(string \<Rightarrow> list_filter option) \<Rightarrow> string \<Rightarrow> int \<Rightarrow> string \<Rightarrow> FleetState
     \<Rightarrow> (InstanceInfo list \<times> string) result" where
  "ListInstances parse_query query limit cursor s =
     (if limit < 1 \<or> limit > 100 then Inl (Errorf ''limit must be 1..100'')
      else case (if query = '''' then Some \<lparr>lf_State = '''', lf_Region = ''''\<rparr> else parse_query query) of
        None \<Rightarrow> Inl (Errorf ''query must be a JSON object with state/region'')
      | Some f \<Rightarrow>
        (case (if cursor = '''' then Some '''' else b64_decode cursor) of
           None \<Rightarrow> Inl (Errorf ''invalid cursor'')
         | Some after \<Rightarrow>
             (let ids = list_ids f after s;
                  page = (if length ids > nat limit then take (nat limit) ids else ids);
                  next = (if length ids > nat limit then encoded (last page) else '''')
              in Inr (map (\<lambda>i. instanceInfo (the (map_of (s_Workers s) i))) page, next))))"

definition UpdateWorker :: "string \<Rightarrow> int \<Rightarrow> nat \<Rightarrow> txn \<Rightarrow> txn result" where
  "UpdateWorker workerID playerCount metadata_len t =
     (case map_of (t_workers t) workerID of
        None \<Rightarrow> Inl ErrNotFound
      | Some w \<Rightarrow>
          if playerCount < 0 \<or> playerCount > w_MaxRooms w * 2 then Inl (Errorf ''invalid player count'')
          else if metadata_len > 0
          then Inl (Errorf ''use authenticated agent reports for metadata updates'')
          else Inr (upd_worker workerID (\<lambda>w. w\<lparr>w_PlayerCount := playerCount\<rparr>) t))"

definition drainable :: "Worker \<Rightarrow> bool" where
  "drainable w \<longleftrightarrow> w_State w = WReady \<or> w_State w = WSuspect \<or> w_State w = WDraining"

definition workFinished :: "Metrics \<Rightarrow> bool" where
  "workFinished m \<longleftrightarrow> me_SimulationActive m = 0 \<and> me_SimulationPending m = 0 \<and> me_AuditActive m = 0
     \<and> me_AuditPending m = 0 \<and> me_PendingResults m = 0"

definition drain_command :: "string \<Rightarrow> int \<Rightarrow> string \<Rightarrow> Command" where
  "drain_command wid now i =
     \<lparr>c_ID = i, c_Type = DrainCmd, c_WorkerID = wid, c_RoomID = '''', c_AllocationID = '''', c_Epoch = 1,
      c_UserIDs = [], c_ExpiresAt = now + 3600, c_Done = False, c_Attempts = 0, c_NotBefore = 0\<rparr>"

definition beginDrain :: "id_stream \<Rightarrow> int \<Rightarrow> string \<Rightarrow> txn \<Rightarrow> txn" where
  "beginDrain rnd now k t =
     (case map_of (t_workers t) k of
        None \<Rightarrow> t
      | Some w \<Rightarrow>
          if w_Draining w then t
          else new_command rnd (drain_command (w_ID w) now)
                 (upd_worker k (\<lambda>w. w\<lparr>w_Draining := True, w_State := WDraining, w_UpdatedAt := now\<rparr>) t))"

definition Delete :: "id_stream \<Rightarrow> int \<Rightarrow> string \<Rightarrow> txn \<Rightarrow> txn result" where
  "Delete rnd now workerID t =
     (case map_of (t_workers t) workerID of
        None \<Rightarrow> Inl ErrNotFound
      | Some w \<Rightarrow>
          if w_State w = WStopped then Inr t
          else if \<not> drainable w \<or> Occupied (t_s t) workerID > 0 \<or> w_PlayerCount w > 0
             \<or> \<not> workFinished (w_Metrics w)
          then Inl ErrBusy
          else Inr (beginDrain rnd now workerID t))"

definition Drain :: "id_stream \<Rightarrow> int \<Rightarrow> string \<Rightarrow> txn \<Rightarrow> txn result" where
  "Drain rnd now workerID t =
     (case map_of (t_workers t) workerID of
        None \<Rightarrow> Inl ErrNotFound
      | Some w \<Rightarrow>
          if w_State w = WStopped then Inr t
          else if \<not> drainable w then Inl ErrBusy
          else Inr (beginDrain rnd now workerID t))"

subsection \<open>Assignments\<close>

record Endpoint =
  ep_Host :: string
  ep_Port :: int
  ep_Transport :: string

record Assignment =
  as_SchemaVersion :: int
  as_AllocationID :: string
  as_Revision :: int
  as_State :: AllocState
  as_WorkerID :: string
  as_BootID :: string
  as_RoomID :: string
  as_Seat :: int
  as_Endpoint :: "Endpoint option"
  as_BuildHash :: string
  as_AdmissionToken :: string
  as_ExpiresAt :: int
  as_ReconnectSeconds :: int
  as_Error :: string

text \<open>The loop that picks a user's current allocation when none is named.\<close>

definition newer_candidate :: "string \<Rightarrow> Allocation \<Rightarrow> Allocation option \<Rightarrow> Allocation option" where
  "newer_candidate user c a =
     (if contains (a_UserIDs c) user \<and>
         (case a of
            None \<Rightarrow> True
          | Some a \<Rightarrow> (Terminal (a_State a) \<and> \<not> Terminal (a_State c))
              \<or> (Terminal (a_State a) = Terminal (a_State c) \<and> a_CreatedAt c > a_CreatedAt a))
      then Some c else a)"

definition pick_assignment :: "range_fn \<Rightarrow> string \<Rightarrow> string \<Rightarrow> FleetState \<Rightarrow> Allocation option result" where
  "pick_assignment ro user allocationID s =
     (if allocationID \<noteq> ''''
      then (case map_of (s_Allocations s) allocationID of
              None \<Rightarrow> Inr None
            | Some a \<Rightarrow> if \<not> contains (a_UserIDs a) user then Inl ErrForbidden else Inr (Some a))
      else Inr (fold (\<lambda>(k, c). newer_candidate user c) (range_entries ro 1 (s_Allocations s)) None))"

definition session_expiry :: "int \<Rightarrow> bool \<Rightarrow> Session \<Rightarrow> int result" where
  "session_expiry now resume se =
     (if resume
      then (if \<not> se_EverConnected se \<or> (se_ReconnectUntil se > 0 \<and> se_ReconnectUntil se \<le> now)
            then Inl ErrBusy
            else Inr (if se_ReconnectUntil se > 0 \<and> now + 45 > se_ReconnectUntil se
                      then se_ReconnectUntil se else now + 45))
      else if se_ExpiresAt se \<le> now then Inl ErrBusy
      else Inr (se_ExpiresAt se))"

definition serves_sessions :: "Config \<Rightarrow> int \<Rightarrow> bool \<Rightarrow> Worker \<Rightarrow> bool" where
  "serves_sessions cfg now resume w \<longleftrightarrow>
     \<not> (\<not> w_ProviderReady w
        \<or> (\<not> w_Ready w \<and> \<not> (resume \<and> w_Draining w \<and> w_State w = WDraining))
        \<or> w_BootID w = '''' \<or> w_Host w = '''' \<or> now - w_LastHeartbeat w > cfg_HeartbeatTimeout cfg
        \<or> (w_State w \<noteq> WReady \<and> w_State w \<noteq> WDraining))"

definition admission_claims ::
  "string \<Rightarrow> Worker \<Rightarrow> Allocation \<Rightarrow> Session \<Rightarrow> int \<Rightarrow> string \<Rightarrow> bool \<Rightarrow> AdmissionClaims" where
  "admission_claims user w a se expires nonce resume =
     \<lparr>cl_SchemaVersion = 1, cl_UserID = user, cl_WorkerID = w_ID w, cl_BootID = w_BootID w,
      cl_RoomID = a_RoomID a, cl_AllocationID = a_ID a, cl_ReservationID = se_ID se,
      cl_Seat = se_Seat se, cl_Epoch = a_Epoch a, cl_ExpiresAt = expires, cl_Nonce = nonce,
      cl_Resume = resume\<rparr>"

definition base_assignment :: "Config \<Rightarrow> Allocation \<Rightarrow> Assignment" where
  "base_assignment cfg a =
     \<lparr>as_SchemaVersion = 1, as_AllocationID = a_ID a, as_Revision = a_Revision a, as_State = a_State a,
      as_WorkerID = a_WorkerID a, as_BootID = '''', as_RoomID = a_RoomID a, as_Seat = - 1,
      as_Endpoint = None, as_BuildHash = cfg_BuildHash cfg, as_AdmissionToken = '''',
      as_ExpiresAt = a_ExpiresAt a, as_ReconnectSeconds = cfg_ReconnectSeconds cfg, as_Error = a_Error a\<rparr>"

definition AssignmentOf ::
  "Config \<Rightarrow> mac_fn \<Rightarrow> (AdmissionClaims \<Rightarrow> string) \<Rightarrow> range_fn \<Rightarrow> string \<Rightarrow> int \<Rightarrow> string \<Rightarrow> string \<Rightarrow> bool
     \<Rightarrow> FleetState \<Rightarrow> Assignment result" where
  "AssignmentOf cfg mac mar ro nonce now user allocationID resume s =
     bindE (pick_assignment ro user allocationID s)
       (\<lambda>picked. case picked of
          None \<Rightarrow> Inl ErrNotFound
        | Some a \<Rightarrow>
          (if a_State a \<noteq> AAssigned \<and> a_State a \<noteq> AActive then Inr (base_assignment cfg a)
           else case map_of (s_Workers s) (a_WorkerID a) of
             None \<Rightarrow> Inl ErrBusy
           | Some w \<Rightarrow>
             (if \<not> serves_sessions cfg now resume w then Inl ErrBusy
              else case find (\<lambda>se. se_UserID se = user) (a_Sessions a) of
                None \<Rightarrow> Inl ErrForbidden
              | Some se \<Rightarrow>
                  bindE (session_expiry now resume se)
                    (\<lambda>expires.
                       Inr ((base_assignment cfg a)\<lparr>
                         as_BuildHash := w_BuildHash w,
                         as_BootID := w_BootID w,
                         as_Seat := se_Seat se,
                         as_Endpoint := Some \<lparr>ep_Host = w_Host w, ep_Port = w_Port w,
                                              ep_Transport = ''tugboat-udp''\<rparr>,
                         as_AdmissionToken :=
                           sign mac mar (derive mac (cfg_SigningKey cfg) (''admission:'' @ w_ID w))
                             (admission_claims user w a se expires nonce resume),
                         as_ExpiresAt := expires\<rparr>)))))"

subsection \<open>Opening a namespace\<close>

text \<open>
  The transaction of \<^verbatim>\<open>New\<close>: one namespace is one build and region. \<open>profile\<close> is the fingerprint of
  the configuration.
\<close>

definition upgrade_worker :: "Config \<Rightarrow> Worker \<Rightarrow> Worker" where
  "upgrade_worker cfg w =
     (if w_PolicyRevision w = 0
      then w\<lparr>w_PolicyRevision := 1, w_CPURequest := k_CPURequest (cfg_Kubernetes cfg),
             w_CPULimit := k_CPULimit (cfg_Kubernetes cfg)\<rparr>
      else w)"

definition NewManager :: "Config \<Rightarrow> string \<Rightarrow> FleetState \<Rightarrow> FleetState result" where
  "NewManager cfg profile s =
     (if s_Profile s \<noteq> '''' \<and> s_Profile s \<noteq> profile
      then Inl (Errorf ''fleet namespace profile changed: use a new deployment ID for changed build, region, capacity, signing key or server environment'')
      else if list_ex (\<lambda>(k, w). w_BuildHash w \<noteq> cfg_BuildHash cfg \<or> w_Region w \<noteq> cfg_Region cfg) (s_Workers s)
      then Inl (Errorf ''existing worker does not match fleet profile'')
      else Inr (s\<lparr>s_CapacityPolicy := Some (policy cfg s),
                  s_Workers := mmap (upgrade_worker cfg) (s_Workers s),
                  s_Profile := profile\<rparr>))"

text \<open>What \<^verbatim>\<open>Run\<close> commits when its context ends.\<close>

definition release_lease :: "string \<Rightarrow> FleetState \<Rightarrow> FleetState" where
  "release_lease owner s = (if s_Leader s = owner then s\<lparr>s_LeaseUntil := 0\<rparr> else s)"

end
