(* ===== verification/Fleet_Lifecycle.thy ===== *)
theory Fleet_Lifecycle
  imports Fleet_Manager
begin

text \<open>
  The reconciliation loop: \<^verbatim>\<open>pkg/fleetmanager/lifecycle.go\<close>. One tick is a sequence of short store
  transactions with provider calls between them. Each transaction is a definition of this theory;
  the result of a provider call is an argument of the transaction that follows it, and every
  \<^verbatim>\<open>m.now()\<close> is an argument of its own. \<open>parse_time\<close> stands for \<^verbatim>\<open>time.Parse\<close> with the
  RFC 3339 layout, giving Unix seconds. Dereferencing a missing worker is the error \<open>NilPanic\<close>.
\<close>

subsection \<open>Workers that are gone\<close>

definition fail_rooms :: "string \<Rightarrow> string \<Rightarrow> int \<Rightarrow> Allocation \<Rightarrow> Allocation" where
  "fail_rooms wid reason now a =
     (if a_WorkerID a = wid \<and> \<not> Terminal (a_State a) then finish AFailed reason now a else a)"

definition close_commands :: "string \<Rightarrow> Command \<Rightarrow> Command" where
  "close_commands wid c = (if c_WorkerID c = wid then c\<lparr>c_Done := True\<rparr> else c)"

definition stopped :: "int \<Rightarrow> string \<Rightarrow> txn \<Rightarrow> txn" where
  "stopped now k t =
     (case map_of (t_workers t) k of
        None \<Rightarrow> t
      | Some w \<Rightarrow>
          upd_cmds (close_commands (w_ID w))
            (upd_allocs (fail_rooms (w_ID w) ''server_stopped'' now)
              (upd_worker k (\<lambda>w. w\<lparr>w_State := WStopped, w_Ready := False, w_ProviderReady := False,
                                   w_Error := '''', w_UpdatedAt := now\<rparr>) t)))"

definition lost :: "string \<Rightarrow> int \<Rightarrow> string \<Rightarrow> txn \<Rightarrow> txn" where
  "lost reason now k t =
     (case map_of (t_workers t) k of
        None \<Rightarrow> t
      | Some w \<Rightarrow>
          upd_cmds (close_commands (w_ID w))
            (upd_allocs (fail_rooms (w_ID w) ''server_lost'' now)
              (upd_worker k (\<lambda>w. w\<lparr>w_State := WLost, w_Ready := False, w_ProviderReady := False,
                                   w_Error := reason, w_UpdatedAt := now\<rparr>) t)))"

subsection \<open>The transaction of Tick, loop by loop\<close>

definition lease_step :: "string \<Rightarrow> int \<Rightarrow> FleetState \<Rightarrow> FleetState result" where
  "lease_step owner now s =
     (if s_Leader s \<noteq> owner \<and> s_LeaseUntil s > now then Inl ErrLease
      else Inr (s\<lparr>s_Leader := owner, s_LeaseUntil := now + 30\<rparr>))"

definition expiring :: "Config \<Rightarrow> int \<Rightarrow> Worker \<Rightarrow> bool" where
  "expiring cfg now w \<longleftrightarrow> w_State w = WReady \<and> w_ProviderExpiresAt w > 0
     \<and> w_ProviderExpiresAt w - now \<le> cfg_MinLifetimeForAdmission cfg"

definition age_worker :: "Config \<Rightarrow> int \<Rightarrow> Worker \<Rightarrow> Worker" where
  "age_worker cfg now w =
     (let w1 = (if w_State w = WStarting \<and> now - w_UpdatedAt w > 15
                then w\<lparr>w_State := WUnknown, w_Error := ''interrupted_create''\<rparr> else w)
      in if w_State w1 = WReady \<and> now - w_LastHeartbeat w1 > cfg_HeartbeatTimeout cfg
         then w1\<lparr>w_State := WSuspect\<rparr> else w1)"

definition agent_lost :: "Config \<Rightarrow> int \<Rightarrow> Worker \<Rightarrow> bool" where
  "agent_lost cfg now w \<longleftrightarrow> w_LastHeartbeat w > 0 \<and> now - w_LastHeartbeat w > cfg_LostTimeout cfg
     \<and> w_State w \<noteq> WStopped \<and> w_State w \<noteq> WFailed \<and> w_State w \<noteq> WLost"

definition tick_worker :: "Config \<Rightarrow> id_stream \<Rightarrow> int \<Rightarrow> string \<Rightarrow> txn \<Rightarrow> txn" where
  "tick_worker cfg rnd now k t =
     (case map_of (t_workers t) k of
        None \<Rightarrow> t
      | Some w \<Rightarrow>
          (let t1 = (if expiring cfg now w then beginDrain rnd now k t else t);
               t2 = upd_worker k (age_worker cfg now) t1
           in case map_of (t_workers t2) k of
                None \<Rightarrow> t2
              | Some w2 \<Rightarrow> if agent_lost cfg now w2 then lost ''agent_lost'' now k t2 else t2))"

definition tick_alloc :: "Config \<Rightarrow> id_stream \<Rightarrow> int \<Rightarrow> string \<Rightarrow> txn \<Rightarrow> txn" where
  "tick_alloc cfg rnd now k t =
     (case map_of (t_allocs t) k of
        None \<Rightarrow> t
      | Some a \<Rightarrow>
          if Terminal (a_State a) \<or> a_State a = ACancelling then t
          else if a_PreferredWorkerID a \<noteq> ''''
             \<and> (case map_of (t_workers t) (a_PreferredWorkerID a) of
                  None \<Rightarrow> False
                | Some w \<Rightarrow> w_State w = WFailed \<or> w_State w = WLost \<or> w_State w = WStopped)
          then cancel cfg rnd ''server_failed'' now k t
          else if a_State a = AActive
          then (if list_ex (\<lambda>se. se_ReconnectUntil se > 0 \<and> se_ReconnectUntil se \<le> now) (a_Sessions a)
                then cancel cfg rnd ''reconnect_expired'' now k t else t)
          else if now \<ge> a_ExpiresAt a then cancel cfg rnd ''allocation_expired'' now k t
          else t)"

definition prune_allocs :: "int \<Rightarrow> FleetState \<Rightarrow> FleetState" where
  "prune_allocs now s =
     s\<lparr>s_Allocations := mfilter (\<lambda>aid a. \<not> (Terminal (a_State a) \<and> now - a_TerminalAt a > 86400))
                         (s_Allocations s)\<rparr>"

definition prune_cmds :: "int \<Rightarrow> FleetState \<Rightarrow> FleetState" where
  "prune_cmds now s =
     s\<lparr>s_Commands := mfilter (\<lambda>cid c. \<not> (c_Done c \<and> now - c_ExpiresAt c > 3600)) (s_Commands s)\<rparr>"

definition pending_work :: "FleetState \<Rightarrow> string \<Rightarrow> bool" where
  "pending_work s wid \<longleftrightarrow>
     list_ex (\<lambda>(k, a). (a_WorkerID a = wid \<or> a_PreferredWorkerID a = wid) \<and> \<not> Terminal (a_State a))
       (s_Allocations s)"

definition retired :: "int \<Rightarrow> FleetState \<Rightarrow> string \<Rightarrow> Worker \<Rightarrow> bool" where
  "retired now s wid w \<longleftrightarrow>
     (w_State w = WStopped \<or> w_State w = WFailed \<and> w_ProviderID w = '''') \<and> now - w_UpdatedAt w > 86400
     \<and> \<not> pending_work s wid"

text \<open>
  Whether a worker is deleted depends on itself and on the allocations, which this loop does not
  touch; its commands go with it.
\<close>

definition prune_workers :: "int \<Rightarrow> FleetState \<Rightarrow> FleetState" where
  "prune_workers now s =
     s\<lparr>s_Workers := mfilter (\<lambda>wid w. \<not> retired now s wid w) (s_Workers s),
       s_Commands := mfilter (\<lambda>cid c. \<not> list_ex (\<lambda>(wid, w). wid = c_WorkerID c \<and> retired now s wid w)
                                          (s_Workers s)) (s_Commands s)\<rparr>"

definition tick_reserve :: "Config \<Rightarrow> id_stream \<Rightarrow> int \<Rightarrow> string \<Rightarrow> txn \<Rightarrow> txn result" where
  "tick_reserve cfg rnd now k t =
     (case map_of (t_allocs t) k of
        None \<Rightarrow> Inr t
      | Some a \<Rightarrow>
          if a_State a = APrepared
          then (case map_of (t_workers t) (a_WorkerID a) of
                  None \<Rightarrow> Inr t
                | Some w \<Rightarrow> if eligible cfg w now then reserve_at cfg rnd now (a_UserIDs a) k t else Inr t)
          else Inr t)"

definition waiting_keys :: "range_fn \<Rightarrow> FleetState \<Rightarrow> string list" where
  "waiting_keys ro s =
     map fst (sort_key (\<lambda>(k, a). (a_PreferredWorkerID a = '''', a_CreatedAt a, a_ID a))
       (filter (\<lambda>(k, a). a_State a = AWaiting) (range_entries ro 5 (s_Allocations s))))"

text \<open>The inner loop over the workers: the fullest eligible worker that has room, ties by identifier.\<close>

definition fits :: "Config \<Rightarrow> int \<Rightarrow> Allocation \<Rightarrow> FleetState \<Rightarrow> Worker \<Rightarrow> bool" where
  "fits cfg now a s w \<longleftrightarrow>
     \<not> (\<not> eligible cfg w now \<or> (a_PreferredWorkerID a \<noteq> '''' \<and> a_PreferredWorkerID a \<noteq> w_ID w))
     \<and> Occupied s (w_ID w) < w_MaxRooms w"

definition better :: "FleetState \<Rightarrow> Worker \<Rightarrow> Worker option \<times> int \<Rightarrow> bool" where
  "better s w cb \<longleftrightarrow> Occupied s (w_ID w) > snd cb
     \<or> (Occupied s (w_ID w) = snd cb \<and> (case fst cb of None \<Rightarrow> True | Some c \<Rightarrow> w_ID w < w_ID c))"

definition choose_step ::
  "Config \<Rightarrow> int \<Rightarrow> Allocation \<Rightarrow> FleetState \<Rightarrow> Worker \<Rightarrow> Worker option \<times> int \<Rightarrow> Worker option \<times> int" where
  "choose_step cfg now a s w cb =
     (if fits cfg now a s w \<and> better s w cb then (Some w, Occupied s (w_ID w)) else cb)"

definition choose_worker ::
  "Config \<Rightarrow> range_fn \<Rightarrow> nat \<Rightarrow> int \<Rightarrow> Allocation \<Rightarrow> FleetState \<Rightarrow> Worker option" where
  "choose_worker cfg ro site now a s =
     fst (fold (\<lambda>(k, w). choose_step cfg now a s w) (range_entries ro site (s_Workers s)) (None, - 1))"

definition prepare_command :: "Allocation \<Rightarrow> string \<Rightarrow> int \<Rightarrow> string \<Rightarrow> Command" where
  "prepare_command a wid expires i =
     \<lparr>c_ID = i, c_Type = PrepareRoom, c_WorkerID = wid, c_RoomID = a_RoomID a, c_AllocationID = a_ID a,
      c_Epoch = a_Epoch a, c_UserIDs = a_UserIDs a, c_ExpiresAt = expires, c_Done = False,
      c_Attempts = 0, c_NotBefore = 0\<rparr>"

definition place :: "Config \<Rightarrow> id_stream \<Rightarrow> int \<Rightarrow> string \<Rightarrow> Allocation \<Rightarrow> Worker \<Rightarrow> txn \<Rightarrow> txn" where
  "place cfg rnd now k a w t =
     new_command rnd (prepare_command a (w_ID w) (now + cfg_PrepareTimeout cfg))
       (upd_worker (w_ID w) (\<lambda>w. w\<lparr>w_IdleSince := 0\<rparr>)
         (upd_alloc k (\<lambda>a. touch (a\<lparr>a_WorkerID := w_ID w, a_State := APreparing,
                                    a_ExpiresAt := now + cfg_PrepareTimeout cfg\<rparr>)) t))"

definition tick_place ::
  "Config \<Rightarrow> range_fn \<Rightarrow> id_stream \<Rightarrow> int \<Rightarrow> nat \<times> string \<Rightarrow> txn \<Rightarrow> txn" where
  "tick_place cfg ro rnd now ik t =
     (case map_of (t_allocs t) (snd ik) of
        None \<Rightarrow> t
      | Some a \<Rightarrow>
          (case choose_worker cfg ro (10 + fst ik) now a (t_s t) of
             None \<Rightarrow> t
           | Some w \<Rightarrow> place cfg rnd now (snd ik) a w t))"

definition queue_length :: "FleetState \<Rightarrow> int" where
  "queue_length s =
     int (mcount (\<lambda>a. a_State a = AWaiting \<and> a_PreferredWorkerID a = '''') (s_Allocations s))"

definition ready_count :: "FleetState \<Rightarrow> int" where
  "ready_count s = int (mcount (\<lambda>w. w_State w = WReady \<and> \<not> w_Draining w) (s_Workers s))"

definition boot_capacity :: "Config \<Rightarrow> int \<Rightarrow> FleetState \<Rightarrow> int" where
  "boot_capacity cfg now s =
     (\<Sum>(k, w) \<leftarrow> s_Workers s.
        if (w_State w = WRequested \<or> w_State w = WStarting \<or> w_State w = WLaunching
            \<or> w_State w = WBootstrapping) \<and> now - w_CreatedAt w < cfg_LaunchTimeout cfg
        then w_MaxRooms w else 0)"

definition wants_worker :: "Config \<Rightarrow> int \<Rightarrow> FleetState \<Rightarrow> bool" where
  "wants_worker cfg now s \<longleftrightarrow>
     s_CreationBlockedReason s = '''' \<and> now \<ge> s_NextCreateAt s \<and> liveCount s < cfg_MaxInstances cfg
     \<and> (queue_length s > boot_capacity cfg now s
        \<or> (ready_count s < cfg_MinInstances cfg \<and> boot_capacity cfg now s = 0))"

definition scale_up :: "Config \<Rightarrow> id_stream \<Rightarrow> int \<Rightarrow> txn \<Rightarrow> txn" where
  "scale_up cfg rnd now t =
     (if wants_worker cfg now (t_s t)
      then (let t1 = snd (newWorker cfg rnd now (p_RoomsPerInstance (policy cfg (t_s t))) t)
            in t1\<lparr>t_s := (t_s t1)\<lparr>s_NextCreateAt := now + 1\<rparr>\<rparr>)
      else t)"

definition idle_clock :: "int \<Rightarrow> int \<Rightarrow> Worker \<Rightarrow> Worker" where
  "idle_clock now occupied w =
     (if occupied = 0 then (if w_IdleSince w = 0 then w\<lparr>w_IdleSince := now\<rparr> else w)
      else w\<lparr>w_IdleSince := 0\<rparr>)"

definition drained :: "Config \<Rightarrow> int \<Rightarrow> int \<Rightarrow> Worker \<Rightarrow> bool" where
  "drained cfg now occupied w \<longleftrightarrow>
     w_State w = WDraining \<and> w_DrainAck w \<and> occupied = 0 \<and> w_PlayerCount w = 0
     \<and> workFinished (w_Metrics w) \<and> now - w_LastHeartbeat w \<le> cfg_HeartbeatTimeout cfg"

definition stop_if_drained :: "Config \<Rightarrow> int \<Rightarrow> int \<Rightarrow> Worker \<Rightarrow> Worker" where
  "stop_if_drained cfg now occupied w =
     (if drained cfg now occupied w then w\<lparr>w_State := WStopping, w_NextCheckAt := now\<rparr> else w)"

text \<open>The last loop; \<open>ready\<close> is decremented by each drain, so it depends on the order of the loop.\<close>

definition tick_idle ::
  "Config \<Rightarrow> id_stream \<Rightarrow> int \<Rightarrow> int \<Rightarrow> string \<Rightarrow> int \<times> txn \<Rightarrow> int \<times> txn" where
  "tick_idle cfg rnd now q k rt =
     (case map_of (t_workers (snd rt)) k of
        None \<Rightarrow> rt
      | Some w \<Rightarrow>
          (let ready = fst rt; t = snd rt; occupied = Occupied (t_s t) (w_ID w);
               (ready1, t1) =
                 (if w_State w = WReady \<and> \<not> w_Draining w
                  then (let w1 = idle_clock now occupied w; t0 = upd_worker k (idle_clock now occupied) t
                        in if occupied = 0 \<and> now - w_IdleSince w1 \<ge> cfg_IdleSeconds cfg
                              \<and> ready > cfg_MinInstances cfg \<and> q = 0
                           then (ready - 1, beginDrain rnd now k t0)
                           else (ready, t0))
                  else (ready, t))
           in (ready1, upd_worker k (stop_if_drained cfg now occupied) t1)))"

definition with_state :: "(FleetState \<Rightarrow> FleetState) \<Rightarrow> txn \<Rightarrow> txn" where
  "with_state f t = t\<lparr>t_s := f (t_s t)\<rparr>"

definition tick_expire :: "Config \<Rightarrow> range_fn \<Rightarrow> id_stream \<Rightarrow> int \<Rightarrow> txn \<Rightarrow> txn" where
  "tick_expire cfg ro rnd now t =
     (let t1 = fold (tick_worker cfg rnd now) (ro 2 (mkeys (t_workers t))) t;
          t2 = fold (tick_alloc cfg rnd now) (ro 3 (mkeys (t_allocs t1))) t1
      in with_state (prune_workers now) (with_state (prune_cmds now) (with_state (prune_allocs now) t2)))"

definition tick_reserves :: "Config \<Rightarrow> range_fn \<Rightarrow> id_stream \<Rightarrow> int \<Rightarrow> txn \<Rightarrow> txn result" where
  "tick_reserves cfg ro rnd now t = foldE (tick_reserve cfg rnd now) (ro 4 (mkeys (t_allocs t))) t"

definition tick_places :: "Config \<Rightarrow> range_fn \<Rightarrow> id_stream \<Rightarrow> int \<Rightarrow> txn \<Rightarrow> txn" where
  "tick_places cfg ro rnd now t =
     fold (tick_place cfg ro rnd now) (enumerate 0 (waiting_keys ro (t_s t))) t"

definition tick_scale :: "Config \<Rightarrow> range_fn \<Rightarrow> id_stream \<Rightarrow> int \<Rightarrow> txn \<Rightarrow> txn" where
  "tick_scale cfg ro rnd now t =
     (let q = queue_length (t_s t); ready = ready_count (t_s t); t1 = scale_up cfg rnd now t
      in snd (fold (tick_idle cfg rnd now q) (ro 6 (mkeys (t_workers t1))) (ready, t1)))"

definition Tick :: "Config \<Rightarrow> range_fn \<Rightarrow> id_stream \<Rightarrow> string \<Rightarrow> int \<Rightarrow> txn \<Rightarrow> txn result" where
  "Tick cfg ro rnd owner now t =
     bindE (lease_step owner now (t_s t)) (\<lambda>s1.
     bindE (tick_reserves cfg ro rnd now (tick_expire cfg ro rnd now (t\<lparr>t_s := s1\<rparr>))) (\<lambda>t2.
     Inr (tick_scale cfg ro rnd now (tick_places cfg ro rnd now t2))))"

subsection \<open>Choosing the provider operation of a tick\<close>

definition due :: "int \<Rightarrow> Worker \<Rightarrow> bool" where
  "due now w \<longleftrightarrow> w_State w = WRequested
     \<or> (now \<ge> w_NextCheckAt w \<and>
        (w_State w = WUnknown \<or> w_State w = WStopping
         \<or> (w_ProviderID w \<noteq> '''' \<and>
            (w_State w = WLaunching \<or> w_State w = WBootstrapping \<or> w_State w = WReady
             \<or> w_State w = WSuspect \<or> w_State w = WDraining \<or> w_State w = WLost))))"

definition due_at :: "Worker \<Rightarrow> int" where
  "due_at w = (if w_NextCheckAt w = 0 then w_UpdatedAt w else w_NextCheckAt w)"

definition due_ids :: "int \<Rightarrow> FleetState \<Rightarrow> string list" where
  "due_ids now s =
     take 1 (map fst (sort_key (\<lambda>(wid, w). (due_at w, wid)) (filter (\<lambda>(wid, w). due now w) (s_Workers s))))"

datatype provider_op = OpStart | OpReconcile | OpPoll | OpStop

definition dispatch :: "int \<Rightarrow> Worker \<Rightarrow> provider_op option" where
  "dispatch now w =
     (case w_State w of
        WRequested \<Rightarrow> Some OpStart
      | WUnknown \<Rightarrow> if now \<ge> w_NextCheckAt w then Some OpReconcile else None
      | WStopping \<Rightarrow> if now \<ge> w_NextCheckAt w then Some OpStop else None
      | WStarting \<Rightarrow> None | WStopped \<Rightarrow> None | WFailed \<Rightarrow> None
      | _ \<Rightarrow> if w_ProviderID w \<noteq> '''' \<and> now \<ge> w_NextCheckAt w then Some OpPoll else None)"

definition renewLease :: "string \<Rightarrow> int \<Rightarrow> FleetState \<Rightarrow> FleetState result" where
  "renewLease owner now s =
     (if s_Leader s \<noteq> owner \<or> s_LeaseUntil s \<le> now then Inl ErrLease
      else Inr (s\<lparr>s_LeaseUntil := now + 30\<rparr>))"

subsection \<open>Creating an instance\<close>

definition startRequest :: "Config \<Rightarrow> mac_fn \<Rightarrow> Worker \<Rightarrow> StartRequest" where
  "startRequest cfg mac w =
     \<lparr>sr_CPUResources = Some \<lparr>cr_Request = w_CPURequest w, cr_Limit = w_CPULimit w\<rparr>,
      sr_Name = ''nag-'' @ w_ID w, sr_Region = cfg_Region cfg,
      sr_CustomData = [(''fleet_owner'', AnyString (cfg_DeploymentID cfg)),
                       (''worker_id'', AnyString (w_ID w)),
                       (''build_hash'', AnyString (cfg_BuildHash cfg))],
      sr_EnvironmentVariables = fold (\<lambda>(name, value). mput name value) (cfg_ServerEnvironment cfg)
        [(''AGONES_FLEET_WORKER_ID'', w_ID w),
         (''AGONES_FLEET_BOOTSTRAP_TOKEN'', encoded (derive mac (cfg_SigningKey cfg) (''bootstrap:'' @ w_ID w))),
         (''AGONES_FLEET_ADMISSION_KEY'', encoded (derive mac (cfg_SigningKey cfg) (''admission:'' @ w_ID w))),
         (''AGONES_FLEET_CONTROL_URL'', cfg_ControlURL cfg),
         (''AGONES_FLEET_BUILD_HASH'', cfg_BuildHash cfg),
         (''AGONES_FLEET_MAX_ROOMS'', itoa (w_MaxRooms w)),
         (''AGONES_FLEET_GAME_PORT'', itoa (k_GamePort (cfg_Kubernetes cfg))),
         (''AGONES_FLEET_GAME_PORT_NAME'', cfg_PortName cfg)]\<rparr>"

definition providerLifetime ::
  "Config \<Rightarrow> (string \<Rightarrow> int option) \<Rightarrow> int \<Rightarrow> Instance \<Rightarrow> string \<Rightarrow> txn \<Rightarrow> txn" where
  "providerLifetime cfg parse_time now inst k t =
     (if in_TTL inst \<le> 0 then t
      else let t1 = upd_worker k (\<lambda>w. w\<lparr>w_ProviderExpiresAt :=
                      (case parse_time (in_StartedAt inst) of None \<Rightarrow> w_CreatedAt w | Some p \<Rightarrow> p)
                      + in_TTL inst\<rparr>) t
      in if in_TTL inst \<le> cfg_MinLifetimeForAdmission cfg + cfg_LaunchTimeout cfg
         then upd_worker k (\<lambda>w. if w_State w = WLaunching \<or> w_State w = WBootstrapping
                                then w\<lparr>w_State := WStopping, w_NextCheckAt := now\<rparr> else w)
                (with_state (\<lambda>s. s\<lparr>s_CreationBlockedReason := ''provider_lifetime_too_short''\<rparr>) t1)
         else t1)"

definition start_begin :: "string \<Rightarrow> int \<Rightarrow> string \<Rightarrow> txn \<Rightarrow> txn result" where
  "start_begin owner now k t =
     (if s_Leader (t_s t) \<noteq> owner \<or> s_LeaseUntil (t_s t) \<le> now then Inl ErrLease
      else case map_of (t_workers t) k of
        None \<Rightarrow> Inl NilPanic
      | Some w \<Rightarrow>
          if w_State w \<noteq> WRequested then Inl ErrBusy
          else Inr (upd_worker k (\<lambda>w. w\<lparr>w_State := WStarting, w_UpdatedAt := now\<rparr>) t))"

definition review_reason :: string where
  "review_reason = ''provider_configuration_requires_review''"

definition start_rejected :: "APIError \<Rightarrow> bool" where
  "start_rejected e \<longleftrightarrow> ae_StatusCode e \<in> {400, 401, 403, 404, 422}
     \<or> ae_Reason e = ''token_file_unavailable'' \<or> ae_Reason e = ''invalid_token_file''"

definition start_failed :: "int \<Rightarrow> prov_error \<Rightarrow> string \<Rightarrow> txn \<Rightarrow> txn" where
  "start_failed now err k t =
     (let conflict = api_error_is (\<lambda>e. ae_StatusCode e = 409) err;
          t1 = (if IsOutcomeUnknown err \<or> conflict
                then (let t0 = upd_worker k (\<lambda>w. w\<lparr>w_State := WUnknown,
                                 w_Error := (if conflict then ''create_identity_or_config_conflict''
                                             else ''create_outcome_unknown''),
                                 w_NextCheckAt := now + 1\<rparr>) t
                      in if conflict
                         then with_state (\<lambda>s. s\<lparr>s_CreationBlockedReason := review_reason\<rparr>) t0 else t0)
                else (let t0 = upd_worker k (\<lambda>w. w\<lparr>w_State := WFailed,
                                 w_Error := ''provider_create_failed''\<rparr>) t
                      in if api_error_is start_rejected err
                         then with_state (\<lambda>s. s\<lparr>s_CreationBlockedReason := review_reason\<rparr>) t0 else t0))
      in with_state (\<lambda>s. s\<lparr>s_NextCreateAt := now + 15\<rparr>) t1)"

text \<open>\<open>now\<close> is read when \<^verbatim>\<open>start\<close> begins; \<open>now1\<close>, \<open>now2\<close>, \<open>now3\<close> during the closing transaction.\<close>

definition start_finish ::
  "Config \<Rightarrow> (string \<Rightarrow> int option) \<Rightarrow> string \<Rightarrow> int \<Rightarrow> int \<Rightarrow> int \<Rightarrow> int \<Rightarrow> prov_error + Instance
     \<Rightarrow> string \<Rightarrow> txn \<Rightarrow> txn result" where
  "start_finish cfg parse_time owner now now1 now2 now3 res k t =
     (if s_Leader (t_s t) \<noteq> owner then Inr t
      else case map_of (t_workers t) k of
        None \<Rightarrow> Inl NilPanic
      | Some _ \<Rightarrow>
          (let t1 = upd_worker k (\<lambda>w. w\<lparr>w_UpdatedAt := now1\<rparr>) t
           in case res of
                Inl err \<Rightarrow> Inr (start_failed now err k t1)
              | Inr inst \<Rightarrow>
                  Inr (providerLifetime cfg parse_time now3 inst k
                    (upd_worker k (\<lambda>w. w\<lparr>w_ProviderID := in_InstanceID inst, w_State := WLaunching,
                                         w_NextCheckAt := now2\<rparr>) t1))))"

subsection \<open>Endpoints and ownership\<close>

definition endpoint :: "Config \<Rightarrow> Instance \<Rightarrow> (string \<times> int) result" where
  "endpoint cfg inst =
     (case find (\<lambda>p. po_Name p = cfg_PortName cfg) (in_NetworkPorts inst) of
        None \<Rightarrow> Inl (Errorf ''game UDP port missing'')
      | Some p \<Rightarrow>
          if po_Protocol p \<noteq> ''udp'' \<or> po_Host p = '''' \<or> po_ExternalPort p < 1 \<or> po_ExternalPort p > 65535
          then Inl (Errorf ''invalid game endpoint'')
          else Inr (po_Host p, po_ExternalPort p))"

definition owned :: "Config \<Rightarrow> Instance \<Rightarrow> Worker \<Rightarrow> bool" where
  "owned cfg inst w \<longleftrightarrow>
     map_of (in_CustomData inst) ''fleet_owner'' = Some (AnyString (cfg_DeploymentID cfg))
     \<and> map_of (in_CustomData inst) ''worker_id'' = Some (AnyString (w_ID w))"

subsection \<open>Reconciling an unknown create\<close>

text \<open>
  What the provider calls of \<^verbatim>\<open>reconcileUnknown\<close> yield: the listing, then, unless several instances
  match, the same create again.
\<close>

definition owned_instances :: "Config \<Rightarrow> Worker \<Rightarrow> Instance list \<Rightarrow> Instance list" where
  "owned_instances cfg w instances = filter (\<lambda>i. owned cfg i w) instances"

definition reissues :: "Config \<Rightarrow> Worker \<Rightarrow> prov_error + Instance list \<Rightarrow> bool" where
  "reissues cfg w listing =
     (case listing of Inl _ \<Rightarrow> False | Inr is \<Rightarrow> length (owned_instances cfg w is) \<le> 1)"

definition reconcile_matches ::
  "Config \<Rightarrow> Worker \<Rightarrow> prov_error + Instance list \<Rightarrow> prov_error + Instance
     \<Rightarrow> prov_error + Instance list" where
  "reconcile_matches cfg w listing started =
     (case listing of
        Inl err \<Rightarrow> Inl err
      | Inr instances \<Rightarrow>
          if reissues cfg w listing
          then (case started of Inl err \<Rightarrow> Inl err | Inr result \<Rightarrow> Inr [result])
          else Inr (owned_instances cfg w instances))"

definition reconcile_rejected :: "APIError \<Rightarrow> bool" where
  "reconcile_rejected e \<longleftrightarrow> ae_StatusCode e \<in> {400, 401, 403, 409, 422}"

definition reconcile_finish ::
  "Config \<Rightarrow> (string \<Rightarrow> int option) \<Rightarrow> string \<Rightarrow> int \<Rightarrow> int \<Rightarrow> prov_error + Instance list \<Rightarrow> string
     \<Rightarrow> txn \<Rightarrow> txn" where
  "reconcile_finish cfg parse_time owner now now1 outcome k t =
     (case map_of (t_workers t) k of
        None \<Rightarrow> t
      | Some w \<Rightarrow>
          if s_Leader (t_s t) \<noteq> owner \<or> w_State w \<noteq> WUnknown then t
          else let t1 = upd_worker k (\<lambda>w. w\<lparr>w_NextCheckAt := now + cfg_ProviderPollSeconds cfg\<rparr>) t
          in case outcome of
               Inl err \<Rightarrow>
                 (let t2 = upd_worker k (\<lambda>w. w\<lparr>w_Error := ''create_still_unknown''\<rparr>) t1
                  in if \<not> IsOutcomeUnknown err \<and> api_error_is reconcile_rejected err
                     then with_state (\<lambda>s. s\<lparr>s_CreationBlockedReason := review_reason\<rparr>) t2 else t2)
             | Inr [m] \<Rightarrow>
                 providerLifetime cfg parse_time now1 m k
                   (upd_worker k (\<lambda>w. w\<lparr>w_ProviderID := in_InstanceID m, w_State := WLaunching,
                                        w_Error := '''', w_NextCheckAt := now\<rparr>) t1)
             | Inr [] \<Rightarrow> t1
             | Inr _ \<Rightarrow> upd_worker k (\<lambda>w. w\<lparr>w_Error := ''multiple_instances_require_operator_review''\<rparr>) t1)"

subsection \<open>Polling an instance\<close>

definition not_running :: "Worker \<Rightarrow> Worker" where
  "not_running w =
     w\<lparr>w_ProviderReady := False,
       w_State := (if w_State w = WReady \<or> w_State w = WSuspect then WSuspect else w_State w),
       w_Host := '''', w_Port := 0\<rparr>"

definition poll_running :: "Config \<Rightarrow> int \<Rightarrow> Instance \<Rightarrow> Worker \<Rightarrow> Worker" where
  "poll_running cfg now inst w =
     (case endpoint cfg inst of
        Inl _ \<Rightarrow> w\<lparr>w_Error := ''invalid_provider_endpoint'', w_Host := '''', w_Port := 0,
                   w_ProviderReady := False,
                   w_State := (if w_State w = WReady then WSuspect else w_State w)\<rparr>
      | Inr (host, port) \<Rightarrow>
          (let w1 = w\<lparr>w_Host := host, w_Port := port, w_ProviderReady := True\<rparr>
           in if w_Ready w1 \<and> w_BootID w1 \<noteq> '''' \<and> now - w_LastHeartbeat w1 \<le> cfg_HeartbeatTimeout cfg
              then w1\<lparr>w_State := (if w_Draining w1 then WDraining else WReady), w_Error := ''''\<rparr>
              else if w_State w1 = WLaunching \<or> w_State w1 = WBootstrapping
              then w1\<lparr>w_State := WBootstrapping\<rparr>
              else if \<not> w_Draining w1 then w1\<lparr>w_State := WSuspect\<rparr>
              else w1))"

definition poll_state :: "Config \<Rightarrow> int \<Rightarrow> Instance \<Rightarrow> Worker \<Rightarrow> Worker" where
  "poll_state cfg now inst w =
     (if w_State w = WLost then w
      else if now - w_CreatedAt w \<ge> cfg_LaunchTimeout cfg
         \<and> (w_State w = WLaunching \<or> w_State w = WBootstrapping)
      then w\<lparr>w_State := WStopping, w_Error := ''launch_timeout'', w_NextCheckAt := now\<rparr>
      else if in_Status inst = ''running'' then poll_running cfg now inst w
      else w)"

definition poll_apply :: "Config \<Rightarrow> int \<Rightarrow> Instance \<Rightarrow> string \<Rightarrow> txn \<Rightarrow> txn" where
  "poll_apply cfg now inst k t =
     (case map_of (t_workers t) k of
        None \<Rightarrow> t
      | Some w \<Rightarrow>
          if w_State w = WStopping then t
          else if in_Status inst = ''unhealthy''
          then upd_worker k (\<lambda>w. w\<lparr>w_State := WStopping, w_Draining := False, w_NextCheckAt := now\<rparr>)
                 (lost ''provider_unhealthy'' now k t)
          else let t1 = (if in_Status inst \<noteq> ''running'' then upd_worker k not_running t else t)
          in if in_Status inst = ''stopped'' then stopped now k t1
             else upd_worker k (poll_state cfg now inst) t1)"

definition foreign :: "Config \<Rightarrow> Instance \<Rightarrow> Worker \<Rightarrow> bool" where
  "foreign cfg inst w \<longleftrightarrow> \<not> owned cfg inst w
     \<or> (map_of (in_CustomData inst) ''build_hash'' \<noteq> None
        \<and> map_of (in_CustomData inst) ''build_hash'' \<noteq> Some (AnyString (cfg_BuildHash cfg)))"

text \<open>\<open>w\<close> is the worker of the snapshot that the tick took before calling the provider.\<close>

definition poll_finish ::
  "Config \<Rightarrow> (string \<Rightarrow> int option) \<Rightarrow> string \<Rightarrow> int \<Rightarrow> int \<Rightarrow> prov_error + Instance \<Rightarrow> Worker
     \<Rightarrow> txn \<Rightarrow> txn result" where
  "poll_finish cfg parse_time owner now now1 res w t =
     (if s_Leader (t_s t) \<noteq> owner then Inr t
      else case map_of (t_workers t) (w_ID w) of
        None \<Rightarrow> Inl NilPanic
      | Some current \<Rightarrow>
          if w_ProviderID current \<noteq> w_ProviderID w then Inr t
          else let t1 = upd_worker (w_ID w) (\<lambda>w. w\<lparr>w_NextCheckAt := now + cfg_ProviderPollSeconds cfg\<rparr>) t
          in Inr (case res of
               Inl err \<Rightarrow>
                 if api_error_is (\<lambda>e. ae_StatusCode e = 404) err then stopped now (w_ID w) t1
                 else if api_error_is (\<lambda>e. ae_StatusCode e = 409
                                         \<and> ae_Reason e = ''resource_identity_mismatch'') err
                 then lost ''provider_ownership_mismatch'' now (w_ID w) t1
                 else upd_worker (w_ID w) (\<lambda>w. w\<lparr>w_Error := ''provider_query_failed''\<rparr>) t1
             | Inr inst \<Rightarrow>
                 if foreign cfg inst w then lost ''provider_ownership_mismatch'' now (w_ID w) t1
                 else poll_apply cfg now inst (w_ID w)
                        (providerLifetime cfg parse_time now1 inst (w_ID w) t1)))"

subsection \<open>Stopping an instance\<close>

definition stop_begin :: "Config \<Rightarrow> string \<Rightarrow> int \<Rightarrow> int \<Rightarrow> Worker \<Rightarrow> txn \<Rightarrow> txn result" where
  "stop_begin cfg owner now now1 w t =
     (if s_Leader (t_s t) \<noteq> owner \<or> s_LeaseUntil (t_s t) \<le> now then Inl ErrLease
      else case map_of (t_workers t) (w_ID w) of
        None \<Rightarrow> Inl ErrBusy
      | Some current \<Rightarrow>
          if w_State current \<noteq> WStopping \<or> w_ProviderID current \<noteq> w_ProviderID w then Inl ErrBusy
          else if w_Draining current
             \<and> (\<not> w_DrainAck current \<or> Occupied (t_s t) (w_ID w) > 0 \<or> w_PlayerCount current > 0
                \<or> \<not> workFinished (w_Metrics current)
                \<or> now1 - w_LastHeartbeat current > cfg_HeartbeatTimeout cfg)
          then Inl ErrBusy
          else Inr t)"

definition stop_failed :: "Config \<Rightarrow> string \<Rightarrow> int \<Rightarrow> string \<Rightarrow> txn \<Rightarrow> txn result" where
  "stop_failed cfg owner now k t =
     (if s_Leader (t_s t) \<noteq> owner then Inr t
      else case map_of (t_workers t) k of
        None \<Rightarrow> Inl NilPanic
      | Some _ \<Rightarrow>
          Inr (upd_worker k (\<lambda>w. w\<lparr>w_Error := ''provider_stop_failed'',
                                   w_NextCheckAt := now + cfg_ProviderPollSeconds cfg\<rparr>) t))"

definition stop_confirmed :: "Config \<Rightarrow> Worker \<Rightarrow> prov_error + Instance \<Rightarrow> bool" where
  "stop_confirmed cfg w res =
     (case res of
        Inl err \<Rightarrow> api_error_is (\<lambda>e. ae_StatusCode e = 404) err
      | Inr inst \<Rightarrow> in_Status inst = ''stopped'' \<and> owned cfg inst w)"

definition stop_finish ::
  "Config \<Rightarrow> string \<Rightarrow> int \<Rightarrow> prov_error + Instance \<Rightarrow> Worker \<Rightarrow> txn \<Rightarrow> txn result" where
  "stop_finish cfg owner now res w t =
     (if s_Leader (t_s t) \<noteq> owner then Inr t
      else case map_of (t_workers t) (w_ID w) of
        None \<Rightarrow> Inl NilPanic
      | Some _ \<Rightarrow>
          (let t1 = upd_worker (w_ID w) (\<lambda>w. w\<lparr>w_NextCheckAt := now + cfg_ProviderPollSeconds cfg\<rparr>) t
           in Inr (if stop_confirmed cfg w res then stopped now (w_ID w) t1
                   else upd_worker (w_ID w) (\<lambda>w. w\<lparr>w_Error := ''awaiting_stop_confirmation''\<rparr>) t1)))"

subsection \<open>Callbacks and notifications\<close>

datatype delivery =
    CreateSuccess string InstanceInfo "(string \<times> string) list"
  | CreateTimeout string

text \<open>
  \<^verbatim>\<open>deliverCallbacks\<close> on the snapshot \<open>s\<close>: the callbacks that fire, and the map that remains.
\<close>

definition callback_for :: "Config \<Rightarrow> int \<Rightarrow> FleetState \<Rightarrow> string \<Rightarrow> string \<Rightarrow> delivery option" where
  "callback_for cfg now s wid cb =
     (case map_of (s_Workers s) wid of
        None \<Rightarrow> None
      | Some w \<Rightarrow>
          (let a = (if w_InitialAllocationID w \<noteq> '''' then map_of (s_Allocations s) (w_InitialAllocationID w)
                    else None)
           in if w_State w = WReady
                 \<and> (case a of None \<Rightarrow> True | Some a \<Rightarrow> a_State a = AAssigned \<or> a_State a = AActive)
              then Some (CreateSuccess cb (instanceInfo w)
                          (case a of None \<Rightarrow> [] | Some a \<Rightarrow> sessionInfo a))
              else if w_State w = WFailed \<or> w_State w = WStopped \<or> w_State w = WLost
                 \<or> now - w_CreatedAt w > cfg_LaunchTimeout cfg
              then Some (CreateTimeout cb)
              else None))"

definition deliverCallbacks ::
  "Config \<Rightarrow> range_fn \<Rightarrow> int \<Rightarrow> FleetState \<Rightarrow> string gomap \<Rightarrow> delivery list \<times> string gomap" where
  "deliverCallbacks cfg ro now s callbacks =
     (List.map_filter (\<lambda>(wid, cb). callback_for cfg now s wid cb) (range_entries ro 7 callbacks),
      mfilter (\<lambda>wid cb. callback_for cfg now s wid cb = None) callbacks)"

definition mark_notified :: "string \<Rightarrow> int \<Rightarrow> FleetState \<Rightarrow> FleetState" where
  "mark_notified aid revision s =
     s\<lparr>s_Allocations := mupd aid (\<lambda>live. if a_Revision live = revision then live\<lparr>a_NotifiedRevision := revision\<rparr>
                                         else live) (s_Allocations s)\<rparr>"

text \<open>
  \<^verbatim>\<open>notify\<close>: the notifications of the snapshot, in loop order, and the transaction each successful
  one commits. \<open>send\<close> says whether a user's notification went out.
\<close>

definition unnotified :: "range_fn \<Rightarrow> FleetState \<Rightarrow> Allocation list" where
  "unnotified ro s =
     filter (\<lambda>a. \<not> a_NotifiedRevision a \<ge> a_Revision a) (map snd (range_entries ro 8 (s_Allocations s)))"

definition notify :: "range_fn \<Rightarrow> (Allocation \<Rightarrow> string \<Rightarrow> bool) \<Rightarrow> FleetState \<Rightarrow> (FleetState \<Rightarrow> FleetState) list" where
  "notify ro send s =
     map (\<lambda>a. mark_notified (a_ID a) (a_Revision a))
       (filter (\<lambda>a. list_all (send a) (a_UserIDs a)) (unnotified ro s))"

end
