(* ===== verification/Fleet_Timing.thy ===== *)
theory Fleet_Timing
  imports Fleet_State
begin

text \<open>
  Validation of the metrics a game process reports: \<^verbatim>\<open>pkg/fleetmanager/timing.go\<close> and
  \<^verbatim>\<open>validMetrics\<close> of \<^verbatim>\<open>pkg/fleetmanager/http.go\<close>.
\<close>

definition worker_count_ok :: "int option \<Rightarrow> bool" where
  "worker_count_ok n = opt_all (\<lambda>n. 1 \<le> n \<and> n \<le> 8) n"

definition window_value_ok :: "float64 option \<Rightarrow> bool" where
  "window_value_ok v = (case v of None \<Rightarrow> False | Some x \<Rightarrow> \<not> x < Fin 0 \<and> \<not> IsNaN x \<and> \<not> IsInf x)"

definition window_ok :: "LatencyWindow \<Rightarrow> bool" where
  "window_ok w \<longleftrightarrow>
     lw_WindowSeconds w = 60 \<and> 0 \<le> lw_Count w \<and> lw_Count w \<le> 100000
     \<and> list_all (\<lambda>v. if lw_Count w = 0 then v = None else window_value_ok v)
         [lw_P50 w, lw_P95 w, lw_P99 w, lw_Max w, lw_LastSampleAgeSeconds w]
     \<and> (lw_Count w > 0 \<longrightarrow>
          \<not> (the (lw_P50 w) > the (lw_P95 w) \<or> the (lw_P95 w) > the (lw_P99 w)
             \<or> the (lw_P99 w) > the (lw_Max w) \<or> the (lw_LastSampleAgeSeconds w) > Fin 60))"

definition validTimingMetrics :: "Metrics \<Rightarrow> bool" where
  "validTimingMetrics m \<longleftrightarrow>
     list_all worker_count_ok [me_SimulationWorkers m, me_AuditWorkers m]
     \<and> list_all (opt_all window_ok) (metrics_windows m)"

definition validMetrics :: "Metrics \<Rightarrow> bool" where
  "validMetrics m \<longleftrightarrow> validTimingMetrics m
     \<and> me_SimulationPending m \<ge> 0 \<and> me_SimulationActive m \<ge> 0 \<and> me_AuditActive m \<ge> 0
     \<and> me_AuditPending m \<ge> 0 \<and> me_PendingResults m \<ge> 0 \<and> me_MemoryBytes m \<ge> 0
     \<and> me_SimulationOldestSeconds m \<ge> Fin 0 \<and> \<not> IsNaN (me_SimulationOldestSeconds m)
     \<and> \<not> IsInf (me_SimulationOldestSeconds m)
     \<and> me_FrameP99MS m \<ge> Fin 0 \<and> \<not> IsNaN (me_FrameP99MS m) \<and> \<not> IsInf (me_FrameP99MS m)"

lemma window_value_ok_finite: "window_value_ok v \<Longrightarrow> opt_all finite_float v"
  by (cases v) (auto simp: window_value_ok_def finite_float_iff)

lemma window_ok_finite: "window_ok w \<Longrightarrow> window_finite w"
  by (auto simp: window_ok_def window_finite_def window_value_ok_finite split: if_splits)

lemma opt_all_mono: "opt_all P v \<Longrightarrow> (\<And>x. P x \<Longrightarrow> Q x) \<Longrightarrow> opt_all Q v"
  by (cases v) auto

lemma validMetrics_finite: "validMetrics m \<Longrightarrow> metrics_finite m"
  by (auto simp: validMetrics_def validTimingMetrics_def metrics_finite_def finite_float_iff
      list_all_iff intro: opt_all_mono[OF _ window_ok_finite])

text \<open>The quantiles of an accepted, non-empty window are present, ordered and non-negative.\<close>

lemma window_ok_quantiles:
  assumes "window_ok w" "lw_Count w > 0"
  shows "\<exists>a b c d. lw_P50 w = Some (Fin a) \<and> lw_P95 w = Some (Fin b) \<and> lw_P99 w = Some (Fin c)
    \<and> lw_Max w = Some (Fin d) \<and> 0 \<le> a \<and> a \<le> b \<and> b \<le> c \<and> c \<le> d"
proof -
  have fin: "\<exists>x. v = Some (Fin x) \<and> 0 \<le> x"
    if "v \<in> set [lw_P50 w, lw_P95 w, lw_P99 w, lw_Max w]" for v
  proof -
    have "window_value_ok v" using assms that by (auto simp: window_ok_def)
    then obtain f where f: "v = Some f" "\<not> f < Fin 0" "\<not> IsNaN f" "\<not> IsInf f"
      by (auto simp: window_value_ok_def split: option.splits)
    then show ?thesis by (cases f) (auto simp: IsNaN_def IsInf_def)
  qed
  obtain a b c d where "lw_P50 w = Some (Fin a)" "lw_P95 w = Some (Fin b)" "lw_P99 w = Some (Fin c)"
    "lw_Max w = Some (Fin d)" "0 \<le> a"
    using fin[of "lw_P50 w"] fin[of "lw_P95 w"] fin[of "lw_P99 w"] fin[of "lw_Max w"] by auto
  then show ?thesis using assms by (auto simp: window_ok_def)
qed

end
