(* ===== verification/Fleet_Http.thy ===== *)
theory Fleet_Http
  imports Fleet_Lifecycle Fleet_Timing
begin

text \<open>
  The HTTP interface: \<^verbatim>\<open>pkg/fleetmanager/http.go\<close> and \<^verbatim>\<open>policyHTTP\<close> of \<^verbatim>\<open>policy.go\<close>. A handler takes
  the request and the state its transaction reads and gives the status, the reply and the state it
  leaves. The JSON decoders of the request bodies are parameters (\<open>codec\<close>): \<open>None\<close> is what
  \<^verbatim>\<open>decodeBody\<close> refuses (syntax, unknown fields, trailing data, more than 128 KiB).
\<close>

subsection \<open>Requests and responses\<close>

record BootstrapRequest =
  br_WorkerID :: string
  br_BootstrapToken :: string
  br_BootID :: string
  br_BuildHash :: string

record RoomReport =
  rr_RoomID :: string
  rr_State :: string
  rr_UserIDs :: "string list"

record CommandResult =
  re_CommandID :: string
  re_Success :: bool
  re_Error :: string

record HeartbeatRequest =
  hb_WorkerID :: string
  hb_BootID :: string
  hb_Sequence :: nat
  hb_Ready :: bool
  hb_Rooms :: "RoomReport list"
  hb_Metrics :: Metrics
  hb_CommandResults :: "CommandResult list"

record HeartbeatResponse =
  hr_Commands :: "Command list"
  hr_Draining :: bool
  hr_Revision :: int

datatype reply =
    ErrorReply string
  | Accepted
  | BootstrapReply string int
  | HeartbeatReply HeartbeatResponse
  | StatusReply FleetState
  | AllocationReply string
  | PolicyReply PolicyView
  | MuxReply

type_synonym response = "int \<times> reply"

definition failHTTP :: "fleet_error \<Rightarrow> response" where
  "failHTTP err =
     (case err of
        ErrForbidden \<Rightarrow> (403, ErrorReply ''forbidden'')
      | ErrNotFound \<Rightarrow> (404, ErrorReply ''not_found'')
      | ErrBusy \<Rightarrow> (409, ErrorReply ''unavailable'')
      | _ \<Rightarrow> (500, ErrorReply ''internal_error''))"

definition equalToken :: "string \<Rightarrow> string \<Rightarrow> bool" where
  "equalToken got want \<longleftrightarrow> length got > 0 \<and> got = want"

definition bearer :: "string \<Rightarrow> string" where
  "bearer authorization = TrimPrefix authorization ''Bearer ''"

text \<open>Run a transaction body and answer: an error leaves the state as it was.\<close>

definition respond :: "txn \<Rightarrow> ('a \<Rightarrow> response \<times> txn) \<Rightarrow> 'a result \<Rightarrow> response \<times> txn" where
  "respond t ok r = (case r of Inl err \<Rightarrow> (failHTTP err, t) | Inr x \<Rightarrow> ok x)"

definition bad_request :: "txn \<Rightarrow> response \<times> txn" where
  "bad_request t = ((400, ErrorReply ''invalid_request''), t)"

definition bootstrap_token :: "Config \<Rightarrow> mac_fn \<Rightarrow> string \<Rightarrow> string" where
  "bootstrap_token cfg mac wid = encoded (derive mac (cfg_SigningKey cfg) (''bootstrap:'' @ wid))"

definition agent_token :: "Config \<Rightarrow> mac_fn \<Rightarrow> string \<Rightarrow> string \<Rightarrow> string" where
  "agent_token cfg mac wid boot =
     encoded (derive mac (cfg_SigningKey cfg) (''agent:'' @ wid @ '':'' @ boot))"

subsection \<open>Bootstrap\<close>

definition bootstrap_txn :: "Config \<Rightarrow> int \<Rightarrow> BootstrapRequest \<Rightarrow> txn \<Rightarrow> txn result" where
  "bootstrap_txn cfg now inp t =
     (case map_of (t_workers t) (br_WorkerID inp) of
        None \<Rightarrow> Inl ErrNotFound
      | Some w \<Rightarrow>
          if w_State w = WStopped \<or> w_State w = WFailed \<or> w_State w = WLost then Inl ErrBusy
          else if w_BootID w = '''' \<and> now - w_CreatedAt w > cfg_LaunchTimeout cfg then Inl ErrForbidden
          else if w_BootID w \<noteq> '''' \<and> w_BootID w \<noteq> br_BootID inp then Inl ErrForbidden
          else Inr (upd_worker (br_WorkerID inp) (\<lambda>w. w\<lparr>w_BootID := br_BootID inp\<rparr>) t))"

definition bootstrapHTTP ::
  "Config \<Rightarrow> mac_fn \<Rightarrow> int \<Rightarrow> BootstrapRequest option \<Rightarrow> txn \<Rightarrow> response \<times> txn" where
  "bootstrapHTTP cfg mac now body t =
     (case body of
        None \<Rightarrow> bad_request t
      | Some inp \<Rightarrow>
          if br_WorkerID inp = '''' \<or> br_BootID inp = '''' \<or> length (br_BootID inp) > 128 then bad_request t
          else if \<not> equalToken (br_BootstrapToken inp) (bootstrap_token cfg mac (br_WorkerID inp))
             \<or> br_BuildHash inp \<noteq> cfg_BuildHash cfg
          then (failHTTP ErrForbidden, t)
          else respond t (\<lambda>t'. ((200, BootstrapReply (agent_token cfg mac (br_WorkerID inp) (br_BootID inp)) 2), t'))
                 (bootstrap_txn cfg now inp t))"

subsection \<open>Heartbeat: the report is checked before anything is written\<close>

definition validRoomState :: "string \<Rightarrow> bool" where
  "validRoomState value \<longleftrightarrow> value = ''waiting_players'' \<or> value = ''playing'' \<or> value = ''closing''
     \<or> value = ''closed'' \<or> value = ''between_rounds''"

fun users_ok :: "string list \<Rightarrow> string list \<Rightarrow> string list \<Rightarrow> bool" where
  "users_ok roster seen [] = True"
| "users_ok roster seen (u # us) =
     (contains roster u \<and> \<not> contains seen u \<and> users_ok roster (u # seen) us)"

definition room_allocation :: "range_fn \<Rightarrow> nat \<Rightarrow> FleetState \<Rightarrow> string \<Rightarrow> string \<Rightarrow> Allocation option" where
  "room_allocation ro site s wid room =
     map_option snd (find (\<lambda>(k, a). a_RoomID a = room \<and> a_WorkerID a = wid)
       (range_entries ro site (s_Allocations s)))"

fun rooms_ok :: "range_fn \<Rightarrow> FleetState \<Rightarrow> string \<Rightarrow> nat \<Rightarrow> string list \<Rightarrow> RoomReport list \<Rightarrow> bool" where
  "rooms_ok ro s wid i seen [] = True"
| "rooms_ok ro s wid i seen (room # rest) =
     (if contains seen (rr_RoomID room) \<or> length (rr_UserIDs room) > 2 then False
      else case room_allocation ro i s wid (rr_RoomID room) of
        None \<Rightarrow> False
      | Some a \<Rightarrow> validRoomState (rr_State room) \<and> users_ok (a_UserIDs a) [] (rr_UserIDs room)
          \<and> rooms_ok ro s wid (Suc i) (rr_RoomID room # seen) rest)"

definition record_heartbeat :: "int \<Rightarrow> HeartbeatRequest \<Rightarrow> Worker \<Rightarrow> Worker" where
  "record_heartbeat now inp w =
     (let w1 = w\<lparr>w_LastHeartbeat := now, w_LastSequence := hb_Sequence inp, w_Ready := hb_Ready inp,
                 w_Metrics := hb_Metrics inp\<rparr>
      in if w_ProviderReady w1 \<and> w_Host w1 \<noteq> '''' \<and> hb_Ready inp \<and> w_State w1 \<noteq> WStopping
            \<and> w_State w1 \<noteq> WUnknown \<and> w_State w1 \<noteq> WRequested \<and> w_State w1 \<noteq> WStarting
         then w1\<lparr>w_State := (if w_Draining w1 then WDraining else WReady)\<rparr> else w1)"

subsection \<open>Heartbeat: results of commands\<close>

definition prepared_room :: "Config \<Rightarrow> id_stream \<Rightarrow> int \<Rightarrow> string \<Rightarrow> string \<Rightarrow> txn \<Rightarrow> txn result" where
  "prepared_room cfg rnd now wid k t =
     (let t1 = upd_alloc k (\<lambda>a. touch (a\<lparr>a_State := APrepared\<rparr>)) t
      in case (map_of (t_workers t1) wid, map_of (t_allocs t1) k) of
           (Some w, Some a) \<Rightarrow>
             if eligible cfg w now then reserve_at cfg rnd now (a_UserIDs a) k t1 else Inr t1
         | _ \<Rightarrow> Inl NilPanic)"

definition command_succeeded ::
  "Config \<Rightarrow> id_stream \<Rightarrow> int \<Rightarrow> string \<Rightarrow> Command \<Rightarrow> txn \<Rightarrow> txn result" where
  "command_succeeded cfg rnd now wid c t =
     (case map_of (t_allocs t) (c_AllocationID c) of
        None \<Rightarrow> Inr t
      | Some a \<Rightarrow>
          if a_Epoch a \<noteq> c_Epoch c then Inr t
          else if c_Type c = PrepareRoom \<and> a_State a = APreparing
          then (if c_ExpiresAt c \<le> now \<or> (case map_of (t_workers t) wid of None \<Rightarrow> False | Some w \<Rightarrow> w_Draining w)
                then Inr (cancel cfg rnd ''prepare_expired'' now (c_AllocationID c) t)
                else prepared_room cfg rnd now wid (c_AllocationID c) t)
          else if c_Type c = CancelRoom \<and> a_State a = ACancelling
          then Inr (upd_alloc (c_AllocationID c)
                      (\<lambda>a. finish (if a_Error a = ''cancelled'' then ACancelled else AExpired) (a_Error a) now a) t)
          else Inr t)"

definition retry_delay :: "int \<Rightarrow> int" where
  "retry_delay attempts = 2 * 2 ^ nat (min attempts 4)"

definition retry_command :: "int \<Rightarrow> Command \<Rightarrow> string \<Rightarrow> Command" where
  "retry_command now c i =
     c\<lparr>c_ID := i, c_Done := False, c_Attempts := c_Attempts c + 1,
       c_NotBefore := now + retry_delay (c_Attempts c + 1), c_ExpiresAt := now + 3600\<rparr>"

definition apply_result ::
  "Config \<Rightarrow> id_stream \<Rightarrow> int \<Rightarrow> string \<Rightarrow> CommandResult \<Rightarrow> txn \<Rightarrow> txn result" where
  "apply_result cfg rnd now wid r t =
     (case map_of (t_cmds t) (re_CommandID r) of
        None \<Rightarrow> Inl ErrForbidden
      | Some c \<Rightarrow>
          if c_WorkerID c \<noteq> wid then Inl ErrForbidden
          else if c_Done c then Inr t
          else let t1 = upd_cmd (re_CommandID r) (\<lambda>c. c\<lparr>c_Done := True\<rparr>) t
          in if re_Success r
             then command_succeeded cfg rnd now wid c
                    (if c_Type c = DrainCmd then upd_worker wid (\<lambda>w. w\<lparr>w_DrainAck := True\<rparr>) t1 else t1)
             else if c_Type c = PrepareRoom
             then (case map_of (t_allocs t1) (c_AllocationID c) of
                     None \<Rightarrow> Inr t1
                   | Some a \<Rightarrow>
                       if a_State a = APreparing
                       then Inr (cancel cfg rnd ''room_prepare_failed'' now (c_AllocationID c) t1)
                       else Inr t1)
             else Inr (new_command rnd (retry_command now c) t1))"

subsection \<open>Heartbeat: rooms\<close>

definition update_session :: "Config \<Rightarrow> int \<Rightarrow> string list \<Rightarrow> Session \<Rightarrow> Session" where
  "update_session cfg now users se =
     (let connected = contains users (se_UserID se);
          se1 = (if connected then se\<lparr>se_EverConnected := True, se_ReconnectUntil := 0\<rparr>
                 else if se_Connected se \<and> se_ReconnectUntil se = 0
                 then se\<lparr>se_ReconnectUntil := now + cfg_ReconnectSeconds cfg\<rparr> else se)
      in se1\<lparr>se_Connected := connected\<rparr>)"

definition reported_by :: "string \<Rightarrow> RoomReport \<Rightarrow> Allocation \<Rightarrow> bool" where
  "reported_by wid room a \<longleftrightarrow>
     \<not> (a_RoomID a \<noteq> rr_RoomID room \<or> a_WorkerID a \<noteq> wid \<or> Terminal (a_State a))"

definition apply_room :: "Config \<Rightarrow> int \<Rightarrow> string \<Rightarrow> RoomReport \<Rightarrow> Allocation \<Rightarrow> Allocation" where
  "apply_room cfg now wid room a =
     (if \<not> reported_by wid room a then a
      else if rr_State room = ''closed''
      then (if a_State a = AActive \<or> a_State a = AAssigned then finish ACompleted '''' now a else a)
      else if a_State a = AAssigned \<or> a_State a = AActive
      then (let a1 = a\<lparr>a_Sessions := map (update_session cfg now (rr_UserIDs room)) (a_Sessions a)\<rparr>
            in if rr_State room = ''playing'' \<and> length (rr_UserIDs room) = length (a_UserIDs a1)
                  \<and> a_State a1 = AAssigned
               then touch (a1\<lparr>a_State := AActive\<rparr>) else a1)
      else a)"

definition room_players :: "string \<Rightarrow> RoomReport \<Rightarrow> FleetState \<Rightarrow> int" where
  "room_players wid room s =
     (if rr_State room = ''closed'' then 0
      else int (mcount (reported_by wid room) (s_Allocations s)) * int (length (rr_UserIDs room)))"

definition tick_room :: "Config \<Rightarrow> int \<Rightarrow> string \<Rightarrow> RoomReport \<Rightarrow> txn \<Rightarrow> txn" where
  "tick_room cfg now wid room t =
     upd_worker wid (\<lambda>w. w\<lparr>w_PlayerCount := w_PlayerCount w + room_players wid room (t_s t)\<rparr>)
       (upd_allocs (apply_room cfg now wid room) t)"

subsection \<open>Heartbeat: the transaction\<close>

definition heartbeat_report ::
  "Config \<Rightarrow> range_fn \<Rightarrow> id_stream \<Rightarrow> int \<Rightarrow> HeartbeatRequest \<Rightarrow> txn \<Rightarrow> txn result" where
  "heartbeat_report cfg ro rnd now inp t =
     (if \<not> rooms_ok ro (t_s t) (hb_WorkerID inp) 0 [] (hb_Rooms inp) then Inl ErrForbidden
      else bindE (foldE (apply_result cfg rnd now (hb_WorkerID inp)) (hb_CommandResults inp)
                   (upd_worker (hb_WorkerID inp) (record_heartbeat now inp) t))
             (\<lambda>t1. Inr (fold (tick_room cfg now (hb_WorkerID inp)) (hb_Rooms inp)
                          (upd_worker (hb_WorkerID inp) (\<lambda>w. w\<lparr>w_PlayerCount := 0\<rparr>) t1))))"

definition pending_command :: "string \<Rightarrow> int \<Rightarrow> Command \<Rightarrow> bool" where
  "pending_command wid now c \<longleftrightarrow> c_WorkerID c = wid \<and> \<not> c_Done c \<and> c_NotBefore c \<le> now"

definition heartbeat_response :: "string \<Rightarrow> int \<Rightarrow> FleetState \<Rightarrow> HeartbeatResponse" where
  "heartbeat_response wid now s =
     \<lparr>hr_Commands = take 64 (sort_key c_ID (filter (pending_command wid now) (map snd (s_Commands s)))),
      hr_Draining = (case map_of (s_Workers s) wid of None \<Rightarrow> False | Some w \<Rightarrow> w_Draining w),
      hr_Revision = s_Revision s + 1\<rparr>"

definition heartbeat_txn ::
  "Config \<Rightarrow> range_fn \<Rightarrow> id_stream \<Rightarrow> int \<Rightarrow> HeartbeatRequest \<Rightarrow> txn
     \<Rightarrow> (HeartbeatResponse \<times> txn) result" where
  "heartbeat_txn cfg ro rnd now inp t =
     (case map_of (t_workers t) (hb_WorkerID inp) of
        None \<Rightarrow> Inl ErrNotFound
      | Some w \<Rightarrow>
          if int (length (hb_Rooms inp)) > w_MaxRooms w then Inl ErrForbidden
          else if w_BootID w \<noteq> hb_BootID inp \<or> w_State w = WStopped \<or> w_State w = WLost \<or> w_State w = WFailed
          then Inl ErrForbidden
          else bindE (if hb_Sequence inp > w_LastSequence w then heartbeat_report cfg ro rnd now inp t else Inr t)
                 (\<lambda>t1. Inr (heartbeat_response (hb_WorkerID inp) now (t_s t1), t1)))"

definition heartbeat_valid :: "HeartbeatRequest \<Rightarrow> bool" where
  "heartbeat_valid inp \<longleftrightarrow> \<not> (hb_Sequence inp = 0 \<or> length (hb_Rooms inp) > 512
     \<or> length (hb_CommandResults inp) > 256 \<or> \<not> validMetrics (hb_Metrics inp))"

definition heartbeatHTTP ::
  "Config \<Rightarrow> mac_fn \<Rightarrow> range_fn \<Rightarrow> id_stream \<Rightarrow> int \<Rightarrow> string \<Rightarrow> HeartbeatRequest option \<Rightarrow> txn
     \<Rightarrow> response \<times> txn" where
  "heartbeatHTTP cfg mac ro rnd now authorization body t =
     (case body of
        None \<Rightarrow> bad_request t
      | Some inp \<Rightarrow>
          if \<not> heartbeat_valid inp then bad_request t
          else if \<not> equalToken (bearer authorization) (agent_token cfg mac (hb_WorkerID inp) (hb_BootID inp))
          then (failHTTP ErrForbidden, t)
          else respond t (\<lambda>(resp, t'). ((200, HeartbeatReply resp), t')) (heartbeat_txn cfg ro rnd now inp t))"

subsection \<open>Administration\<close>

definition retry_creation :: "FleetState \<Rightarrow> FleetState" where
  "retry_creation s = s\<lparr>s_CreationBlockedReason := '''', s_NextCreateAt := 0\<rparr>"

definition policyHTTP ::
  "Config \<Rightarrow> int \<Rightarrow> bool \<Rightarrow> PolicyUpdate option \<Rightarrow> txn \<Rightarrow> response \<times> txn" where
  "policyHTTP cfg now post body t =
     (if \<not> post then ((200, PolicyReply (Policy cfg (t_s t))), t)
      else case body of
        None \<Rightarrow> ((400, ErrorReply ''policy_invalid''), t)
      | Some inp \<Rightarrow>
          (case UpdatePolicy cfg now inp (t_s t) of
             Inl ErrPolicyConflict \<Rightarrow> ((409, ErrorReply ''policy_conflict''), t)
           | Inl ErrPolicyInvalid \<Rightarrow> ((400, ErrorReply ''policy_invalid''), t)
           | Inl err \<Rightarrow> (failHTTP err, t)
           | Inr (s', _) \<Rightarrow> ((200, PolicyReply (Policy cfg s')), t\<lparr>t_s := s'\<rparr>)))"

definition drainHTTP :: "id_stream \<Rightarrow> int \<Rightarrow> string option \<Rightarrow> txn \<Rightarrow> response \<times> txn" where
  "drainHTTP rnd now body t =
     (case body of
        None \<Rightarrow> bad_request t
      | Some wid \<Rightarrow> respond t (\<lambda>t'. ((202, Accepted), t')) (Drain rnd now wid t))"

definition allocateHTTP ::
  "Config \<Rightarrow> range_fn \<Rightarrow> id_stream \<Rightarrow> int \<Rightarrow> (string list \<times> string) option \<Rightarrow> txn \<Rightarrow> response \<times> txn" where
  "allocateHTTP cfg ro rnd now body t =
     (case body of
        None \<Rightarrow> bad_request t
      | Some (users, key) \<Rightarrow>
          if \<not> validUsers users then bad_request t
          else respond t (\<lambda>(aid, t'). ((202, AllocationReply aid), t')) (Allocate cfg ro rnd now users key t))"

definition admin :: "Config \<Rightarrow> string \<Rightarrow> (txn \<Rightarrow> response \<times> txn) \<Rightarrow> txn \<Rightarrow> response \<times> txn" where
  "admin cfg authorization handler t =
     (if \<not> equalToken (bearer authorization) (cfg_AdminToken cfg)
      then ((403, ErrorReply ''forbidden''), t) else handler t)"

subsection \<open>The mux\<close>

record codec =
  dec_bootstrap :: "string \<Rightarrow> BootstrapRequest option"
  dec_heartbeat :: "string \<Rightarrow> HeartbeatRequest option"
  dec_policy :: "string \<Rightarrow> PolicyUpdate option"
  dec_drain :: "string \<Rightarrow> string option"
  dec_allocate :: "string \<Rightarrow> (string list \<times> string) option"

record Request =
  rq_Method :: string
  rq_Path :: string
  rq_Authorization :: string
  rq_Body :: string

datatype route = RPolicyGet | RPolicyPost | RBootstrap | RHeartbeat | RRetryCreation | RStatus | RDrain | RAllocate

definition routes :: "Config \<Rightarrow> ((string \<times> string) \<times> route) list" where
  "routes cfg =
     [((''GET'', ''/agones/fleet/v1/admin/policy''), RPolicyGet),
      ((''POST'', ''/agones/fleet/v1/admin/policy''), RPolicyPost),
      ((''POST'', ''/agones/fleet/v1/agent/bootstrap''), RBootstrap),
      ((''POST'', ''/agones/fleet/v1/agent/heartbeat''), RHeartbeat),
      ((''POST'', ''/agones/fleet/v1/admin/retry-creation''), RRetryCreation),
      ((''GET'', ''/agones/fleet/v1/admin/status''), RStatus),
      ((''POST'', ''/agones/fleet/v1/admin/drain''), RDrain)]
     @ (if cfg_Mode cfg = ''local'' then [((''POST'', ''/agones/fleet/v1/admin/allocate''), RAllocate)] else [])"

text \<open>A pattern with method GET also matches HEAD; another method on a known path is 405.\<close>

definition mux_match :: "Config \<Rightarrow> Request \<Rightarrow> int + route" where
  "mux_match cfg r =
     (case map_of (routes cfg) (if rq_Method r = ''HEAD'' then ''GET'' else rq_Method r, rq_Path r) of
        Some h \<Rightarrow> Inr h
      | None \<Rightarrow> Inl (if list_ex (\<lambda>((m, p), h). p = rq_Path r) (routes cfg) then 405 else 404))"

definition HTTPHandler ::
  "Config \<Rightarrow> mac_fn \<Rightarrow> codec \<Rightarrow> range_fn \<Rightarrow> id_stream \<Rightarrow> int \<Rightarrow> Request \<Rightarrow> txn \<Rightarrow> response \<times> txn" where
  "HTTPHandler cfg mac cd ro rnd now r t =
     (case mux_match cfg r of
        Inl status \<Rightarrow> ((status, MuxReply), t)
      | Inr h \<Rightarrow>
          (case h of
             RPolicyGet \<Rightarrow> admin cfg (rq_Authorization r) (policyHTTP cfg now False None) t
           | RPolicyPost \<Rightarrow> admin cfg (rq_Authorization r) (policyHTTP cfg now True (dec_policy cd (rq_Body r))) t
           | RBootstrap \<Rightarrow> bootstrapHTTP cfg mac now (dec_bootstrap cd (rq_Body r)) t
           | RHeartbeat \<Rightarrow> heartbeatHTTP cfg mac ro rnd now (rq_Authorization r) (dec_heartbeat cd (rq_Body r)) t
           | RRetryCreation \<Rightarrow> admin cfg (rq_Authorization r)
               (\<lambda>t. ((202, Accepted), with_state retry_creation t)) t
           | RStatus \<Rightarrow> admin cfg (rq_Authorization r) (\<lambda>t. ((200, StatusReply (t_s t)), t)) t
           | RDrain \<Rightarrow> admin cfg (rq_Authorization r) (drainHTTP rnd now (dec_drain cd (rq_Body r))) t
           | RAllocate \<Rightarrow> admin cfg (rq_Authorization r)
               (allocateHTTP cfg ro rnd now (dec_allocate cd (rq_Body r))) t))"

end
