(* ===== verification/Fleet_Invariant.thy ===== *)
theory Fleet_Invariant
  imports Fleet_Http
begin

text \<open>
  What every transaction keeps. \<open>txn_inv\<close> is the invariant of the durable state, \<open>txn_evolves\<close> says
  how allocations and workers may change, and \<open>keeps\<close> puts them together: a transaction that starts in
  the invariant ends in it and has only evolved the entries. \<open>keeps\<close> is an instance of \<open>step_rel\<close>, so
  the loops of a tick keep what their bodies keep. The first part proves \<open>keeps\<close> of the few primitive
  updates out of which every operation is built.
\<close>

named_theorems keeps_intros "primitive and composed steps that keep the invariant"

subsection \<open>How an allocation evolves\<close>

fun alloc_rank :: "AllocState \<Rightarrow> nat" where
  "alloc_rank AWaiting = 0"
| "alloc_rank APreparing = 1"
| "alloc_rank APrepared = 2"
| "alloc_rank AAssigned = 3"
| "alloc_rank AActive = 4"
| "alloc_rank ACancelling = 5"
| "alloc_rank _ = 6"

definition alloc_evolves :: "Allocation \<Rightarrow> Allocation \<Rightarrow> bool" where
  "alloc_evolves a a' \<longleftrightarrow>
     a_ID a' = a_ID a \<and> a_RequestKey a' = a_RequestKey a \<and> a_RoomID a' = a_RoomID a
     \<and> a_UserIDs a' = a_UserIDs a \<and> a_Epoch a' = a_Epoch a \<and> a_CreatedAt a' = a_CreatedAt a
     \<and> alloc_rank (a_State a) \<le> alloc_rank (a_State a')
     \<and> (Terminal (a_State a) \<longrightarrow> a_State a' = a_State a)
     \<and> a_Revision a \<le> a_Revision a'
     \<and> (a_State a' \<noteq> a_State a \<longrightarrow> a_Revision a < a_Revision a')
     \<and> (a_WorkerID a \<noteq> '''' \<longrightarrow> a_WorkerID a' = a_WorkerID a)"

lemma alloc_evolves_refl [simp]: "alloc_evolves a a"
  by (simp add: alloc_evolves_def)

lemma alloc_evolves_trans: "alloc_evolves a b \<Longrightarrow> alloc_evolves b c \<Longrightarrow> alloc_evolves a c"
  by (auto simp: alloc_evolves_def)

subsection \<open>How a worker evolves\<close>

definition gone :: "WorkerState \<Rightarrow> bool" where
  "gone st \<longleftrightarrow> st = WStopping \<or> st = WStopped \<or> st = WLost \<or> st = WFailed"

definition serving :: "WorkerState \<Rightarrow> bool" where
  "serving st \<longleftrightarrow> st = WReady \<or> st = WSuspect \<or> st = WDraining"

definition unlaunched :: "WorkerState \<Rightarrow> bool" where
  "unlaunched st \<longleftrightarrow> st = WRequested \<or> st = WStarting \<or> st = WUnknown"

definition worker_evolves :: "Worker \<Rightarrow> Worker \<Rightarrow> bool" where
  "worker_evolves w w' \<longleftrightarrow>
     w_ID w' = w_ID w \<and> w_MaxRooms w' = w_MaxRooms w \<and> w_Region w' = w_Region w
     \<and> w_BuildHash w' = w_BuildHash w \<and> w_CreatedAt w' = w_CreatedAt w
     \<and> (gone (w_State w) \<longrightarrow> gone (w_State w'))
     \<and> (w_State w' = WRequested \<longrightarrow> w_State w = WRequested)
     \<and> (counts_live w' \<longrightarrow> counts_live w)
     \<and> (w_ProviderID w \<noteq> '''' \<longrightarrow> w_ProviderID w' = w_ProviderID w)
     \<and> (w_BootID w \<noteq> '''' \<longrightarrow> w_BootID w' = w_BootID w)
     \<and> w_LastSequence w \<le> w_LastSequence w'
     \<and> (w_PolicyRevision w \<noteq> 0 \<longrightarrow> w_PolicyRevision w' = w_PolicyRevision w
          \<and> w_CPURequest w' = w_CPURequest w \<and> w_CPULimit w' = w_CPULimit w)"

lemma worker_evolves_refl [simp]: "worker_evolves w w"
  by (simp add: worker_evolves_def)

lemma worker_evolves_trans: "worker_evolves u v \<Longrightarrow> worker_evolves v w \<Longrightarrow> worker_evolves u w"
  by (auto simp: worker_evolves_def)

subsection \<open>Entries\<close>

definition drawn :: "id_stream \<Rightarrow> nat \<Rightarrow> string set" where
  "drawn rnd n = rnd ` {..<n}"

lemma drawn_mono: "m \<le> n \<Longrightarrow> drawn rnd m \<subseteq> drawn rnd n"
  by (auto simp: drawn_def)

lemma drawn_fresh: "id_source rnd \<Longrightarrow> n \<le> i \<Longrightarrow> rnd i \<notin> drawn rnd n"
  by (auto simp: drawn_def id_sourceD)

lemma drawn_next: "i < n \<Longrightarrow> rnd i \<in> drawn rnd n"
  by (auto simp: drawn_def)

lemma drawn_nonempty: "id_source rnd \<Longrightarrow> k \<in> drawn rnd n \<Longrightarrow> k \<noteq> ''''"
  by (auto simp: drawn_def id_sourceD)

text \<open>The sessions of a room that has been handed out: one per user, in order, seats 0 and 1.\<close>

definition seated :: "Allocation \<Rightarrow> bool" where
  "seated a \<longleftrightarrow> map se_UserID (a_Sessions a) = a_UserIDs a \<and> map se_Seat (a_Sessions a) = [0, 1]"

definition alloc_ok :: "string \<Rightarrow> Allocation \<Rightarrow> bool" where
  "alloc_ok k a \<longleftrightarrow> a_ID a = k \<and> validUsers (a_UserIDs a) \<and> 1 \<le> a_Epoch a
     \<and> (\<not> Terminal (a_State a) \<longrightarrow> (a_WorkerID a = '''' \<longleftrightarrow> a_State a = AWaiting))
     \<and> (a_State a = AAssigned \<or> a_State a = AActive \<longrightarrow> seated a)"

definition worker_ok :: "string \<Rightarrow> Worker \<Rightarrow> bool" where
  "worker_ok k w \<longleftrightarrow> w_ID w = k \<and> 1 \<le> w_MaxRooms w \<and> metrics_finite (w_Metrics w)
     \<and> (unlaunched (w_State w) \<longrightarrow> w_ProviderID w = '''')"

definition cmd_ok :: "id_stream \<Rightarrow> nat \<Rightarrow> string \<Rightarrow> Command \<Rightarrow> bool" where
  "cmd_ok rnd n k c \<longleftrightarrow> c_ID c = k \<and> 0 \<le> c_Attempts c
     \<and> (c_Type c \<noteq> DrainCmd \<longrightarrow> c_AllocationID c \<in> drawn rnd n \<and> c_WorkerID c \<noteq> '''')"

lemma cmd_ok_mono: "cmd_ok rnd m k c \<Longrightarrow> m \<le> n \<Longrightarrow> cmd_ok rnd n k c"
  using drawn_mono by (auto simp: cmd_ok_def)

subsection \<open>The invariant\<close>

definition apart :: "Allocation \<Rightarrow> Allocation \<Rightarrow> bool" where
  "apart a b \<longleftrightarrow> a_RequestKey a \<noteq> a_RequestKey b \<and> a_RoomID a \<noteq> a_RoomID b
     \<and> (\<not> Terminal (a_State a) \<longrightarrow> \<not> Terminal (a_State b) \<longrightarrow> set (a_UserIDs a) \<inter> set (a_UserIDs b) = {})"

definition allocs_inv :: "id_stream \<Rightarrow> nat \<Rightarrow> Allocation gomap \<Rightarrow> bool" where
  "allocs_inv rnd n m \<longleftrightarrow> mwf m
     \<and> (\<forall>k a. map_of m k = Some a \<longrightarrow> alloc_ok k a \<and> k \<in> drawn rnd n \<and> a_RoomID a \<in> drawn rnd n)
     \<and> (\<forall>k a l b. map_of m k = Some a \<longrightarrow> map_of m l = Some b \<longrightarrow> k \<noteq> l \<longrightarrow> apart a b)"

definition workers_inv :: "id_stream \<Rightarrow> nat \<Rightarrow> Worker gomap \<Rightarrow> bool" where
  "workers_inv rnd n m \<longleftrightarrow> mwf m
     \<and> (\<forall>k w. map_of m k = Some w \<longrightarrow> worker_ok k w \<and> k \<in> drawn rnd n)"

definition cmds_inv :: "id_stream \<Rightarrow> nat \<Rightarrow> Command gomap \<Rightarrow> bool" where
  "cmds_inv rnd n m \<longleftrightarrow> mwf m
     \<and> (\<forall>k c. map_of m k = Some c \<longrightarrow> cmd_ok rnd n k c \<and> k \<in> drawn rnd n)"

definition capacity_inv :: "FleetState \<Rightarrow> bool" where
  "capacity_inv s \<longleftrightarrow> (\<forall>k w. map_of (s_Workers s) k = Some w \<longrightarrow>
     Occupied s k \<le> w_MaxRooms w \<and> (0 < Occupied s k \<longrightarrow> serving (w_State w)))"

definition hosted_inv :: "FleetState \<Rightarrow> bool" where
  "hosted_inv s \<longleftrightarrow> (\<forall>k a. map_of (s_Allocations s) k = Some a \<longrightarrow> \<not> Terminal (a_State a) \<longrightarrow>
     a_WorkerID a \<noteq> '''' \<longrightarrow> map_of (s_Workers s) (a_WorkerID a) \<noteq> None)"

definition commanded_inv :: "FleetState \<Rightarrow> bool" where
  "commanded_inv s \<longleftrightarrow> (\<forall>k c a. map_of (s_Commands s) k = Some c \<longrightarrow> c_Type c \<noteq> DrainCmd \<longrightarrow>
     map_of (s_Allocations s) (c_AllocationID c) = Some a \<longrightarrow> a_WorkerID a = c_WorkerID c)"

definition policy_inv :: "Config \<Rightarrow> FleetState \<Rightarrow> bool" where
  "policy_inv cfg s \<longleftrightarrow> 1 \<le> p_RoomsPerInstance (policy cfg s) \<and> length (s_PolicyAudit s) \<le> 100"

definition state_inv :: "Config \<Rightarrow> id_stream \<Rightarrow> nat \<Rightarrow> FleetState \<Rightarrow> bool" where
  "state_inv cfg rnd n s \<longleftrightarrow>
     allocs_inv rnd n (s_Allocations s) \<and> workers_inv rnd n (s_Workers s) \<and> cmds_inv rnd n (s_Commands s)
     \<and> capacity_inv s \<and> hosted_inv s \<and> commanded_inv s \<and> policy_inv cfg s
     \<and> liveCount s \<le> cfg_MaxInstances cfg"

definition txn_inv :: "Config \<Rightarrow> id_stream \<Rightarrow> txn \<Rightarrow> bool" where
  "txn_inv cfg rnd t \<longleftrightarrow> id_source rnd \<and> state_inv cfg rnd (t_n t) (t_s t)"

lemma state_invD:
  assumes "state_inv cfg rnd n s"
  shows "allocs_inv rnd n (s_Allocations s)" "workers_inv rnd n (s_Workers s)"
    "cmds_inv rnd n (s_Commands s)" "capacity_inv s" "hosted_inv s" "commanded_inv s"
    "policy_inv cfg s" "liveCount s \<le> cfg_MaxInstances cfg"
  using assms by (simp_all add: state_inv_def)

lemma txn_invD:
  assumes "txn_inv cfg rnd t"
  shows "id_source rnd" "allocs_inv rnd (t_n t) (t_allocs t)" "workers_inv rnd (t_n t) (t_workers t)"
    "cmds_inv rnd (t_n t) (t_cmds t)" "capacity_inv (t_s t)" "hosted_inv (t_s t)"
    "commanded_inv (t_s t)" "policy_inv cfg (t_s t)" "liveCount (t_s t) \<le> cfg_MaxInstances cfg"
    "mwf (t_allocs t)" "mwf (t_workers t)" "mwf (t_cmds t)"
  using assms
  by (simp_all add: txn_inv_def state_inv_def allocs_inv_def workers_inv_def cmds_inv_def)

lemma txn_inv_alloc:
  assumes "txn_inv cfg rnd t" "map_of (t_allocs t) k = Some a"
  shows "alloc_ok k a" "k \<in> drawn rnd (t_n t)" "a_ID a = k" "validUsers (a_UserIDs a)"
    "k \<noteq> ''''"
proof -
  show ok: "alloc_ok k a" and dr: "k \<in> drawn rnd (t_n t)"
    using txn_invD(2)[OF assms(1)] assms(2) by (simp_all add: allocs_inv_def)
  show "a_ID a = k" "validUsers (a_UserIDs a)" using ok by (simp_all add: alloc_ok_def)
  show "k \<noteq> ''''" by (rule drawn_nonempty[OF txn_invD(1)[OF assms(1)] dr])
qed

lemma txn_inv_worker:
  assumes "txn_inv cfg rnd t" "map_of (t_workers t) k = Some w"
  shows "worker_ok k w" "k \<in> drawn rnd (t_n t)" "w_ID w = k" "k \<noteq> ''''"
proof -
  show ok: "worker_ok k w" and dr: "k \<in> drawn rnd (t_n t)"
    using txn_invD(3)[OF assms(1)] assms(2) by (simp_all add: workers_inv_def)
  show "w_ID w = k" using ok by (simp add: worker_ok_def)
  show "k \<noteq> ''''" by (rule drawn_nonempty[OF txn_invD(1)[OF assms(1)] dr])
qed

subsection \<open>The relation that transactions satisfy\<close>

definition entries_evolve :: "('v \<Rightarrow> 'v \<Rightarrow> bool) \<Rightarrow> string set \<Rightarrow> 'v gomap \<Rightarrow> 'v gomap \<Rightarrow> bool" where
  "entries_evolve E old m m' \<longleftrightarrow> (\<forall>k v'. map_of m' k = Some v' \<longrightarrow>
     k \<notin> old \<or> (\<exists>v. map_of m k = Some v \<and> E v v'))"

lemma entries_evolve_refl: "(\<And>v. E v v) \<Longrightarrow> entries_evolve E old m m"
  by (auto simp: entries_evolve_def)

lemma entries_evolve_trans:
  assumes "entries_evolve E old m m'" "entries_evolve E old' m' m''" "old \<subseteq> old'"
    and "\<And>u v w. E u v \<Longrightarrow> E v w \<Longrightarrow> E u w"
  shows "entries_evolve E old m m''"
  unfolding entries_evolve_def
proof (intro allI impI)
  fix k v''
  assume v'': "map_of m'' k = Some v''"
  show "k \<notin> old \<or> (\<exists>v. map_of m k = Some v \<and> E v v'')"
  proof (cases "k \<in> old")
    case True
    then have "k \<in> old'" using assms(3) by blast
    then obtain v' where v': "map_of m' k = Some v'" "E v' v''"
      using assms(2) v'' by (auto simp: entries_evolve_def)
    then obtain v where "map_of m k = Some v" "E v v'"
      using assms(1) True by (auto simp: entries_evolve_def)
    then show ?thesis using assms(4) v'(2) by blast
  qed simp
qed

definition txn_evolves :: "id_stream \<Rightarrow> txn \<Rightarrow> txn \<Rightarrow> bool" where
  "txn_evolves rnd t t' \<longleftrightarrow> t_n t \<le> t_n t'
     \<and> entries_evolve alloc_evolves (drawn rnd (t_n t)) (t_allocs t) (t_allocs t')
     \<and> entries_evolve worker_evolves (drawn rnd (t_n t)) (t_workers t) (t_workers t')"

lemma evolves_worker:
  "txn_evolves rnd t t' \<Longrightarrow> k \<in> drawn rnd (t_n t) \<Longrightarrow> map_of (t_workers t') k = Some w' \<Longrightarrow>
   \<exists>w. map_of (t_workers t) k = Some w \<and> worker_evolves w w'"
  by (auto simp: txn_evolves_def entries_evolve_def)

lemma evolves_alloc:
  "txn_evolves rnd t t' \<Longrightarrow> k \<in> drawn rnd (t_n t) \<Longrightarrow> map_of (t_allocs t') k = Some a' \<Longrightarrow>
   \<exists>a. map_of (t_allocs t) k = Some a \<and> alloc_evolves a a'"
  by (auto simp: txn_evolves_def entries_evolve_def)

definition keeps :: "Config \<Rightarrow> id_stream \<Rightarrow> txn \<Rightarrow> txn \<Rightarrow> bool" where
  "keeps cfg rnd t t' \<longleftrightarrow> (txn_inv cfg rnd t \<longrightarrow> txn_inv cfg rnd t' \<and> txn_evolves rnd t t')"

interpretation evolves: step_rel "txn_evolves rnd"
proof unfold_locales
  show "txn_evolves rnd s s" for s
    by (simp add: txn_evolves_def entries_evolve_refl)
  show "txn_evolves rnd s u" if "txn_evolves rnd s t" "txn_evolves rnd t u" for s t u
    using that drawn_mono[of "t_n s" "t_n t" rnd]
    by (auto simp: txn_evolves_def intro: entries_evolve_trans alloc_evolves_trans worker_evolves_trans)
qed

interpretation keeps: step_rel "keeps cfg rnd"
  by unfold_locales (auto simp: keeps_def intro: evolves.R_refl evolves.R_trans)

lemma keepsI: "(txn_inv cfg rnd t \<Longrightarrow> keeps cfg rnd t t') \<Longrightarrow> keeps cfg rnd t t'"
  by (auto simp: keeps_def)

lemma keeps_inv: "keeps cfg rnd t t' \<Longrightarrow> txn_inv cfg rnd t \<Longrightarrow> txn_inv cfg rnd t'"
  by (simp add: keeps_def)

lemma keeps_evolves: "keeps cfg rnd t t' \<Longrightarrow> txn_inv cfg rnd t \<Longrightarrow> txn_evolves rnd t t'"
  by (simp add: keeps_def)

lemma keeps_then:
  "keeps cfg rnd t t1 \<Longrightarrow> (txn_inv cfg rnd t \<Longrightarrow> txn_inv cfg rnd t1 \<Longrightarrow> keeps cfg rnd t1 t2)
     \<Longrightarrow> keeps cfg rnd t t2"
  by (meson keepsI keeps_inv keeps.R_trans)

lemmas keeps_refl [simp, keeps_intros] = keeps.R_refl

subsection \<open>Replacing the allocations\<close>

definition alloc_keep :: "string \<Rightarrow> Allocation \<Rightarrow> Allocation \<Rightarrow> bool" where
  "alloc_keep k a a' \<longleftrightarrow> alloc_evolves a a' \<and> (alloc_ok k a \<longrightarrow> alloc_ok k a')
     \<and> (\<not> Terminal (a_State a') \<longrightarrow> a_WorkerID a' = a_WorkerID a)
     \<and> (a_WorkerID a = '''' \<longrightarrow> a_WorkerID a' = '''')"

lemma alloc_keep_refl [simp]: "alloc_keep k a a"
  by (simp add: alloc_keep_def)

lemma alloc_keep_live: "alloc_keep k a a' \<Longrightarrow> \<not> Terminal (a_State a') \<Longrightarrow> \<not> Terminal (a_State a)"
  by (auto simp: alloc_keep_def alloc_evolves_def)

lemma alloc_keep_worker: "alloc_keep k a a' \<Longrightarrow> a_WorkerID a' = a_WorkerID a"
  by (auto simp: alloc_keep_def alloc_evolves_def)

lemma alloc_keep_ids:
  assumes "alloc_keep k a a'"
  shows "a_RequestKey a' = a_RequestKey a" "a_RoomID a' = a_RoomID a" "a_UserIDs a' = a_UserIDs a"
  using assms by (simp_all add: alloc_keep_def alloc_evolves_def)

lemma alloc_keep_holds: "alloc_keep k a a' \<Longrightarrow> holds_room wid a' \<Longrightarrow> holds_room wid a"
  by (auto simp: holds_room_def alloc_keep_worker dest: alloc_keep_live)

lemma apart_keep: "apart a b \<Longrightarrow> alloc_keep k a a' \<Longrightarrow> alloc_keep l b b' \<Longrightarrow> apart a' b'"
  using alloc_keep_live[of k a a'] alloc_keep_live[of l b b'] alloc_keep_ids[of k a a'] alloc_keep_ids[of l b b']
  unfolding apart_def by metis

definition allocs_keep :: "Allocation gomap \<Rightarrow> Allocation gomap \<Rightarrow> bool" where
  "allocs_keep m m' \<longleftrightarrow> mwf m'
     \<and> (\<forall>k a'. map_of m' k = Some a' \<longrightarrow> (\<exists>a. map_of m k = Some a \<and> alloc_keep k a a'))
     \<and> (\<forall>wid. mcount (holds_room wid) m' \<le> mcount (holds_room wid) m)"

lemma allocs_keep_mupd:
  assumes "mwf m" "\<And>a. map_of m k = Some a \<Longrightarrow> alloc_keep k a (f a)"
  shows "allocs_keep m (mupd k f m)"
proof (cases "map_of m k")
  case None
  then show ?thesis using assms(1) by (auto simp: allocs_keep_def mupd_absent)
next
  case (Some a)
  have "mcount (holds_room wid) (mupd k f m) \<le> mcount (holds_room wid) m" for wid
    using mcount_mupd[OF assms(1) Some, of "holds_room wid" f]
      alloc_keep_holds[OF assms(2)[OF Some], of wid]
    by (cases "holds_room wid (f a)") simp_all
  then show ?thesis using assms Some by (auto simp: allocs_keep_def split: if_splits)
qed

lemma allocs_keep_mmap:
  assumes "mwf m" "\<And>k a. map_of m k = Some a \<Longrightarrow> alloc_keep k a (f a)"
  shows "allocs_keep m (mmap f m)"
proof -
  have "mcount (holds_room wid) (mmap f m) \<le> mcount (holds_room wid) m" for wid
    unfolding mcount_mmap
    by (rule mcount_mono) (use assms in \<open>simp add: mem_iff_map_of, metis alloc_keep_holds\<close>)
  then show ?thesis using assms by (auto simp: allocs_keep_def)
qed

lemma allocs_keep_mfilter: "mwf m \<Longrightarrow> allocs_keep m (mfilter P m)"
  by (auto simp: allocs_keep_def mcount_mfilter_le dest!: map_of_mfilter_SomeD)

definition set_allocs :: "Allocation gomap \<Rightarrow> txn \<Rightarrow> txn" where
  "set_allocs m t = t\<lparr>t_s := (t_s t)\<lparr>s_Allocations := m\<rparr>\<rparr>"

lemma allocs_inv_keep:
  assumes "allocs_inv rnd n m" "allocs_keep m m'"
  shows "allocs_inv rnd n m'"
proof -
  have old: "\<exists>a. map_of m k = Some a \<and> alloc_keep k a a'" if "map_of m' k = Some a'" for k a'
    using assms(2) that by (auto simp: allocs_keep_def)
  have "alloc_ok k a' \<and> k \<in> drawn rnd n \<and> a_RoomID a' \<in> drawn rnd n" if "map_of m' k = Some a'" for k a'
    using old[OF that] assms(1) by (auto simp: allocs_inv_def alloc_keep_def alloc_evolves_def)
  moreover have "apart a' b'" if "map_of m' k = Some a'" "map_of m' l = Some b'" "k \<noteq> l" for k l a' b'
    using old[OF that(1)] old[OF that(2)] that(3) assms(1) apart_keep
    unfolding allocs_inv_def by blast
  moreover have "mwf m'" using assms(2) by (simp add: allocs_keep_def)
  ultimately show ?thesis unfolding allocs_inv_def by blast
qed

lemma keeps_set_allocs:
  assumes "txn_inv cfg rnd t \<Longrightarrow> allocs_keep (t_allocs t) m'"
  shows "keeps cfg rnd t (set_allocs m' t)"
proof (rule keepsI)
  assume inv: "txn_inv cfg rnd t"
  note keep = assms[OF inv]
  have old: "\<exists>a. map_of (t_allocs t) k = Some a \<and> alloc_keep k a a'" if "map_of m' k = Some a'" for k a'
    using keep that by (auto simp: allocs_keep_def)
  have occ: "Occupied (t_s (set_allocs m' t)) wid \<le> Occupied (t_s t) wid" for wid
    using keep by (simp add: Occupied_def set_allocs_def allocs_keep_def)
  have "capacity_inv (t_s (set_allocs m' t))"
    using txn_invD(5)[OF inv] occ unfolding capacity_inv_def
    by (auto simp: set_allocs_def) (meson order_trans, meson less_le_trans)
  moreover have "hosted_inv (t_s (set_allocs m' t))"
    unfolding hosted_inv_def
  proof (intro allI impI)
    fix k a'
    assume a': "map_of (s_Allocations (t_s (set_allocs m' t))) k = Some a'" "\<not> Terminal (a_State a')"
      "a_WorkerID a' \<noteq> ''''"
    then have "map_of m' k = Some a'" by (simp add: set_allocs_def)
    from old[OF this] obtain a where a: "map_of (t_allocs t) k = Some a" "alloc_keep k a a'" by blast
    then have "map_of (t_workers t) (a_WorkerID a) \<noteq> None"
      using txn_invD(6)[OF inv] alloc_keep_live[OF a(2) a'(2)] a'(3) alloc_keep_worker[OF a(2)]
      unfolding hosted_inv_def by simp
    then show "map_of (s_Workers (t_s (set_allocs m' t))) (a_WorkerID a') \<noteq> None"
      by (simp add: set_allocs_def alloc_keep_worker[OF a(2)])
  qed
  moreover have "commanded_inv (t_s (set_allocs m' t))"
    unfolding commanded_inv_def
  proof (intro allI impI)
    fix k c a'
    assume c: "map_of (s_Commands (t_s (set_allocs m' t))) k = Some c" "c_Type c \<noteq> DrainCmd"
      and "map_of (s_Allocations (t_s (set_allocs m' t))) (c_AllocationID c) = Some a'"
    then have "map_of m' (c_AllocationID c) = Some a'" by (simp add: set_allocs_def)
    from old[OF this] obtain a where a: "map_of (t_allocs t) (c_AllocationID c) = Some a"
      "alloc_keep (c_AllocationID c) a a'" by blast
    then show "a_WorkerID a' = c_WorkerID c"
      using txn_invD(7)[OF inv] c alloc_keep_worker[OF a(2)]
      unfolding commanded_inv_def set_allocs_def by simp
  qed
  moreover have "txn_evolves rnd t (set_allocs m' t)"
    using old by (auto simp: txn_evolves_def entries_evolve_def set_allocs_def alloc_keep_def)
  ultimately show "keeps cfg rnd t (set_allocs m' t)"
    using inv allocs_inv_keep[OF txn_invD(2)[OF inv] keep]
    by (auto simp: keeps_def txn_inv_def state_inv_def set_allocs_def policy_inv_def policy_def liveCount_def)
qed

lemma keeps_upd_alloc [keeps_intros]:
  assumes "\<And>a. txn_inv cfg rnd t \<Longrightarrow> map_of (t_allocs t) k = Some a \<Longrightarrow> alloc_keep k a (f a)"
  shows "keeps cfg rnd t (upd_alloc k f t)"
  using keeps_set_allocs[of cfg rnd t "mupd k f (t_allocs t)"] assms
  by (simp add: upd_alloc_def set_allocs_def allocs_keep_mupd txn_invD(10))

lemma keeps_upd_allocs [keeps_intros]:
  assumes "\<And>k a. txn_inv cfg rnd t \<Longrightarrow> map_of (t_allocs t) k = Some a \<Longrightarrow> alloc_keep k a (f a)"
  shows "keeps cfg rnd t (upd_allocs f t)"
  using keeps_set_allocs[of cfg rnd t "mmap f (t_allocs t)"] assms
  by (simp add: upd_allocs_def set_allocs_def allocs_keep_mmap txn_invD(10))

lemma keeps_prune_allocs [keeps_intros]: "keeps cfg rnd t (with_state (prune_allocs now) t)"
  using keeps_set_allocs[OF allocs_keep_mfilter[OF txn_invD(10)]]
  by (simp add: with_state_def prune_allocs_def set_allocs_def)

subsection \<open>Replacing the workers\<close>

definition worker_keep :: "FleetState \<Rightarrow> string \<Rightarrow> Worker \<Rightarrow> Worker \<Rightarrow> bool" where
  "worker_keep s k w w' \<longleftrightarrow> worker_evolves w w' \<and> (worker_ok k w \<longrightarrow> worker_ok k w')
     \<and> (0 < Occupied s k \<longrightarrow> serving (w_State w) \<longrightarrow> serving (w_State w'))"

lemma worker_keep_refl [simp]: "worker_keep s k w w"
  by (simp add: worker_keep_def)

definition workers_keep :: "FleetState \<Rightarrow> Worker gomap \<Rightarrow> bool" where
  "workers_keep s m' \<longleftrightarrow> mwf m'
     \<and> (\<forall>k w'. map_of m' k = Some w' \<longrightarrow> (\<exists>w. map_of (s_Workers s) k = Some w \<and> worker_keep s k w w'))
     \<and> (\<forall>k. map_of (s_Workers s) k \<noteq> None \<longrightarrow> map_of m' k = None \<longrightarrow> \<not> pending_work s k)
     \<and> mcount counts_live m' \<le> mcount counts_live (s_Workers s)"

lemma workers_keep_mupd:
  assumes "mwf (s_Workers s)" "\<And>w. map_of (s_Workers s) k = Some w \<Longrightarrow> worker_keep s k w (f w)"
  shows "workers_keep s (mupd k f (s_Workers s))"
proof (cases "map_of (s_Workers s) k")
  case None
  then show ?thesis using assms(1) by (auto simp: workers_keep_def mupd_absent)
next
  case (Some w)
  have "counts_live (f w) \<longrightarrow> counts_live w"
    using assms(2)[OF Some] by (simp add: worker_keep_def worker_evolves_def)
  then have "mcount counts_live (mupd k f (s_Workers s)) \<le> mcount counts_live (s_Workers s)"
    using mcount_mupd[OF assms(1) Some, of counts_live f]
    by (cases "counts_live (f w)") simp_all
  then show ?thesis using assms Some by (auto simp: workers_keep_def split: if_splits)
qed

lemma workers_keep_mmap:
  assumes "mwf (s_Workers s)" "\<And>k w. map_of (s_Workers s) k = Some w \<Longrightarrow> worker_keep s k w (f w)"
  shows "workers_keep s (mmap f (s_Workers s))"
proof -
  have "mcount counts_live (mmap f (s_Workers s)) \<le> mcount counts_live (s_Workers s)"
    unfolding mcount_mmap
    by (rule mcount_mono) (use assms in \<open>auto simp: mem_iff_map_of worker_keep_def worker_evolves_def\<close>)
  then show ?thesis using assms by (auto simp: workers_keep_def)
qed

definition set_workers :: "Worker gomap \<Rightarrow> txn \<Rightarrow> txn" where
  "set_workers m t = t\<lparr>t_s := (t_s t)\<lparr>s_Workers := m\<rparr>\<rparr>"

lemma keeps_set_workers:
  assumes "txn_inv cfg rnd t \<Longrightarrow> workers_keep (t_s t) m'"
  shows "keeps cfg rnd t (set_workers m' t)"
proof (rule keepsI)
  assume inv: "txn_inv cfg rnd t"
  note keep = assms[OF inv]
  have old: "\<exists>w. map_of (t_workers t) k = Some w \<and> worker_keep (t_s t) k w w'" if "map_of m' k = Some w'" for k w'
    using keep that by (auto simp: workers_keep_def)
  have occ: "Occupied (t_s (set_workers m' t)) k = Occupied (t_s t) k" for k
    by (simp add: Occupied_def set_workers_def)
  have "capacity_inv (t_s (set_workers m' t))"
    unfolding capacity_inv_def occ
  proof (intro allI impI)
    fix k w'
    assume "map_of (s_Workers (t_s (set_workers m' t))) k = Some w'"
    then have "map_of m' k = Some w'" by (simp add: set_workers_def)
    from old[OF this] obtain w where w: "map_of (t_workers t) k = Some w" "worker_keep (t_s t) k w w'" by blast
    then show "Occupied (t_s t) k \<le> w_MaxRooms w' \<and> (0 < Occupied (t_s t) k \<longrightarrow> serving (w_State w'))"
      using txn_invD(5)[OF inv] by (auto simp: capacity_inv_def worker_keep_def worker_evolves_def)
  qed
  moreover have "hosted_inv (t_s (set_workers m' t))"
    unfolding hosted_inv_def
  proof (intro allI impI notI)
    fix k a
    assume "map_of (s_Allocations (t_s (set_workers m' t))) k = Some a"
      and live: "\<not> Terminal (a_State a)" "a_WorkerID a \<noteq> ''''"
      and gone: "map_of (s_Workers (t_s (set_workers m' t))) (a_WorkerID a) = None"
    then have a: "map_of (t_allocs t) k = Some a" "map_of m' (a_WorkerID a) = None"
      by (simp_all add: set_workers_def)
    have "map_of (t_workers t) (a_WorkerID a) \<noteq> None"
      using txn_invD(6)[OF inv] a(1) live by (simp add: hosted_inv_def)
    then have "\<not> pending_work (t_s t) (a_WorkerID a)"
      using keep a(2) by (auto simp: workers_keep_def)
    moreover have "pending_work (t_s t) (a_WorkerID a)"
      using map_of_SomeD[OF a(1)] live by (auto simp: pending_work_def list_ex_iff)
    ultimately show False by blast
  qed
  moreover have "workers_inv rnd (t_n t) m'"
    using keep txn_invD(3)[OF inv]
    by (fastforce simp: workers_keep_def workers_inv_def worker_keep_def)
  moreover have "txn_evolves rnd t (set_workers m' t)"
    using old by (auto simp: txn_evolves_def entries_evolve_def set_workers_def worker_keep_def)
  moreover have "liveCount (t_s (set_workers m' t)) \<le> cfg_MaxInstances cfg"
    using keep txn_invD(9)[OF inv] by (simp add: liveCount_def workers_keep_def set_workers_def)
  ultimately show "keeps cfg rnd t (set_workers m' t)"
    using inv
    by (simp add: keeps_def txn_inv_def state_inv_def set_workers_def policy_inv_def policy_def commanded_inv_def)
qed

lemma keeps_upd_worker [keeps_intros]:
  assumes "\<And>w. txn_inv cfg rnd t \<Longrightarrow> map_of (t_workers t) k = Some w \<Longrightarrow> worker_keep (t_s t) k w (f w)"
  shows "keeps cfg rnd t (upd_worker k f t)"
  using keeps_set_workers[of cfg rnd t "mupd k f (t_workers t)"] assms
  by (simp add: upd_worker_def set_workers_def workers_keep_mupd txn_invD(11))

subsection \<open>Replacing the commands\<close>

definition set_cmds :: "Command gomap \<Rightarrow> txn \<Rightarrow> txn" where
  "set_cmds m t = t\<lparr>t_s := (t_s t)\<lparr>s_Commands := m\<rparr>\<rparr>"

definition same_target :: "Command \<Rightarrow> Command \<Rightarrow> bool" where
  "same_target c c' \<longleftrightarrow> c_ID c' = c_ID c \<and> c_Type c' = c_Type c \<and> c_AllocationID c' = c_AllocationID c
     \<and> c_WorkerID c' = c_WorkerID c \<and> c_Attempts c' = c_Attempts c"

lemma keeps_set_cmds:
  assumes "txn_inv cfg rnd t \<Longrightarrow> mwf m'"
    and "\<And>k c'. txn_inv cfg rnd t \<Longrightarrow> map_of m' k = Some c' \<Longrightarrow> \<exists>c. map_of (t_cmds t) k = Some c \<and> same_target c c'"
  shows "keeps cfg rnd t (set_cmds m' t)"
proof (rule keepsI)
  assume inv: "txn_inv cfg rnd t"
  note old = assms(2)[OF inv]
  have "cmds_inv rnd (t_n t) m'"
    using assms(1)[OF inv] old txn_invD(4)[OF inv]
    by (fastforce simp: cmds_inv_def cmd_ok_def same_target_def)
  moreover have "commanded_inv (t_s (set_cmds m' t))"
    using old txn_invD(7)[OF inv]
    by (fastforce simp: commanded_inv_def set_cmds_def same_target_def)
  moreover have "txn_evolves rnd t (set_cmds m' t)"
    by (simp add: txn_evolves_def set_cmds_def entries_evolve_refl)
  ultimately show "keeps cfg rnd t (set_cmds m' t)"
    using inv
    by (simp add: keeps_def txn_inv_def state_inv_def set_cmds_def policy_inv_def policy_def
        capacity_inv_def hosted_inv_def Occupied_def liveCount_def)
qed

lemma keeps_upd_cmds [keeps_intros]:
  assumes "\<And>c. same_target c (f c)"
  shows "keeps cfg rnd t (upd_cmds f t)"
  using keeps_set_cmds[of cfg rnd t "mmap f (t_cmds t)"] assms
  by (auto simp: upd_cmds_def set_cmds_def txn_invD(12))

lemma keeps_upd_cmd [keeps_intros]:
  assumes "\<And>c. same_target c (f c)"
  shows "keeps cfg rnd t (upd_cmd k f t)"
proof -
  have "same_target c c" for c by (simp add: same_target_def)
  then have "keeps cfg rnd t (set_cmds (mupd k f (t_cmds t)) t)"
    using assms by (intro keeps_set_cmds) (auto simp: txn_invD(12) split: if_splits)
  then show ?thesis by (simp add: upd_cmd_def set_cmds_def)
qed

lemma keeps_filter_cmds: "keeps cfg rnd t (set_cmds (mfilter P (t_cmds t)) t)"
  by (rule keeps_set_cmds)
    (auto simp: txn_invD(12) same_target_def dest!: map_of_mfilter_SomeD[OF txn_invD(12)])

lemma keeps_prune_cmds [keeps_intros]: "keeps cfg rnd t (with_state (prune_cmds now) t)"
  using keeps_filter_cmds by (simp add: with_state_def prune_cmds_def set_cmds_def)

lemma keeps_new_command [keeps_intros]:
  assumes "c_ID (mk (rnd (t_n t))) = rnd (t_n t)" "txn_inv cfg rnd t \<Longrightarrow> 0 \<le> c_Attempts (mk (rnd (t_n t)))"
    and "txn_inv cfg rnd t \<Longrightarrow> c_Type (mk (rnd (t_n t))) \<noteq> DrainCmd \<Longrightarrow>
      c_WorkerID (mk (rnd (t_n t))) \<noteq> '''' \<and> c_AllocationID (mk (rnd (t_n t))) \<in> drawn rnd (t_n t) \<and>
      (\<forall>a. map_of (t_allocs t) (c_AllocationID (mk (rnd (t_n t)))) = Some a \<longrightarrow>
         a_WorkerID a = c_WorkerID (mk (rnd (t_n t))))"
  shows "keeps cfg rnd t (new_command rnd mk t)"
proof (rule keepsI)
  assume inv: "txn_inv cfg rnd t"
  let ?c = "mk (rnd (t_n t))"
  let ?t = "new_command rnd mk t"
  have t: "t_allocs ?t = t_allocs t" "t_workers ?t = t_workers t" "t_n ?t = Suc (t_n t)"
    "t_cmds ?t = mput (rnd (t_n t)) ?c (t_cmds t)"
    by (simp_all add: new_command_def Let_def assms(1))
  have up: "drawn rnd (t_n t) \<subseteq> drawn rnd (Suc (t_n t))" by (rule drawn_mono) simp
  have c: "cmd_ok rnd (Suc (t_n t)) (rnd (t_n t)) ?c"
    using assms(1) assms(2,3)[OF inv] up by (auto simp: cmd_ok_def)
  have "cmds_inv rnd (t_n ?t) (t_cmds ?t)"
    using txn_invD(4)[OF inv] c up drawn_next[of "t_n t" "Suc (t_n t)" rnd]
    by (auto simp: cmds_inv_def t intro: cmd_ok_mono[of _ "t_n t"])
  moreover have "allocs_inv rnd (t_n ?t) (t_allocs ?t)" "workers_inv rnd (t_n ?t) (t_workers ?t)"
    using txn_invD(2,3)[OF inv] up unfolding t allocs_inv_def workers_inv_def by blast+
  moreover have "commanded_inv (t_s ?t)"
    unfolding commanded_inv_def t using txn_invD(7)[OF inv] assms(3)[OF inv]
    by (auto simp: commanded_inv_def)
  moreover have "txn_evolves rnd t ?t"
    by (simp add: txn_evolves_def t entries_evolve_refl)
  ultimately show "keeps cfg rnd t ?t"
    using inv
    by (simp add: keeps_def txn_inv_def state_inv_def policy_inv_def policy_def new_command_def Let_def
        capacity_inv_def hosted_inv_def Occupied_def liveCount_def)
qed

subsection \<open>Fields outside the three maps\<close>

lemma keeps_frame:
  assumes "s_Workers (f (t_s t)) = s_Workers (t_s t)" "s_Allocations (f (t_s t)) = s_Allocations (t_s t)"
    "s_Commands (f (t_s t)) = s_Commands (t_s t)"
    and "txn_inv cfg rnd t \<Longrightarrow> policy_inv cfg (f (t_s t))"
  shows "keeps cfg rnd t (with_state f t)"
  using assms
  by (auto simp: keeps_def with_state_def txn_inv_def state_inv_def capacity_inv_def hosted_inv_def
      commanded_inv_def Occupied_def liveCount_def txn_evolves_def entries_evolve_refl)

lemma keeps_frame_policy [keeps_intros]:
  assumes "s_Workers (f (t_s t)) = s_Workers (t_s t)" "s_Allocations (f (t_s t)) = s_Allocations (t_s t)"
    "s_Commands (f (t_s t)) = s_Commands (t_s t)" "s_CapacityPolicy (f (t_s t)) = s_CapacityPolicy (t_s t)"
    "s_PolicyAudit (f (t_s t)) = s_PolicyAudit (t_s t)"
  shows "keeps cfg rnd t (with_state f t)"
  using assms by (intro keeps_frame) (auto dest!: txn_invD(8) simp: policy_inv_def policy_def)

end
