(* ===== verification/Fleet_Preservation.thy ===== *)
theory Fleet_Preservation
  imports Fleet_Invariant
begin

text \<open>
  Every operation keeps the invariant and only evolves entries: the building blocks of
  \<^verbatim>\<open>manager.go\<close>, the loops of \<^verbatim>\<open>Tick\<close>, the closing transactions of the provider operations, and the
  HTTP transactions.
\<close>

lemmas alloc_keep_defs = alloc_keep_def alloc_evolves_def alloc_ok_def touch_def finish_def seated_def
lemmas worker_keep_defs = worker_keep_def worker_evolves_def worker_ok_def gone_def serving_def
  unlaunched_def counts_live_def

lemma map_of_upd_simps [simp]:
  "t_allocs (upd_worker k f t) = t_allocs t" "t_cmds (upd_worker k f t) = t_cmds t"
  "t_n (upd_worker k f t) = t_n t" "t_workers (upd_alloc k g t) = t_workers t"
  "t_cmds (upd_alloc k g t) = t_cmds t" "t_n (upd_alloc k g t) = t_n t"
  "t_workers (upd_allocs g t) = t_workers t" "t_cmds (upd_allocs g t) = t_cmds t"
  "t_n (upd_allocs g t) = t_n t"
  "t_workers (upd_cmds h t) = t_workers t" "t_allocs (upd_cmds h t) = t_allocs t" "t_n (upd_cmds h t) = t_n t"
  "t_workers (upd_cmd k h t) = t_workers t" "t_allocs (upd_cmd k h t) = t_allocs t" "t_n (upd_cmd k h t) = t_n t"
  "t_workers (new_command rnd mk t) = t_workers t" "t_allocs (new_command rnd mk t) = t_allocs t"
  "map_of (t_workers (upd_worker k f t)) l = (if l = k then map_option f (map_of (t_workers t) k) else map_of (t_workers t) l)"
  "map_of (t_allocs (upd_alloc k g t)) l = (if l = k then map_option g (map_of (t_allocs t) k) else map_of (t_allocs t) l)"
  "map_of (t_allocs (upd_allocs g t)) l = map_option g (map_of (t_allocs t) l)"
  by (simp_all add: upd_worker_def upd_alloc_def upd_allocs_def upd_cmds_def upd_cmd_def new_command_def Let_def)

lemma Occupied_upd_simps [simp]:
  "Occupied (t_s (upd_worker k f t)) wid = Occupied (t_s t) wid"
  "Occupied (t_s (upd_cmds h t)) wid = Occupied (t_s t) wid"
  "Occupied (t_s (upd_cmd l h t)) wid = Occupied (t_s t) wid"
  "Occupied (t_s (new_command rnd mk t)) wid = Occupied (t_s t) wid"
  by (simp_all add: Occupied_def)

subsection \<open>Cancelling and draining\<close>

lemma same_target_withdraw: "same_target c (withdraw aid c)"
  by (simp add: same_target_def withdraw_def)

lemma same_target_close: "same_target c (close_commands wid c)"
  by (simp add: same_target_def close_commands_def)

lemma finish_keep: "\<not> Terminal (a_State a) \<Longrightarrow> Terminal phase \<Longrightarrow> alloc_keep k a (finish phase reason now a)"
  by (cases "a_State a"; cases phase) (simp_all add: alloc_keep_defs)

lemma cancelling_keep:
  "\<not> Terminal (a_State a) \<Longrightarrow> a_State a \<noteq> ACancelling \<Longrightarrow> a_WorkerID a \<noteq> '''' \<Longrightarrow>
   alloc_keep k a (touch (a\<lparr>a_State := ACancelling, a_Error := reason\<rparr>))"
  by (cases "a_State a") (simp_all add: alloc_keep_defs)

lemma cancel_keeps [keeps_intros]: "keeps cfg rnd t (cancel cfg' rnd reason now k t)"
proof (cases "map_of (t_allocs t) k")
  case None
  then show ?thesis by (simp add: cancel_def)
next
  case (Some a)
  have phase: "Terminal (cancel_phase reason)" by (simp add: cancel_phase_def)
  let ?t1 = "upd_cmds (withdraw (a_ID a))
    (upd_alloc k (\<lambda>a. touch (a\<lparr>a_State := ACancelling, a_Error := reason\<rparr>)) t)"
  have "keeps cfg rnd t (new_command rnd (cancel_command cfg' now a) ?t1)"
    if live: "\<not> Terminal (a_State a)" "a_State a \<noteq> ACancelling" "a_WorkerID a \<noteq> ''''"
  proof (rule keeps_then[of _ _ _ ?t1])
    show "keeps cfg rnd t ?t1"
      by (rule keeps.R_trans[OF keeps_upd_alloc keeps_upd_cmds[OF same_target_withdraw]])
        (use Some live cancelling_keep in simp)
    assume "txn_inv cfg rnd t"
    then have "a_ID a = k" "k \<in> drawn rnd (t_n t)"
      using Some by (auto dest: txn_inv_alloc)
    then show "keeps cfg rnd ?t1 (new_command rnd (cancel_command cfg' now a) ?t1)"
      using Some live by (intro keeps_new_command) (auto simp: cancel_command_def touch_def)
  qed
  moreover have "keeps cfg rnd t (upd_alloc k (finish (cancel_phase reason) reason now) t)"
    if "\<not> Terminal (a_State a)"
    by (rule keeps_upd_alloc) (use Some that finish_keep phase in simp)
  ultimately show ?thesis using Some by (simp add: cancel_def)
qed

lemma draining_keep:
  "drainable w \<Longrightarrow> worker_keep s k w (w\<lparr>w_Draining := True, w_State := WDraining, w_UpdatedAt := now\<rparr>)"
  by (auto simp: drainable_def worker_keep_defs)

lemma beginDrain_keeps [keeps_intros]:
  assumes "\<And>w. map_of (t_workers t) k = Some w \<Longrightarrow> w_Draining w \<or> drainable w"
  shows "keeps cfg rnd t (beginDrain rnd now k t)"
proof (cases "map_of (t_workers t) k")
  case None
  then show ?thesis by (simp add: beginDrain_def)
next
  case (Some w)
  let ?t1 = "upd_worker k (\<lambda>w. w\<lparr>w_Draining := True, w_State := WDraining, w_UpdatedAt := now\<rparr>) t"
  have "keeps cfg rnd t ?t1" if "drainable w"
    by (rule keeps_upd_worker) (use Some that draining_keep in simp)
  moreover have "keeps cfg rnd ?t1 (new_command rnd (drain_command (w_ID w) now) ?t1)"
    by (rule keeps_new_command) (simp_all add: drain_command_def)
  ultimately show ?thesis
    using Some assms by (auto simp: beginDrain_def intro: keeps.R_trans)
qed

subsection \<open>Workers that are gone\<close>

definition clear_rooms :: "string \<Rightarrow> string \<Rightarrow> int \<Rightarrow> txn \<Rightarrow> txn" where
  "clear_rooms wid reason now t = upd_cmds (close_commands wid) (upd_allocs (fail_rooms wid reason now) t)"

lemma fail_rooms_keep: "alloc_keep k a (fail_rooms wid reason now a)"
  by (simp add: fail_rooms_def finish_keep)

lemma clear_rooms_keeps: "keeps cfg rnd t (clear_rooms wid reason now t)"
  unfolding clear_rooms_def
  by (rule keeps.R_trans[OF keeps_upd_allocs keeps_upd_cmds[OF same_target_close]]) (rule fail_rooms_keep)

lemma clear_rooms_empty [simp]: "Occupied (t_s (clear_rooms wid reason now t)) wid = 0"
proof -
  have "\<not> holds_room wid (fail_rooms wid reason now a)" for a
    by (auto simp: holds_room_def fail_rooms_def finish_def touch_def)
  then show ?thesis
    by (simp add: Occupied_def clear_rooms_def upd_cmds_def upd_allocs_def mcount_mmap mcount_0_iff)
qed

lemma clear_rooms_commute: "clear_rooms wid reason now (upd_worker k f t) = upd_worker k f (clear_rooms wid reason now t)"
  by (simp add: clear_rooms_def upd_worker_def upd_cmds_def upd_allocs_def)

lemma clear_rooms_workers [simp]: "t_workers (clear_rooms wid reason now t) = t_workers t"
  by (simp add: clear_rooms_def)

text \<open>Clearing the rooms of a worker first lets its state change to one that serves nobody.\<close>

lemma clear_then_keeps:
  assumes "\<And>w. txn_inv cfg rnd t \<Longrightarrow> map_of (t_workers t) k = Some w \<Longrightarrow>
    w_ID w = k \<longrightarrow> worker_evolves w (f w) \<and> (worker_ok k w \<longrightarrow> worker_ok k (f w))"
  shows "keeps cfg rnd t (upd_worker k f (clear_rooms k reason now t))"
proof (rule keeps_then[OF clear_rooms_keeps[of _ _ _ k reason now]], rule keeps_upd_worker)
  fix w
  assume "txn_inv cfg rnd t" "map_of (t_workers (clear_rooms k reason now t)) k = Some w"
  then have "w_ID w = k" "map_of (t_workers t) k = Some w" by (auto dest: txn_inv_worker)
  then show "worker_keep (t_s (clear_rooms k reason now t)) k w (f w)"
    using assms[OF \<open>txn_inv cfg rnd t\<close>, of w] by (simp add: worker_keep_def)
qed

lemma stopped_eq:
  "map_of (t_workers t) k = Some w \<Longrightarrow> w_ID w = k \<Longrightarrow>
   stopped now k t = upd_worker k (\<lambda>w. w\<lparr>w_State := WStopped, w_Ready := False, w_ProviderReady := False,
     w_Error := '''', w_UpdatedAt := now\<rparr>) (clear_rooms k ''server_stopped'' now t)"
  by (simp add: stopped_def clear_rooms_commute[symmetric]) (simp add: clear_rooms_def)

lemma lost_eq:
  "map_of (t_workers t) k = Some w \<Longrightarrow> w_ID w = k \<Longrightarrow>
   lost reason now k t = upd_worker k (\<lambda>w. w\<lparr>w_State := WLost, w_Ready := False, w_ProviderReady := False,
     w_Error := reason, w_UpdatedAt := now\<rparr>) (clear_rooms k ''server_lost'' now t)"
  by (simp add: lost_def clear_rooms_commute[symmetric]) (simp add: clear_rooms_def)

lemma stopped_keeps [keeps_intros]: "keeps cfg rnd t (stopped now k t)"
proof (rule keepsI)
  assume inv: "txn_inv cfg rnd t"
  show "keeps cfg rnd t (stopped now k t)"
  proof (cases "map_of (t_workers t) k")
    case (Some w)
    show ?thesis unfolding stopped_eq[OF Some txn_inv_worker(3)[OF inv Some]]
      by (rule clear_then_keeps) (auto simp: worker_keep_defs)
  qed (simp add: stopped_def)
qed

lemma lost_keeps [keeps_intros]:
  assumes "\<And>w. map_of (t_workers t) k = Some w \<Longrightarrow> counts_live w"
  shows "keeps cfg rnd t (lost reason now k t)"
proof (rule keepsI)
  assume inv: "txn_inv cfg rnd t"
  show "keeps cfg rnd t (lost reason now k t)"
  proof (cases "map_of (t_workers t) k")
    case (Some w)
    have "counts_live w" by (rule assms[OF Some])
    then show ?thesis unfolding lost_eq[OF Some txn_inv_worker(3)[OF inv Some]]
      by (intro clear_then_keeps) (use Some in \<open>auto simp: worker_keep_defs\<close>)
  qed (simp add: lost_def)
qed

subsection \<open>New entries\<close>

lemma keeps_new_worker:
  assumes "1 \<le> maxRooms" "liveCount (t_s t) < cfg_MaxInstances cfg" "newWorker cfg rnd now maxRooms t = (wid, t')"
  shows "keeps cfg rnd t t'"
proof (rule keepsI)
  assume inv: "txn_inv cfg rnd t"
  define w where "w = new_worker_record cfg (policy cfg (t_s t)) (rnd (t_n t)) now maxRooms"
  have wid: "w_ID w = rnd (t_n t)" by (simp add: w_def new_worker_record_def)
  have t': "t_allocs t' = t_allocs t" "t_cmds t' = t_cmds t" "t_n t' = Suc (t_n t)"
    "t_workers t' = mput (rnd (t_n t)) w (t_workers t)" "s_CapacityPolicy (t_s t') = s_CapacityPolicy (t_s t)"
    "s_PolicyAudit (t_s t') = s_PolicyAudit (t_s t)"
    using assms(3) by (auto simp: newWorker_def w_def[symmetric] wid Let_def)
  have up: "drawn rnd (t_n t) \<subseteq> drawn rnd (Suc (t_n t))" by (rule drawn_mono) simp
  have fresh: "rnd (t_n t) \<notin> drawn rnd (t_n t)" by (rule drawn_fresh[OF txn_invD(1)[OF inv]]) simp
  have new: "map_of (t_workers t) (rnd (t_n t)) = None"
    using txn_inv_worker(2)[OF inv] fresh by (cases "map_of (t_workers t) (rnd (t_n t))") auto
  have ok: "worker_ok (rnd (t_n t)) w" using assms(1)
    by (simp add: w_def new_worker_record_def worker_ok_def)
  have occ: "Occupied (t_s t') k = Occupied (t_s t) k" for k by (simp add: Occupied_def t')
  have empty: "Occupied (t_s t) (rnd (t_n t)) = 0"
    using txn_invD(6)[OF inv] new drawn_nonempty[OF txn_invD(1)[OF inv] drawn_next[of "t_n t" "Suc (t_n t)"]]
    by (force simp: Occupied_0_iff[OF txn_invD(10)[OF inv]] hosted_inv_def holds_room_def)
  have "workers_inv rnd (t_n t') (t_workers t')"
    using txn_invD(3)[OF inv] ok up drawn_next[of "t_n t" "Suc (t_n t)" rnd]
    by (auto simp: workers_inv_def t')
  moreover have "allocs_inv rnd (t_n t') (t_allocs t')"
    using txn_invD(2)[OF inv] up unfolding t' allocs_inv_def by blast
  moreover have "cmds_inv rnd (t_n t') (t_cmds t')"
    using txn_invD(4)[OF inv] up unfolding t' cmds_inv_def by (blast intro: cmd_ok_mono le_SucI)
  moreover have "capacity_inv (t_s t')"
    using txn_invD(5)[OF inv] ok empty by (auto simp: capacity_inv_def occ t' worker_ok_def)
  moreover have "hosted_inv (t_s t')" "commanded_inv (t_s t')" "policy_inv cfg (t_s t')"
    using txn_invD(6,7,8)[OF inv]
    by (auto simp: hosted_inv_def commanded_inv_def policy_inv_def policy_def t')
  moreover have "liveCount (t_s t') \<le> cfg_MaxInstances cfg"
    using assms(2) mcount_mput_fresh[OF new, of counts_live w] by (simp add: liveCount_def t')
  moreover have "txn_evolves rnd t t'"
    using fresh by (auto simp: txn_evolves_def t' entries_evolve_refl entries_evolve_def)
  ultimately show "keeps cfg rnd t t'"
    using inv by (simp add: keeps_def txn_inv_def state_inv_def)
qed

text \<open>What it means that the scan of \<open>allocation\<close> ran to its end.\<close>

lemma alloc_scan_None:
  "alloc_scan users key es = None \<longleftrightarrow>
     (\<forall>(k, a) \<in> set es. a_RequestKey a \<noteq> key \<and>
        (Terminal (a_State a) \<or> (\<forall>u \<in> set users. \<not> contains (a_UserIDs a) u)))"
  by (induction users key es rule: alloc_scan.induct) (auto simp: list_ex_iff)

lemma alloc_scan_found:
  "alloc_scan users key es = Some (Inr k) \<Longrightarrow>
     \<exists>a. (k, a) \<in> set es \<and> a_RequestKey a = key \<and> sameUsers (a_UserIDs a) users"
  by (induction users key es rule: alloc_scan.induct) (auto split: if_splits)

lemma contains_iff [simp]: "contains users u \<longleftrightarrow> u \<in> set users"
  by (induction users) (auto simp: contains_def)

lemma allocation_cases:
  assumes "allocation ro rnd users key now timeout t = Inr (k, t')" "range_order ro"
  obtains
    (old) a where "t' = t" "map_of (t_allocs t) k = Some a" "a_RequestKey a = key" "sameUsers (a_UserIDs a) users"
  | (new) "k = rnd (t_n t)" "t_n t' = t_n t + 2"
      "t_s t' = (t_s t)\<lparr>s_Allocations := mput k (new_allocation rnd (t_n t) users key now timeout) (t_allocs t)\<rparr>"
      "validUsers users" "key \<noteq> ''''" "length key \<le> 256"
      "\<And>l a. map_of (t_allocs t) l = Some a \<Longrightarrow> a_RequestKey a \<noteq> key \<and>
         (Terminal (a_State a) \<or> set users \<inter> set (a_UserIDs a) = {})"
proof (cases "alloc_scan users key (range_entries ro 0 (t_allocs t))")
  case None
  then have "a_RequestKey a \<noteq> key \<and> (Terminal (a_State a) \<or> set users \<inter> set (a_UserIDs a) = {})"
    if "map_of (t_allocs t) l = Some a" for l a
    using that range_entries_iff[OF assms(2), of l a 0 "t_allocs t"] by (fastforce simp: alloc_scan_None)
  then show thesis using None assms(1) new
    by (auto simp: allocation_def Let_def new_allocation_def split: if_splits)
next
  case (Some r)
  then show thesis using assms(1) old alloc_scan_found[of users key "range_entries ro 0 (t_allocs t)" k]
    by (auto simp: allocation_def range_entries_iff[OF assms(2)] split: if_splits sum.splits)
qed

lemma keeps_allocation:
  assumes "allocation ro rnd users key now timeout t = Inr (k, t')" "range_order ro"
  shows "keeps cfg rnd t t'"
  using assms
proof (cases rule: allocation_cases)
  case (old a)
  then show ?thesis by simp
next
  case new
  show ?thesis
  proof (rule keepsI)
    assume inv: "txn_inv cfg rnd t"
    let ?a = "new_allocation rnd (t_n t) users key now timeout"
    have t': "t_workers t' = t_workers t" "t_cmds t' = t_cmds t" "t_n t' = t_n t + 2"
      "t_allocs t' = mput k ?a (t_allocs t)" using new(2,3) by simp_all
    have a: "a_State ?a = AWaiting" "a_WorkerID ?a = ''''" "a_RequestKey ?a = key" "a_UserIDs ?a = users"
      "a_RoomID ?a = rnd (t_n t + 1)" "a_ID ?a = k" "a_Epoch ?a = 1"
      using new(1) by (simp_all add: new_allocation_def)
    have up: "drawn rnd (t_n t) \<subseteq> drawn rnd (t_n t + 2)" by (rule drawn_mono) simp
    have fresh: "k \<notin> drawn rnd (t_n t)" "rnd (t_n t + 1) \<notin> drawn rnd (t_n t)"
      using drawn_fresh[OF txn_invD(1)[OF inv]] new(1) by simp_all
    have none: "map_of (t_allocs t) k = None"
      using txn_inv_alloc(2)[OF inv] fresh by (cases "map_of (t_allocs t) k") auto
    have room: "a_RoomID b \<noteq> rnd (t_n t + 1)" if "map_of (t_allocs t) l = Some b" for l b
      using txn_invD(2)[OF inv] fresh(2) that unfolding allocs_inv_def by metis
    have apart: "apart ?a b \<and> apart b ?a" if "map_of (t_allocs t) l = Some b" for l b
      using new(7)[OF that] room[OF that] by (auto simp: apart_def a)
    have "allocs_inv rnd (t_n t') (t_allocs t')"
      using txn_invD(2)[OF inv] up apart new(1,4) drawn_next[of _ "t_n t + 2" rnd]
      by (auto simp: allocs_inv_def t' alloc_ok_def a)
    moreover have "workers_inv rnd (t_n t') (t_workers t')"
      using txn_invD(3)[OF inv] up unfolding t' workers_inv_def by blast
    moreover have "cmds_inv rnd (t_n t') (t_cmds t')"
      using txn_invD(4)[OF inv] up unfolding t' cmds_inv_def by (blast intro: cmd_ok_mono le_add1)
    moreover have "Occupied (t_s t') wid = Occupied (t_s t) wid" if "wid \<noteq> ''''" for wid
      using mcount_mput_fresh[OF none, of "holds_room wid" ?a] that
      by (simp add: Occupied_def t' holds_room_def a)
    then have "capacity_inv (t_s t')"
      using txn_invD(5)[OF inv] txn_inv_worker(4)[OF inv] by (auto simp: capacity_inv_def t')
    moreover have "hosted_inv (t_s t')"
      using txn_invD(6)[OF inv] by (auto simp: hosted_inv_def t' a)
    moreover have "commanded_inv (t_s t')"
      using txn_invD(7)[OF inv] txn_invD(4)[OF inv] fresh
      by (auto simp: commanded_inv_def t' a cmds_inv_def cmd_ok_def)
    moreover have "policy_inv cfg (t_s t')" "liveCount (t_s t') \<le> cfg_MaxInstances cfg"
      using txn_invD(8,9)[OF inv] new(3) by (auto simp: policy_inv_def policy_def liveCount_def)
    moreover have "txn_evolves rnd t t'"
      using fresh by (auto simp: txn_evolves_def t' entries_evolve_refl entries_evolve_def)
    ultimately show "keeps cfg rnd t t'"
      using inv by (simp add: keeps_def txn_inv_def state_inv_def)
  qed
qed

subsection \<open>Reserving a prepared room\<close>

lemma keeps_draw: "t_n t \<le> n \<Longrightarrow> keeps cfg rnd t (t\<lparr>t_n := n\<rparr>)"
proof (rule keepsI)
  assume n: "t_n t \<le> n" and inv: "txn_inv cfg rnd t"
  note up = drawn_mono[OF n, of rnd]
  have "allocs_inv rnd n (t_allocs t)" "workers_inv rnd n (t_workers t)" "cmds_inv rnd n (t_cmds t)"
    using txn_invD(2,3,4)[OF inv] up n unfolding allocs_inv_def workers_inv_def cmds_inv_def
    by (blast intro: cmd_ok_mono)+
  then show "keeps cfg rnd t (t\<lparr>t_n := n\<rparr>)"
    using inv n by (simp add: keeps_def txn_inv_def state_inv_def txn_evolves_def entries_evolve_refl)
qed

lemma mk_sessions_users [simp]: "map se_UserID (mk_sessions rnd n e uids) = uids"
  by (simp add: mk_sessions_def case_prod_beta comp_def)

lemma mk_sessions_seats: "length uids = 2 \<Longrightarrow> map se_Seat (mk_sessions rnd n e uids) = [0, 1]"
  by (auto simp: mk_sessions_def numeral_2_eq_2 length_Suc_conv)

lemma reserve_keep:
  assumes "reserve rnd now ttl users n a = Inr (a', n')"
  shows "alloc_keep k a a' \<and> n \<le> n'"
proof -
  have "seated (a\<lparr>a_Sessions := mk_sessions rnd n e (a_UserIDs a)\<rparr>)" if "alloc_ok k a" for e
    using that by (simp add: seated_def mk_sessions_seats alloc_ok_def validUsers_def)
  then show ?thesis using assms
    by (auto simp: reserve_def alloc_keep_defs split: if_splits)
qed

lemma reserve_at_keeps:
  assumes "reserve_at cfg' rnd now users k t = Inr t'"
  shows "keeps cfg rnd t t'"
proof -
  obtain a a' n' where a: "map_of (t_allocs t) k = Some a"
    "reserve rnd now (cfg_ReservationTTL cfg') users (t_n t) a = Inr (a', n')"
    "t' = (upd_alloc k (\<lambda>_. a') t)\<lparr>t_n := n'\<rparr>"
    using assms by (auto simp: reserve_at_def bindE_eq_Inr split: option.splits)
  have "keeps cfg rnd t (upd_alloc k (\<lambda>_. a') t)"
    by (rule keeps_upd_alloc) (use a reserve_keep in auto)
  then show ?thesis unfolding a(3)
    by (rule keeps.R_trans) (use reserve_keep[OF a(2)] in \<open>simp add: keeps_draw\<close>)
qed

subsection \<open>Placing a waiting allocation\<close>

lemma keeps_assign:
  assumes a: "map_of (t_allocs t) k = Some a" "a_State a = AWaiting"
    and w: "map_of (t_workers t) wid = Some w" "serving (w_State w)" "Occupied (t_s t) wid < w_MaxRooms w"
    and f: "alloc_evolves a (f a)" "a_WorkerID (f a) = wid" "a_State (f a) = APreparing"
  shows "keeps cfg rnd t (upd_alloc k f t)"
proof (rule keepsI)
  assume inv: "txn_inv cfg rnd t"
  let ?t = "upd_alloc k f t"
  have none: "a_WorkerID a = ''''" using txn_inv_alloc(1)[OF inv a(1)] a(2) by (simp add: alloc_ok_def)
  have wid: "wid \<noteq> ''''" by (rule txn_inv_worker(4)[OF inv w(1)])
  have ok: "alloc_ok k (f a)"
    using txn_inv_alloc(1)[OF inv a(1)] f wid by (auto simp: alloc_ok_def alloc_evolves_def)
  have ids: "a_RequestKey (f a) = a_RequestKey a" "a_RoomID (f a) = a_RoomID a" "a_UserIDs (f a) = a_UserIDs a"
    using f(1) by (simp_all add: alloc_evolves_def)
  have apart: "apart (f a) b \<longleftrightarrow> apart a b" "apart b (f a) \<longleftrightarrow> apart b a" for b
    by (simp_all add: apart_def ids a(2) f(3))
  have "allocs_inv rnd (t_n ?t) (t_allocs ?t)"
    using txn_invD(2)[OF inv] ok a(1)
    by (auto simp: allocs_inv_def upd_alloc_def apart ids split: if_splits)
  moreover have occ: "Occupied (t_s ?t) x = (if x = wid then Occupied (t_s t) x + 1 else Occupied (t_s t) x)"
    if "x \<noteq> ''''" for x
    using mcount_mupd[OF txn_invD(10)[OF inv] a(1), of "holds_room x" f] that
    by (auto simp: Occupied_def upd_alloc_def holds_room_def none f)
  then have "capacity_inv (t_s ?t)"
    using txn_invD(5)[OF inv] w txn_inv_worker(4)[OF inv] by (auto simp: capacity_inv_def)
  moreover have "hosted_inv (t_s ?t)"
    using txn_invD(6)[OF inv] w(1) a(1) f by (auto simp: hosted_inv_def split: if_splits)
  moreover have "commanded_inv (t_s ?t)"
  proof -
    have "c_AllocationID c \<noteq> k" if "map_of (t_cmds t) l = Some c" "c_Type c \<noteq> DrainCmd" for l c
    proof
      assume "c_AllocationID c = k"
      then have "a_WorkerID a = c_WorkerID c" using that a(1) txn_invD(7)[OF inv] by (auto simp: commanded_inv_def)
      moreover have "c_WorkerID c \<noteq> ''''" using txn_invD(4)[OF inv] that by (auto simp: cmds_inv_def cmd_ok_def)
      ultimately show False using none by simp
    qed
    then show ?thesis using txn_invD(7)[OF inv] by (auto simp: commanded_inv_def)
  qed
  moreover have "txn_evolves rnd t ?t"
    using a(1) f(1) by (auto simp: txn_evolves_def entries_evolve_def)
  ultimately show "keeps cfg rnd t ?t"
    using inv
    by (simp add: keeps_def txn_inv_def state_inv_def)
      (simp add: upd_alloc_def policy_inv_def policy_def liveCount_def)
qed

lemma place_keeps:
  assumes a: "map_of (t_allocs t) k = Some a" "a_State a = AWaiting"
    and w: "map_of (t_workers t) (w_ID w) = Some w" "w_State w = WReady" "Occupied (t_s t) (w_ID w) < w_MaxRooms w"
  shows "keeps cfg rnd t (place cfg' rnd now k a w t)"
proof -
  let ?f = "\<lambda>a. touch (a\<lparr>a_WorkerID := w_ID w, a_State := APreparing, a_ExpiresAt := now + cfg_PrepareTimeout cfg'\<rparr>)"
  let ?t1 = "upd_worker (w_ID w) (\<lambda>w. w\<lparr>w_IdleSince := 0\<rparr>) (upd_alloc k ?f t)"
  have "keeps cfg rnd t (upd_alloc k ?f t)" if "txn_inv cfg rnd t"
    using txn_inv_alloc(1)[OF that a(1)] a(2)
    by (intro keeps_assign[OF a w(1) _ w(3)])
      (simp_all add: serving_def w(2) alloc_keep_defs)
  then have "keeps cfg rnd t ?t1"
    by (intro keeps_then[OF keepsI keeps_upd_worker]) (auto simp: worker_keep_defs)
  then show ?thesis unfolding place_def
  proof (rule keeps_then)
    assume inv: "txn_inv cfg rnd t"
    then have "a_ID a = k" "k \<in> drawn rnd (t_n t)" "w_ID w \<noteq> ''''"
      using txn_inv_alloc[OF inv a(1)] txn_inv_worker(4)[OF inv w(1)] by simp_all
    then show "keeps cfg rnd ?t1 (new_command rnd (prepare_command a (w_ID w) (now + cfg_PrepareTimeout cfg')) ?t1)"
      using a(1) by (intro keeps_new_command) (auto simp: prepare_command_def touch_def)
  qed
qed

text \<open>The worker the inner loop chooses is an eligible worker of the state, with a free room.\<close>

lemma choose_fold_member:
  "fst (fold (\<lambda>(k, w). choose_step cfg now a s w) es cb) = Some w \<Longrightarrow>
     fst cb = Some w \<or> (\<exists>k. (k, w) \<in> set es) \<and> fits cfg now a s w"
proof (induction es arbitrary: cb)
  case (Cons e es)
  from Cons.IH[of "choose_step cfg now a s (snd e) cb"] Cons.prems show ?case
    by (cases e) (auto simp: choose_step_def split: if_splits)
qed simp

lemma choose_worker_SomeD:
  assumes "choose_worker cfg ro site now a s = Some w" "range_order ro"
  shows "\<exists>k. map_of (s_Workers s) k = Some w" "fits cfg now a s w"
  using choose_fold_member[of cfg now a s "range_entries ro site (s_Workers s)" "(None, - 1)" w] assms
  by (auto simp: choose_worker_def range_entries_iff)

lemma fitsD: "fits cfg now a s w \<Longrightarrow> w_State w = WReady \<and> Occupied s (w_ID w) < w_MaxRooms w"
  by (simp add: fits_def eligible_def)

lemma tick_place_keeps:
  assumes "range_order ro"
    and "\<And>a. map_of (t_allocs t) (snd ik) = Some a \<Longrightarrow> a_State a = AWaiting"
  shows "keeps cfg rnd t (tick_place cfg' ro rnd now ik t)"
proof (rule keepsI)
  assume inv: "txn_inv cfg rnd t"
  show "keeps cfg rnd t (tick_place cfg' ro rnd now ik t)"
  proof (cases "map_of (t_allocs t) (snd ik)")
    case a: (Some a)
    show ?thesis
    proof (cases "choose_worker cfg' ro (10 + fst ik) now a (t_s t)")
      case w: (Some w)
      obtain l where "map_of (t_workers t) l = Some w" using choose_worker_SomeD(1)[OF w assms(1)] by blast
      moreover from this have "w_ID w = l" by (rule txn_inv_worker(3)[OF inv])
      ultimately show ?thesis
        using place_keeps[OF a assms(2)[OF a], of w] fitsD[OF choose_worker_SomeD(2)[OF w assms(1)]] a w
        by (simp add: tick_place_def)
    qed (simp add: tick_place_def a)
  qed (simp add: tick_place_def)
qed

lemma tick_place_other:
  "l \<noteq> snd ik \<Longrightarrow> map_of (t_allocs (tick_place cfg ro rnd now ik t)) l = map_of (t_allocs t) l"
  by (auto simp: tick_place_def place_def split: option.splits)

lemma places_keep:
  assumes "range_order ro" "distinct (map snd iks)"
    and "\<And>ik a. ik \<in> set iks \<Longrightarrow> map_of (t_allocs t) (snd ik) = Some a \<Longrightarrow> a_State a = AWaiting"
  shows "keeps cfg rnd t (fold (tick_place cfg' ro rnd now) iks t)"
  using assms(2,3)
proof (induction iks arbitrary: t)
  case (Cons ik iks)
  let ?t1 = "tick_place cfg' ro rnd now ik t"
  have "keeps cfg rnd t ?t1" by (rule tick_place_keeps[OF assms(1)], rule Cons.prems(2)) simp_all
  moreover have "keeps cfg rnd ?t1 (fold (tick_place cfg' ro rnd now) iks ?t1)"
  proof (rule Cons.IH)
    fix jk a
    assume "jk \<in> set iks" "map_of (t_allocs ?t1) (snd jk) = Some a"
    moreover from imageI[OF this(1), of snd] have "snd jk \<noteq> snd ik"
      using Cons.prems(1) by (metis distinct.simps(2) list.simps(9) list.set_map)
    ultimately show "a_State a = AWaiting" using Cons.prems(2)[of jk a] by (simp add: tick_place_other)
  qed (use Cons.prems in simp)
  ultimately show ?case by (simp add: keeps.R_trans)
qed simp

lemma waiting_keys_iff:
  "range_order ro \<Longrightarrow> k \<in> set (waiting_keys ro s) \<longleftrightarrow>
     (\<exists>a. map_of (s_Allocations s) k = Some a \<and> a_State a = AWaiting)"
  by (force simp: waiting_keys_def range_entries_iff)

lemma waiting_keys_distinct:
  assumes "range_order ro" "mwf (s_Allocations s)"
  shows "distinct (waiting_keys ro s)"
proof -
  have "distinct (map fst (range_entries ro 5 (s_Allocations s)))"
    by (simp add: range_entries_keys assms range_order_distinct)
  then have "distinct (map fst (filter (\<lambda>(k, a). a_State a = AWaiting) (range_entries ro 5 (s_Allocations s))))"
    by (rule distinct_map_filter)
  then show ?thesis
    unfolding waiting_keys_def by (auto simp: distinct_map inj_on_def)
qed

lemma tick_places_keeps: "range_order ro \<Longrightarrow> keeps cfg rnd t (tick_places cfg' ro rnd now t)"
  unfolding tick_places_def
  by (rule keepsI, rule places_keep)
    (auto simp: waiting_keys_distinct txn_invD(10) waiting_keys_iff in_set_enumerate_eq
      dest!: nth_mem)

subsection \<open>The loops of a tick\<close>

lemma lease_step_keeps: "lease_step owner now (t_s t) = Inr s' \<Longrightarrow> keeps cfg rnd t (t\<lparr>t_s := s'\<rparr>)"
  using keeps_frame_policy[of "\<lambda>s. s'" t cfg rnd]
  by (auto simp: lease_step_def with_state_def split: if_splits)

lemma age_worker_keep: "worker_keep s k w (age_worker cfg now w)"
  by (auto simp: age_worker_def Let_def worker_keep_defs)

lemma tick_worker_keeps: "keeps cfg rnd t (tick_worker cfg' rnd now k t)"
proof (cases "map_of (t_workers t) k")
  case (Some w)
  define t1 where "t1 = (if expiring cfg' now w then beginDrain rnd now k t else t)"
  define t2 where "t2 = upd_worker k (age_worker cfg' now) t1"
  have "keeps cfg rnd t t1"
    unfolding t1_def by (auto intro!: beginDrain_keeps simp: Some expiring_def drainable_def)
  then have "keeps cfg rnd t t2"
    unfolding t2_def by (rule keeps.R_trans) (rule keeps_upd_worker, rule age_worker_keep)
  moreover have "keeps cfg rnd t2 (lost ''agent_lost'' now k t2)"
    if "map_of (t_workers t2) k = Some w2" "agent_lost cfg' now w2" for w2
    by (rule lost_keeps) (use that in \<open>auto simp: agent_lost_def counts_live_def\<close>)
  ultimately have "keeps cfg rnd t (case map_of (t_workers t2) k of None \<Rightarrow> t2
      | Some w2 \<Rightarrow> if agent_lost cfg' now w2 then lost ''agent_lost'' now k t2 else t2)"
    by (cases "map_of (t_workers t2) k") (auto intro: keeps.R_trans)
  then show ?thesis unfolding tick_worker_def Some Let_def t1_def t2_def option.case .
qed (simp add: tick_worker_def)

lemma tick_alloc_keeps: "keeps cfg rnd t (tick_alloc cfg' rnd now k t)"
  by (auto simp: tick_alloc_def split: option.splits intro: cancel_keeps)

lemma pending_work_iff:
  "mwf (s_Allocations s) \<Longrightarrow> pending_work s wid \<longleftrightarrow>
     (\<exists>k a. map_of (s_Allocations s) k = Some a \<and> (a_WorkerID a = wid \<or> a_PreferredWorkerID a = wid)
        \<and> \<not> Terminal (a_State a))"
  by (fastforce simp: pending_work_def list_ex_iff mem_iff_map_of)

lemma prune_workers_keeps: "keeps cfg rnd t (with_state (prune_workers now) t)"
proof -
  let ?m = "mfilter (\<lambda>wid w. \<not> retired now (t_s t) wid w) (t_workers t)"
  let ?P = "\<lambda>cid c. \<not> list_ex (\<lambda>(wid, w). wid = c_WorkerID c \<and> retired now (t_s t) wid w) (t_workers t)"
  have "keeps cfg rnd t (set_workers ?m t)"
  proof (rule keeps_set_workers)
    assume inv: "txn_inv cfg rnd t"
    note wf = txn_invD(11)[OF inv]
    show "workers_keep (t_s t) ?m"
      using wf mcount_mfilter_le
      by (auto simp: workers_keep_def map_of_mfilter retired_def split: option.splits if_splits)
  qed
  also have "keeps cfg rnd (set_workers ?m t) (set_cmds (mfilter ?P (t_cmds (set_workers ?m t))) (set_workers ?m t))"
    by (rule keeps_filter_cmds)
  finally (keeps.R_trans) show ?thesis
    by (simp add: with_state_def prune_workers_def set_workers_def set_cmds_def)
qed

lemma tick_expire_keeps: "keeps cfg rnd t (tick_expire cfg' ro rnd now t)"
  unfolding tick_expire_def Let_def
  by (intro keeps.R_trans[OF _ prune_workers_keeps] keeps.R_trans[OF _ keeps_prune_cmds]
      keeps.R_trans[OF _ keeps_prune_allocs] keeps.R_trans[OF keeps.fold_R keeps.fold_R])
    (rule tick_worker_keeps tick_alloc_keeps)+

lemma tick_reserve_keeps: "tick_reserve cfg' rnd now k t = Inr t' \<Longrightarrow> keeps cfg rnd t t'"
  by (auto simp: tick_reserve_def split: option.splits if_splits intro: reserve_at_keeps)

lemma tick_reserves_keeps: "tick_reserves cfg' ro rnd now t = Inr t' \<Longrightarrow> keeps cfg rnd t t'"
  unfolding tick_reserves_def by (rule keeps.foldE_R[OF tick_reserve_keeps])

lemma scale_up_keeps: "keeps cfg rnd t (scale_up cfg rnd now t)"
proof (rule keepsI)
  assume inv: "txn_inv cfg rnd t"
  let ?r = "p_RoomsPerInstance (policy cfg (t_s t))"
  obtain wid t1 where t1: "newWorker cfg rnd now ?r t = (wid, t1)" by (cases "newWorker cfg rnd now ?r t")
  have "keeps cfg rnd t1 (with_state (\<lambda>s. s\<lparr>s_NextCreateAt := now + 1\<rparr>) t1)"
    by (rule keeps_frame_policy) simp_all
  moreover have "keeps cfg rnd t t1" if "wants_worker cfg now (t_s t)"
    by (rule keeps_new_worker[OF _ _ t1])
      (use that txn_invD(8)[OF inv] in \<open>auto simp: wants_worker_def policy_inv_def\<close>)
  ultimately show "keeps cfg rnd t (scale_up cfg rnd now t)"
    using keeps.R_trans by (auto simp: scale_up_def t1 with_state_def)
qed

lemma idle_clock_keep: "worker_keep s k w (idle_clock now occ w)"
  by (simp add: idle_clock_def worker_keep_defs)

lemma stop_if_drained_keep:
  "occ = Occupied s k \<Longrightarrow> worker_keep s k w (stop_if_drained cfg now occ w)"
  by (auto simp: stop_if_drained_def drained_def worker_keep_defs)

interpretation keeps_snd: step_rel "\<lambda>x y. keeps cfg rnd (snd x) (snd y)"
  by unfold_locales (auto intro: keeps.R_trans)

lemma tick_idle_keeps: "keeps cfg rnd (snd rt) (snd (tick_idle cfg' rnd now q k rt))"
proof (rule keepsI)
  assume inv: "txn_inv cfg rnd (snd rt)"
  obtain ready t where rt: "rt = (ready, t)" by (cases rt)
  show "keeps cfg rnd (snd rt) (snd (tick_idle cfg' rnd now q k rt))"
  proof (cases "map_of (t_workers t) k")
    case (Some w)
    have k: "w_ID w = k" using inv Some rt by (auto dest: txn_inv_worker)
    define occ where "occ = Occupied (t_s t) k"
    define t0 where "t0 = upd_worker k (idle_clock now occ) t"
    have t0: "keeps cfg rnd t t0" unfolding t0_def by (rule keeps_upd_worker, rule idle_clock_keep)
    have drain: "keeps cfg rnd t0 (beginDrain rnd now k t0)" if "w_State w = WReady"
      by (rule beginDrain_keeps) (use that Some in \<open>auto simp: t0_def idle_clock_def drainable_def\<close>)
    have occ0: "Occupied (t_s t0) k = occ" "Occupied (t_s (beginDrain rnd now k t0)) k = occ"
      by (simp_all add: t0_def occ_def beginDrain_def split: option.splits)
    have stop: "keeps cfg rnd u (upd_worker k (stop_if_drained cfg' now occ) u)" if "Occupied (t_s u) k = occ" for u
      by (rule keeps_upd_worker, rule stop_if_drained_keep) (simp add: that)
    note trans = keeps.R_trans[OF t0] keeps.R_trans[OF keeps.R_trans[OF t0 drain]]
    show ?thesis
      using Some stop[of t] stop[of t0] stop[of "beginDrain rnd now k t0"] occ0 trans
      by (auto simp: tick_idle_def rt k Let_def occ_def[symmetric] t0_def[symmetric])
  qed (simp add: tick_idle_def rt)
qed

lemma tick_scale_keeps: "keeps cfg rnd t (tick_scale cfg ro rnd now t)"
proof -
  have "keeps cfg rnd (snd (r, scale_up cfg rnd now t))
      (snd (fold (tick_idle cfg rnd now q) ks (r, scale_up cfg rnd now t)))" for q ks r
    by (rule keeps_snd.fold_R, rule tick_idle_keeps)
  then show ?thesis unfolding tick_scale_def Let_def
    using keeps.R_trans[OF scale_up_keeps] by (metis snd_conv)
qed

theorem Tick_keeps:
  assumes "Tick cfg ro rnd owner now t = Inr t'" "range_order ro"
  shows "keeps cfg rnd t t'"
proof -
  obtain s1 t2 where s1: "lease_step owner now (t_s t) = Inr s1"
    and t2: "tick_reserves cfg ro rnd now (tick_expire cfg ro rnd now (t\<lparr>t_s := s1\<rparr>)) = Inr t2"
    and t': "t' = tick_scale cfg ro rnd now (tick_places cfg ro rnd now t2)"
    using assms(1) by (auto simp: Tick_def bindE_eq_Inr)
  have "keeps cfg rnd t t2"
    by (rule keeps.R_trans[OF lease_step_keeps[OF s1] keeps.R_trans[OF tick_expire_keeps tick_reserves_keeps[OF t2]]])
  then show ?thesis unfolding t'
    by (rule keeps.R_trans[OF _ keeps.R_trans[OF tick_places_keeps[OF assms(2)] tick_scale_keeps]])
qed

end
