(* ===== verification/Fleet_Nakama.thy ===== *)
theory Fleet_Nakama
  imports Fleet_Manager
begin

text \<open>
  The game bridge: the player hooks and RPCs of \<^verbatim>\<open>pkg/fleetmanager/nakama.go\<close>. A runtime error is its
  message and gRPC code. The JSON decoders of RPC payloads and SHA-256 in hex are parameters.
\<close>

type_synonym runtime_error = "string \<times> int"

definition runtimeError :: "fleet_error \<Rightarrow> runtime_error" where
  "runtimeError err =
     (case err of
        ErrNotFound \<Rightarrow> (''assignment not found'', 5)
      | ErrForbidden \<Rightarrow> (''forbidden'', 7)
      | ErrBusy \<Rightarrow> (''assignment unavailable'', 9)
      | _ \<Rightarrow> (''fleet operation failed'', 13))"

definition validateClientProfile :: "Config \<Rightarrow> string \<Rightarrow> string \<Rightarrow> runtime_error option" where
  "validateClientProfile cfg buildHash region =
     (if buildHash \<noteq> cfg_BuildHash cfg then Some (''fleet_build_mismatch'', 9)
      else if region \<noteq> cfg_Region cfg then Some (''fleet_region_mismatch'', 9)
      else None)"

text \<open>A missing entry of a Go string map reads as the empty string.\<close>

definition prop_text :: "string gomap \<Rightarrow> string \<Rightarrow> string" where
  "prop_text m k = (case map_of m k of None \<Rightarrow> '''' | Some v \<Rightarrow> v)"

definition before_matchmaker_add ::
  "Config \<Rightarrow> ('env \<Rightarrow> string gomap option) \<Rightarrow> 'env \<Rightarrow> runtime_error + 'env" where
  "before_matchmaker_add cfg get_add inp =
     (case get_add inp of
        None \<Rightarrow> Inl (''invalid matchmaker request'', 3)
      | Some properties \<Rightarrow>
          (case validateClientProfile cfg (prop_text properties ''build_hash'') (prop_text properties ''region'') of
             Some err \<Rightarrow> Inl err
           | None \<Rightarrow> Inr inp))"

record MatchmakerEntry =
  mm_Properties :: "any gomap"
  mm_UserId :: string
  mm_Ticket :: string

definition entry_error :: "Config \<Rightarrow> MatchmakerEntry \<Rightarrow> runtime_error option" where
  "entry_error cfg e =
     validateClientProfile cfg (any_string (map_of (mm_Properties e) ''build_hash''))
       (any_string (map_of (mm_Properties e) ''region''))"

fun first_entry_error :: "Config \<Rightarrow> MatchmakerEntry list \<Rightarrow> runtime_error option" where
  "first_entry_error cfg [] = None"
| "first_entry_error cfg (e # es) =
     (case entry_error cfg e of Some err \<Rightarrow> Some err | None \<Rightarrow> first_entry_error cfg es)"

fun join_lines :: "string list \<Rightarrow> string" where
  "join_lines [] = ''''"
| "join_lines [x] = x"
| "join_lines (x # xs) = x @ CHR 0x0A # join_lines xs"

definition match_key :: "(string \<Rightarrow> string) \<Rightarrow> MatchmakerEntry list \<Rightarrow> string" where
  "match_key sha256_hex entries = ''matchmaker:'' @ sha256_hex (join_lines (sort (map mm_Ticket entries)))"

definition matchmaker_matched ::
  "Config \<Rightarrow> (string \<Rightarrow> string) \<Rightarrow> range_fn \<Rightarrow> id_stream \<Rightarrow> int \<Rightarrow> MatchmakerEntry list \<Rightarrow> txn
     \<Rightarrow> runtime_error + txn" where
  "matchmaker_matched cfg sha256_hex ro rnd now entries t =
     (if length entries \<noteq> 2 then Inl (''DM requires two players'', 3)
      else case first_entry_error cfg entries of
        Some err \<Rightarrow> Inl err
      | None \<Rightarrow>
          (case Allocate cfg ro rnd now (map mm_UserId entries) (match_key sha256_hex entries) t of
             Inl err \<Rightarrow> Inl (runtimeError err)
           | Inr (_, t') \<Rightarrow> Inr t'))"

subsection \<open>RPCs\<close>

text \<open>
  An optional profile field of the payload: absent is \<open>None\<close>; present it is null, a string or
  something that does not decode to a string.
\<close>

datatype json_field = FieldNull | FieldString string | FieldOther

record assignmentRequest =
  ar_AllocationID :: string
  ar_BuildHash :: "json_field option"
  ar_Region :: "json_field option"

definition field_error :: "string \<Rightarrow> string \<Rightarrow> json_field option \<Rightarrow> runtime_error option" where
  "field_error expected mismatch field =
     (case field of
        None \<Rightarrow> None
      | Some FieldOther \<Rightarrow> Some (''invalid payload'', 3)
      | Some FieldNull \<Rightarrow> Some (mismatch, 9)
      | Some (FieldString v) \<Rightarrow> if v \<noteq> expected then Some (mismatch, 9) else None)"

definition profile_error :: "Config \<Rightarrow> assignmentRequest \<Rightarrow> runtime_error option" where
  "profile_error cfg r =
     (case field_error (cfg_BuildHash cfg) ''fleet_build_mismatch'' (ar_BuildHash r) of
        Some err \<Rightarrow> Some err
      | None \<Rightarrow> field_error (cfg_Region cfg) ''fleet_region_mismatch'' (ar_Region r))"

definition assignmentRPC ::
  "Config \<Rightarrow> mac_fn \<Rightarrow> (AdmissionClaims \<Rightarrow> string) \<Rightarrow> (string \<Rightarrow> assignmentRequest option) \<Rightarrow> range_fn
     \<Rightarrow> string \<Rightarrow> int \<Rightarrow> string \<Rightarrow> string \<Rightarrow> bool \<Rightarrow> FleetState \<Rightarrow> runtime_error + Assignment" where
  "assignmentRPC cfg mac mar decode ro nonce now user payload resume s =
     (if user = '''' then Inl (''user authentication required'', 16)
      else case (if payload = '''' then Some \<lparr>ar_AllocationID = '''', ar_BuildHash = None, ar_Region = None\<rparr>
                 else decode payload) of
        None \<Rightarrow> Inl (''invalid payload'', 3)
      | Some r \<Rightarrow>
          (case profile_error cfg r of
             Some err \<Rightarrow> Inl err
           | None \<Rightarrow>
               (case AssignmentOf cfg mac mar ro nonce now user (ar_AllocationID r) resume s of
                  Inl err \<Rightarrow> Inl (runtimeError err)
                | Inr a \<Rightarrow> Inr a)))"

definition cancelRPC ::
  "Config \<Rightarrow> id_stream \<Rightarrow> (string \<Rightarrow> string option) \<Rightarrow> int \<Rightarrow> string \<Rightarrow> string \<Rightarrow> txn \<Rightarrow> runtime_error + txn" where
  "cancelRPC cfg rnd decode now user payload t =
     (if user = '''' then Inl (''user authentication required'', 16)
      else case decode payload of
        None \<Rightarrow> Inl (''allocation_id required'', 3)
      | Some aid \<Rightarrow>
          if aid = '''' then Inl (''allocation_id required'', 3)
          else (case Cancel cfg rnd now user aid t of
                  Inl err \<Rightarrow> Inl (runtimeError err)
                | Inr t' \<Rightarrow> Inr t'))"

end
