(* ===== verification/Fleet_Operations.thy ===== *)
theory Fleet_Operations
  imports Fleet_Preservation Fleet_Nakama
begin

text \<open>
  Preservation for whole operations: the calls of clients and administrators, the transactions
  around provider calls, and the HTTP handlers.
\<close>

subsection \<open>Calls of the fleet manager interface\<close>

lemma Allocate_keeps:
  "Allocate cfg' ro rnd now users key t = Inr (aid, t') \<Longrightarrow> range_order ro \<Longrightarrow> keeps cfg rnd t t'"
  by (auto simp: Allocate_def bindE_eq_Inr split: option.splits intro: keeps_allocation)

lemma Cancel_keeps: "Cancel cfg' rnd now user aid t = Inr t' \<Longrightarrow> keeps cfg rnd t t'"
  by (auto simp: Cancel_def split: option.splits if_splits intro: cancel_keeps)

lemma Create_keeps:
  assumes "Create cfg ro rnd now maxPlayers users regions t = Inr (wid, t')" "range_order ro"
  shows "keeps cfg rnd t t'"
proof -
  obtain wid1 t1 where t1: "newWorker cfg rnd now (maxPlayers div 2) t = (wid1, t1)"
    by (cases "newWorker cfg rnd now (maxPlayers div 2) t")
  have t1_keeps: "keeps cfg rnd t t1"
    by (rule keeps_new_worker[OF _ _ t1]) (use assms(1) in \<open>auto simp: Create_def split: if_splits\<close>)
  have link: "keeps cfg rnd t2 (upd_worker wid1 (\<lambda>w. w\<lparr>w_InitialAllocationID := i\<rparr>)
      (upd_alloc k (\<lambda>a. a\<lparr>a_PreferredWorkerID := wid1\<rparr>) t2))" for t2 k i
    by (rule keeps.R_trans[OF keeps_upd_alloc keeps_upd_worker]) (auto simp: alloc_keep_defs worker_keep_defs)
  consider "t' = t1"
    | k t2 i where "allocation ro rnd users (''create:'' @ wid1) now (cfg_AllocationTimeout cfg) t1 = Inr (k, t2)"
      "t' = upd_worker wid1 (\<lambda>w. w\<lparr>w_InitialAllocationID := i\<rparr>)
        (upd_alloc k (\<lambda>a. a\<lparr>a_PreferredWorkerID := wid1\<rparr>) t2)"
    using assms(1) by (auto simp: Create_def t1 bindE_eq_Inr split: if_splits option.splits)
  then show ?thesis
  proof cases
    case 2
    show ?thesis unfolding 2(2)
      by (rule keeps.R_trans[OF t1_keeps keeps.R_trans[OF keeps_allocation[OF 2(1) assms(2)] link]])
  qed (simp add: t1_keeps)
qed

lemma Join_keeps:
  "Join cfg' rnd now1 now2 wid users aid t = Inr (r, t') \<Longrightarrow> keeps cfg rnd t t'"
  by (auto simp: Join_def bindE_eq_Inr split: option.splits if_splits intro: reserve_at_keeps)

lemma UpdateWorker_keeps: "UpdateWorker wid n len t = Inr t' \<Longrightarrow> keeps cfg rnd t t'"
  by (auto simp: UpdateWorker_def worker_keep_defs split: option.splits if_splits intro!: keeps_upd_worker)

lemma Delete_keeps: "Delete rnd now wid t = Inr t' \<Longrightarrow> keeps cfg rnd t t'"
  by (auto simp: Delete_def split: option.splits if_splits intro!: beginDrain_keeps)

lemma Drain_keeps: "Drain rnd now wid t = Inr t' \<Longrightarrow> keeps cfg rnd t t'"
  by (auto simp: Drain_def split: option.splits if_splits intro!: beginDrain_keeps)

lemma UpdatePolicy_keeps:
  assumes "UpdatePolicy cfg now inp (t_s t) = Inr (s', u)"
  shows "keeps cfg rnd t (t\<lparr>t_s := s'\<rparr>)"
proof -
  have "keeps cfg rnd t (with_state (\<lambda>_. s') t)"
  proof (rule keeps_frame)
    assume "txn_inv cfg rnd t"
    then have "length (s_PolicyAudit (t_s t)) \<le> 100" by (auto dest: txn_invD(8) simp: policy_inv_def)
    then show "policy_inv cfg s'"
      using UpdatePolicy_audit(1)[OF assms] UpdatePolicy_policy(2,3)[OF assms]
        PolicyUpdate_Validate_ok[of inp "()"]
      by (simp add: policy_inv_def)
  qed (use UpdatePolicy_frame[OF assms] in simp_all)
  then show ?thesis by (simp add: with_state_def)
qed

lemma NewManager_keeps:
  assumes "NewManager cfg profile (t_s t) = Inr s'"
  shows "keeps cfg rnd t (t\<lparr>t_s := s'\<rparr>)"
proof -
  let ?t1 = "with_state (\<lambda>s. s\<lparr>s_CapacityPolicy := Some (policy cfg (t_s t))\<rparr>) t"
  let ?t2 = "set_workers (mmap (upgrade_worker cfg) (t_workers ?t1)) ?t1"
  have "keeps cfg rnd t ?t1"
    by (rule keeps_frame) (auto dest!: txn_invD(8) simp: policy_inv_def policy_def split: option.splits)
  also have "keeps cfg rnd ?t1 ?t2"
    by (rule keeps_set_workers, rule workers_keep_mmap)
      (auto simp: txn_invD(11) upgrade_worker_def worker_keep_defs)
  also (keeps.R_trans) have "keeps cfg rnd ?t2 (with_state (\<lambda>s. s\<lparr>s_Profile := profile\<rparr>) ?t2)"
    by (rule keeps_frame_policy) simp_all
  finally (keeps.R_trans) show ?thesis
    using assms by (auto simp: NewManager_def with_state_def set_workers_def split: if_splits)
qed

lemma release_lease_keeps: "keeps cfg rnd t (with_state (release_lease owner) t)"
  by (rule keeps_frame_policy) (simp_all add: release_lease_def)

lemma renewLease_keeps: "renewLease owner now (t_s t) = Inr s' \<Longrightarrow> keeps cfg rnd t (t\<lparr>t_s := s'\<rparr>)"
  using keeps_frame_policy[of "\<lambda>s. s'" t cfg rnd]
  by (auto simp: renewLease_def with_state_def split: if_splits)

lemma mark_notified_keeps: "keeps cfg rnd t (with_state (mark_notified aid revision) t)"
  using keeps_upd_alloc[of cfg rnd t aid "\<lambda>live. if a_Revision live = revision
      then live\<lparr>a_NotifiedRevision := revision\<rparr> else live"]
  by (simp add: with_state_def mark_notified_def upd_alloc_def alloc_keep_defs)

lemma retry_creation_keeps: "keeps cfg rnd t (with_state retry_creation t)"
  by (rule keeps_frame_policy) (simp_all add: retry_creation_def)

subsection \<open>Transactions around provider calls\<close>

lemma start_begin_keeps: "start_begin owner now k t = Inr t' \<Longrightarrow> keeps cfg rnd t t'"
  by (auto simp: start_begin_def worker_keep_defs split: option.splits if_splits intro!: keeps_upd_worker)

lemma block_keeps: "keeps cfg rnd t (with_state (\<lambda>s. s\<lparr>s_CreationBlockedReason := reason\<rparr>) t)"
  by (rule keeps_frame_policy) simp_all

lemma lifetime_keep:
  "worker_keep s k w (w\<lparr>w_ProviderExpiresAt := e\<rparr>)"
  "worker_keep s k w (if w_State w = WLaunching \<or> w_State w = WBootstrapping
     then w\<lparr>w_State := WStopping, w_NextCheckAt := now\<rparr> else w)"
  by (simp_all add: worker_keep_defs)

lemma providerLifetime_keeps: "keeps cfg rnd t (providerLifetime cfg' parse_time now inst k t)"
proof -
  define t1 where "t1 = upd_worker k (\<lambda>w. w\<lparr>w_ProviderExpiresAt :=
    (case parse_time (in_StartedAt inst) of None \<Rightarrow> w_CreatedAt w | Some p \<Rightarrow> p) + in_TTL inst\<rparr>) t"
  have "keeps cfg rnd t t1" unfolding t1_def by (rule keeps_upd_worker, rule lifetime_keep)
  then show ?thesis unfolding providerLifetime_def Let_def t1_def[symmetric]
    by (intro keeps.R_if keeps.R_refl keeps.R_trans[OF _ keeps_upd_worker[OF lifetime_keep(2)]]
        keeps.R_trans[OF _ block_keeps])
qed

lemma start_failure_keep:
  "w_State w = WStarting \<Longrightarrow> worker_ok k w \<Longrightarrow>
   worker_keep s k w (w\<lparr>w_State := WUnknown, w_Error := e, w_NextCheckAt := n\<rparr>)"
  "w_State w = WStarting \<Longrightarrow> worker_ok k w \<Longrightarrow> worker_keep s k w (w\<lparr>w_State := WFailed, w_Error := e\<rparr>)"
  by (simp_all add: worker_keep_defs)

lemma start_failed_keeps:
  assumes "\<And>w. map_of (t_workers t) k = Some w \<Longrightarrow> w_State w = WStarting"
  shows "keeps cfg rnd t (start_failed now err k t)"
proof -
  have 1: "keeps cfg rnd t (upd_worker k (\<lambda>w. w\<lparr>w_State := WUnknown, w_Error := e, w_NextCheckAt := n\<rparr>) t)" for e n
    by (rule keeps_upd_worker, rule start_failure_keep(1)[OF assms]) (auto dest: txn_inv_worker(1))
  have 2: "keeps cfg rnd t (upd_worker k (\<lambda>w. w\<lparr>w_State := WFailed, w_Error := e\<rparr>) t)" for e
    by (rule keeps_upd_worker, rule start_failure_keep(2)[OF assms]) (auto dest: txn_inv_worker(1))
  have 3: "keeps cfg rnd u (with_state (\<lambda>s. s\<lparr>s_NextCreateAt := now + 15\<rparr>) u)" for u
    by (rule keeps_frame_policy) simp_all
  show ?thesis
    unfolding start_failed_def Let_def
    by (rule keeps.R_trans[OF _ 3]) (intro keeps.R_if 1 2 keeps.R_trans[OF 1 block_keeps] keeps.R_trans[OF 2 block_keeps])
qed

lemma launch_keep:
  "worker_ok k w \<Longrightarrow> unlaunched (w_State w) \<Longrightarrow>
   worker_keep s k w (w\<lparr>w_ProviderID := i, w_State := WLaunching, w_NextCheckAt := n\<rparr>)"
  "worker_ok k w \<Longrightarrow> unlaunched (w_State w) \<Longrightarrow>
   worker_keep s k w (w\<lparr>w_ProviderID := i, w_State := WLaunching, w_Error := e, w_NextCheckAt := n\<rparr>)"
  by (auto simp: worker_keep_defs)

lemma start_finish_keeps:
  assumes "start_finish cfg' parse_time owner now now1 now2 now3 res k t = Inr t'"
    and "\<And>w. s_Leader (t_s t) = owner \<Longrightarrow> map_of (t_workers t) k = Some w \<Longrightarrow> w_State w = WStarting"
  shows "keeps cfg rnd t t'"
proof (cases "s_Leader (t_s t) = owner")
  case True
  define t1 where "t1 = upd_worker k (\<lambda>w. w\<lparr>w_UpdatedAt := now1\<rparr>) t"
  have t1: "keeps cfg rnd t t1" unfolding t1_def by (rule keeps_upd_worker) (simp add: worker_keep_defs)
  have st: "w_State w = WStarting" if "map_of (t_workers t1) k = Some w" for w
    using that assms(2)[OF True] by (auto simp: t1_def)
  have "keeps cfg rnd t1 (upd_worker k (\<lambda>w. w\<lparr>w_ProviderID := i, w_State := WLaunching, w_NextCheckAt := now2\<rparr>) t1)" for i
    by (rule keeps_upd_worker, rule launch_keep(1)) (auto dest: txn_inv_worker(1) st simp: unlaunched_def)
  note launched = keeps.R_trans[OF keeps.R_trans[OF t1 this] providerLifetime_keeps]
  show ?thesis
    using assms(1) True keeps.R_trans[OF t1 start_failed_keeps[OF st]] launched
    by (auto simp: start_finish_def Let_def t1_def[symmetric] split: option.splits sum.splits)
qed (use assms(1) in \<open>simp add: start_finish_def\<close>)

lemma reconcile_finish_keeps: "keeps cfg rnd t (reconcile_finish cfg' parse_time owner now now1 outcome k t)"
proof (cases "map_of (t_workers t) k")
  case (Some w)
  define t1 where "t1 = upd_worker k (\<lambda>w. w\<lparr>w_NextCheckAt := now + cfg_ProviderPollSeconds cfg'\<rparr>) t"
  have t1: "keeps cfg rnd t t1" unfolding t1_def by (rule keeps_upd_worker) (simp add: worker_keep_defs)
  have err: "keeps cfg rnd t1 (upd_worker k (\<lambda>w. w\<lparr>w_Error := e\<rparr>) t1)" for e
    by (rule keeps_upd_worker) (simp add: worker_keep_defs)
  have adopt: "keeps cfg rnd t1 (upd_worker k (\<lambda>w. w\<lparr>w_ProviderID := i, w_State := WLaunching, w_Error := '''',
      w_NextCheckAt := now\<rparr>) t1)" if "w_State w = WUnknown" for i
    by (rule keeps_upd_worker, rule launch_keep(2))
      (use that Some in \<open>auto dest: txn_inv_worker(1) simp: t1_def unlaunched_def\<close>)
  show ?thesis
    unfolding reconcile_finish_def Some Let_def t1_def[symmetric] option.case
    using keeps.R_trans[OF t1 err] t1 keeps.R_trans[OF keeps.R_trans[OF t1 err] block_keeps]
      keeps.R_trans[OF keeps.R_trans[OF t1 adopt] providerLifetime_keeps]
    by (auto split: sum.splits list.splits)
qed (simp add: reconcile_finish_def)

definition pollable :: "WorkerState \<Rightarrow> bool" where
  "pollable st \<longleftrightarrow> st \<noteq> WStopped \<and> st \<noteq> WFailed \<and> \<not> unlaunched st"

lemma pollable_live: "pollable (w_State w) \<Longrightarrow> counts_live w"
  by (simp add: pollable_def counts_live_def)

lemma not_running_keep: "worker_keep s k w (not_running w)"
  by (auto simp: not_running_def worker_keep_defs)

lemma poll_running_fields:
  "w_ID (poll_running cfg now inst w) = w_ID w \<and> w_MaxRooms (poll_running cfg now inst w) = w_MaxRooms w
   \<and> w_Region (poll_running cfg now inst w) = w_Region w \<and> w_BuildHash (poll_running cfg now inst w) = w_BuildHash w
   \<and> w_CreatedAt (poll_running cfg now inst w) = w_CreatedAt w \<and> w_ProviderID (poll_running cfg now inst w) = w_ProviderID w
   \<and> w_BootID (poll_running cfg now inst w) = w_BootID w \<and> w_LastSequence (poll_running cfg now inst w) = w_LastSequence w
   \<and> w_PolicyRevision (poll_running cfg now inst w) = w_PolicyRevision w \<and> w_CPURequest (poll_running cfg now inst w) = w_CPURequest w
   \<and> w_CPULimit (poll_running cfg now inst w) = w_CPULimit w \<and> w_Metrics (poll_running cfg now inst w) = w_Metrics w"
  by (simp add: poll_running_def Let_def split: sum.splits)

lemma poll_running_state:
  assumes "pollable (w_State w)" "\<not> gone (w_State w)"
  shows "pollable (w_State (poll_running cfg now inst w))"
    "serving (w_State w) \<Longrightarrow> serving (w_State (poll_running cfg now inst w))"
  using assms
  by (cases "w_State w"; simp add: poll_running_def Let_def pollable_def unlaunched_def gone_def serving_def
      split: sum.splits; fail)+

lemma poll_running_keep:
  assumes "pollable (w_State w)" "\<not> gone (w_State w)"
  shows "worker_keep s k w (poll_running cfg now inst w)"
  using poll_running_state[OF assms] assms(2) pollable_live[OF assms(1)]
  by (simp add: worker_keep_def worker_evolves_def worker_ok_def poll_running_fields pollable_def unlaunched_def)

lemma poll_state_keep:
  assumes "pollable (w_State w)" "w_State w \<noteq> WStopping"
  shows "worker_keep s k w (poll_state cfg now inst w)"
proof -
  have "w_State w \<noteq> WLost \<Longrightarrow> \<not> gone (w_State w)" using assms by (simp add: gone_def pollable_def)
  then show ?thesis
    using poll_running_keep[OF assms(1)] by (auto simp: poll_state_def) (simp_all add: worker_keep_defs)
qed

lemma poll_apply_keeps:
  assumes "\<And>w. map_of (t_workers t) k = Some w \<Longrightarrow> pollable (w_State w)"
  shows "keeps cfg rnd t (poll_apply cfg' now inst k t)"
proof (cases "map_of (t_workers t) k")
  case (Some w)
  note ok = assms[OF Some]
  have "keeps cfg rnd t (upd_worker k (\<lambda>w. w\<lparr>w_State := WStopping, w_Draining := False, w_NextCheckAt := now\<rparr>)
      (lost ''provider_unhealthy'' now k t))"
  proof (rule keeps.R_trans[OF lost_keeps keeps_upd_worker])
    show "counts_live v" if "map_of (t_workers t) k = Some v" for v
      using that Some pollable_live[OF ok] by simp
    show "worker_keep (t_s (lost ''provider_unhealthy'' now k t)) k v
        (v\<lparr>w_State := WStopping, w_Draining := False, w_NextCheckAt := now\<rparr>)"
      if "map_of (t_workers (lost ''provider_unhealthy'' now k t)) k = Some v" for v
      using that Some by (auto simp: lost_def worker_keep_defs)
  qed
  moreover
  define t1 where "t1 = (if in_Status inst \<noteq> ''running'' then upd_worker k not_running t else t)"
  have t1: "keeps cfg rnd t t1"
    unfolding t1_def by (auto intro!: keeps_upd_worker not_running_keep)
  have st: "pollable (w_State w1) \<and> w_State w1 \<noteq> WStopping"
    if "map_of (t_workers t1) k = Some w1" "w_State w \<noteq> WStopping" for w1
    using that ok Some by (auto simp: t1_def not_running_def pollable_def unlaunched_def split: if_splits)
  have "keeps cfg rnd t (upd_worker k (poll_state cfg' now inst) t1)" if "w_State w \<noteq> WStopping"
    by (rule keeps.R_trans[OF t1 keeps_upd_worker]) (use st that poll_state_keep in blast)
  ultimately show ?thesis
    unfolding poll_apply_def Some Let_def t1_def[symmetric] option.case
    using keeps.R_trans[OF t1 stopped_keeps] by auto
qed (simp add: poll_apply_def)

lemma providerLifetime_state:
  assumes "map_of (t_workers (providerLifetime cfg parse_time now inst k t)) k = Some w'"
  obtains w where "map_of (t_workers t) k = Some w" "pollable (w_State w) \<longrightarrow> pollable (w_State w')"
proof -
  have "\<exists>w. map_of (t_workers t) k = Some w \<and> (pollable (w_State w) \<longrightarrow> pollable (w_State w'))"
    using assms
    by (auto simp: providerLifetime_def Let_def with_state_def upd_worker_def pollable_def unlaunched_def
        split: if_splits)
  then show thesis using that by blast
qed

lemma poll_finish_keeps:
  assumes "poll_finish cfg' parse_time owner now now1 res w t = Inr t'"
    and "\<And>v. s_Leader (t_s t) = owner \<Longrightarrow> map_of (t_workers t) (w_ID w) = Some v \<Longrightarrow> pollable (w_State v)"
  shows "keeps cfg rnd t t'"
proof (cases "s_Leader (t_s t) = owner")
  case True
  let ?k = "w_ID w"
  define t1 where "t1 = upd_worker ?k (\<lambda>w. w\<lparr>w_NextCheckAt := now + cfg_ProviderPollSeconds cfg'\<rparr>) t"
  have t1: "keeps cfg rnd t t1" unfolding t1_def by (rule keeps_upd_worker) (simp add: worker_keep_defs)
  have st: "pollable (w_State v)" if "map_of (t_workers t1) ?k = Some v" for v
    using that assms(2)[OF True] by (auto simp: t1_def)
  have lost: "keeps cfg rnd t (lost r now ?k t1)" for r
    by (rule keeps.R_trans[OF t1 lost_keeps], rule pollable_live, rule st)
  have query: "keeps cfg rnd t (upd_worker ?k (\<lambda>w. w\<lparr>w_Error := ''provider_query_failed''\<rparr>) t1)"
    by (rule keeps.R_trans[OF t1 keeps_upd_worker]) (simp add: worker_keep_defs)
  have polled: "keeps cfg rnd t (poll_apply cfg' now inst ?k (providerLifetime cfg' parse_time now1 inst ?k t1))" for inst
    by (rule keeps.R_trans[OF keeps.R_trans[OF t1 providerLifetime_keeps] poll_apply_keeps])
      (use st in \<open>auto elim!: providerLifetime_state\<close>)
  show ?thesis
    using assms(1) True lost query polled keeps.R_trans[OF t1 stopped_keeps]
    by (auto simp: poll_finish_def Let_def t1_def[symmetric] split: option.splits if_splits sum.splits)
qed (use assms(1) in \<open>simp add: poll_finish_def\<close>)

lemma stop_begin_keeps: "stop_begin cfg' owner now now1 w t = Inr t' \<Longrightarrow> t' = t"
  by (auto simp: stop_begin_def split: option.splits if_splits)

lemma stop_failed_keeps: "stop_failed cfg' owner now k t = Inr t' \<Longrightarrow> keeps cfg rnd t t'"
  by (auto simp: stop_failed_def worker_keep_defs split: option.splits if_splits intro!: keeps_upd_worker)

lemma stop_finish_keeps:
  assumes "stop_finish cfg' owner now res w t = Inr t'"
  shows "keeps cfg rnd t t'"
proof -
  define t1 where "t1 = upd_worker (w_ID w) (\<lambda>w. w\<lparr>w_NextCheckAt := now + cfg_ProviderPollSeconds cfg'\<rparr>) t"
  have t1: "keeps cfg rnd t t1" unfolding t1_def by (rule keeps_upd_worker) (simp add: worker_keep_defs)
  have "keeps cfg rnd t (upd_worker (w_ID w) (\<lambda>w. w\<lparr>w_Error := ''awaiting_stop_confirmation''\<rparr>) t1)"
    by (rule keeps.R_trans[OF t1 keeps_upd_worker]) (simp add: worker_keep_defs)
  then show ?thesis
    using assms keeps.R_trans[OF t1 stopped_keeps]
    by (auto simp: stop_finish_def Let_def t1_def[symmetric] split: option.splits if_splits)
qed

subsection \<open>HTTP transactions\<close>

lemma bootstrap_keeps: "bootstrap_txn cfg' now inp t = Inr t' \<Longrightarrow> keeps cfg rnd t t'"
  by (auto simp: bootstrap_txn_def worker_keep_defs split: option.splits if_splits intro!: keeps_upd_worker)

lemma record_heartbeat_keep:
  assumes "metrics_finite (hb_Metrics inp)" "w_LastSequence w \<le> hb_Sequence inp"
    and "w_State w \<noteq> WStopped" "w_State w \<noteq> WLost" "w_State w \<noteq> WFailed"
  shows "worker_keep s k w (record_heartbeat now inp w)"
  using assms by (cases "w_State w") (simp_all add: record_heartbeat_def Let_def worker_keep_defs)

lemma prepared_keep: "a_State a = APreparing \<Longrightarrow> alloc_keep k a (touch (a\<lparr>a_State := APrepared\<rparr>))"
  by (simp add: alloc_keep_defs)

lemma prepared_room_keeps:
  assumes "prepared_room cfg' rnd now wid k t = Inr t'"
    and "\<And>a. map_of (t_allocs t) k = Some a \<Longrightarrow> a_State a = APreparing"
  shows "keeps cfg rnd t t'"
proof -
  let ?t1 = "upd_alloc k (\<lambda>a. touch (a\<lparr>a_State := APrepared\<rparr>)) t"
  have "keeps cfg rnd t ?t1"
    by (rule keeps_upd_alloc, rule prepared_keep) (rule assms(2))
  moreover have "keeps cfg rnd ?t1 t'"
    using assms(1) by (auto simp: prepared_room_def Let_def split: option.splits if_splits intro: reserve_at_keeps)
  ultimately show ?thesis by (rule keeps.R_trans)
qed

lemma command_succeeded_keeps:
  assumes "command_succeeded cfg' rnd now wid c t = Inr t'"
  shows "keeps cfg rnd t t'"
proof (cases "map_of (t_allocs t) (c_AllocationID c)")
  case (Some a)
  have "keeps cfg rnd t (upd_alloc (c_AllocationID c)
      (\<lambda>a. finish (if a_Error a = ''cancelled'' then ACancelled else AExpired) (a_Error a) now a) t)"
    if "a_State a = ACancelling"
    by (rule keeps_upd_alloc, rule finish_keep) (use that Some in auto)
  then show ?thesis
    using assms Some prepared_room_keeps[of cfg' rnd now wid "c_AllocationID c" t t']
    by (auto simp: command_succeeded_def split: if_splits intro: cancel_keeps)
qed (use assms in \<open>simp add: command_succeeded_def\<close>)

lemma retry_keeps:
  assumes "map_of (t_cmds t) l = Some c"
  shows "keeps cfg rnd t (new_command rnd (retry_command now c) t)"
proof (rule keepsI)
  assume inv: "txn_inv cfg rnd t"
  have "cmd_ok rnd (t_n t) l c" using txn_invD(4)[OF inv] assms by (simp add: cmds_inv_def)
  then show "keeps cfg rnd t (new_command rnd (retry_command now c) t)"
    using txn_invD(7)[OF inv] assms
    by (intro keeps_new_command) (auto simp: retry_command_def cmd_ok_def commanded_inv_def)
qed

lemma retry_same: "retry_command now (c\<lparr>c_Done := True\<rparr>) = retry_command now c"
  by (simp add: retry_command_def fun_eq_iff)

lemma apply_result_keeps:
  assumes "apply_result cfg' rnd now wid r t = Inr t'"
  shows "keeps cfg rnd t t'"
proof -
  obtain c where c: "map_of (t_cmds t) (re_CommandID r) = Some c"
    using assms by (auto simp: apply_result_def split: option.splits)
  define t1 where "t1 = upd_cmd (re_CommandID r) (\<lambda>c. c\<lparr>c_Done := True\<rparr>) t"
  have t1: "keeps cfg rnd t t1"
    unfolding t1_def by (rule keeps_upd_cmd) (simp add: same_target_def)
  define t2 where "t2 = (if c_Type c = DrainCmd then upd_worker wid (\<lambda>w. w\<lparr>w_DrainAck := True\<rparr>) t1 else t1)"
  have t2: "keeps cfg rnd t t2"
    unfolding t2_def by (rule keeps.R_trans[OF t1]) (auto intro!: keeps_upd_worker simp: worker_keep_defs)
  have "map_of (t_cmds t1) (re_CommandID r) = Some (c\<lparr>c_Done := True\<rparr>)"
    by (simp add: t1_def upd_cmd_def c)
  from retry_keeps[OF this, of cfg rnd now]
  have retry: "keeps cfg rnd t (new_command rnd (retry_command now c) t1)"
    unfolding retry_same by (rule keeps.R_trans[OF t1])
  show ?thesis
    using assms t1 retry keeps.R_trans[OF t2 command_succeeded_keeps] keeps.R_trans[OF t1 cancel_keeps]
    by (auto simp: apply_result_def c Let_def t1_def[symmetric] t2_def[symmetric] split: option.splits if_splits)
qed

lemma update_session_same:
  "se_UserID (update_session cfg now us se) = se_UserID se" "se_Seat (update_session cfg now us se) = se_Seat se"
  "se_ID (update_session cfg now us se) = se_ID se"
  by (simp_all add: update_session_def Let_def)

lemma apply_room_keep: "alloc_keep k a (apply_room cfg now wid room a)"
proof -
  have "alloc_keep k a (finish ACompleted '''' now a)" if "a_State a = AActive \<or> a_State a = AAssigned"
    by (rule finish_keep) (use that in auto)
  moreover have "alloc_keep k a (a\<lparr>a_Sessions := map (update_session cfg now us) (a_Sessions a)\<rparr>)"
    "a_State a = AAssigned \<Longrightarrow>
     alloc_keep k a (touch (a\<lparr>a_Sessions := map (update_session cfg now us) (a_Sessions a), a_State := AActive\<rparr>))" for us
    by (simp_all add: alloc_keep_defs update_session_same comp_def)
  ultimately show ?thesis by (auto simp: apply_room_def Let_def)
qed

lemma tick_room_keeps: "keeps cfg rnd t (tick_room cfg' now wid room t)"
  unfolding tick_room_def
  by (rule keeps.R_trans[OF keeps_upd_allocs[OF apply_room_keep] keeps_upd_worker]) (simp add: worker_keep_defs)

lemma heartbeat_keeps:
  assumes "heartbeat_txn cfg' ro rnd now inp t = Inr (resp, t')" "metrics_finite (hb_Metrics inp)"
  shows "keeps cfg rnd t t'"
proof -
  let ?k = "hb_WorkerID inp"
  obtain w where w: "map_of (t_workers t) ?k = Some w" "w_State w \<noteq> WStopped" "w_State w \<noteq> WLost" "w_State w \<noteq> WFailed"
    "(if hb_Sequence inp > w_LastSequence w then heartbeat_report cfg' ro rnd now inp t else Inr t) = Inr t'"
    using assms(1) by (auto simp: heartbeat_txn_def bindE_eq_Inr split: option.splits if_splits)
  show ?thesis
  proof (cases "hb_Sequence inp > w_LastSequence w")
    case True
    let ?t1 = "upd_worker ?k (record_heartbeat now inp) t"
    obtain t2 where t2: "foldE (apply_result cfg' rnd now ?k) (hb_CommandResults inp) ?t1 = Inr t2"
      and t': "t' = fold (tick_room cfg' now ?k) (hb_Rooms inp) (upd_worker ?k (\<lambda>w. w\<lparr>w_PlayerCount := 0\<rparr>) t2)"
      using w(5) True by (auto simp: heartbeat_report_def bindE_eq_Inr split: if_splits)
    have "keeps cfg rnd t ?t1"
      by (rule keeps_upd_worker, rule record_heartbeat_keep) (use assms(2) w True in auto)
    also have "keeps cfg rnd ?t1 t2"
      by (rule keeps.foldE_R[OF apply_result_keeps t2])
    also (keeps.R_trans) have "keeps cfg rnd t2 (upd_worker ?k (\<lambda>w. w\<lparr>w_PlayerCount := 0\<rparr>) t2)"
      by (rule keeps_upd_worker) (simp add: worker_keep_defs)
    also (keeps.R_trans) have "keeps cfg rnd (upd_worker ?k (\<lambda>w. w\<lparr>w_PlayerCount := 0\<rparr>) t2) t'"
      unfolding t' by (rule keeps.fold_R, rule tick_room_keeps)
    finally (keeps.R_trans) show ?thesis .
  qed (use w(5) in simp)
qed

theorem HTTPHandler_keeps:
  assumes "HTTPHandler cfg mac cd ro rnd now r t = (resp, t')" "range_order ro"
  shows "keeps cfg rnd t t'"
proof -
  have "keeps cfg rnd t t'" if "bootstrapHTTP cfg mac now body t = (resp, t')" for body
    using that bootstrap_keeps[of cfg now _ t _ cfg rnd]
    by (auto simp: bootstrapHTTP_def bad_request_def respond_def split: option.splits if_splits sum.splits)
  moreover have "keeps cfg rnd t t'" if "heartbeatHTTP cfg mac ro rnd now auth body t = (resp, t')" for auth body
    using that heartbeat_keeps[of cfg ro rnd now _ t _ _ cfg] validMetrics_finite
    by (auto simp: heartbeatHTTP_def bad_request_def respond_def heartbeat_valid_def
        split: option.splits if_splits sum.splits)
  moreover have "keeps cfg rnd t t'" if "policyHTTP cfg now post body t = (resp, t')" for post body
    using that UpdatePolicy_keeps[of cfg now _ t]
    by (auto simp: policyHTTP_def split: option.splits if_splits sum.splits fleet_error.splits)
  moreover have "keeps cfg rnd t t'" if "drainHTTP rnd now body t = (resp, t')" for body
    using that Drain_keeps[of rnd now _ t]
    by (auto simp: drainHTTP_def bad_request_def respond_def split: option.splits if_splits sum.splits)
  moreover have "keeps cfg rnd t t'" if "allocateHTTP cfg ro rnd now body t = (resp, t')" for body
    using that Allocate_keeps[of cfg ro rnd now _ _ t] assms(2)
    by (auto simp: allocateHTTP_def bad_request_def respond_def split: option.splits if_splits sum.splits)
  ultimately show ?thesis
    using assms(1) retry_creation_keeps[of cfg rnd t]
    by (auto simp: HTTPHandler_def admin_def split: sum.splits route.splits if_splits)
qed

end
