(* ===== verification/Fleet_System.thy ===== *)
theory Fleet_System
  imports Fleet_Operations Fleet_Store
begin

text \<open>
  The running system: several controller processes share one store, each inside at most one
  \<^verbatim>\<open>Tick\<close> at a time (\<^verbatim>\<open>tickMu\<close>), while game servers, players and administrators issue their
  transactions. A controller's program counter says between which transactions and provider calls of
  \<^verbatim>\<open>lifecycle.go\<close> it is. Steps interleave freely; clocks, provider answers, random orders of map loops
  and crashes are up to the environment. A committed transaction whose reply is lost is the commit
  followed by \<open>abort\<close>.
\<close>

subsection \<open>Program counters and steps\<close>

datatype pc =
    Idle
  | Ticked int
  | Due provider_op Worker
  | Renewed provider_op Worker
  | CallStart int Worker
  | CallReissue Worker "prov_error + Instance list"
  | CallStop Worker

record system =
  y_t :: txn
  y_pc :: "string \<Rightarrow> pc"

definition commit :: "txn \<Rightarrow> txn" where
  "commit t = with_state bump t"

definition at_pc :: "system \<Rightarrow> txn \<Rightarrow> string \<Rightarrow> pc \<Rightarrow> system" where
  "at_pc y t p c = y\<lparr>y_t := t, y_pc := (y_pc y)(p := c)\<rparr>"

text \<open>Transactions that do not belong to a tick.\<close>

inductive client :: "Config \<Rightarrow> mac_fn \<Rightarrow> codec \<Rightarrow> id_stream \<Rightarrow> txn \<Rightarrow> txn \<Rightarrow> bool"
  for cfg mac cd rnd where
  c_allocate: "range_order ro \<Longrightarrow> Allocate cfg ro rnd now users key t = Inr (aid, t') \<Longrightarrow> client cfg mac cd rnd t t'"
| c_cancel: "Cancel cfg rnd now user aid t = Inr t' \<Longrightarrow> client cfg mac cd rnd t t'"
| c_create: "range_order ro \<Longrightarrow> Create cfg ro rnd now n users regions t = Inr (wid, t') \<Longrightarrow> client cfg mac cd rnd t t'"
| c_join: "Join cfg rnd now1 now2 wid users aid t = Inr (r, t') \<Longrightarrow> client cfg mac cd rnd t t'"
| c_update: "UpdateWorker wid n len t = Inr t' \<Longrightarrow> client cfg mac cd rnd t t'"
| c_delete: "Delete rnd now wid t = Inr t' \<Longrightarrow> client cfg mac cd rnd t t'"
| c_http: "range_order ro \<Longrightarrow> HTTPHandler cfg mac cd ro rnd now r t = (resp, t') \<Longrightarrow> client cfg mac cd rnd t t'"
| c_new: "NewManager cfg profile (t_s t) = Inr s' \<Longrightarrow> client cfg mac cd rnd t (t\<lparr>t_s := s'\<rparr>)"
| c_release: "client cfg mac cd rnd t (with_state (release_lease owner) t)"
| c_notified: "client cfg mac cd rnd t (with_state (mark_notified aid revision) t)"

inductive step :: "Config \<Rightarrow> mac_fn \<Rightarrow> codec \<Rightarrow> (string \<Rightarrow> int option) \<Rightarrow> id_stream \<Rightarrow> system \<Rightarrow> system \<Rightarrow> bool"
  for cfg mac cd parse_time rnd where
  s_client: "client cfg mac cd rnd (y_t y) t' \<Longrightarrow> step cfg mac cd parse_time rnd y (y\<lparr>y_t := commit t'\<rparr>)"
| s_abort: "step cfg mac cd parse_time rnd y (at_pc y (y_t y) p Idle)"
| s_tick: "y_pc y p = Idle \<Longrightarrow> range_order ro \<Longrightarrow> Tick cfg ro rnd p now (y_t y) = Inr t' \<Longrightarrow>
    step cfg mac cd parse_time rnd y (at_pc y (commit t') p (Ticked now))"
| s_view: "y_pc y p = Ticked now \<Longrightarrow> due_ids now (t_s (y_t y)) = [wid] \<Longrightarrow>
    map_of (t_workers (y_t y)) wid = Some w \<Longrightarrow> dispatch now w = Some op \<Longrightarrow>
    step cfg mac cd parse_time rnd y (at_pc y (y_t y) p (Due op w))"
| s_renew: "y_pc y p = Due op w \<Longrightarrow> renewLease p now (t_s (y_t y)) = Inr s' \<Longrightarrow>
    step cfg mac cd parse_time rnd y (at_pc y (commit ((y_t y)\<lparr>t_s := s'\<rparr>)) p (Renewed op w))"
| s_start_begin: "y_pc y p = Renewed OpStart w \<Longrightarrow> start_begin p now (w_ID w) (y_t y) = Inr t' \<Longrightarrow>
    step cfg mac cd parse_time rnd y (at_pc y (commit t') p (CallStart now w))"
| s_start_finish: "y_pc y p = CallStart now w \<Longrightarrow>
    start_finish cfg parse_time p now now1 now2 now3 res (w_ID w) (y_t y) = Inr t' \<Longrightarrow>
    step cfg mac cd parse_time rnd y (at_pc y (commit t') p Idle)"
| s_reissue: "y_pc y p = Renewed OpReconcile w \<Longrightarrow> reissues cfg w listing \<Longrightarrow>
    renewLease p now (t_s (y_t y)) = Inr s' \<Longrightarrow>
    step cfg mac cd parse_time rnd y (at_pc y (commit ((y_t y)\<lparr>t_s := s'\<rparr>)) p (CallReissue w listing))"
| s_reconcile: "(y_pc y p = Renewed OpReconcile w \<and> \<not> reissues cfg w listing) \<or> y_pc y p = CallReissue w listing \<Longrightarrow>
    step cfg mac cd parse_time rnd y (at_pc y
      (commit (reconcile_finish cfg parse_time p now now1 (reconcile_matches cfg w listing started) (w_ID w) (y_t y))) p Idle)"
| s_poll: "y_pc y p = Renewed OpPoll w \<Longrightarrow> poll_finish cfg parse_time p now now1 res w (y_t y) = Inr t' \<Longrightarrow>
    step cfg mac cd parse_time rnd y (at_pc y (commit t') p Idle)"
| s_stop_begin: "y_pc y p = Renewed OpStop w \<Longrightarrow> stop_begin cfg p now now1 w (y_t y) = Inr t' \<Longrightarrow>
    step cfg mac cd parse_time rnd y (at_pc y (commit t') p (CallStop w))"
| s_stop_failed: "y_pc y p = CallStop w \<Longrightarrow> stop_failed cfg p now (w_ID w) (y_t y) = Inr t' \<Longrightarrow>
    step cfg mac cd parse_time rnd y (at_pc y (commit t') p Idle)"
| s_stop_finish: "y_pc y p = CallStop w \<Longrightarrow> stop_finish cfg p now res w (y_t y) = Inr t' \<Longrightarrow>
    step cfg mac cd parse_time rnd y (at_pc y (commit t') p Idle)"

inductive_cases stepE: "step cfg mac cd parse_time rnd y y'"

definition init :: "system \<Rightarrow> bool" where
  "init y \<longleftrightarrow> y_t y = \<lparr>t_s = NewState, t_n = 0\<rparr> \<and> (\<forall>p. y_pc y p = Idle)"

inductive reachable :: "Config \<Rightarrow> mac_fn \<Rightarrow> codec \<Rightarrow> (string \<Rightarrow> int option) \<Rightarrow> id_stream \<Rightarrow> system \<Rightarrow> bool"
  for cfg mac cd parse_time rnd where
  r_init: "init y \<Longrightarrow> reachable cfg mac cd parse_time rnd y"
| r_step: "reachable cfg mac cd parse_time rnd y \<Longrightarrow> step cfg mac cd parse_time rnd y y' \<Longrightarrow>
    reachable cfg mac cd parse_time rnd y'"

subsection \<open>Steps that leave the leader and the workers' phases alone\<close>

datatype phase = PRequested | PStarting | PUnknown | PRunning | PStopping | PStopped | PFailed | PLost

fun phase_of :: "WorkerState \<Rightarrow> phase" where
  "phase_of WRequested = PRequested"
| "phase_of WStarting = PStarting"
| "phase_of WUnknown = PUnknown"
| "phase_of WStopping = PStopping"
| "phase_of WStopped = PStopped"
| "phase_of WFailed = PFailed"
| "phase_of WLost = PLost"
| "phase_of _ = PRunning"

definition calm :: "txn \<Rightarrow> txn \<Rightarrow> bool" where
  "calm t t' \<longleftrightarrow> s_Leader (t_s t') = s_Leader (t_s t)
     \<and> (\<forall>k w. map_of (t_workers t) k = Some w \<longrightarrow>
          (\<exists>w'. map_of (t_workers t') k = Some w' \<and> phase_of (w_State w') = phase_of (w_State w)))"

interpretation calm: step_rel calm
proof unfold_locales
  show "calm s s" for s by (simp add: calm_def)
  show "calm s u" if "calm s t" "calm t u" for s t u
    using that unfolding calm_def by metis
qed

lemma calm_same: "t_workers t' = t_workers t \<Longrightarrow> s_Leader (t_s t') = s_Leader (t_s t) \<Longrightarrow> calm t t'"
  by (simp add: calm_def)

lemma leader_upd [simp]:
  "s_Leader (t_s (upd_worker k f t)) = s_Leader (t_s t)" "s_Leader (t_s (upd_alloc k g t)) = s_Leader (t_s t)"
  "s_Leader (t_s (upd_allocs g t)) = s_Leader (t_s t)" "s_Leader (t_s (upd_cmds h t)) = s_Leader (t_s t)"
  "s_Leader (t_s (upd_cmd k h t)) = s_Leader (t_s t)" "s_Leader (t_s (new_command rnd mk t)) = s_Leader (t_s t)"
  by (simp_all add: upd_worker_def upd_alloc_def upd_allocs_def upd_cmds_def upd_cmd_def new_command_def Let_def)

lemma calm_upd_worker:
  "(\<And>w. map_of (t_workers t) k = Some w \<Longrightarrow> phase_of (w_State (f w)) = phase_of (w_State w)) \<Longrightarrow>
   calm t (upd_worker k f t)"
  by (auto simp: calm_def)

lemma calm_cancel: "calm t (cancel cfg rnd reason now k t)"
  by (rule calm_same) (simp_all add: cancel_def split: option.splits)

lemma calm_beginDrain:
  assumes "\<And>w. map_of (t_workers t) k = Some w \<Longrightarrow> w_Draining w \<or> drainable w"
  shows "calm t (beginDrain rnd now k t)"
proof (cases "map_of (t_workers t) k")
  case (Some w)
  let ?t1 = "upd_worker k (\<lambda>w. w\<lparr>w_Draining := True, w_State := WDraining, w_UpdatedAt := now\<rparr>) t"
  have "calm t ?t1" if "drainable w"
    by (rule calm_upd_worker) (use that Some in \<open>auto simp: drainable_def\<close>)
  moreover have "calm ?t1 (new_command rnd (drain_command (w_ID w) now) ?t1)"
    by (rule calm_same) simp_all
  ultimately show ?thesis
    using Some assms by (auto simp: beginDrain_def intro: calm.R_trans calm.R_refl)
qed (simp add: beginDrain_def calm.R_refl)

lemma calm_allocation: "allocation ro rnd users key now timeout t = Inr (k, t') \<Longrightarrow> calm t t'"
  by (rule calm_same) (auto simp: allocation_def Let_def split: if_splits option.splits sum.splits)

lemma calm_reserve_at: "reserve_at cfg rnd now users k t = Inr t' \<Longrightarrow> calm t t'"
  by (rule calm_same) (auto simp: reserve_at_def bindE_eq_Inr upd_alloc_def split: option.splits)

lemma calm_newWorker:
  assumes "newWorker cfg rnd now n t = (wid, t')" "txn_inv cfg' rnd t"
  shows "calm t t'"
proof -
  have "rnd (t_n t) \<notin> drawn rnd (t_n t)" by (rule drawn_fresh[OF txn_invD(1)[OF assms(2)]]) simp
  then have "map_of (t_workers t) k = Some w \<Longrightarrow> k \<noteq> rnd (t_n t)" for k w
    using txn_inv_worker(2)[OF assms(2)] by blast
  then show ?thesis
    using assms(1) by (auto simp: calm_def newWorker_def Let_def new_worker_record_def)
qed

lemma calm_Create:
  assumes "Create cfg ro rnd now n users regions t = Inr (wid, t')" "txn_inv cfg' rnd t"
  shows "calm t t'"
proof -
  obtain wid1 t1 where t1: "newWorker cfg rnd now (n div 2) t = (wid1, t1)"
    by (cases "newWorker cfg rnd now (n div 2) t")
  have link: "calm t2 (upd_worker wid1 (\<lambda>w. w\<lparr>w_InitialAllocationID := i\<rparr>)
      (upd_alloc k (\<lambda>a. a\<lparr>a_PreferredWorkerID := wid1\<rparr>) t2))" for t2 k i
    by (rule calm.R_trans[OF calm_same calm_upd_worker]) simp_all
  consider "t' = t1"
    | k t2 i where "allocation ro rnd users (''create:'' @ wid1) now (cfg_AllocationTimeout cfg) t1 = Inr (k, t2)"
      "t' = upd_worker wid1 (\<lambda>w. w\<lparr>w_InitialAllocationID := i\<rparr>)
        (upd_alloc k (\<lambda>a. a\<lparr>a_PreferredWorkerID := wid1\<rparr>) t2)"
    using assms(1) by (auto simp: Create_def t1 bindE_eq_Inr split: if_splits option.splits)
  then show ?thesis
  proof cases
    case 2
    show ?thesis unfolding 2(2)
      by (rule calm.R_trans[OF calm_newWorker[OF t1 assms(2)] calm.R_trans[OF calm_allocation[OF 2(1)] link]])
  qed (simp add: calm_newWorker[OF t1 assms(2)])
qed

subsection \<open>Heartbeats are calm\<close>

lemma calm_record_heartbeat:
  "w_State w \<noteq> WStopped \<Longrightarrow> w_State w \<noteq> WLost \<Longrightarrow> w_State w \<noteq> WFailed \<Longrightarrow>
   phase_of (w_State (record_heartbeat now inp w)) = phase_of (w_State w)"
  by (cases "w_State w") (simp_all add: record_heartbeat_def Let_def)

lemma calm_prepared_room:
  assumes "prepared_room cfg rnd now wid k t = Inr t'"
  shows "calm t t'"
proof -
  let ?t1 = "upd_alloc k (\<lambda>a. touch (a\<lparr>a_State := APrepared\<rparr>)) t"
  have "calm t ?t1" by (rule calm_same) simp_all
  moreover have "calm ?t1 t'"
    using assms by (auto simp: prepared_room_def Let_def split: option.splits if_splits intro: calm_reserve_at calm.R_refl)
  ultimately show ?thesis by (rule calm.R_trans)
qed

lemma calm_apply_result:
  assumes "apply_result cfg rnd now wid r t = Inr t'"
  shows "calm t t'"
proof -
  obtain c where c: "map_of (t_cmds t) (re_CommandID r) = Some c"
    using assms by (auto simp: apply_result_def split: option.splits)
  define t1 where "t1 = upd_cmd (re_CommandID r) (\<lambda>c. c\<lparr>c_Done := True\<rparr>) t"
  define t2 where "t2 = (if c_Type c = DrainCmd then upd_worker wid (\<lambda>w. w\<lparr>w_DrainAck := True\<rparr>) t1 else t1)"
  have t1: "calm t t1" unfolding t1_def by (rule calm_same) simp_all
  have t2: "calm t t2" unfolding t2_def
    by (rule calm.R_trans[OF t1]) (auto intro: calm_upd_worker calm.R_refl)
  have succ: "calm t2 u" if "command_succeeded cfg rnd now wid c t2 = Inr u" for u
    using that
    by (auto simp: command_succeeded_def split: option.splits if_splits
        intro: calm.R_refl calm_cancel calm_same calm_prepared_room)
  show ?thesis
    using assms t1 calm.R_refl calm.R_trans[OF t2 succ] calm.R_trans[OF t1 calm_cancel]
      calm.R_trans[OF t1 calm_same[of "new_command rnd (retry_command now c) t1" t1]]
    by (auto simp: apply_result_def c Let_def t1_def[symmetric] t2_def[symmetric] split: option.splits if_splits)
qed

lemma calm_heartbeat:
  assumes "heartbeat_txn cfg ro rnd now inp t = Inr (resp, t')"
  shows "calm t t'"
proof -
  let ?k = "hb_WorkerID inp"
  obtain w where w: "map_of (t_workers t) ?k = Some w" "w_State w \<noteq> WStopped" "w_State w \<noteq> WLost" "w_State w \<noteq> WFailed"
    "(if hb_Sequence inp > w_LastSequence w then heartbeat_report cfg ro rnd now inp t else Inr t) = Inr t'"
    using assms(1) by (auto simp: heartbeat_txn_def bindE_eq_Inr split: option.splits if_splits)
  show ?thesis
  proof (cases "hb_Sequence inp > w_LastSequence w")
    case True
    let ?t1 = "upd_worker ?k (record_heartbeat now inp) t"
    obtain t2 where t2: "foldE (apply_result cfg rnd now ?k) (hb_CommandResults inp) ?t1 = Inr t2"
      and t': "t' = fold (tick_room cfg now ?k) (hb_Rooms inp) (upd_worker ?k (\<lambda>w. w\<lparr>w_PlayerCount := 0\<rparr>) t2)"
      using w(5) True by (auto simp: heartbeat_report_def bindE_eq_Inr split: if_splits)
    have "calm t ?t1"
      by (rule calm_upd_worker) (use w calm_record_heartbeat in auto)
    also have "calm ?t1 t2" by (rule calm.foldE_R[OF calm_apply_result t2])
    also (calm.R_trans) have "calm t2 (upd_worker ?k (\<lambda>w. w\<lparr>w_PlayerCount := 0\<rparr>) t2)"
      by (rule calm_upd_worker) simp
    also (calm.R_trans) have "calm (upd_worker ?k (\<lambda>w. w\<lparr>w_PlayerCount := 0\<rparr>) t2) t'"
      unfolding t'
      by (rule calm.fold_R)
        (simp add: tick_room_def calm.R_trans[OF calm_same calm_upd_worker])
    finally (calm.R_trans) show ?thesis .
  qed (use w(5) in \<open>simp add: calm.R_refl\<close>)
qed

lemma calm_Drain: "Drain rnd now wid t = Inr t' \<Longrightarrow> calm t t'"
  by (auto simp: Drain_def split: option.splits if_splits intro!: calm_beginDrain calm.R_refl)

lemma calm_Allocate: "Allocate cfg ro rnd now users key t = Inr (aid, t') \<Longrightarrow> calm t t'"
  by (auto simp: Allocate_def bindE_eq_Inr split: option.splits intro: calm_allocation)

lemma calm_bootstrap: "bootstrap_txn cfg now inp t = Inr t' \<Longrightarrow> calm t t'"
  by (auto simp: bootstrap_txn_def split: option.splits if_splits intro!: calm_upd_worker)

lemma calm_policy: "UpdatePolicy cfg now inp (t_s t) = Inr (s', u) \<Longrightarrow> calm t (t\<lparr>t_s := s'\<rparr>)"
  using UpdatePolicy_frame[of cfg now inp "t_s t" s' u] by (intro calm_same) simp_all

lemma calm_http:
  assumes "HTTPHandler cfg mac cd ro rnd now r t = (resp, t')"
  shows "calm t t'"
proof -
  have "calm t t'" if "bootstrapHTTP cfg mac now body t = (resp, t')" for body
    using that calm_bootstrap[of cfg now _ t] calm.R_refl
    by (auto simp: bootstrapHTTP_def bad_request_def respond_def split: option.splits if_splits sum.splits)
  moreover have "calm t t'" if "heartbeatHTTP cfg mac ro rnd now auth body t = (resp, t')" for auth body
    using that calm_heartbeat[of cfg ro rnd now _ t] calm.R_refl
    by (auto simp: heartbeatHTTP_def bad_request_def respond_def split: option.splits if_splits sum.splits)
  moreover have "calm t t'" if "policyHTTP cfg now post body t = (resp, t')" for post body
    using that calm_policy[of cfg now _ t] calm.R_refl
    by (auto simp: policyHTTP_def split: option.splits if_splits sum.splits fleet_error.splits)
  moreover have "calm t t'" if "drainHTTP rnd now body t = (resp, t')" for body
    using that calm_Drain[of rnd now _ t] calm.R_refl
    by (auto simp: drainHTTP_def bad_request_def respond_def split: option.splits if_splits sum.splits)
  moreover have "calm t t'" if "allocateHTTP cfg ro rnd now body t = (resp, t')" for body
    using that calm_Allocate[of cfg ro rnd now _ _ t] calm.R_refl
    by (auto simp: allocateHTTP_def bad_request_def respond_def split: option.splits if_splits sum.splits)
  moreover have "calm t (with_state retry_creation t)"
    by (rule calm_same) (simp_all add: with_state_def retry_creation_def)
  ultimately show ?thesis
    using assms(1) calm.R_refl
    by (auto simp: HTTPHandler_def admin_def split: sum.splits route.splits if_splits)
qed

lemma client_calm:
  assumes "client cfg mac cd rnd t t'" "txn_inv cfg' rnd t"
  shows "calm t t'"
  using assms
proof cases
  case (c_join now1 now2 wid users aid r)
  then show ?thesis
    by (auto simp: Join_def bindE_eq_Inr split: option.splits if_splits intro: calm_reserve_at)
next
  case (c_new profile s')
  then have s': "s_Leader s' = s_Leader (t_s t)" "s_Workers s' = mmap (upgrade_worker cfg) (t_workers t)"
    by (auto simp: NewManager_def split: if_splits)
  have "w_State (upgrade_worker cfg w) = w_State w" for w by (simp add: upgrade_worker_def)
  then show ?thesis using s' c_new(1) by (simp add: calm_def)
next
  case c_release
  then show ?thesis by (intro calm_same) (simp_all add: with_state_def release_lease_def)
next
  case c_notified
  then show ?thesis by (intro calm_same) (simp_all add: with_state_def mark_notified_def)
qed (auto intro: calm_Allocate calm_Create calm_http calm_cancel calm.R_refl calm_upd_worker calm_beginDrain
    simp: Cancel_def UpdateWorker_def Delete_def split: option.splits if_splits)

lemma client_keeps: "client cfg mac cd rnd t t' \<Longrightarrow> keeps cfg rnd t t'"
  by (erule client.cases)
    (auto intro: Allocate_keeps Cancel_keeps Create_keeps Join_keeps UpdateWorker_keeps Delete_keeps
      HTTPHandler_keeps NewManager_keeps release_lease_keeps mark_notified_keeps)

subsection \<open>Who is the leader\<close>

definition same_leader :: "txn \<Rightarrow> txn \<Rightarrow> bool" where
  "same_leader t t' \<longleftrightarrow> s_Leader (t_s t') = s_Leader (t_s t)"

interpretation leader: step_rel same_leader
  by unfold_locales (simp_all add: same_leader_def)

interpretation leader_snd: step_rel "\<lambda>x y. same_leader (snd x) (snd y)"
  by unfold_locales (auto intro: leader.R_trans leader.R_refl)

lemma leader_ops [simp]:
  "s_Leader (t_s (cancel cfg rnd reason now k t)) = s_Leader (t_s t)"
  "s_Leader (t_s (beginDrain rnd now k t)) = s_Leader (t_s t)"
  "s_Leader (t_s (stopped now k t)) = s_Leader (t_s t)"
  "s_Leader (t_s (lost reason now k t)) = s_Leader (t_s t)"
  "s_Leader (t_s (providerLifetime cfg parse_time now inst k t)) = s_Leader (t_s t)"
  "s_Leader (t_s (start_failed now err k t)) = s_Leader (t_s t)"
  by (simp_all add: cancel_def beginDrain_def stopped_def lost_def providerLifetime_def start_failed_def
      with_state_def Let_def split: option.splits)

lemma leader_tick_worker: "same_leader t (tick_worker cfg rnd now k t)"
  by (simp add: same_leader_def tick_worker_def Let_def split: option.splits)

lemma leader_tick_alloc: "same_leader t (tick_alloc cfg rnd now k t)"
  by (simp add: same_leader_def tick_alloc_def split: option.splits)

lemma leader_tick_reserve: "tick_reserve cfg rnd now k t = Inr t' \<Longrightarrow> same_leader t t'"
  by (auto simp: same_leader_def tick_reserve_def reserve_at_def bindE_eq_Inr split: option.splits if_splits)

lemma leader_tick_place: "same_leader t (tick_place cfg ro rnd now ik t)"
  by (simp add: same_leader_def tick_place_def place_def split: option.splits)

lemma leader_tick_idle: "same_leader (snd rt) (snd (tick_idle cfg rnd now q k rt))"
  by (cases rt) (simp add: same_leader_def tick_idle_def Let_def split: option.splits)

lemma leader_tick_scale: "same_leader t (tick_scale cfg ro rnd now t)"
proof -
  have up: "same_leader t (scale_up cfg rnd now t)"
    by (simp add: same_leader_def scale_up_def newWorker_def Let_def)
  have "same_leader (snd (r, scale_up cfg rnd now t))
      (snd (fold (tick_idle cfg rnd now q) ks (r, scale_up cfg rnd now t)))" for q ks r
    by (rule leader_snd.fold_R, rule leader_tick_idle)
  then show ?thesis unfolding tick_scale_def Let_def
    using leader.R_trans[OF up] by (metis snd_conv)
qed

lemma leader_tick_expire: "same_leader t (tick_expire cfg ro rnd now t)"
proof -
  have "same_leader u (with_state (prune_workers now) (with_state (prune_cmds now) (with_state (prune_allocs now) u)))" for u
    by (simp add: same_leader_def with_state_def prune_workers_def prune_cmds_def prune_allocs_def)
  moreover have "same_leader u (fold (tick_worker cfg rnd now) ks u)" for u ks
    by (rule leader.fold_R, rule leader_tick_worker)
  moreover have "same_leader u (fold (tick_alloc cfg rnd now) ks u)" for u ks
    by (rule leader.fold_R, rule leader_tick_alloc)
  ultimately show ?thesis unfolding tick_expire_def Let_def same_leader_def by simp
qed

lemma Tick_leader:
  assumes "Tick cfg ro rnd owner now t = Inr t'"
  shows "s_Leader (t_s t') = owner"
proof -
  obtain s1 t2 where s1: "lease_step owner now (t_s t) = Inr s1"
    and t2: "tick_reserves cfg ro rnd now (tick_expire cfg ro rnd now (t\<lparr>t_s := s1\<rparr>)) = Inr t2"
    and t': "t' = tick_scale cfg ro rnd now (tick_places cfg ro rnd now t2)"
    using assms(1) by (auto simp: Tick_def bindE_eq_Inr)
  have "same_leader (t\<lparr>t_s := s1\<rparr>) t2"
    by (rule leader.R_trans[OF leader_tick_expire])
      (rule leader.foldE_R[OF leader_tick_reserve t2[unfolded tick_reserves_def]])
  moreover have "same_leader t2 (tick_places cfg ro rnd now t2)"
    unfolding tick_places_def by (rule leader.fold_R, rule leader_tick_place)
  ultimately have "same_leader (t\<lparr>t_s := s1\<rparr>) t'"
    unfolding t' by (blast intro: leader.R_trans leader_tick_scale)
  then show ?thesis using s1 by (auto simp: same_leader_def lease_step_def split: if_splits)
qed

lemma start_finish_leader:
  "start_finish cfg parse_time owner now now1 now2 now3 res k t = Inr t' \<Longrightarrow> t' = t \<or> s_Leader (t_s t') = owner"
  by (auto simp: start_finish_def Let_def split: if_splits option.splits sum.splits)

lemma reconcile_finish_leader:
  "reconcile_finish cfg parse_time owner now now1 outcome k t = t
   \<or> s_Leader (t_s (reconcile_finish cfg parse_time owner now now1 outcome k t)) = owner"
  by (auto simp: reconcile_finish_def Let_def with_state_def split: if_splits option.splits sum.splits list.splits)

lemma poll_finish_leader:
  "poll_finish cfg parse_time owner now now1 res w t = Inr t' \<Longrightarrow> t' = t \<or> s_Leader (t_s t') = owner"
  by (auto simp: poll_finish_def poll_apply_def Let_def split: if_splits option.splits sum.splits)

lemma stop_leader:
  "stop_failed cfg owner now k t = Inr t' \<Longrightarrow> t' = t \<or> s_Leader (t_s t') = owner"
  "stop_finish cfg owner now res w t = Inr t' \<Longrightarrow> t' = t \<or> s_Leader (t_s t') = owner"
  by (auto simp: stop_failed_def stop_finish_def Let_def split: if_splits option.splits)

subsection \<open>The invariant of the system\<close>

definition held :: "string \<Rightarrow> txn \<Rightarrow> string \<Rightarrow> phase set \<Rightarrow> bool" where
  "held p t k P \<longleftrightarrow> (s_Leader (t_s t) = p \<longrightarrow>
     (\<exists>w. map_of (t_workers t) k = Some w \<and> phase_of (w_State w) \<in> P))"

fun op_phases :: "provider_op \<Rightarrow> phase set" where
  "op_phases OpStart = {PRequested}"
| "op_phases OpReconcile = {PUnknown}"
| "op_phases OpPoll = {PRunning, PLost}"
| "op_phases OpStop = {PStopping}"

definition always :: "(Worker \<Rightarrow> bool) \<Rightarrow> id_stream \<Rightarrow> txn \<Rightarrow> string \<Rightarrow> bool" where
  "always P rnd t k \<longleftrightarrow> k \<in> drawn rnd (t_n t) \<and> (\<forall>w. map_of (t_workers t) k = Some w \<longrightarrow> P w)"

fun pc_ok :: "id_stream \<Rightarrow> string \<Rightarrow> txn \<Rightarrow> pc \<Rightarrow> bool" where
  "pc_ok rnd p t Idle = True"
| "pc_ok rnd p t (Ticked now) = True"
| "pc_ok rnd p t (Due op w) = (held p t (w_ID w) (op_phases op) \<and> w_ID w \<in> drawn rnd (t_n t))"
| "pc_ok rnd p t (Renewed op w) = (held p t (w_ID w) (op_phases op) \<and> w_ID w \<in> drawn rnd (t_n t))"
| "pc_ok rnd p t (CallStart now w) =
     (held p t (w_ID w) {PStarting} \<and> always (\<lambda>w. w_State w \<noteq> WRequested) rnd t (w_ID w))"
| "pc_ok rnd p t (CallReissue w listing) = held p t (w_ID w) {PUnknown}"
| "pc_ok rnd p t (CallStop w) =
     (held p t (w_ID w) {PStopping} \<and> always (\<lambda>w. gone (w_State w)) rnd t (w_ID w))"

definition starters_unique :: "system \<Rightarrow> bool" where
  "starters_unique y \<longleftrightarrow> (\<forall>p q n w m v. y_pc y p = CallStart n w \<longrightarrow> y_pc y q = CallStart m v \<longrightarrow>
     w_ID w = w_ID v \<longrightarrow> p = q)"

definition sys_inv :: "Config \<Rightarrow> id_stream \<Rightarrow> system \<Rightarrow> bool" where
  "sys_inv cfg rnd y \<longleftrightarrow> txn_inv cfg rnd (y_t y) \<and> (\<forall>p. pc_ok rnd p (y_t y) (y_pc y p)) \<and> starters_unique y"

lemma commit_simps [simp]:
  "t_workers (commit t) = t_workers t" "t_allocs (commit t) = t_allocs t" "t_cmds (commit t) = t_cmds t"
  "t_n (commit t) = t_n t" "s_Leader (t_s (commit t)) = s_Leader (t_s t)"
  "s_LeaseUntil (t_s (commit t)) = s_LeaseUntil (t_s t)"
  by (simp_all add: commit_def with_state_def bump_def)

lemma commit_keeps: "keeps cfg rnd t t' \<Longrightarrow> keeps cfg rnd t (commit t')"
  unfolding commit_def by (rule keeps.R_trans, assumption, rule keeps_frame_policy) (simp_all add: bump_def)

lemma held_calm: "held p t k P \<Longrightarrow> calm t t' \<Longrightarrow> held p t' k P"
  unfolding held_def calm_def by metis

lemma always_evolves:
  assumes "always P rnd t k" "txn_evolves rnd t t'" "\<And>w w'. worker_evolves w w' \<Longrightarrow> P w \<Longrightarrow> P w'"
  shows "always P rnd t' k"
proof -
  have "drawn rnd (t_n t) \<subseteq> drawn rnd (t_n t')"
    using assms(2) by (intro drawn_mono) (simp add: txn_evolves_def)
  moreover have "P w'" if w': "map_of (t_workers t') k = Some w'" for w'
  proof -
    obtain w where "map_of (t_workers t) k = Some w" "worker_evolves w w'"
      using evolves_worker[OF assms(2) _ w'] assms(1) by (auto simp: always_def)
    then show ?thesis using assms(1,3) by (auto simp: always_def)
  qed
  ultimately show ?thesis using assms(1) by (auto simp: always_def)
qed

lemma held_other: "calm t t' \<or> s_Leader (t_s t') \<noteq> p \<Longrightarrow> held p t k P \<Longrightarrow> held p t' k P"
  using held_calm[of p t k P t'] by (cases "calm t t'") (simp_all add: held_def)

lemma pc_ok_other:
  assumes "pc_ok rnd p t c" "txn_evolves rnd t t'" "calm t t' \<or> s_Leader (t_s t') \<noteq> p"
  shows "pc_ok rnd p t' c"
proof -
  have "drawn rnd (t_n t) \<subseteq> drawn rnd (t_n t')"
    using assms(2) by (intro drawn_mono) (simp add: txn_evolves_def)
  moreover have "always (\<lambda>w. w_State w \<noteq> WRequested) rnd t' k"
    if "always (\<lambda>w. w_State w \<noteq> WRequested) rnd t k" for k
    by (rule always_evolves[OF that assms(2)]) (auto simp: worker_evolves_def)
  moreover have "always (\<lambda>w. gone (w_State w)) rnd t' k" if "always (\<lambda>w. gone (w_State w)) rnd t k" for k
    by (rule always_evolves[OF that assms(2)]) (simp add: worker_evolves_def)
  ultimately show ?thesis
    using assms(1) held_other[OF assms(3)] by (cases c) auto
qed

lemma sys_at_pc:
  assumes "sys_inv cfg rnd y" "keeps cfg rnd (y_t y) t'"
    and "calm (y_t y) t' \<or> s_Leader (t_s t') = p" "txn_inv cfg rnd t' \<Longrightarrow> pc_ok rnd p t' c"
    and "\<And>n w q m v. c = CallStart n w \<Longrightarrow> y_pc y q = CallStart m v \<Longrightarrow> q \<noteq> p \<Longrightarrow> w_ID v \<noteq> w_ID w"
  shows "sys_inv cfg rnd (at_pc y t' p c)"
proof -
  have inv: "txn_inv cfg rnd (y_t y)" using assms(1) by (simp add: sys_inv_def)
  have inv': "txn_inv cfg rnd t'" by (rule keeps_inv[OF assms(2) inv])
  have evo: "txn_evolves rnd (y_t y) t'" by (rule keeps_evolves[OF assms(2) inv])
  have "pc_ok rnd q t' (y_pc y q)" if "q \<noteq> p" for q
    by (rule pc_ok_other[OF _ evo]) (use assms(1,3) that in \<open>auto simp: sys_inv_def\<close>)
  moreover have "starters_unique (at_pc y t' p c)"
    unfolding starters_unique_def
  proof (intro allI impI)
    fix q r n w m v
    assume q: "y_pc (at_pc y t' p c) q = CallStart n w" and r: "y_pc (at_pc y t' p c) r = CallStart m v"
      and eq: "w_ID w = w_ID v"
    show "q = r"
    proof (cases "q = p \<or> r = p")
      case True
      then show ?thesis using q r eq assms(5)[of n w r m v] assms(5)[of m v q n w]
        by (auto simp: at_pc_def split: if_splits)
    next
      case False
      then show ?thesis using q r eq assms(1)
        unfolding sys_inv_def starters_unique_def by (auto simp: at_pc_def)
    qed
  qed
  ultimately show ?thesis using inv' assms(4)[OF inv'] by (simp add: sys_inv_def at_pc_def)
qed

lemma dispatch_phase: "dispatch now w = Some op \<Longrightarrow> phase_of (w_State w) \<in> op_phases op"
  by (cases "w_State w") (auto simp: dispatch_def split: if_splits)

lemma phase_Requested: "phase_of st = PRequested \<longleftrightarrow> st = WRequested"
  by (cases st) simp_all

lemma phase_pollable: "phase_of st = PRunning \<or> phase_of st = PLost \<Longrightarrow> pollable st"
  by (cases st) (simp_all add: pollable_def unlaunched_def)

lemma phase_Starting: "phase_of st = PStarting \<longleftrightarrow> st = WStarting"
  by (cases st) simp_all

lemma sys_pc: "sys_inv cfg rnd y \<Longrightarrow> y_pc y p = c \<Longrightarrow> pc_ok rnd p (y_t y) c"
  by (auto simp: sys_inv_def)

lemma sys_start_begin:
  assumes inv: "sys_inv cfg rnd y" and pc: "y_pc y p = Renewed OpStart w"
    and t': "start_begin p now (w_ID w) (y_t y) = Inr t'"
  shows "sys_inv cfg rnd (at_pc y (commit t') p (CallStart now w))"
proof (rule sys_at_pc[OF inv])
  obtain v where v: "map_of (t_workers (y_t y)) (w_ID w) = Some v" "w_State v = WRequested"
    "s_Leader (t_s (y_t y)) = p" "t' = upd_worker (w_ID w) (\<lambda>w. w\<lparr>w_State := WStarting, w_UpdatedAt := now\<rparr>) (y_t y)"
    using t' by (auto simp: start_begin_def split: if_splits option.splits)
  show "keeps cfg rnd (y_t y) (commit t')" by (rule commit_keeps[OF start_begin_keeps[OF t']])
  show "calm (y_t y) (commit t') \<or> s_Leader (t_s (commit t')) = p" using v by simp
  show "pc_ok rnd p (commit t') (CallStart now w)"
    using v sys_pc[OF inv pc] by (simp add: held_def always_def)
  fix n w' q m u
  assume eq: "CallStart now w = CallStart n w'" "y_pc y q = CallStart m u"
  then show "w_ID u \<noteq> w_ID w'" using sys_pc[OF inv eq(2)] v(1,2) by (auto simp: always_def)
qed

theorem sys_inv_step:
  assumes "sys_inv cfg rnd y" "step cfg mac cd parse_time rnd y y'"
  shows "sys_inv cfg rnd y'"
  using assms(2)
proof (cases rule: step.cases)
  case (s_client t')
  have inv: "txn_inv cfg rnd (y_t y)" using assms(1) by (simp add: sys_inv_def)
  have "calm (y_t y) (commit t')"
    using client_calm[OF s_client(2) inv] by (simp add: calm_def)
  then have "pc_ok rnd p (commit t') (y_pc y p)" for p
    using pc_ok_other[OF _ keeps_evolves[OF commit_keeps[OF client_keeps[OF s_client(2)]] inv]] assms(1)
    by (simp add: sys_inv_def)
  then show ?thesis
    using assms(1) keeps_inv[OF commit_keeps[OF client_keeps[OF s_client(2)]] inv] s_client(1)
    by (simp add: sys_inv_def starters_unique_def)
next
  case (s_abort p)
  then show ?thesis using sys_at_pc[OF assms(1), of "y_t y" p Idle] calm.R_refl by simp
next
  case (s_tick p ro now t')
  then show ?thesis
    using sys_at_pc[OF assms(1) commit_keeps[OF Tick_keeps[OF s_tick(4,3)]], of p "Ticked now"] Tick_leader
    by auto
next
  case (s_view p now wid w op)
  have inv: "txn_inv cfg rnd (y_t y)" using assms(1) by (simp add: sys_inv_def)
  have "w_ID w = wid" "wid \<in> drawn rnd (t_n (y_t y))" using txn_inv_worker[OF inv s_view(4)] by simp_all
  then have "pc_ok rnd p (y_t y) (Due op w)"
    using s_view(4) dispatch_phase[OF s_view(5)] by (simp add: held_def)
  then show ?thesis unfolding s_view(1) using calm.R_refl
    by (intro sys_at_pc[OF assms(1)]) simp_all
next
  case (s_renew p op w now s')
  have "calm (y_t y) (commit ((y_t y)\<lparr>t_s := s'\<rparr>))"
    using s_renew(3) by (auto simp: calm_def renewLease_def split: if_splits)
  moreover from this have "pc_ok rnd p (commit ((y_t y)\<lparr>t_s := s'\<rparr>)) (Renewed op w)"
    using sys_pc[OF assms(1) s_renew(2)] held_calm by auto
  ultimately show ?thesis unfolding s_renew(1)
    by (intro sys_at_pc[OF assms(1) commit_keeps[OF renewLease_keeps[OF s_renew(3)]]]) simp_all
next
  case (s_start_begin p w now t')
  then show ?thesis using sys_start_begin[OF assms(1)] by blast
next
  case (s_start_finish p now w now1 now2 now3 res t')
  have "keeps cfg rnd (y_t y) t'"
    by (rule start_finish_keeps[OF s_start_finish(3)])
      (use sys_pc[OF assms(1) s_start_finish(2)] in \<open>auto simp: held_def phase_Starting\<close>)
  then show ?thesis unfolding s_start_finish(1)
    by (intro sys_at_pc[OF assms(1) commit_keeps])
      (use start_finish_leader[OF s_start_finish(3)] in \<open>auto simp: calm_def\<close>)
next
  case (s_reissue p w listing now s')
  have "calm (y_t y) (commit ((y_t y)\<lparr>t_s := s'\<rparr>))"
    using s_reissue(4) by (auto simp: calm_def renewLease_def split: if_splits)
  moreover from this have "pc_ok rnd p (commit ((y_t y)\<lparr>t_s := s'\<rparr>)) (CallReissue w listing)"
    using sys_pc[OF assms(1) s_reissue(2)] held_calm by auto
  ultimately show ?thesis unfolding s_reissue(1)
    by (intro sys_at_pc[OF assms(1) commit_keeps[OF renewLease_keeps[OF s_reissue(4)]]]) simp_all
next
  case (s_reconcile p w listing now now1 started)
  show ?thesis unfolding s_reconcile(1)
    by (rule sys_at_pc[OF assms(1) commit_keeps[OF reconcile_finish_keeps]])
      (use reconcile_finish_leader[of cfg parse_time p now now1 "reconcile_matches cfg w listing started"
         "w_ID w" "y_t y"] in \<open>auto simp: calm_def\<close>)
next
  case (s_poll p w now now1 res t')
  have "keeps cfg rnd (y_t y) t'"
    by (rule poll_finish_keeps[OF s_poll(3)])
      (use sys_pc[OF assms(1) s_poll(2)] phase_pollable in \<open>auto simp: held_def\<close>)
  then show ?thesis unfolding s_poll(1)
    by (intro sys_at_pc[OF assms(1) commit_keeps])
      (use poll_finish_leader[OF s_poll(3)] in \<open>auto simp: calm_def\<close>)
next
  case (s_stop_begin p w now now1 t')
  have t': "t' = y_t y" by (rule stop_begin_keeps[OF s_stop_begin(3)])
  have "always (\<lambda>w. gone (w_State w)) rnd (y_t y) (w_ID w)"
    using s_stop_begin(3) sys_pc[OF assms(1) s_stop_begin(2)]
    by (auto simp: stop_begin_def always_def gone_def split: option.splits if_splits)
  then have "pc_ok rnd p (commit t') (CallStop w)"
    using sys_pc[OF assms(1) s_stop_begin(2)] by (auto simp: t' held_def always_def)
  then show ?thesis unfolding s_stop_begin(1) t'
    by (intro sys_at_pc[OF assms(1) commit_keeps]) (auto simp: calm_def)
next
  case (s_stop_failed p w now t')
  then show ?thesis
    using sys_at_pc[OF assms(1) commit_keeps[OF stop_failed_keeps[OF s_stop_failed(3)]], of p Idle]
      stop_leader(1)[OF s_stop_failed(3)] by (auto simp: calm_def)
next
  case (s_stop_finish p w now res t')
  then show ?thesis
    using sys_at_pc[OF assms(1) commit_keeps[OF stop_finish_keeps[OF s_stop_finish(3)]], of p Idle]
      stop_leader(2)[OF s_stop_finish(3)] by (auto simp: calm_def)
qed

lemma sys_inv_init:
  assumes "init y" "id_source rnd" "config_bounds cfg"
  shows "sys_inv cfg rnd y"
  using assms
  by (simp add: init_def sys_inv_def starters_unique_def txn_inv_def state_inv_def NewState_def allocs_inv_def
      workers_inv_def cmds_inv_def capacity_inv_def hosted_inv_def commanded_inv_def policy_inv_def policy_def
      liveCount_def config_bounds_def)

theorem reachable_sys_inv:
  assumes "reachable cfg mac cd parse_time rnd y" "id_source rnd" "config_bounds cfg"
  shows "sys_inv cfg rnd y"
  using assms(1)
  by induction (use assms(2,3) sys_inv_init sys_inv_step in blast)+

subsection \<open>What holds in every reachable system\<close>

lemma step_keeps:
  assumes "sys_inv cfg rnd y" "step cfg mac cd parse_time rnd y y'"
  shows "keeps cfg rnd (y_t y) (y_t y')"
  using assms(2)
proof (cases rule: step.cases)
  case (s_start_finish p now w now1 now2 now3 res t')
  have "keeps cfg rnd (y_t y) t'"
    by (rule start_finish_keeps[OF s_start_finish(3)])
      (use sys_pc[OF assms(1) s_start_finish(2)] in \<open>auto simp: held_def phase_Starting\<close>)
  then show ?thesis using s_start_finish(1) by (simp add: at_pc_def commit_keeps)
next
  case (s_poll p w now now1 res t')
  have "keeps cfg rnd (y_t y) t'"
    by (rule poll_finish_keeps[OF s_poll(3)])
      (use sys_pc[OF assms(1) s_poll(2)] phase_pollable in \<open>auto simp: held_def\<close>)
  then show ?thesis using s_poll(1) by (simp add: at_pc_def commit_keeps)
qed (auto simp: at_pc_def dest: stop_begin_keeps intro: commit_keeps[OF client_keeps] commit_keeps[OF Tick_keeps]
    commit_keeps[OF renewLease_keeps] commit_keeps[OF start_begin_keeps] commit_keeps[OF reconcile_finish_keeps]
    commit_keeps[OF stop_failed_keeps] commit_keeps[OF stop_finish_keeps] commit_keeps[OF keeps_refl])

lemma reachable_inv:
  assumes "reachable cfg mac cd parse_time rnd y" "id_source rnd" "config_bounds cfg"
  shows "txn_inv cfg rnd (y_t y)"
  using reachable_sys_inv[OF assms] by (simp add: sys_inv_def)

lemma steps_evolve:
  assumes "(step cfg mac cd parse_time rnd)\<^sup>*\<^sup>* y y'" "reachable cfg mac cd parse_time rnd y"
    "id_source rnd" "config_bounds cfg"
  shows "txn_evolves rnd (y_t y) (y_t y') \<and> reachable cfg mac cd parse_time rnd y'"
  using assms(1)
proof (induction rule: rtranclp_induct)
  case base
  then show ?case using assms(2) evolves.R_refl by simp
next
  case (step u v)
  have inv: "sys_inv cfg rnd u" using step.IH reachable_sys_inv assms(3,4) by blast
  then have "txn_evolves rnd (y_t u) (y_t v)"
    using keeps_evolves[OF step_keeps[OF inv step.hyps(2)]] by (simp add: sys_inv_def)
  then show ?case using step.IH step.hyps(2) evolves.R_trans r_step by blast
qed

text \<open>A worker that is gone holds no room, and neither does one that was forgotten.\<close>

lemma gone_empty:
  assumes "txn_inv cfg rnd t" "always (\<lambda>w. gone (w_State w)) rnd t k"
  shows "Occupied (t_s t) k = 0"
proof (cases "map_of (t_workers t) k")
  case None
  have "k \<noteq> ''''" using assms drawn_nonempty[OF txn_invD(1)[OF assms(1)]] by (auto simp: always_def)
  then show ?thesis
    using None txn_invD(6)[OF assms(1)]
    by (force simp: Occupied_0_iff[OF txn_invD(10)[OF assms(1)]] hosted_inv_def holds_room_def)
next
  case (Some w)
  have "gone (w_State w)" using assms(2) Some by (simp add: always_def)
  then have "\<not> serving (w_State w)" by (auto simp: gone_def serving_def)
  then have "\<not> 0 < Occupied (t_s t) k" using txn_invD(5)[OF assms(1)] Some by (auto simp: capacity_inv_def)
  then show ?thesis using Occupied_nonneg[of "t_s t" k] by linarith
qed

definition panics :: "Config \<Rightarrow> (string \<Rightarrow> int option) \<Rightarrow> string \<Rightarrow> system \<Rightarrow> bool" where
  "panics cfg parse_time p y \<longleftrightarrow>
     (\<exists>w now. y_pc y p = Renewed OpStart w \<and> start_begin p now (w_ID w) (y_t y) = Inl NilPanic)
     \<or> (\<exists>w now now1 now2 now3 res. y_pc y p = CallStart now w
          \<and> start_finish cfg parse_time p now now1 now2 now3 res (w_ID w) (y_t y) = Inl NilPanic)
     \<or> (\<exists>w now now1 res. y_pc y p = Renewed OpPoll w
          \<and> poll_finish cfg parse_time p now now1 res w (y_t y) = Inl NilPanic)
     \<or> (\<exists>w now. y_pc y p = CallStop w \<and> stop_failed cfg p now (w_ID w) (y_t y) = Inl NilPanic)
     \<or> (\<exists>w now res. y_pc y p = CallStop w \<and> stop_finish cfg p now res w (y_t y) = Inl NilPanic)"

lemma sys_inv_no_panic:
  assumes "sys_inv cfg rnd y"
  shows "\<not> panics cfg parse_time p y"
proof -
  have "pc_ok rnd p (y_t y) (y_pc y p)" using assms by (simp add: sys_inv_def)
  then show ?thesis
    by (auto simp: panics_def held_def start_begin_def start_finish_def poll_finish_def stop_failed_def
        stop_finish_def Let_def split: if_splits option.splits sum.splits)
qed

end
