(* ===== verification/Fleet_Example.thy ===== *)
theory Fleet_Example
  imports Fleet_System
begin

text \<open>
  A concrete fleet: a configuration within the bounds of \<^verbatim>\<open>Validate\<close>, an identifier source, and a run in
  which the controller \<open>A\<close> creates an instance whose lifetime is too short, and stops it again. The
  witnesses of the properties about reachable systems are taken from this run.
\<close>

definition ex_k :: KConfig where
  "ex_k = \<lparr>k_APIURL = ''u'', k_TokenFile = ''t'', k_CAFile = ''c'', k_Namespace = ''n'', k_Pool = ''p'',
     k_DeploymentID = ''d'', k_GameImage = ''i'', k_PortName = ''g'', k_GamePort = 7777, k_CPURequest = ''2'',
     k_CPULimit = ''2'', k_MemoryRequest = ''1Gi'', k_MemoryLimit = ''1Gi'', k_NodeSelector = [],
     k_ImagePullSecret = '''', k_Local = True\<rparr>"

definition ex_cfg :: Config where
  "ex_cfg = \<lparr>cfg_DeploymentID = ''d'', cfg_DatabaseURL = '''', cfg_ControlURL = ''u'', cfg_BuildHash = ''b'',
     cfg_Region = ''r'', cfg_PortName = ''g'', cfg_MaxRooms = 2, cfg_MinInstances = 1, cfg_MaxInstances = 3,
     cfg_Kubernetes = ex_k, cfg_AdminToken = ''secret'', cfg_SigningKey = ''k'', cfg_ServerEnvironment = [],
     cfg_AllowHTTP = False, cfg_Mode = ''production'', cfg_Interval = 1, cfg_LaunchTimeout = 180,
     cfg_AllocationTimeout = 120, cfg_PrepareTimeout = 30, cfg_ReservationTTL = 60, cfg_ReconnectSeconds = 60,
     cfg_HeartbeatTimeout = 10, cfg_LostTimeout = 60, cfg_IdleSeconds = 300, cfg_ProviderPollSeconds = 5,
     cfg_MinLifetimeForAdmission = 600, cfg_MaxQueueAgeSeconds = Fin 5\<rparr>"

lemma ex_cfg_bounds: "config_bounds ex_cfg"
  by (simp add: config_bounds_def ex_cfg_def)

definition ex_rnd :: id_stream where
  "ex_rnd n = replicate (Suc n) CHR ''x''"

lemma ex_rnd_source: "id_source ex_rnd"
proof -
  have "inj ex_rnd"
  proof (rule injI)
    fix m n :: nat
    assume "ex_rnd m = ex_rnd n"
    then have "length (ex_rnd m) = length (ex_rnd n)" by simp
    then show "m = n" by (simp add: ex_rnd_def)
  qed
  then show ?thesis by (simp add: id_source_def ex_rnd_def)
qed

definition ex_ro :: range_fn where
  "ex_ro site ks = ks"

lemma ex_ro_order: "range_order ex_ro"
  by (simp add: range_order_def ex_ro_def)

definition ex_mac :: mac_fn where
  "ex_mac k m = k @ m"

text \<open>
  An executable scheduler for the system: an event names the actor, the clock readings and the answers
  of the provider. Whatever it executes is a step of the system.
\<close>

datatype event =
    EvAllocate int "string list" string
  | EvHttp int Request
  | EvTick string int
  | EvView string
  | EvRenew string int
  | EvStart string int
  | EvStarted string int "prov_error + Instance"
  | EvPoll string int "prov_error + Instance"
  | EvStop string int

fun exec :: "Config \<Rightarrow> mac_fn \<Rightarrow> codec \<Rightarrow> (string \<Rightarrow> int option) \<Rightarrow> id_stream \<Rightarrow> event \<Rightarrow> system \<Rightarrow> system option" where
  "exec cfg mac cd pt rnd (EvAllocate now users key) y =
     (case Allocate cfg ex_ro rnd now users key (y_t y) of
        Inr (aid, t') \<Rightarrow> Some (y\<lparr>y_t := commit t'\<rparr>) | Inl _ \<Rightarrow> None)"
| "exec cfg mac cd pt rnd (EvHttp now r) y =
     (case HTTPHandler cfg mac cd ex_ro rnd now r (y_t y) of (resp, t') \<Rightarrow> Some (y\<lparr>y_t := commit t'\<rparr>))"
| "exec cfg mac cd pt rnd (EvTick p now) y =
     (if y_pc y p = Idle
      then (case Tick cfg ex_ro rnd p now (y_t y) of Inr t' \<Rightarrow> Some (at_pc y (commit t') p (Ticked now)) | Inl _ \<Rightarrow> None)
      else None)"
| "exec cfg mac cd pt rnd (EvView p) y =
     (case y_pc y p of
        Ticked now \<Rightarrow>
          (case due_ids now (t_s (y_t y)) of
             [wid] \<Rightarrow>
               (case map_of (t_workers (y_t y)) wid of
                  Some w \<Rightarrow>
                    (case dispatch now w of Some op \<Rightarrow> Some (at_pc y (y_t y) p (Due op w)) | None \<Rightarrow> None)
                | None \<Rightarrow> None)
           | _ \<Rightarrow> None)
      | _ \<Rightarrow> None)"
| "exec cfg mac cd pt rnd (EvRenew p now) y =
     (case y_pc y p of
        Due op w \<Rightarrow>
          (case renewLease p now (t_s (y_t y)) of
             Inr s' \<Rightarrow> Some (at_pc y (commit ((y_t y)\<lparr>t_s := s'\<rparr>)) p (Renewed op w)) | Inl _ \<Rightarrow> None)
      | _ \<Rightarrow> None)"
| "exec cfg mac cd pt rnd (EvStart p now) y =
     (case y_pc y p of
        Renewed OpStart w \<Rightarrow>
          (case start_begin p now (w_ID w) (y_t y) of
             Inr t' \<Rightarrow> Some (at_pc y (commit t') p (CallStart now w)) | Inl _ \<Rightarrow> None)
      | _ \<Rightarrow> None)"
| "exec cfg mac cd pt rnd (EvStarted p now' res) y =
     (case y_pc y p of
        CallStart now w \<Rightarrow>
          (case start_finish cfg pt p now now' now' now' res (w_ID w) (y_t y) of
             Inr t' \<Rightarrow> Some (at_pc y (commit t') p Idle) | Inl _ \<Rightarrow> None)
      | _ \<Rightarrow> None)"
| "exec cfg mac cd pt rnd (EvPoll p now res) y =
     (case y_pc y p of
        Renewed OpPoll w \<Rightarrow>
          (case poll_finish cfg pt p now now res w (y_t y) of
             Inr t' \<Rightarrow> Some (at_pc y (commit t') p Idle) | Inl _ \<Rightarrow> None)
      | _ \<Rightarrow> None)"
| "exec cfg mac cd pt rnd (EvStop p now) y =
     (case y_pc y p of
        Renewed OpStop w \<Rightarrow>
          (case stop_begin cfg p now now w (y_t y) of
             Inr t' \<Rightarrow> Some (at_pc y (commit t') p (CallStop w)) | Inl _ \<Rightarrow> None)
      | _ \<Rightarrow> None)"

lemma exec_step: "exec cfg mac cd pt rnd e y = Some y' \<Longrightarrow> step cfg mac cd pt rnd y y'"
proof (cases e)
  case (EvAllocate now users key)
  assume "exec cfg mac cd pt rnd e y = Some y'"
  then show ?thesis using EvAllocate
    by (auto split: sum.splits intro!: s_client c_allocate[OF ex_ro_order])
next
  case (EvHttp now r)
  assume "exec cfg mac cd pt rnd e y = Some y'"
  then show ?thesis using EvHttp
    by (auto split: prod.splits intro!: s_client c_http[OF ex_ro_order])
qed (auto split: if_splits sum.splits pc.splits list.splits option.splits provider_op.splits
    intro: s_tick[OF _ ex_ro_order] s_view s_renew s_start_begin s_start_finish s_poll s_stop_begin)

fun run :: "Config \<Rightarrow> mac_fn \<Rightarrow> codec \<Rightarrow> (string \<Rightarrow> int option) \<Rightarrow> id_stream \<Rightarrow> event list \<Rightarrow> system \<Rightarrow> system option" where
  "run cfg mac cd pt rnd [] y = Some y"
| "run cfg mac cd pt rnd (e # es) y =
     (case exec cfg mac cd pt rnd e y of None \<Rightarrow> None | Some y' \<Rightarrow> run cfg mac cd pt rnd es y')"

lemma run_reachable:
  "run cfg mac cd pt rnd es y = Some y' \<Longrightarrow> reachable cfg mac cd pt rnd y \<Longrightarrow> reachable cfg mac cd pt rnd y'"
  by (induction es arbitrary: y) (auto split: option.splits, metis r_step exec_step)

lemma run_steps: "run cfg mac cd pt rnd es y = Some y' \<Longrightarrow> (step cfg mac cd pt rnd)\<^sup>*\<^sup>* y y'"
  by (induction es arbitrary: y) (auto split: option.splits dest: exec_step intro: converse_rtranclp_into_rtranclp)

lemma run_append: "run cfg mac cd pt rnd (es @ fs) y = Option.bind (run cfg mac cd pt rnd es y) (run cfg mac cd pt rnd fs)"
  by (induction es arbitrary: y) (auto split: option.splits)

subsection \<open>The environment of the example\<close>

text \<open>Request bodies are named by one letter.\<close>

definition ex_beat :: "nat \<Rightarrow> CommandResult list \<Rightarrow> HeartbeatRequest" where
  "ex_beat n results =
     \<lparr>hb_WorkerID = ''x'', hb_BootID = ''1'', hb_Sequence = n, hb_Ready = True, hb_Rooms = [],
      hb_Metrics = zero_metrics, hb_CommandResults = results\<rparr>"

definition ex_cd :: codec where
  "ex_cd = \<lparr>dec_bootstrap = (\<lambda>_. Some \<lparr>br_WorkerID = ''x'',
       br_BootstrapToken = encoded (derive ex_mac ''k'' ''bootstrap:x''), br_BootID = ''1'', br_BuildHash = ''b''\<rparr>),
     dec_heartbeat = (\<lambda>body. Some (if body = '''' then ex_beat 1 []
       else ex_beat 2 [\<lparr>re_CommandID = body, re_Success = True, re_Error = ''''\<rparr>])),
     dec_policy = (\<lambda>_. None), dec_drain = (\<lambda>_. None), dec_allocate = (\<lambda>_. None)\<rparr>"

definition ex_bootstrap :: Request where
  "ex_bootstrap = \<lparr>rq_Method = ''POST'', rq_Path = ''/agones/fleet/v1/agent/bootstrap'',
     rq_Authorization = '''', rq_Body = ''''\<rparr>"

definition ex_heartbeat :: "string \<Rightarrow> Request" where
  "ex_heartbeat body = \<lparr>rq_Method = ''POST'', rq_Path = ''/agones/fleet/v1/agent/heartbeat'',
     rq_Authorization = ''Bearer '' @ encoded (derive ex_mac ''k'' ''agent:x:1''), rq_Body = body\<rparr>"

definition ex_pt :: "string \<Rightarrow> int option" where
  "ex_pt s = None"

definition ex_inst :: "int \<Rightarrow> Instance" where
  "ex_inst ttl = \<lparr>in_InstanceID = ''uid'', in_Status = ''running'',
     in_NetworkPorts = [\<lparr>po_Name = ''g'', po_Host = ''h'', po_ExternalPort = 7, po_InternalPort = 7, po_Protocol = ''udp''\<rparr>],
     in_CustomData = [(''fleet_owner'', AnyString ''d''), (''worker_id'', AnyString ''x'')],
     in_TTL = ttl, in_StartedAt = ''''\<rparr>"

abbreviation ex_reach :: "system \<Rightarrow> bool" where
  "ex_reach \<equiv> reachable ex_cfg ex_mac ex_cd ex_pt ex_rnd"

abbreviation ex_run :: "event list \<Rightarrow> system option" where
  "ex_run es \<equiv> run ex_cfg ex_mac ex_cd ex_pt ex_rnd es \<lparr>y_t = \<lparr>t_s = NewState, t_n = 0\<rparr>, y_pc = (\<lambda>_. Idle)\<rparr>"

lemma ex_run_reach: "ex_run es = Some y \<Longrightarrow> ex_reach y"
  by (erule run_reachable, rule r_init) (simp add: init_def)

definition ex_start :: "int \<Rightarrow> event list" where
  "ex_start ttl = [EvTick ''A'' 100, EvView ''A'', EvRenew ''A'' 100, EvStart ''A'' 100, EvStarted ''A'' 101 (Inr (ex_inst ttl))]"

definition ex_serve :: "event list" where
  "ex_serve = ex_start 0 @
     [EvHttp 102 ex_bootstrap, EvTick ''A'' 102, EvView ''A'', EvRenew ''A'' 102, EvPoll ''A'' 102 (Inr (ex_inst 0)),
      EvHttp 103 (ex_heartbeat ''''), EvAllocate 103 [''u'', ''v''] ''key'', EvAllocate 103 [''w'', ''z''] ''other''] "

definition ex_stop :: "event list" where
  "ex_stop = ex_start 1 @ [EvTick ''A'' 102, EvView ''A'', EvRenew ''A'' 102, EvStop ''A'' 103]"

text \<open>Both allocations are placed and the first room is prepared: its players have their sessions.\<close>

definition ex_room :: "event list" where
  "ex_room = ex_serve @ [EvTick ''A'' 104, EvHttp 105 (ex_heartbeat ''xxxxxx'')]"

definition ex_a1 :: Allocation where
  "ex_a1 = \<lparr>a_ID = ''xx'', a_RequestKey = ''key'', a_RoomID = ''xxx'', a_WorkerID = ''x'', a_PreferredWorkerID = '''',
     a_UserIDs = [''u'', ''v''], a_State = AAssigned, a_Epoch = 1, a_Revision = 4, a_CreatedAt = 103, a_ExpiresAt = 165,
     a_Sessions =
       [\<lparr>se_ID = ''xxxxxxxx'', se_UserID = ''u'', se_Seat = 0, se_ExpiresAt = 165, se_Connected = False,
         se_EverConnected = False, se_ReconnectUntil = 0\<rparr>,
        \<lparr>se_ID = ''xxxxxxxxx'', se_UserID = ''v'', se_Seat = 1, se_ExpiresAt = 165, se_Connected = False,
         se_EverConnected = False, se_ReconnectUntil = 0\<rparr>],
     a_Error = '''', a_TerminalAt = 0, a_NotifiedRevision = 0\<rparr>"

definition ex_a2 :: Allocation where
  "ex_a2 = \<lparr>a_ID = ''xxxx'', a_RequestKey = ''other'', a_RoomID = ''xxxxx'', a_WorkerID = ''x'', a_PreferredWorkerID = '''',
     a_UserIDs = [''w'', ''z''], a_State = APreparing, a_Epoch = 1, a_Revision = 2, a_CreatedAt = 103, a_ExpiresAt = 134,
     a_Sessions = [], a_Error = '''', a_TerminalAt = 0, a_NotifiedRevision = 0\<rparr>"

definition ex_y :: system where
  "ex_y = the (ex_run ex_room)"

definition ex_stopping :: system where
  "ex_stopping = the (ex_run ex_stop)"

definition ex_room_facts :: "system \<Rightarrow> Allocation gomap \<times> (WorkerState \<times> int \<times> int \<times> string) option \<times> int" where
  "ex_room_facts y = (t_allocs (y_t y),
     map_option (\<lambda>w. (w_State w, w_MaxRooms w, Occupied (t_s (y_t y)) ''x'', w_BootID w)) (map_of (t_workers (y_t y)) ''x''),
     liveCount (t_s (y_t y)))"

lemma ex_room_runs:
  "map_option ex_room_facts (ex_run ex_room) = Some ([(''xx'', ex_a1), (''xxxx'', ex_a2)], Some (WReady, 2, 2, ''1''), 1)"
  by code_simp

lemma ex_stop_runs:
  "map_option (\<lambda>y. (map_option w_State (map_of (t_workers (y_t y)) ''x''),
     case y_pc y ''A'' of CallStop w \<Rightarrow> w_ID w | _ \<Rightarrow> '''')) (ex_run ex_stop) = Some (Some WStopping, ''x'')"
  by code_simp

definition ex_created :: system where
  "ex_created = the (ex_run (take 4 (ex_start 0)))"

lemma ex_created_runs:
  "map_option (\<lambda>y. (map_option w_State (map_of (t_workers (y_t y)) ''x''),
     case y_pc y ''A'' of CallStart n w \<Rightarrow> w_ID w | _ \<Rightarrow> '''')) (ex_run (take 4 (ex_start 0))) = Some (Some WStarting, ''x'')"
  by code_simp

lemma ex_y_reach: "ex_reach ex_y"
  using ex_room_runs by (auto simp: ex_y_def intro: ex_run_reach)

lemma ex_y_allocs: "t_allocs (y_t ex_y) = [(''xx'', ex_a1), (''xxxx'', ex_a2)]"
  using ex_room_runs by (auto simp: ex_y_def ex_room_facts_def)

lemma ex_y_worker: "\<exists>w. map_of (t_workers (y_t ex_y)) ''x'' = Some w \<and> w_State w = WReady \<and> w_MaxRooms w = 2
    \<and> w_BootID w = ''1''" "Occupied (t_s (y_t ex_y)) ''x'' = 2" "liveCount (t_s (y_t ex_y)) = 1"
  using ex_room_runs by (auto simp: ex_y_def ex_room_facts_def)

lemma ex_stopping_reach: "ex_reach ex_stopping"
  using ex_stop_runs by (auto simp: ex_stopping_def intro: ex_run_reach)

lemma ex_stopping_pc: "\<exists>w. y_pc ex_stopping ''A'' = CallStop w \<and> w_ID w = ''x''"
  using ex_stop_runs by (cases "y_pc ex_stopping ''A''") (auto simp: ex_stopping_def)

lemma ex_created_reach: "ex_reach ex_created"
  using ex_created_runs by (auto simp: ex_created_def intro: ex_run_reach)

lemma ex_created_pc: "\<exists>n w. y_pc ex_created ''A'' = CallStart n w \<and> w_ID w = ''x''"
  using ex_created_runs by (cases "y_pc ex_created ''A''") (auto simp: ex_created_def)

text \<open>The system before the rooms are placed, from which \<open>ex_y\<close> is reached in two more steps.\<close>

definition ex_mid :: system where
  "ex_mid = the (ex_run ex_serve)"

lemma ex_mid_run: "ex_run ex_serve = Some ex_mid" "(step ex_cfg ex_mac ex_cd ex_pt ex_rnd)\<^sup>*\<^sup>* ex_mid ex_y"
proof -
  obtain y where y: "ex_run (ex_serve @ [EvTick ''A'' 104, EvHttp 105 (ex_heartbeat ''xxxxxx'')]) = Some y" "ex_y = y"
    using ex_room_runs by (auto simp: ex_y_def ex_room_def)
  then obtain m where m: "ex_run ex_serve = Some m"
    "run ex_cfg ex_mac ex_cd ex_pt ex_rnd [EvTick ''A'' 104, EvHttp 105 (ex_heartbeat ''xxxxxx'')] m = Some y"
    unfolding run_append by (auto simp only: Option.bind_eq_Some_conv)
  show "ex_run ex_serve = Some ex_mid" using m(1) by (simp add: ex_mid_def)
  show "(step ex_cfg ex_mac ex_cd ex_pt ex_rnd)\<^sup>*\<^sup>* ex_mid ex_y"
    using run_steps[OF m(2)] y(2) m(1) by (simp add: ex_mid_def)
qed

lemma ex_mid_facts:
  "map_option (\<lambda>y. (map_option a_State (map_of (t_allocs (y_t y)) ''xx''),
     map_option (\<lambda>w. (w_State w, w_BootID w)) (map_of (t_workers (y_t y)) ''x''))) (ex_run ex_serve)
   = Some (Some AWaiting, Some (WReady, ''1''))"
  by code_simp

lemma ex_mid_reach: "ex_reach ex_mid"
  by (rule ex_run_reach[OF ex_mid_run(1)])

lemma ex_mid_entries:
  "\<exists>a. map_of (t_allocs (y_t ex_mid)) ''xx'' = Some a \<and> a_State a = AWaiting"
  "\<exists>w. map_of (t_workers (y_t ex_mid)) ''x'' = Some w \<and> w_State w = WReady \<and> w_BootID w = ''1''"
  using ex_mid_facts by (auto simp: ex_mid_run(1))

end
