(* ===== verification/Fleet_Progress.thy ===== *)
theory Fleet_Progress
  imports Fleet_Example
begin

text \<open>
  What a tick achieves for the requests that wait: the placement loop picks the fullest worker that has room, whatever
  the order of the map, and leaves no request waiting that some worker could take.
\<close>

subsection \<open>The choice of a worker\<close>

definition at_least :: "FleetState \<Rightarrow> Worker option \<times> int \<Rightarrow> Worker \<Rightarrow> bool" where
  "at_least s cb w \<longleftrightarrow> (\<exists>c. fst cb = Some c \<and> snd cb = Occupied s (w_ID c)
     \<and> (Occupied s (w_ID w) < Occupied s (w_ID c) \<or> (Occupied s (w_ID w) = Occupied s (w_ID c) \<and> w_ID c \<le> w_ID w)))"

definition choice_ok :: "FleetState \<Rightarrow> Worker option \<times> int \<Rightarrow> bool" where
  "choice_ok s cb \<longleftrightarrow> (case fst cb of None \<Rightarrow> snd cb = - 1 | Some c \<Rightarrow> snd cb = Occupied s (w_ID c))"

lemma choose_step_ok: "choice_ok s cb \<Longrightarrow> choice_ok s (choose_step cfg now a s w cb)"
  by (simp add: choose_step_def choice_ok_def)

lemma choose_step_keeps:
  assumes "choice_ok s cb" "at_least s cb v"
  shows "at_least s (choose_step cfg now a s w cb) v"
  using assms by (auto simp: choose_step_def choice_ok_def at_least_def better_def split: option.splits)

lemma choose_step_takes:
  assumes "choice_ok s cb" "fits cfg now a s w"
  shows "at_least s (choose_step cfg now a s w cb) w"
proof (cases "fst cb")
  case None
  moreover have "- 1 < Occupied s (w_ID w)" using Occupied_nonneg [of s "w_ID w"] by linarith
  ultimately show ?thesis using assms by (simp add: choose_step_def choice_ok_def at_least_def better_def)
next
  case (Some c)
  then show ?thesis using assms by (auto simp: choose_step_def choice_ok_def at_least_def better_def)
qed

lemma choose_fold_best:
  assumes "choice_ok s cb" "at_least s cb v \<or> (\<exists>k. (k, v) \<in> set es \<and> fits cfg now a s v)"
  shows "at_least s (fold (\<lambda>(k, w). choose_step cfg now a s w) es cb) v"
  using assms
proof (induction es arbitrary: cb)
  case (Cons e es)
  obtain k w where e: "e = (k, w)" by fastforce
  have ok: "choice_ok s (choose_step cfg now a s w cb)" using Cons.prems(1) by (rule choose_step_ok)
  have "at_least s (choose_step cfg now a s w cb) v \<or> (\<exists>k. (k, v) \<in> set es \<and> fits cfg now a s v)"
    using Cons.prems e choose_step_keeps choose_step_takes by fastforce
  from Cons.IH [OF ok this] show ?case by (simp add: e)
qed simp

lemma choose_worker_best:
  assumes "range_order ro" "map_of (s_Workers s) k = Some v" "fits cfg now a s v"
  shows "\<exists>c. choose_worker cfg ro site now a s = Some c
    \<and> (Occupied s (w_ID v) < Occupied s (w_ID c) \<or> (Occupied s (w_ID v) = Occupied s (w_ID c) \<and> w_ID c \<le> w_ID v))"
proof -
  have "(k, v) \<in> set (range_entries ro site (s_Workers s))" using assms by (simp add: range_entries_iff)
  then have "at_least s (fold (\<lambda>(k, w). choose_step cfg now a s w) (range_entries ro site (s_Workers s)) (None, - 1)) v"
    using assms(3) by (intro choose_fold_best) (auto simp: choice_ok_def)
  then show ?thesis by (auto simp: at_least_def choose_worker_def)
qed

lemma choose_worker_None:
  "range_order ro \<Longrightarrow> choose_worker cfg ro site now a s = None \<Longrightarrow> map_of (s_Workers s) k = Some v \<Longrightarrow> \<not> fits cfg now a s v"
  by (metis choose_worker_best option.distinct(1))

subsection \<open>Placement\<close>

definition no_fit :: "Config \<Rightarrow> int \<Rightarrow> txn \<Rightarrow> string \<Rightarrow> bool" where
  "no_fit cfg now t k \<longleftrightarrow> (\<forall>a l w. map_of (t_allocs t) k = Some a \<longrightarrow> a_State a = AWaiting \<longrightarrow> map_of (t_workers t) l = Some w \<longrightarrow>
     \<not> fits cfg now a (t_s t) w)"

lemma Occupied_upd_alloc:
  assumes "mwf (t_allocs t)" "\<And>a. map_of (t_allocs t) k = Some a \<Longrightarrow> holds_room wid a \<Longrightarrow> holds_room wid (f a)"
  shows "Occupied (t_s t) wid \<le> Occupied (t_s (upd_alloc k f t)) wid"
proof (cases "map_of (t_allocs t) k")
  case (Some a)
  show ?thesis
    using mcount_mupd [OF assms(1) Some, of "holds_room wid" f] assms(2) [OF Some]
    by (cases "holds_room wid a") (auto simp: Occupied_def upd_alloc_def of_bool_def split: if_splits)
qed (simp add: Occupied_def upd_alloc_def mupd_absent)

lemma Occupied_frame [simp]:
  "Occupied (t_s (upd_worker k f t)) wid = Occupied (t_s t) wid" "Occupied (t_s (new_command rnd mk t)) wid = Occupied (t_s t) wid"
  by (simp_all add: Occupied_def upd_worker_def new_command_def Let_def)

lemma fits_idle: "fits cfg now a s (w\<lparr>w_IdleSince := x\<rparr>) = fits cfg now a s w"
  by (simp add: fits_def eligible_def)

lemma place_no_fit:
  assumes inv: "txn_inv cfg' rnd t" and j: "map_of (t_allocs t) j = Some b" "a_State b = AWaiting"
    and k: "k \<noteq> j" and nf: "no_fit cfg now t k"
  shows "no_fit cfg now (place cfg rnd now j b v t) k"
  unfolding no_fit_def
proof (intro allI impI)
  fix a l w
  let ?t = "place cfg rnd now j b v t"
  assume a: "map_of (t_allocs ?t) k = Some a" "a_State a = AWaiting" and w: "map_of (t_workers ?t) l = Some w"
  have a': "map_of (t_allocs t) k = Some a" using a(1) k by (simp add: place_def upd_alloc_def upd_worker_def new_command_def Let_def)
  obtain w0 where w0: "map_of (t_workers t) l = Some w0" "w = w0 \<or> w = w0\<lparr>w_IdleSince := 0\<rparr>"
    using w by (auto simp: place_def upd_alloc_def upd_worker_def new_command_def Let_def split: if_splits)
  have l: "w_ID w0 = l" "l \<noteq> ''''" using txn_inv_worker [OF inv w0(1)] by auto
  have b0: "a_WorkerID b = ''''" using txn_inv_alloc(1) [OF inv j(1)] j(2) by (simp add: alloc_ok_def)
  have "Occupied (t_s t) l \<le> Occupied (t_s ?t) l"
    unfolding place_def Occupied_frame by (rule Occupied_upd_alloc [OF txn_invD(10) [OF inv]]) (use j b0 l(2) in \<open>simp add: holds_room_def\<close>)
  moreover have "\<not> fits cfg now a (t_s t) w0" using nf a' a(2) w0(1) by (auto simp: no_fit_def)
  ultimately show "\<not> fits cfg now a (t_s ?t) w" using w0(2) l(1) by (auto simp: fits_def eligible_def)
qed

lemma tick_place_no_fit:
  assumes "txn_inv cfg' rnd t" "range_order ro" "\<And>b. map_of (t_allocs t) (snd ij) = Some b \<Longrightarrow> a_State b = AWaiting"
    and "no_fit cfg now t k \<or> k = snd ij"
  shows "no_fit cfg now (tick_place cfg ro rnd now ij t) k"
proof (cases "map_of (t_allocs t) (snd ij)")
  case None
  then show ?thesis using assms(4) by (auto simp: tick_place_def no_fit_def)
next
  case (Some b)
  show ?thesis
  proof (cases "choose_worker cfg ro (10 + fst ij) now b (t_s t)")
    case None
    then have "no_fit cfg now t (snd ij)" using choose_worker_None [OF assms(2) None] Some by (auto simp: no_fit_def)
    then show ?thesis using assms(4) Some None by (auto simp: tick_place_def)
  next
    case v: (Some v)
    show ?thesis
    proof (cases "k = snd ij")
      case True
      then show ?thesis
        using Some v by (auto simp: tick_place_def no_fit_def place_def upd_alloc_def upd_worker_def new_command_def Let_def touch_def)
    next
      case False
      then show ?thesis using place_no_fit [OF assms(1) Some assms(3) [OF Some] False] assms(4) Some v by (simp add: tick_place_def)
    qed
  qed
qed

lemma places_no_fit:
  assumes "range_order ro" "distinct (map snd ijs)" "txn_inv cfg' rnd t"
    and "\<And>ij b. ij \<in> set ijs \<Longrightarrow> map_of (t_allocs t) (snd ij) = Some b \<Longrightarrow> a_State b = AWaiting"
    and "no_fit cfg now t k \<or> k \<in> snd ` set ijs"
  shows "no_fit cfg now (fold (tick_place cfg ro rnd now) ijs t) k"
  using assms(2-5)
proof (induction ijs arbitrary: t)
  case (Cons ij ijs)
  let ?t1 = "tick_place cfg ro rnd now ij t"
  have w: "a_State b = AWaiting" if "map_of (t_allocs t) (snd ij) = Some b" for b using Cons.prems(3) [of ij b] that by simp
  have inv: "txn_inv cfg' rnd ?t1" using keeps_inv [OF tick_place_keeps [OF assms(1) w] Cons.prems(2)] by blast
  have "no_fit cfg now ?t1 k \<or> k \<in> snd ` set ijs"
    using tick_place_no_fit [OF Cons.prems(2) assms(1), of ij cfg now k] w Cons.prems(4) by fastforce
  moreover have "a_State b = AWaiting" if "x \<in> set ijs" "map_of (t_allocs ?t1) (snd x) = Some b" for x b
  proof -
    have "snd x \<noteq> snd ij" using Cons.prems(1) that(1) by (auto simp: image_iff)
    then show ?thesis using that Cons.prems(3) [of x b] by (simp add: tick_place_other)
  qed
  ultimately show ?case using Cons.IH [OF _ inv] Cons.prems(1) by simp
qed simp

lemma tick_places_no_fit:
  assumes "range_order ro" "txn_inv cfg' rnd t"
  shows "no_fit cfg now (tick_places cfg ro rnd now t) k"
  unfolding tick_places_def
proof (rule places_no_fit [OF assms(1) _ assms(2)])
  show "distinct (map snd (enumerate 0 (waiting_keys ro (t_s t))))"
    using waiting_keys_distinct [OF assms(1) txn_invD(10) [OF assms(2)]] by simp
  show "a_State b = AWaiting" if "ij \<in> set (enumerate 0 (waiting_keys ro (t_s t)))" "map_of (t_allocs t) (snd ij) = Some b" for ij b
  proof -
    have "snd ij \<in> set (waiting_keys ro (t_s t))" using that(1) nth_mem [of "fst ij" "waiting_keys ro (t_s t)"] by (simp add: in_set_enumerate_eq)
    then show ?thesis using waiting_keys_iff [OF assms(1), of "snd ij" "t_s t"] that(2) by auto
  qed
  show "no_fit cfg now t k \<or> k \<in> snd ` set (enumerate 0 (waiting_keys ro (t_s t)))"
  proof (cases "\<exists>a. map_of (t_allocs t) k = Some a \<and> a_State a = AWaiting")
    case True
    then have "k \<in> set (map snd (enumerate 0 (waiting_keys ro (t_s t))))" using waiting_keys_iff [OF assms(1), of k "t_s t"] by simp
    then show ?thesis by (simp only: set_map simp_thms)
  qed (auto simp: no_fit_def)
qed

subsection \<open>Scaling\<close>

text \<open>Whatever is eligible afterwards was so before, with the same identifier and limit; allocations are untouched.\<close>

definition shrinks :: "Config \<Rightarrow> int \<Rightarrow> txn \<Rightarrow> txn \<Rightarrow> bool" where
  "shrinks cfg now t t' \<longleftrightarrow> t_allocs t' = t_allocs t
     \<and> (\<forall>l w'. map_of (t_workers t') l = Some w' \<longrightarrow> eligible cfg w' now \<longrightarrow>
          (\<exists>w. map_of (t_workers t) l = Some w \<and> eligible cfg w now \<and> w_ID w' = w_ID w \<and> w_MaxRooms w' = w_MaxRooms w))"

interpretation shrinks: step_rel "shrinks cfg now" for cfg now
  by unfold_locales (auto simp: shrinks_def, metis)

declare shrinks.R_refl [simp]

interpretation shrinks_snd: step_rel "\<lambda>rt ru. shrinks cfg now (snd rt) (snd ru)" for cfg now
  using shrinks.R_refl shrinks.R_trans by unfold_locales blast+

lemma shrinks_no_fit:
  assumes "shrinks cfg now t t'" "no_fit cfg now t k"
  shows "no_fit cfg now t' k"
  unfolding no_fit_def
proof (intro allI impI notI)
  fix a l w'
  assume a: "map_of (t_allocs t') k = Some a" "a_State a = AWaiting" and w': "map_of (t_workers t') l = Some w'" and f: "fits cfg now a (t_s t') w'"
  have e: "eligible cfg w' now" using f by (simp add: fits_def)
  obtain w where w: "map_of (t_workers t) l = Some w" "eligible cfg w now" "w_ID w' = w_ID w" "w_MaxRooms w' = w_MaxRooms w"
    using assms(1) w' e by (auto simp: shrinks_def)
  have "Occupied (t_s t') = Occupied (t_s t)" using assms(1) by (simp add: shrinks_def Occupied_def fun_eq_iff)
  then have "fits cfg now a (t_s t) w" using f w by (auto simp: fits_def)
  then show False using assms a w(1) by (auto simp: no_fit_def shrinks_def)
qed

lemma shrinks_upd_worker:
  assumes "\<And>w. map_of (t_workers t) k = Some w \<Longrightarrow> eligible cfg (f w) now \<Longrightarrow> eligible cfg w now \<and> w_ID (f w) = w_ID w \<and> w_MaxRooms (f w) = w_MaxRooms w"
  shows "shrinks cfg now t (upd_worker k f t)"
  using assms by (auto simp: shrinks_def upd_worker_def)

lemma shrinks_new_command: "shrinks cfg now t (new_command rnd mk t)"
  by (auto simp: shrinks_def new_command_def Let_def)

lemma beginDrain_shrinks: "shrinks cfg now t (beginDrain rnd now k t)"
proof (cases "map_of (t_workers t) k")
  case (Some w)
  have "shrinks cfg now t (upd_worker k (\<lambda>w. w\<lparr>w_Draining := True, w_State := WDraining, w_UpdatedAt := now\<rparr>) t)"
    by (rule shrinks_upd_worker) (simp add: eligible_def)
  then show ?thesis using Some shrinks_new_command shrinks.R_trans by (auto simp: beginDrain_def)
qed (simp add: beginDrain_def)

lemma idle_clock_eligible [simp]: "eligible cfg (idle_clock now n w) now = eligible cfg w now"
  "w_ID (idle_clock now n w) = w_ID w" "w_MaxRooms (idle_clock now n w) = w_MaxRooms w"
  by (auto simp: idle_clock_def eligible_def)

lemma stop_if_drained_eligible:
  "eligible cfg (stop_if_drained cfg now n w) now \<Longrightarrow>
     eligible cfg w now \<and> w_ID (stop_if_drained cfg now n w) = w_ID w \<and> w_MaxRooms (stop_if_drained cfg now n w) = w_MaxRooms w"
  by (auto simp: stop_if_drained_def eligible_def split: if_splits)

lemma tick_idle_shrinks: "shrinks cfg now (snd rt) (snd (tick_idle cfg rnd now q k rt))"
proof (cases "map_of (t_workers (snd rt)) k")
  case (Some w)
  have i: "shrinks cfg now (snd rt) (upd_worker k (idle_clock now n) (snd rt))" for n by (rule shrinks_upd_worker) simp
  have d: "shrinks cfg now (snd rt) (beginDrain rnd now k (upd_worker k (idle_clock now n) (snd rt)))" for n
    using i beginDrain_shrinks by (rule shrinks.R_trans)
  have s: "shrinks cfg now u (upd_worker k (stop_if_drained cfg now n) u)" for u n
    by (rule shrinks_upd_worker) (rule stop_if_drained_eligible)
  show ?thesis
    using Some s shrinks.R_trans [OF i s] shrinks.R_trans [OF d s] by (simp add: tick_idle_def Let_def split_def)
qed (simp add: tick_idle_def)

lemma scale_up_shrinks: "shrinks cfg now t (scale_up cfg rnd now t)"
  by (auto simp: scale_up_def shrinks_def newWorker_def new_worker_record_def eligible_def Let_def split: if_splits)

lemma tick_scale_shrinks: "shrinks cfg now t (tick_scale cfg ro rnd now t)"
proof -
  have "shrinks cfg now (scale_up cfg rnd now t) (snd (fold (tick_idle cfg rnd now q) ks (r, scale_up cfg rnd now t)))" for q ks r
    using shrinks_snd.fold_R [where ks = ks and body = "tick_idle cfg rnd now q" and s = "(r, scale_up cfg rnd now t)"] tick_idle_shrinks
    by fastforce
  then show ?thesis unfolding tick_scale_def Let_def using shrinks.R_trans [OF scale_up_shrinks] by blast
qed

subsection \<open>Creation\<close>

text \<open>What decides whether the fleet grows: the queue, the instances that boot, the limit and the back-off.\<close>

definition boots :: "Config \<Rightarrow> int \<Rightarrow> Worker \<Rightarrow> int" where
  "boots cfg now w =
     (if (w_State w = WRequested \<or> w_State w = WStarting \<or> w_State w = WLaunching \<or> w_State w = WBootstrapping)
        \<and> now - w_CreatedAt w < cfg_LaunchTimeout cfg then w_MaxRooms w else 0)"

definition steady :: "Config \<Rightarrow> int \<Rightarrow> txn \<Rightarrow> txn \<Rightarrow> bool" where
  "steady cfg now t t' \<longleftrightarrow> (mwf (t_workers t) \<longrightarrow> mwf (t_workers t') \<and> t_allocs t' = t_allocs t
     \<and> s_CreationBlockedReason (t_s t') = s_CreationBlockedReason (t_s t) \<and> s_NextCreateAt (t_s t') = s_NextCreateAt (t_s t)
     \<and> boot_capacity cfg now (t_s t') = boot_capacity cfg now (t_s t) \<and> liveCount (t_s t') = liveCount (t_s t))"

interpretation steady: step_rel "steady cfg now" for cfg now
  by unfold_locales (auto simp: steady_def)

declare steady.R_refl [simp]

interpretation steady_snd: step_rel "\<lambda>rt ru. steady cfg now (snd rt) (snd ru)" for cfg now
  by unfold_locales (auto simp: steady_def)

lemma sum_mupd:
  fixes g :: "'v \<Rightarrow> int"
  assumes "mwf m" "\<And>v. map_of m k = Some v \<Longrightarrow> g (f v) = g v"
  shows "(\<Sum>(k, w) \<leftarrow> mupd k f m. g w) = (\<Sum>(k, w) \<leftarrow> m. g w)"
proof -
  have "(if fst p = k then g (f (snd p)) else g (snd p)) = g (snd p)" if "p \<in> set m" for p
    using that assms(2) map_of_is_SomeI [of m "fst p" "snd p"] assms(1) by (auto simp: mkeys_def)
  then show ?thesis by (simp add: mupd_def split_def comp_def cong: map_cong) (smt (verit) map_eq_conv)
qed

lemma steady_upd_worker:
  assumes "\<And>w. map_of (t_workers t) k = Some w \<Longrightarrow> boots cfg now (f w) = boots cfg now w \<and> counts_live (f w) = counts_live w"
  shows "steady cfg now t (upd_worker k f t)"
proof (cases "map_of (t_workers t) k")
  case (Some w)
  have "mcount counts_live (mupd k f (t_workers t)) = mcount counts_live (t_workers t)" if "mwf (t_workers t)"
    using mcount_mupd [OF that Some, of counts_live f] assms [OF Some] by simp
  then show ?thesis using sum_mupd [where m = "t_workers t" and k = k and g = "boots cfg now" and f = f] assms
    by (simp add: steady_def upd_worker_def liveCount_def boot_capacity_def boots_def)
qed (simp add: steady_def upd_worker_def mupd_absent)

lemma steady_new_command: "steady cfg now t (new_command rnd mk t)"
  by (simp add: steady_def new_command_def Let_def boot_capacity_def liveCount_def)

lemma tick_idle_steady: "steady cfg now (snd rt) (snd (tick_idle cfg rnd now q k rt))"
proof (cases "map_of (t_workers (snd rt)) k")
  case (Some w)
  let ?i = "\<lambda>n. upd_worker k (idle_clock now n) (snd rt)"
  have i: "steady cfg now (snd rt) (?i n)" for n
    by (rule steady_upd_worker) (auto simp: idle_clock_def boots_def counts_live_def)
  have s: "steady cfg now u (upd_worker k (stop_if_drained cfg now n) u)" for u n
    by (rule steady_upd_worker) (auto simp: stop_if_drained_def drained_def boots_def counts_live_def)
  have "steady cfg now (?i n) (beginDrain rnd now k (?i n))" if "w_State w = WReady" for n
  proof -
    have "steady cfg now (?i n) (upd_worker k (\<lambda>w. w\<lparr>w_Draining := True, w_State := WDraining, w_UpdatedAt := now\<rparr>) (?i n))"
      by (rule steady_upd_worker) (use that Some in \<open>auto simp: boots_def counts_live_def upd_worker_def idle_clock_def\<close>)
    from steady.R_trans [OF this steady_new_command] show ?thesis by (simp add: beginDrain_def split: option.splits)
  qed
  note d = steady.R_trans [OF i steady.R_trans [OF this s]]
  show ?thesis using Some s d steady.R_trans [OF i s] by (simp add: tick_idle_def Let_def split_def)
qed (simp add: tick_idle_def steady_def)

definition queue_covered :: "Config \<Rightarrow> int \<Rightarrow> FleetState \<Rightarrow> bool" where
  "queue_covered cfg now s \<longleftrightarrow> queue_length s \<le> boot_capacity cfg now s \<or> liveCount s \<ge> cfg_MaxInstances cfg
     \<or> s_CreationBlockedReason s \<noteq> '''' \<or> now < s_NextCreateAt s"

lemma scale_up_covers: "queue_covered cfg now (t_s (scale_up cfg rnd now t))"
  by (auto simp: queue_covered_def scale_up_def wants_worker_def Let_def)

lemma tick_scale_covers:
  assumes "mwf (t_workers t)"
  shows "queue_covered cfg now (t_s (tick_scale cfg ro rnd now t))"
proof -
  have "mwf (t_workers (scale_up cfg rnd now t))" using assms by (simp add: scale_up_def newWorker_def Let_def)
  moreover have "steady cfg now (scale_up cfg rnd now t) (snd (fold (tick_idle cfg rnd now q) ks (r, scale_up cfg rnd now t)))" for q ks r
    using steady_snd.fold_R [where ks = ks and body = "tick_idle cfg rnd now q" and s = "(r, scale_up cfg rnd now t)"] tick_idle_steady
    by fastforce
  then have "steady cfg now (scale_up cfg rnd now t) (tick_scale cfg ro rnd now t)" by (simp add: tick_scale_def Let_def)
  ultimately show ?thesis using scale_up_covers [of cfg now rnd t] by (simp add: steady_def queue_covered_def queue_length_def)
qed

lemma Tick_progress:
  assumes "txn_inv cfg rnd t" "range_order ro" "Tick cfg ro rnd owner now t = Inr t'"
  shows "no_fit cfg now t' k" "queue_covered cfg now (t_s t')"
proof -
  obtain s1 t2 where s1: "lease_step owner now (t_s t) = Inr s1"
    and t2: "tick_reserves cfg ro rnd now (tick_expire cfg ro rnd now (t\<lparr>t_s := s1\<rparr>)) = Inr t2"
    and t': "t' = tick_scale cfg ro rnd now (tick_places cfg ro rnd now t2)"
    using assms(3) by (auto simp: Tick_def bindE_eq_Inr)
  have "keeps cfg rnd t t2"
    by (rule keeps.R_trans [OF lease_step_keeps [OF s1] keeps.R_trans [OF tick_expire_keeps tick_reserves_keeps [OF t2]]])
  then have i2: "txn_inv cfg rnd t2" using assms(1) keeps_inv by blast
  then have i3: "txn_inv cfg rnd (tick_places cfg ro rnd now t2)" using keeps_inv [OF tick_places_keeps [OF assms(2)]] by blast
  show "no_fit cfg now t' k" unfolding t'
    by (rule shrinks_no_fit [OF tick_scale_shrinks tick_places_no_fit [OF assms(2) i2]])
  show "queue_covered cfg now (t_s t')" unfolding t' by (rule tick_scale_covers [OF txn_invD(11) [OF i3]])
qed

subsection \<open>A tick of the leader succeeds\<close>

lemma tick_reserve_total: "\<exists>t'. tick_reserve cfg rnd now k t = Inr t'"
  by (auto simp: tick_reserve_def reserve_at_def reserve_def sameUsers_def split: option.splits)

lemma foldE_total: "(\<And>k s. \<exists>s'. f k s = Inr s') \<Longrightarrow> \<exists>s'. foldE f ks s = Inr s'"
proof (induction ks arbitrary: s)
  case (Cons k ks)
  obtain s1 where "f k s = Inr s1" using Cons.prems by blast
  moreover obtain s2 where "foldE f ks s1 = Inr s2" using Cons.IH [OF Cons.prems] by blast
  ultimately show ?case by simp
qed simp

lemma Tick_total:
  assumes "s_Leader (t_s t) = owner \<or> s_LeaseUntil (t_s t) \<le> now"
  shows "\<exists>t'. Tick cfg ro rnd owner now t = Inr t'"
proof -
  obtain s1 where s1: "lease_step owner now (t_s t) = Inr s1" using assms by (auto simp: lease_step_def)
  obtain t2 where "tick_reserves cfg ro rnd now (tick_expire cfg ro rnd now (t\<lparr>t_s := s1\<rparr>)) = Inr t2"
    unfolding tick_reserves_def using foldE_total [of "tick_reserve cfg rnd now"] tick_reserve_total by blast
  with s1 show ?thesis by (simp add: Tick_def)
qed

text \<open>
  C35: a tick of a controller that holds the lease, or finds it expired, always succeeds, and serves the queue: in the
  state it commits no waiting request fits any worker, and the requests that may go to any worker are covered by the
  room capacity of the instances that boot, unless the fleet is at its limit, creation is blocked or backed off.
\<close>
theorem tick_serves_queue:
  assumes "reachable cfg mac cd parse_time rnd y" "id_source rnd" "config_bounds cfg" "range_order ro"
    and "s_Leader (t_s (y_t y)) = owner \<or> s_LeaseUntil (t_s (y_t y)) \<le> now"
  shows "\<exists>t'. Tick cfg ro rnd owner now (y_t y) = Inr t'
    \<and> (\<forall>k a l w. map_of (t_allocs t') k = Some a \<and> a_State a = AWaiting \<and> map_of (t_workers t') l = Some w \<longrightarrow>
          \<not> fits cfg now a (t_s t') w)
    \<and> (queue_length (t_s t') \<le> boot_capacity cfg now (t_s t') \<or> liveCount (t_s t') = cfg_MaxInstances cfg
       \<or> s_CreationBlockedReason (t_s t') \<noteq> '''' \<or> now < s_NextCreateAt (t_s t'))"
proof -
  have inv: "txn_inv cfg rnd (y_t y)" using reachable_inv assms(1-3) by blast
  obtain t' where t': "Tick cfg ro rnd owner now (y_t y) = Inr t'" using Tick_total [OF assms(5)] by blast
  have "liveCount (t_s t') \<le> cfg_MaxInstances cfg"
    using keeps_inv [OF Tick_keeps [OF t' assms(4)] inv] txn_invD(9) by blast
  then show ?thesis
    using t' Tick_progress [OF inv assms(4) t'] by (force simp: no_fit_def queue_covered_def)
qed

lemma ex_mid_leader: "s_Leader (t_s (y_t ex_mid)) = ''A''"
proof -
  have "map_option (\<lambda>y. s_Leader (t_s (y_t y))) (ex_run ex_serve) = Some ''A''" by code_simp
  then show ?thesis by (simp add: ex_mid_run(1))
qed

theorem tick_serves_queue_witness:
  "(\<exists>a. map_of (t_allocs (y_t ex_mid)) ''xx'' = Some a \<and> a_State a = AWaiting)
   \<and> (\<exists>t'. Tick ex_cfg (\<lambda>_ ks. ks) ex_rnd ''A'' 104 (y_t ex_mid) = Inr t'
     \<and> (\<forall>k a l w. map_of (t_allocs t') k = Some a \<and> a_State a = AWaiting \<and> map_of (t_workers t') l = Some w \<longrightarrow>
          \<not> fits ex_cfg 104 a (t_s t') w))"
  using tick_serves_queue [OF ex_mid_reach ex_rnd_source ex_cfg_bounds range_order_id, of "''A''" 104] ex_mid_leader
    ex_mid_entries(1) by blast

text \<open>
  C36: the inner loop of the placement is the specified best fit. In every reachable system, for every order of the
  map and every request, the chosen worker is the one that fits the request and hosts the most rooms, the smaller
  identifier deciding between equals; there is none exactly when no worker fits.
\<close>
theorem choice_is_best_fit:
  assumes "reachable cfg mac cd parse_time rnd y" "id_source rnd" "config_bounds cfg" "range_order ro"
    and "s = t_s (y_t y)"
  shows "(choose_worker cfg ro site now a s = Some c \<longleftrightarrow>
      map_of (s_Workers s) (w_ID c) = Some c \<and> fits cfg now a s c
      \<and> (\<forall>k v. map_of (s_Workers s) k = Some v \<and> fits cfg now a s v \<longrightarrow>
           Occupied s k < Occupied s (w_ID c) \<or> (Occupied s k = Occupied s (w_ID c) \<and> w_ID c \<le> k)))
    \<and> (choose_worker cfg ro site now a s = None \<longleftrightarrow> (\<forall>k v. map_of (s_Workers s) k = Some v \<longrightarrow> \<not> fits cfg now a s v))"
    (is "(?l \<longleftrightarrow> ?m \<and> ?f \<and> ?b) \<and> ?n")
proof -
  have "txn_inv cfg rnd (y_t y)" using reachable_inv assms(1-3) by blast
  then have wid: "w_ID v = k" if "map_of (s_Workers s) k = Some v" for k v using that txn_inv_worker(3) assms(5) by blast
  note best = choose_worker_best [OF assms(4), of s _ _ cfg now a site]
  have "?m \<and> ?f \<and> ?b" if ?l using choose_worker_SomeD [OF that assms(4)] best that wid by fastforce
  moreover have ?l if h: "?m" "?f" "?b"
  proof -
    obtain d where d: "choose_worker cfg ro site now a s = Some d" "Occupied s (w_ID c) < Occupied s (w_ID d)
        \<or> (Occupied s (w_ID c) = Occupied s (w_ID d) \<and> w_ID d \<le> w_ID c)" using best [OF h(1,2)] by blast
    then obtain l where "map_of (s_Workers s) l = Some d" "fits cfg now a s d" using choose_worker_SomeD [OF _ assms(4)] by blast
    then have "map_of (s_Workers s) (w_ID d) = Some d" "w_ID d = w_ID c" using wid h(3) d(2) by fastforce+
    then show ?l using d(1) h(1) by simp
  qed
  moreover have ?n using choose_worker_None [OF assms(4)] choose_worker_SomeD [OF _ assms(4)]
    by (metis option.exhaust)
  ultimately show ?thesis by blast
qed

theorem choice_is_best_fit_witness:
  "\<exists>a c. map_of (t_allocs (y_t ex_mid)) ''xx'' = Some a \<and> choose_worker ex_cfg (\<lambda>_ ks. rev ks) 7 104 a (t_s (y_t ex_mid)) = Some c
    \<and> map_of (t_workers (y_t ex_mid)) ''x'' = Some c \<and> fits ex_cfg 104 a (t_s (y_t ex_mid)) c"
proof -
  let ?P = "\<lambda>y. case (map_of (t_allocs (y_t y)) ''xx'', map_of (t_workers (y_t y)) ''x'') of (Some a, Some w) \<Rightarrow>
      w_ID w = ''x'' \<and> fits ex_cfg 104 a (t_s (y_t y)) w \<and> mkeys (t_workers (y_t y)) = [''x''] | _ \<Rightarrow> False"
  have "map_option ?P (ex_run ex_serve) = Some True" by code_simp
  then obtain a w where f: "map_of (t_allocs (y_t ex_mid)) ''xx'' = Some a" "map_of (t_workers (y_t ex_mid)) ''x'' = Some w"
    "w_ID w = ''x''" "fits ex_cfg 104 a (t_s (y_t ex_mid)) w" "mkeys (t_workers (y_t ex_mid)) = [''x'']"
    by (auto simp: ex_mid_run(1) split: option.splits)
  have "k = ''x''" if "map_of (t_workers (y_t ex_mid)) k = Some v" for k v
    using that f(5) map_of_SomeD [OF that] by (force simp: mkeys_def)
  moreover have "range_order (\<lambda>_ ks. rev ks)" by (simp add: range_order_def)
  ultimately have "choose_worker ex_cfg (\<lambda>_ ks. rev ks) 7 104 a (t_s (y_t ex_mid)) = Some w"
    using choice_is_best_fit [OF ex_mid_reach ex_rnd_source ex_cfg_bounds _ refl, of "\<lambda>_ ks. rev ks" 7 104 a w] f by fastforce
  then show ?thesis using f by blast
qed

subsection \<open>Requesting a room\<close>

text \<open>An entry that ends the scan, and the answer it gives.\<close>

definition decides :: "string list \<Rightarrow> string \<Rightarrow> Allocation \<Rightarrow> bool" where
  "decides users key a \<longleftrightarrow> a_RequestKey a = key \<or> (\<not> Terminal (a_State a) \<and> set users \<inter> set (a_UserIDs a) \<noteq> {})"

definition answer :: "string list \<Rightarrow> string \<Rightarrow> string \<Rightarrow> Allocation \<Rightarrow> string result" where
  "answer users key k a = (if a_RequestKey a \<noteq> key then Inl ErrBusy else if sameUsers (a_UserIDs a) users then Inr k else Inl ErrForbidden)"

lemma alloc_scan_agree:
  assumes "\<exists>(k, a) \<in> set es. decides users key a" "\<forall>(k, a) \<in> set es. decides users key a \<longrightarrow> answer users key k a = r"
  shows "alloc_scan users key es = Some r"
  using assms
proof (induction es)
  case (Cons e es)
  obtain k a where e: "e = (k, a)" by (cases e)
  show ?case
  proof (cases "decides users key a")
    case True
    then show ?thesis using Cons.prems(2) e by (auto simp: decides_def answer_def list_ex_iff)
  next
    case False
    then have "alloc_scan users key (e # es) = alloc_scan users key es" using e by (auto simp: decides_def list_ex_iff)
    then show ?thesis using Cons e False by auto
  qed
qed simp

lemma Allocate_agree:
  assumes "range_order ro" "validUsers users" "key \<noteq> ''''" "length key \<le> 256" "map_of (t_allocs t) k = Some a" "decides users key a"
    and "\<And>l b. map_of (t_allocs t) l = Some b \<Longrightarrow> decides users key b \<Longrightarrow> answer users key l b = r"
  shows "allocation ro rnd users key now timeout t = map_sum id (\<lambda>i. (i, t)) r"
proof -
  have "alloc_scan users key (range_entries ro 0 (t_allocs t)) = Some r"
  proof (rule alloc_scan_agree)
    have "(k, a) \<in> set (range_entries ro 0 (t_allocs t))" using assms(5) by (simp add: range_entries_iff [OF assms(1)])
    then show "\<exists>(k, a) \<in> set (range_entries ro 0 (t_allocs t)). decides users key a" using assms(6) by blast
  qed (use assms(7) in \<open>auto simp: range_entries_iff [OF assms(1)]\<close>)
  then show ?thesis using assms(2-4) by (cases r) (simp_all add: allocation_def)
qed

lemma allocs_apart:
  "txn_inv cfg' rnd t \<Longrightarrow> map_of (t_allocs t) k = Some a \<Longrightarrow> map_of (t_allocs t) l = Some b \<Longrightarrow> k \<noteq> l \<Longrightarrow> apart a b"
  using txn_invD(2) by (auto simp: allocs_inv_def)

lemma Allocate_replay:
  assumes "txn_inv cfg' rnd t" "range_order ro" "validUsers users" "key \<noteq> ''''" "length key \<le> 256"
    and a: "map_of (t_allocs t) k = Some a" "a_RequestKey a = key" "sameUsers (a_UserIDs a) users" "\<not> Terminal (a_State a)"
  shows "Allocate cfg ro rnd now users key t = Inr (k, t)"
proof -
  have "set (a_UserIDs a) = set users" using a(3) unfolding sameUsers_def by (metis set_sort)
  then have "answer users key l b = Inr k" if "map_of (t_allocs t) l = Some b" "decides users key b" for l b
    using that a allocs_apart [OF assms(1) a(1) that(1)] by (cases "l = k") (auto simp: answer_def decides_def apart_def)
  then have "allocation ro rnd users key now' timeout t = Inr (k, t)" for now' timeout
    using Allocate_agree [OF assms(2-5) a(1), of "Inr k"] a(2) by (auto simp: decides_def)
  then show ?thesis using a(1) txn_inv_alloc(3) [OF assms(1) a(1)] by (simp add: Allocate_def)
qed

lemma Allocate_forbidden:
  assumes "txn_inv cfg' rnd t" "range_order ro" "validUsers users" "key \<noteq> ''''" "length key \<le> 256"
    and a: "map_of (t_allocs t) k = Some a" "a_RequestKey a = key" "\<not> sameUsers (a_UserIDs a) users"
    and o: "\<And>l b. map_of (t_allocs t) l = Some b \<Longrightarrow> l \<noteq> k \<Longrightarrow> Terminal (a_State b) \<or> set users \<inter> set (a_UserIDs b) = {}"
  shows "Allocate cfg ro rnd now users key t = Inl ErrForbidden"
proof -
  have "answer users key l b = Inl ErrForbidden" if "map_of (t_allocs t) l = Some b" "decides users key b" for l b
    using that a o [OF that(1)] allocs_apart [OF assms(1) a(1) that(1)] by (cases "l = k") (auto simp: answer_def decides_def apart_def)
  then show ?thesis using Allocate_agree [OF assms(2-5) a(1), of "Inl ErrForbidden"] a(2) by (auto simp: decides_def Allocate_def)
qed

lemma Allocate_busy:
  assumes "range_order ro" "validUsers users" "key \<noteq> ''''" "length key \<le> 256"
    and "\<And>l b. map_of (t_allocs t) l = Some b \<Longrightarrow> a_RequestKey b \<noteq> key"
    and a: "map_of (t_allocs t) k = Some a" "\<not> Terminal (a_State a)" "set users \<inter> set (a_UserIDs a) \<noteq> {}"
  shows "Allocate cfg ro rnd now users key t = Inl ErrBusy"
  using Allocate_agree [OF assms(1-4) a(1), of "Inl ErrBusy"] a assms(5) by (auto simp: decides_def answer_def Allocate_def)

lemma Allocate_fresh:
  assumes "range_order ro" "validUsers users" "key \<noteq> ''''" "length key \<le> 256"
    and n: "\<And>l b. map_of (t_allocs t) l = Some b \<Longrightarrow> \<not> decides users key b"
  shows "\<exists>t'. Allocate cfg ro rnd now users key t = Inr (rnd (t_n t), t')
    \<and> map_of (t_allocs t') = (map_of (t_allocs t)) (rnd (t_n t) \<mapsto> new_allocation rnd (t_n t) users key now (cfg_AllocationTimeout cfg))"
proof -
  have "\<not> decides users key b" if "(l, b) \<in> set (range_entries ro 0 (t_allocs t))" for l b
    using n that range_entries_iff [OF assms(1), of l b 0 "t_allocs t"] by simp
  then have "alloc_scan users key (range_entries ro 0 (t_allocs t)) = None"
    by (auto simp: alloc_scan_None decides_def)
  then show ?thesis using assms(2-4) by (simp add: Allocate_def allocation_def Let_def new_allocation_def fun_eq_iff)
qed



end
