(* ===== verification/Agones_Client.thy ===== *)
theory Agones_Client
  imports Agones_Config Fleet_Provider
begin

text \<open>
  The Kubernetes client: \<^verbatim>\<open>internal/agones/client.go\<close>. The API server is a parameter: a world of type
  \<open>'c\<close> that answers HTTP requests (\<open>wd_do\<close>), together with the token file, the context and the JSON
  codecs. Everything the client itself decides is computed: which requests it sends and in which order,
  how it classifies failures, what it accepts as its own resource.

  A JSON document decoded after a failed attempt replaces the earlier one; the merge of two partial
  decodings of \<^verbatim>\<open>encoding/json\<close> is not modelled.
\<close>

subsection \<open>Resources\<close>

text \<open>JSON values as far as the client compares them; numbers are integers.\<close>

datatype jval = JNull | JBool bool | JInt int | JString string | JList "jval list" | JObj "(string \<times> jval) list"

fun jcanon :: "jval \<Rightarrow> jval" where
  "jcanon (JList xs) = JList (map jcanon xs)"
| "jcanon (JObj fs) = JObj (sort_key fst (map (\<lambda>(k, v). (k, jcanon v)) fs))"
| "jcanon v = v"

text \<open>\<^verbatim>\<open>equalJSON\<close> compares encodings, in which the keys of a map are sorted.\<close>

definition equalJSON :: "jval \<Rightarrow> jval \<Rightarrow> bool" where
  "equalJSON a b \<longleftrightarrow> jcanon a = jcanon b"

definition json_map :: "string gomap \<Rightarrow> jval" where
  "json_map m = JObj (map (\<lambda>(k, v). (k, JString v)) m)"

definition json_maps :: "string gomap list option \<Rightarrow> jval" where
  "json_maps ms = (case ms of None \<Rightarrow> JNull | Some xs \<Rightarrow> JList (map json_map xs))"

record ownerRef =
  ow_APIVersion :: string
  ow_Kind :: string
  ow_Name :: string
  ow_UID :: string

record objectMeta =
  om_Name :: string
  om_Namespace :: string
  om_UID :: string
  om_ResourceVersion :: string
  om_Labels :: "string gomap"
  om_Annotations :: "string gomap"
  om_OwnerReferences :: "ownerRef list"
  om_DeletionTimestamp :: string

record secret =
  sc_APIVersion :: string
  sc_Kind :: string
  sc_Metadata :: objectMeta
  sc_Type :: string
  sc_Immutable :: bool
  sc_Data :: "string gomap"

record gamePort =
  gp_Name :: string
  gp_PortPolicy :: string
  gp_ContainerPort :: int
  gp_HostPort :: int
  gp_Protocol :: string

record environment =
  en_Name :: string
  en_Value :: string
  en_ValueFrom :: "(string \<times> string) option"

record resources =
  rs_Requests :: "string gomap"
  rs_Limits :: "string gomap"

record container =
  ct_Name :: string
  ct_Image :: string
  ct_ImagePullPolicy :: string
  ct_Env :: "environment list"
  ct_Resources :: resources
  ct_SecurityContext :: jval

record podSpec =
  ps_Containers :: "container list"
  ps_NodeSelector :: "string gomap"
  ps_ImagePullSecrets :: "string gomap list option"
  ps_TerminationGracePeriodSeconds :: int

record podTemplate =
  pt_Metadata :: objectMeta
  pt_Spec :: podSpec

record gameSpec =
  gs_Container :: string
  gs_Ports :: "gamePort list"
  gs_Health :: "jval gomap"
  gs_Template :: podTemplate

record gameStatus =
  st_State :: string
  st_Address :: string
  st_Ports :: "(string \<times> int) list"

record gameServer =
  ga_APIVersion :: string
  ga_Kind :: string
  ga_Metadata :: objectMeta
  ga_Spec :: gameSpec
  ga_Status :: gameStatus

record Client =
  kc_cfg :: KConfig
  kc_deploymentHash :: string

text \<open>\<open>ca\<close> is what reading and parsing the CA file gives; \<open>hash16\<close> is hex of the first 16 bytes of SHA-256.\<close>

datatype ca_file = CAUnreadable | CAInvalid | CAPool

definition NewClient :: "net_env \<Rightarrow> (string \<Rightarrow> string) \<Rightarrow> ca_file \<Rightarrow> KConfig \<Rightarrow> Client result" where
  "NewClient net hash16 ca cfg =
     bindE (KConfig_Validate net cfg) (\<lambda>_.
       if k_CAFile cfg \<noteq> '''' \<and> ca = CAUnreadable then Inl (Errorf ''cannot read Kubernetes CA file'')
       else if k_CAFile cfg \<noteq> '''' \<and> ca = CAInvalid then Inl (Errorf ''invalid Kubernetes CA file'')
       else Inr \<lparr>kc_cfg = KConfig_Snapshot cfg, kc_deploymentHash = hash16 (k_DeploymentID cfg)\<rparr>)"

subsection \<open>Names, labels, identifiers\<close>

definition managedLabel :: string where "managedLabel = ''app.kubernetes.io/managed-by''"
definition poolLabel :: string where "poolLabel = ''nakama-agones.io/pool''"
definition deploymentLabel :: string where "deploymentLabel = ''nakama-agones.io/deployment''"
definition workerLabel :: string where "workerLabel = ''nakama-agones.io/worker''"
definition ownerAnnotation :: string where "ownerAnnotation = ''nakama-agones.io/deployment-id''"
definition buildAnnotation :: string where "buildAnnotation = ''nakama-agones.io/build-hash''"
definition profileAnnotation :: string where "profileAnnotation = ''nakama-agones.io/config-hmac''"

lemmas label_defs = managedLabel_def poolLabel_def deploymentLabel_def workerLabel_def
  ownerAnnotation_def buildAnnotation_def profileAnnotation_def

text \<open>A missing entry of a Go string map reads as the empty string.\<close>

definition mget :: "string gomap \<Rightarrow> string \<Rightarrow> string" where
  "mget m k = (case map_of m k of None \<Rightarrow> '''' | Some v \<Rightarrow> v)"

definition workerID :: "string \<Rightarrow> bool" where
  "workerID s \<longleftrightarrow> int (length s) = 32 \<and> list_all hex_lower s"

definition resourceUID :: "string \<Rightarrow> bool" where
  "resourceUID s \<longleftrightarrow> s \<noteq> [] \<and> int (length s) \<le> 128 \<and> alnum (hd s) \<and> list_all (\<lambda>c. alnum c \<or> c = CHR ''-'') s"

definition env_start :: "char \<Rightarrow> bool" where
  "env_start c \<longleftrightarrow> (CHR ''A'' \<le> c \<and> c \<le> CHR ''Z'') \<or> (CHR ''a'' \<le> c \<and> c \<le> CHR ''z'') \<or> c = CHR ''_''"

definition envName :: "string \<Rightarrow> bool" where
  "envName s \<longleftrightarrow> s \<noteq> [] \<and> int (length s) \<le> 128 \<and> env_start (hd s) \<and> list_all (\<lambda>c. env_start c \<or> is_digit c) (tl s)"

definition gamePath :: "Client \<Rightarrow> string" where
  "gamePath c = ''/apis/agones.dev/v1/namespaces/'' @ k_Namespace (kc_cfg c) @ ''/gameservers''"

definition secretPath :: "Client \<Rightarrow> string" where
  "secretPath c = ''/api/v1/namespaces/'' @ k_Namespace (kc_cfg c) @ ''/secrets''"

definition gameName :: "string \<Rightarrow> string" where
  "gameName worker = ''nag-'' @ worker"

definition secretName :: "string \<Rightarrow> string" where
  "secretName name = name @ ''-credentials''"

definition labels :: "Client \<Rightarrow> string \<Rightarrow> string gomap" where
  "labels c worker = [(managedLabel, ''nakama-agones''), (poolLabel, k_Pool (kc_cfg c)),
     (deploymentLabel, kc_deploymentHash c), (workerLabel, worker)]"

definition parseID :: "string \<Rightarrow> (string \<times> string) option" where
  "parseID i =
     (let parts = split_on (CHR ''@'') i
      in if length parts \<noteq> 2 \<or> \<not> HasPrefix (parts ! 0) ''nag-''
            \<or> \<not> workerID (TrimPrefix (parts ! 0) ''nag-'') \<or> \<not> resourceUID (parts ! 1)
         then None else Some (parts ! 0, parts ! 1))"

definition instance_id :: "gameServer \<Rightarrow> string" where
  "instance_id g = om_Name (ga_Metadata g) @ ''@'' @ om_UID (ga_Metadata g)"

subsection \<open>Failures\<close>

definition failure :: "string \<Rightarrow> int \<Rightarrow> string \<Rightarrow> bool \<Rightarrow> APIError" where
  "failure op status reason unknown =
     \<lparr>ae_Operation = op, ae_StatusCode = status, ae_Reason = reason, ae_RetryAfter = 0,
      ae_OutcomeUnknown = unknown, ae_Cause = None\<rparr>"

definition isStatus :: "APIError \<Rightarrow> int \<Rightarrow> bool" where
  "isStatus e status \<longleftrightarrow> ae_StatusCode e = status"

definition uncertain :: "APIError \<Rightarrow> APIError" where
  "uncertain e = e\<lparr>ae_OutcomeUnknown := True\<rparr>"

subsection \<open>One request\<close>

record http_request =
  hq_Method :: string
  hq_Path :: string
  hq_Query :: "(string \<times> string) list"
  hq_Body :: "string option"
  hq_Bearer :: string

text \<open>\<open>rp_Body\<close> is \<open>None\<close> when reading the body fails.\<close>

record http_reply =
  rp_Status :: int
  rp_RetryAfter :: string
  rp_Body :: "string option"

datatype transport = TransportError "ctx_cause option" | Reply http_reply

record 'c world =
  wd_ctx :: "'c \<Rightarrow> ctx_cause option"
  wd_token :: "'c \<Rightarrow> string option"
  wd_do :: "http_request \<Rightarrow> 'c \<Rightarrow> transport \<times> 'c"
  enc_secret :: "secret \<Rightarrow> string"
  enc_game :: "gameServer \<Rightarrow> string"
  enc_delete :: "string \<Rightarrow> bool \<Rightarrow> string"
  dec_secret :: "string \<Rightarrow> secret option"
  dec_game :: "string \<Rightarrow> gameServer option"
  dec_list :: "string \<Rightarrow> (string \<times> gameServer list option) option"

type_synonym 'a api_result = "APIError + 'a"

definition trim_space :: "string \<Rightarrow> string" where
  "trim_space s = rev (dropWhile is_space (rev (dropWhile is_space s)))"

definition maxBodyBytes :: int where "maxBodyBytes = 4194304"

definition token_ok :: "string \<Rightarrow> bool" where
  "token_ok t \<longleftrightarrow> \<not> (length t = 0 \<or> int (length t) > 65536 \<or> list_ex (\<lambda>c. of_char c \<in> {9, 10, 13, 32 :: nat}) t)"

definition transport_failure :: "string \<Rightarrow> string \<Rightarrow> ctx_cause option \<Rightarrow> APIError" where
  "transport_failure op verb cause =
     (failure op 0 ''transport_error'' (verb = ''POST''))\<lparr>ae_Cause :=
        (if cause = Some Canceled \<or> cause = Some DeadlineExceeded then cause else None)\<rparr>"

definition rejected :: "string \<Rightarrow> string \<Rightarrow> http_reply \<Rightarrow> APIError" where
  "rejected op verb r =
     (failure op (rp_Status r) ''kubernetes_rejected_request''
        (verb = ''POST'' \<and> (rp_Status r \<ge> 500 \<or> rp_Status r = 408)))\<lparr>ae_RetryAfter :=
          (case Atoi (rp_RetryAfter r) of
             None \<Rightarrow> 0
           | Some n \<Rightarrow> if n > 0 then min n 3600 * 1000000000 else 0)\<rparr>"

definition read_reply :: "string \<Rightarrow> string \<Rightarrow> (string \<Rightarrow> 'a option) \<Rightarrow> http_reply \<Rightarrow> 'a api_result" where
  "read_reply op verb decode r =
     (if rp_Status r < 200 \<or> rp_Status r \<ge> 300 then Inl (rejected op verb r)
      else case rp_Body r of
        None \<Rightarrow> Inl (failure op (rp_Status r) ''invalid_response_body'' (verb = ''POST''))
      | Some body \<Rightarrow>
          if int (length body) > maxBodyBytes
          then Inl (failure op (rp_Status r) ''invalid_response_body'' (verb = ''POST''))
          else case decode body of
            None \<Rightarrow> Inl (failure op (rp_Status r) ''invalid_response_json'' (verb = ''POST''))
          | Some x \<Rightarrow> Inr x)"

definition request ::
  "'c world \<Rightarrow> string \<Rightarrow> string \<Rightarrow> string \<Rightarrow> (string \<times> string) list \<Rightarrow> string option
     \<Rightarrow> (string \<Rightarrow> 'a option) \<Rightarrow> 'c \<Rightarrow> 'a api_result \<times> 'c" where
  "request W op verb path query body decode s =
     (case wd_ctx W s of
        Some cause \<Rightarrow> (Inl ((failure op 0 ''context_ended'' False)\<lparr>ae_Cause := Some cause\<rparr>), s)
      | None \<Rightarrow>
        (case wd_token W s of
           None \<Rightarrow> (Inl (failure op 0 ''token_file_unavailable'' False), s)
         | Some raw \<Rightarrow>
           (let token = trim_space raw
            in if \<not> token_ok token then (Inl (failure op 0 ''invalid_token_file'' False), s)
               else if (case body of None \<Rightarrow> False | Some b \<Rightarrow> int (length b) > maxBodyBytes)
               then (Inl (failure op 0 ''invalid_request_body'' False), s)
               else case wd_do W \<lparr>hq_Method = verb, hq_Path = path, hq_Query = query, hq_Body = body,
                                  hq_Bearer = token\<rparr> s of
                 (TransportError cause, s') \<Rightarrow> (Inl (transport_failure op verb cause), s')
               | (Reply r, s') \<Rightarrow> (read_reply op verb decode r, s'))))"

definition post_secret where
  "post_secret W c op x = request W op ''POST'' (secretPath c) [] (Some (enc_secret W x)) (dec_secret W)"
definition get_secret where
  "get_secret W c op name = request W op ''GET'' (secretPath c @ ''/'' @ name) [] None (dec_secret W)"
definition put_secret where
  "put_secret W c op x = request W op ''PUT'' (secretPath c @ ''/'' @ om_Name (sc_Metadata x)) []
     (Some (enc_secret W x)) (dec_secret W)"
definition post_game where
  "post_game W c op g = request W op ''POST'' (gamePath c) [] (Some (enc_game W g)) (dec_game W)"
definition get_game where
  "get_game W c op name = request W op ''GET'' (gamePath c @ ''/'' @ name) [] None (dec_game W)"

text \<open>Deletes carry the UID as a precondition; the flag asks for foreground propagation.\<close>

definition delete_game where
  "delete_game W c name uid = request W ''stop'' ''DELETE'' (gamePath c @ ''/'' @ name) []
     (Some (enc_delete W uid True)) (\<lambda>_. Some ())"

definition deleteSecret :: "'c world \<Rightarrow> Client \<Rightarrow> secret \<Rightarrow> 'c \<Rightarrow> unit api_result \<times> 'c" where
  "deleteSecret W c x s =
     (case request W ''secret_cleanup'' ''DELETE'' (secretPath c @ ''/'' @ om_Name (sc_Metadata x)) []
        (Some (enc_delete W (om_UID (sc_Metadata x)) False)) (\<lambda>_. Some ()) s of
        (Inl e, s') \<Rightarrow> if isStatus e 404 then (Inr (), s') else (Inl e, s')
      | r \<Rightarrow> r)"

subsection \<open>What belongs to this deployment\<close>

definition owned_meta :: "Client \<Rightarrow> objectMeta \<Rightarrow> bool" where
  "owned_meta c m \<longleftrightarrow> om_Namespace m = k_Namespace (kc_cfg c) \<and> workerID (mget (om_Labels m) workerLabel)
     \<and> mget (om_Labels m) managedLabel = ''nakama-agones'' \<and> mget (om_Labels m) poolLabel = k_Pool (kc_cfg c)
     \<and> mget (om_Labels m) deploymentLabel = kc_deploymentHash c
     \<and> mget (om_Annotations m) ownerAnnotation = k_DeploymentID (kc_cfg c)"

definition ownedGame :: "Client \<Rightarrow> gameServer \<Rightarrow> bool" where
  "ownedGame c g \<longleftrightarrow> ga_APIVersion g = ''agones.dev/v1'' \<and> ga_Kind g = ''GameServer''
     \<and> length (om_OwnerReferences (ga_Metadata g)) = 0 \<and> owned_meta c (ga_Metadata g)
     \<and> om_Name (ga_Metadata g) = gameName (mget (om_Labels (ga_Metadata g)) workerLabel)
     \<and> resourceUID (om_UID (ga_Metadata g))
     \<and> mget (om_Annotations (ga_Metadata g)) profileAnnotation \<noteq> ''''
     \<and> mget (om_Annotations (ga_Metadata g)) buildAnnotation \<noteq> ''''"

definition ownedSecret :: "Client \<Rightarrow> secret \<Rightarrow> gameServer \<Rightarrow> bool" where
  "ownedSecret c x g \<longleftrightarrow> sc_APIVersion x = ''v1'' \<and> sc_Kind x = ''Secret'' \<and> owned_meta c (sc_Metadata x)
     \<and> om_Name (sc_Metadata x) = secretName (om_Name (ga_Metadata g)) \<and> resourceUID (om_UID (sc_Metadata x))
     \<and> sc_Immutable x \<and> sc_Type x = ''Opaque'' \<and> om_DeletionTimestamp (sc_Metadata x) = ''''
     \<and> mget (om_Annotations (sc_Metadata x)) profileAnnotation
       = mget (om_Annotations (ga_Metadata g)) profileAnnotation"

definition same_port :: "gamePort \<Rightarrow> gamePort \<Rightarrow> bool" where
  "same_port p w \<longleftrightarrow> gp_Name p = gp_Name w \<and> gp_PortPolicy p = gp_PortPolicy w
     \<and> gp_Protocol p = gp_Protocol w \<and> gp_ContainerPort p = gp_ContainerPort w"

definition same_container :: "container \<Rightarrow> container \<Rightarrow> bool" where
  "same_container gc wc \<longleftrightarrow> ct_Name gc = ct_Name wc \<and> ct_Image gc = ct_Image wc
     \<and> ct_ImagePullPolicy gc = ct_ImagePullPolicy wc \<and> ct_Env gc = ct_Env wc
     \<and> sameQuantities (rs_Requests (ct_Resources gc)) (rs_Requests (ct_Resources wc))
     \<and> sameQuantities (rs_Limits (ct_Resources gc)) (rs_Limits (ct_Resources wc))"

definition health_value :: "gameSpec \<Rightarrow> string \<Rightarrow> jval" where
  "health_value sp k = (case map_of (gs_Health sp) k of None \<Rightarrow> JNull | Some v \<Rightarrow> v)"

text \<open>
  \<open>want\<close> comes from \<open>desired\<close> and has exactly one port and one container; the source indexes them
  without a check.
\<close>

definition sameGame :: "Client \<Rightarrow> gameServer \<Rightarrow> gameServer \<Rightarrow> bool" where
  "sameGame c g want \<longleftrightarrow>
     ownedGame c g \<and> om_DeletionTimestamp (ga_Metadata g) = ''''
     \<and> om_Name (ga_Metadata g) = om_Name (ga_Metadata want)
     \<and> mget (om_Annotations (ga_Metadata g)) profileAnnotation
       = mget (om_Annotations (ga_Metadata want)) profileAnnotation
     \<and> mget (om_Annotations (ga_Metadata g)) buildAnnotation
       = mget (om_Annotations (ga_Metadata want)) buildAnnotation
     \<and> gs_Container (ga_Spec g) = gs_Container (ga_Spec want)
     \<and> length (gs_Ports (ga_Spec g)) = 1
     \<and> length (ps_Containers (pt_Spec (gs_Template (ga_Spec g)))) = 1
     \<and> same_port (hd (gs_Ports (ga_Spec g))) (hd (gs_Ports (ga_Spec want)))
     \<and> (let gp = pt_Spec (gs_Template (ga_Spec g)); wp = pt_Spec (gs_Template (ga_Spec want));
            gc = hd (ps_Containers gp); wc = hd (ps_Containers wp)
        in ps_TerminationGracePeriodSeconds gp = ps_TerminationGracePeriodSeconds wp
           \<and> equalJSON (ct_SecurityContext gc) (ct_SecurityContext wc)
           \<and> health_value (ga_Spec g) ''disabled'' \<noteq> JBool True
           \<and> list_all (\<lambda>k. equalJSON (health_value (ga_Spec g) k) (health_value (ga_Spec want) k))
               [''initialDelaySeconds'', ''periodSeconds'', ''failureThreshold'']
           \<and> same_container gc wc
           \<and> equalJSON (json_map (ps_NodeSelector gp)) (json_map (ps_NodeSelector wp))
           \<and> equalJSON (json_maps (ps_ImagePullSecrets gp)) (json_maps (ps_ImagePullSecrets wp)))"

definition agones_instance :: "Client \<Rightarrow> gameServer \<Rightarrow> Instance" where
  "agones_instance c g =
     (let st = st_State (ga_Status g);
          state = (if om_DeletionTimestamp (ga_Metadata g) \<noteq> '''' then ''unhealthy''
                   else if st = ''Allocated'' then ''running''
                   else if st = ''Unhealthy'' \<or> st = ''Error'' \<or> st = ''Shutdown'' then ''unhealthy''
                   else ''launching'')
      in \<lparr>in_InstanceID = instance_id g, in_Status = state,
          in_NetworkPorts = (if state = ''running''
            then map (\<lambda>(n, p). \<lparr>po_Name = n, po_Host = st_Address (ga_Status g), po_ExternalPort = p,
                                  po_InternalPort = k_GamePort (kc_cfg c), po_Protocol = ''udp''\<rparr>)
                   (filter (\<lambda>(n, p). n = k_PortName (kc_cfg c)) (st_Ports (ga_Status g)))
            else []),
          in_CustomData = [(''fleet_owner'', AnyString (k_DeploymentID (kc_cfg c))),
            (''worker_id'', AnyString (mget (om_Labels (ga_Metadata g)) workerLabel)),
            (''build_hash'', AnyString (mget (om_Annotations (ga_Metadata g)) buildAnnotation))],
          in_TTL = 0, in_StartedAt = ''''\<rparr>)"

subsection \<open>The resources of a start request\<close>

definition owner_meta :: "string \<Rightarrow> string \<Rightarrow> string gomap \<Rightarrow> string gomap \<Rightarrow> objectMeta" where
  "owner_meta name ns ls an =
     \<lparr>om_Name = name, om_Namespace = ns, om_UID = '''', om_ResourceVersion = '''', om_Labels = ls,
      om_Annotations = an, om_OwnerReferences = [], om_DeletionTimestamp = ''''\<rparr>"

definition env_ok :: "string \<Rightarrow> string \<Rightarrow> bool" where
  "env_ok k v \<longleftrightarrow> envName k \<and> int (length v) \<le> 8192 \<and> list_all (\<lambda>c. of_char c \<noteq> (0 :: nat)) v"

definition env_value :: "StartRequest \<Rightarrow> string \<Rightarrow> string" where
  "env_value req k = mget (sr_EnvironmentVariables req) k"

definition custom :: "StartRequest \<Rightarrow> string \<Rightarrow> string" where
  "custom req k = any_string (map_of (sr_CustomData req) k)"

text \<open>Every variable is a reference into the credentials secret, in sorted order.\<close>

definition env_refs :: "StartRequest \<Rightarrow> environment list" where
  "env_refs req = map (\<lambda>k. \<lparr>en_Name = k, en_Value = '''', en_ValueFrom = Some (secretName (sr_Name req), k)\<rparr>)
     (sort (mkeys (sr_EnvironmentVariables req)))"

definition cpu_of :: "Client \<Rightarrow> StartRequest \<Rightarrow> string \<times> string" where
  "cpu_of c req = (case sr_CPUResources req of
     None \<Rightarrow> (k_CPURequest (kc_cfg c), k_CPULimit (kc_cfg c))
   | Some r \<Rightarrow> (cr_Request r, cr_Limit r))"

definition cpu_ok :: "StartRequest \<Rightarrow> bool" where
  "cpu_ok req = (case sr_CPUResources req of
     None \<Rightarrow> True
   | Some r \<Rightarrow> list_all (\<lambda>v. v = '''' \<or> quantityValue v \<noteq> None) [cr_Request r, cr_Limit r])"

definition quantities :: "string \<Rightarrow> string \<Rightarrow> string gomap" where
  "quantities cpu memory = filter (\<lambda>(k, v). v \<noteq> '''') [(''cpu'', cpu), (''memory'', memory)]"

definition game_container :: "Client \<Rightarrow> StartRequest \<Rightarrow> container" where
  "game_container c req =
     \<lparr>ct_Name = ''game'', ct_Image = k_GameImage (kc_cfg c), ct_ImagePullPolicy = ''IfNotPresent'',
      ct_Env = env_refs req,
      ct_Resources = \<lparr>rs_Requests = quantities (fst (cpu_of c req)) (k_MemoryRequest (kc_cfg c)),
                      rs_Limits = quantities (snd (cpu_of c req)) (k_MemoryLimit (kc_cfg c))\<rparr>,
      ct_SecurityContext = JObj [(''allowPrivilegeEscalation'', JBool False),
        (''capabilities'', JObj [(''drop'', JList [JString ''ALL''])])]\<rparr>"

definition game_spec :: "Client \<Rightarrow> StartRequest \<Rightarrow> gameSpec" where
  "game_spec c req =
     \<lparr>gs_Container = ''game'',
      gs_Ports = [\<lparr>gp_Name = k_PortName (kc_cfg c), gp_PortPolicy = ''Dynamic'',
                   gp_ContainerPort = k_GamePort (kc_cfg c), gp_HostPort = 0, gp_Protocol = ''UDP''\<rparr>],
      gs_Health = [(''disabled'', JBool False), (''initialDelaySeconds'', JInt 30),
                   (''periodSeconds'', JInt 5), (''failureThreshold'', JInt 3)],
      gs_Template =
        \<lparr>pt_Metadata = owner_meta '''' '''' (labels c (custom req ''worker_id'')) [],
         pt_Spec = \<lparr>ps_Containers = [game_container c req],
                    ps_NodeSelector = fold (\<lambda>(k, v). mput k v) (k_NodeSelector (kc_cfg c))
                                        [(''kubernetes.io/os'', ''linux'')],
                    ps_ImagePullSecrets = (if k_ImagePullSecret (kc_cfg c) \<noteq> ''''
                      then Some [[(''name'', k_ImagePullSecret (kc_cfg c))]] else None),
                    ps_TerminationGracePeriodSeconds = 60\<rparr>\<rparr>\<rparr>"

text \<open>
  \<open>fingerprint\<close> is the keyed hash of the encoded specification, region and data, in hex: the key is the
  worker's bootstrap token.
\<close>

type_synonym fingerprint_fn = "string \<Rightarrow> gameSpec \<Rightarrow> string \<Rightarrow> string gomap \<Rightarrow> string"

definition annotations :: "StartRequest \<Rightarrow> string \<Rightarrow> string gomap" where
  "annotations req profile = [(ownerAnnotation, custom req ''fleet_owner''),
     (buildAnnotation, custom req ''build_hash''), (profileAnnotation, profile)]"

definition desired :: "fingerprint_fn \<Rightarrow> Client \<Rightarrow> StartRequest \<Rightarrow> (gameServer \<times> secret) api_result" where
  "desired fingerprint c req =
     (let worker = custom req ''worker_id''; owner = custom req ''fleet_owner'';
          build = custom req ''build_hash''
      in if \<not> workerID worker \<or> owner \<noteq> k_DeploymentID (kc_cfg c) \<or> build = '''' \<or> int (length build) > 256
            \<or> sr_Region req = '''' \<or> sr_Name req \<noteq> gameName worker
         then Inl (failure ''start'' 0 ''invalid_worker_identity'' False)
         else if env_value req ''AGONES_FLEET_WORKER_ID'' \<noteq> worker
            \<or> env_value req ''AGONES_FLEET_BUILD_HASH'' \<noteq> build
            \<or> env_value req ''AGONES_FLEET_BOOTSTRAP_TOKEN'' = ''''
            \<or> env_value req ''AGONES_FLEET_ADMISSION_KEY'' = ''''
         then Inl (failure ''start'' 0 ''missing_worker_credentials'' False)
         else if int (length (sr_EnvironmentVariables req)) > 80
         then Inl (failure ''start'' 0 ''too_many_environment_variables'' False)
         else if \<not> list_all (\<lambda>(k, v). env_ok k v) (sr_EnvironmentVariables req)
         then Inl (failure ''start'' 0 ''invalid_environment_variable'' False)
         else if \<not> cpu_ok req
         then Inl (failure ''start'' 0 ''invalid_cpu_resources'' False)
         else let spec = game_spec c req;
                  profile = fingerprint (env_value req ''AGONES_FLEET_BOOTSTRAP_TOKEN'') spec (sr_Region req)
                              (sr_EnvironmentVariables req);
                  meta = (\<lambda>name. owner_meta name (k_Namespace (kc_cfg c)) (labels c worker)
                                   (annotations req profile))
              in Inr (\<lparr>ga_APIVersion = ''agones.dev/v1'', ga_Kind = ''GameServer'', ga_Metadata = meta (sr_Name req),
                       ga_Spec = spec, ga_Status = \<lparr>st_State = '''', st_Address = '''', st_Ports = []\<rparr>\<rparr>,
                      \<lparr>sc_APIVersion = ''v1'', sc_Kind = ''Secret'', sc_Metadata = meta (secretName (sr_Name req)),
                       sc_Type = ''Opaque'', sc_Immutable = True, sc_Data = sr_EnvironmentVariables req\<rparr>))"

text \<open>\<^verbatim>\<open>reflect.DeepEqual\<close> on two maps, the second not nil.\<close>

definition same_data :: "string gomap \<Rightarrow> string gomap \<Rightarrow> bool" where
  "same_data a b \<longleftrightarrow> length a = length b \<and> list_all (\<lambda>(k, v). map_of b k = Some v) a"

subsection \<open>Operations\<close>

definition bindW ::
  "('c \<Rightarrow> 'a api_result \<times> 'c) \<Rightarrow> ('a \<Rightarrow> 'c \<Rightarrow> 'b api_result \<times> 'c) \<Rightarrow> 'c \<Rightarrow> 'b api_result \<times> 'c" where
  "bindW m f s = (case m s of (Inl e, s') \<Rightarrow> (Inl e, s') | (Inr x, s') \<Rightarrow> f x s')"

text \<open>
  A create that conflicts or whose outcome is unknown is resolved by reading the deterministic name; when
  that read fails too, an unknown outcome stays unknown.
\<close>

definition create_or_get ::
  "('c \<Rightarrow> 'a api_result \<times> 'c) \<Rightarrow> ('c \<Rightarrow> 'a api_result \<times> 'c) \<Rightarrow> 'c \<Rightarrow> 'a api_result \<times> 'c" where
  "create_or_get post get s =
     (case post s of
        (Inr x, s1) \<Rightarrow> (Inr x, s1)
      | (Inl e, s1) \<Rightarrow>
          if isStatus e 409 \<or> ae_OutcomeUnknown e
          then (case get s1 of
                  (Inr x, s2) \<Rightarrow> (Inr x, s2)
                | (Inl e2, s2) \<Rightarrow> (Inl (if ae_OutcomeUnknown e then uncertain e else e2), s2))
          else (Inl e, s1))"

definition owner_of :: "string \<Rightarrow> string \<Rightarrow> ownerRef" where
  "owner_of name uid = \<lparr>ow_APIVersion = ''agones.dev/v1'', ow_Kind = ''GameServer'', ow_Name = name, ow_UID = uid\<rparr>"

definition ensureSecretOwner ::
  "'c world \<Rightarrow> Client \<Rightarrow> gameServer \<Rightarrow> secret option \<Rightarrow> 'c \<Rightarrow> unit api_result \<times> 'c" where
  "ensureSecretOwner W c g known =
     bindW (\<lambda>s. case known of
              Some x \<Rightarrow> (Inr x, s)
            | None \<Rightarrow> get_secret W c ''secret_get'' (secretName (om_Name (ga_Metadata g))) s)
       (\<lambda>x s.
         let expected = owner_of (om_Name (ga_Metadata g)) (om_UID (ga_Metadata g));
             refs = om_OwnerReferences (sc_Metadata x)
         in if \<not> ownedSecret c x g then (Inl (failure ''secret_owner'' 409 ''secret_identity_mismatch'' False), s)
            else if length refs > 0
            then (if length refs \<noteq> 1 \<or> refs ! 0 \<noteq> expected
                  then (Inl (failure ''secret_owner'' 409 ''secret_owner_conflict'' False), s) else (Inr (), s))
            else if om_ResourceVersion (sc_Metadata x) = ''''
            then (Inl (failure ''secret_owner'' 0 ''missing_resource_version'' False), s)
            else bindW (put_secret W c ''secret_owner''
                     (x\<lparr>sc_Metadata := (sc_Metadata x)\<lparr>om_OwnerReferences := [expected]\<rparr>\<rparr>))
                   (\<lambda>u s. if om_UID (sc_Metadata u) \<noteq> om_UID (sc_Metadata x)
                             \<or> length (om_OwnerReferences (sc_Metadata u)) \<noteq> 1
                             \<or> om_OwnerReferences (sc_Metadata u) ! 0 \<noteq> expected
                          then (Inl (failure ''secret_owner'' 0 ''invalid_owner_response'' False), s)
                          else (Inr (), s)) s)"

definition secret_owner_check :: "'c world \<Rightarrow> Client \<Rightarrow> gameServer \<Rightarrow> secret \<Rightarrow> 'c \<Rightarrow> unit api_result \<times> 'c" where
  "secret_owner_check W c want x s =
     (let refs = om_OwnerReferences (sc_Metadata x);
          conflict = Inl (failure ''start'' 409 ''secret_owner_conflict'' False)
      in if length refs = 0 then (Inr (), s)
         else if length refs \<noteq> 1 \<or> ow_APIVersion (refs ! 0) \<noteq> ''agones.dev/v1''
            \<or> ow_Kind (refs ! 0) \<noteq> ''GameServer'' \<or> ow_Name (refs ! 0) \<noteq> om_Name (ga_Metadata want)
         then (conflict, s)
         else case get_game W c ''secret_owner_check'' (om_Name (ga_Metadata want)) s of
           (Inl e, s1) \<Rightarrow> (if isStatus e 404 then conflict else Inl e, s1)
         | (Inr g, s1) \<Rightarrow>
             (if om_UID (ga_Metadata g) \<noteq> ow_UID (refs ! 0) \<or> \<not> sameGame c g want then conflict else Inr (), s1))"

text \<open>
  After a definitive rejection of the GameServer the credentials are removed, but only when a read
  confirms that no GameServer of that name exists.
\<close>

definition definitive :: "APIError \<Rightarrow> bool" where
  "definitive e \<longleftrightarrow> \<not> ae_OutcomeUnknown e \<and> (isStatus e 400 \<or> isStatus e 403 \<or> isStatus e 422)"

definition failed_create :: "'c world \<Rightarrow> Client \<Rightarrow> gameServer \<Rightarrow> secret \<Rightarrow> APIError \<Rightarrow> 'c \<Rightarrow> 'c" where
  "failed_create W c want x e s =
     (if \<not> definitive e then s
      else case get_game W c ''failed_create_check'' (om_Name (ga_Metadata want)) s of
        (Inl e2, s1) \<Rightarrow> if isStatus e2 404 then snd (deleteSecret W c x s1) else s1
      | (Inr _, s1) \<Rightarrow> s1)"

definition create_secret :: "'c world \<Rightarrow> Client \<Rightarrow> gameServer \<Rightarrow> secret \<Rightarrow> 'c \<Rightarrow> secret api_result \<times> 'c" where
  "create_secret W c want cred =
     bindW (create_or_get (post_secret W c ''secret_create'' cred)
              (get_secret W c ''secret_reconcile'' (om_Name (sc_Metadata cred))))
       (\<lambda>x s. if \<not> ownedSecret c x want \<or> \<not> same_data (sc_Data x) (sc_Data cred)
              then (Inl (failure ''start'' 409 ''secret_identity_or_config_conflict'' False), s)
              else bindW (secret_owner_check W c want x) (\<lambda>_ s. (Inr x, s)) s)"

definition create_game :: "'c world \<Rightarrow> Client \<Rightarrow> gameServer \<Rightarrow> secret \<Rightarrow> 'c \<Rightarrow> gameServer api_result \<times> 'c" where
  "create_game W c want x s =
     (case create_or_get (post_game W c ''start'' want)
             (get_game W c ''create_reconcile'' (om_Name (ga_Metadata want))) s of
        (Inl e, s1) \<Rightarrow> (Inl e, failed_create W c want x e s1)
      | (Inr g, s1) \<Rightarrow>
          if \<not> sameGame c g want
          then (Inl (failure ''start'' 409 ''gameserver_identity_or_config_conflict'' False), s1)
          else case ensureSecretOwner W c g (Some x) s1 of
            (Inl e, s2) \<Rightarrow> (Inl (uncertain e), s2)
          | (Inr _, s2) \<Rightarrow> (Inr g, s2))"

definition Client_Start ::
  "fingerprint_fn \<Rightarrow> 'c world \<Rightarrow> Client \<Rightarrow> StartRequest \<Rightarrow> 'c \<Rightarrow> Instance api_result \<times> 'c" where
  "Client_Start fingerprint W c req s =
     (case desired fingerprint c req of
        Inl e \<Rightarrow> (Inl e, s)
      | Inr (want, cred) \<Rightarrow>
          bindW (create_secret W c want cred)
            (\<lambda>x. bindW (create_game W c want x) (\<lambda>g s. (Inr (agones_instance c g), s))) s)"

definition Client_get :: "'c world \<Rightarrow> Client \<Rightarrow> string \<Rightarrow> 'c \<Rightarrow> gameServer api_result \<times> 'c" where
  "Client_get W c i s =
     (case parseID i of
        None \<Rightarrow> (Inl (failure ''get'' 0 ''invalid_instance_id'' False), s)
      | Some (name, uid) \<Rightarrow>
          bindW (get_game W c ''get'' name)
            (\<lambda>g s. if \<not> ownedGame c g \<or> om_Name (ga_Metadata g) \<noteq> name \<or> om_UID (ga_Metadata g) \<noteq> uid
                   then (Inl (failure ''get'' 409 ''resource_identity_mismatch'' False), s) else (Inr g, s)) s)"

definition Client_Get :: "'c world \<Rightarrow> Client \<Rightarrow> string \<Rightarrow> 'c \<Rightarrow> Instance api_result \<times> 'c" where
  "Client_Get W c i = bindW (Client_get W c i) (\<lambda>g s. (Inr (agones_instance c g), s))"

definition selector :: "Client \<Rightarrow> string" where
  "selector c = managedLabel @ ''=nakama-agones,'' @ poolLabel @ ''='' @ k_Pool (kc_cfg c) @ '',''
     @ deploymentLabel @ ''='' @ kc_deploymentHash c"

definition list_query :: "Client \<Rightarrow> string \<Rightarrow> (string \<times> string) list" where
  "list_query c cursor = (if cursor \<noteq> '''' then [(''continue'', cursor)] else [])
     @ [(''labelSelector'', selector c), (''limit'', ''100'')]"

definition list_page ::
  "'c world \<Rightarrow> Client \<Rightarrow> string \<Rightarrow> 'c \<Rightarrow> (string \<times> gameServer list option) api_result \<times> 'c" where
  "list_page W c cursor = request W ''list'' ''GET'' (gamePath c) (list_query c cursor) None (dec_list W)"

text \<open>The items of a page: foreign ones and repeated ids are skipped.\<close>

fun list_items :: "Client \<Rightarrow> gameServer list \<Rightarrow> string list \<times> Instance list \<Rightarrow> string list \<times> Instance list" where
  "list_items c [] acc = acc"
| "list_items c (g # gs) (seen, out) =
     (if \<not> ownedGame c g \<or> instance_id g \<in> set seen then list_items c gs (seen, out)
      else list_items c gs (instance_id g # seen, out @ [agones_instance c g]))"

fun list_pages ::
  "'c world \<Rightarrow> Client \<Rightarrow> nat \<Rightarrow> string \<Rightarrow> string list \<Rightarrow> string list \<times> Instance list
     \<Rightarrow> 'c \<Rightarrow> Instance list api_result \<times> 'c" where
  "list_pages W c 0 cursor cursors acc s = (Inl (failure ''list'' 0 ''pagination_limit_exceeded'' False), s)"
| "list_pages W c (Suc n) cursor cursors acc s =
     (case list_page W c cursor s of
        (Inl e, s1) \<Rightarrow> (Inl e, s1)
      | (Inr (next_cursor, None), s1) \<Rightarrow> (Inl (failure ''list'' 0 ''invalid_list_response'' False), s1)
      | (Inr (next_cursor, Some gs), s1) \<Rightarrow>
          (let acc1 = list_items c gs acc
           in if next_cursor = '''' then (Inr (snd acc1), s1)
              else if next_cursor \<in> set cursors \<or> int (length next_cursor) > 4096
              then (Inl (failure ''list'' 0 ''invalid_pagination'' False), s1)
              else list_pages W c n next_cursor (next_cursor # cursors) acc1 s1))"

definition Client_List :: "'c world \<Rightarrow> Client \<Rightarrow> 'c \<Rightarrow> Instance list api_result \<times> 'c" where
  "Client_List W c = list_pages W c 100 '''' [] ([], [])"

definition cleanupAbsentSecret ::
  "'c world \<Rightarrow> Client \<Rightarrow> string \<Rightarrow> string \<Rightarrow> 'c \<Rightarrow> unit api_result \<times> 'c" where
  "cleanupAbsentSecret W c name uid s =
     (case get_secret W c ''secret_cleanup_get'' (secretName name) s of
        (Inl e, s1) \<Rightarrow> (if isStatus e 404 then Inr () else Inl e, s1)
      | (Inr x, s1) \<Rightarrow>
          if \<not> owned_meta c (sc_Metadata x) \<or> om_Name (sc_Metadata x) \<noteq> secretName name
             \<or> \<not> resourceUID (om_UID (sc_Metadata x))
          then (Inl (failure ''secret_cleanup'' 409 ''secret_identity_mismatch'' False), s1)
          else if length (om_OwnerReferences (sc_Metadata x)) \<noteq> 1
             \<or> om_OwnerReferences (sc_Metadata x) ! 0 \<noteq> owner_of name uid
          then (Inl (failure ''secret_cleanup'' 409 ''secret_owner_conflict'' False), s1)
          else deleteSecret W c x s1)"

definition Client_Stop :: "'c world \<Rightarrow> Client \<Rightarrow> string \<Rightarrow> 'c \<Rightarrow> unit api_result \<times> 'c" where
  "Client_Stop W c i s =
     (case Client_get W c i s of
        (Inl e, s1) \<Rightarrow>
          if isStatus e 404
          then (case parseID i of None \<Rightarrow> (Inl e, s1) | Some (name, uid) \<Rightarrow> cleanupAbsentSecret W c name uid s1)
          else (Inl e, s1)
      | (Inr g, s1) \<Rightarrow>
          (case delete_game W c (om_Name (ga_Metadata g)) (om_UID (ga_Metadata g)) s1 of
             (Inl e, s2) \<Rightarrow>
               if isStatus e 404
               then cleanupAbsentSecret W c (om_Name (ga_Metadata g)) (om_UID (ga_Metadata g)) s2
               else (Inl e, s2)
           | r \<Rightarrow> r))"

end
