(* ===== verification/Agones_Safety.thy ===== *)
theory Agones_Safety
  imports Agones_Client
begin

text \<open>
  What the Kubernetes client promises: identities, the requests it sends, and the failures it reports as
  unknown. Requests are observed by running the operations against a world that records them.
\<close>

subsection \<open>Identifiers\<close>

lemma at_not_name:
  "list_all hex_lower s \<Longrightarrow> CHR ''@'' \<notin> set s"
  by (auto simp: list_all_iff hex_lower_def is_digit_def less_eq_char_def)

lemma at_not_uid: "resourceUID s \<Longrightarrow> CHR ''@'' \<notin> set s"
  by (auto simp: resourceUID_def list_all_iff alnum_def lower_alnum_def is_digit_def less_eq_char_def)

lemma parseID_SomeD:
  assumes "parseID i = Some (name, uid)"
  shows "i = name @ ''@'' @ uid" "resourceUID uid" "\<exists>worker. workerID worker \<and> name = gameName worker"
proof -
  let ?p = "split_on (CHR ''@'') i"
  from assms have len: "length ?p = 2" and name: "name = ?p ! 0" "uid = ?p ! 1"
    and pre: "HasPrefix name ''nag-''" "workerID (TrimPrefix name ''nag-'')" and uid: "resourceUID uid"
    by (auto simp: parseID_def Let_def split: if_splits)
  then have "?p = [name, uid]" by (auto simp: numeral_2_eq_2 length_Suc_conv)
  from split_on_join[OF this] show "i = name @ ''@'' @ uid" by simp
  show "resourceUID uid" by (rule uid)
  have "name = gameName (TrimPrefix name ''nag-'')"
    unfolding gameName_def by (rule HasPrefix_TrimPrefix[OF pre(1)])
  with pre(2) show "\<exists>worker. workerID worker \<and> name = gameName worker" by blast
qed

lemma parseID_id:
  assumes "workerID worker" "resourceUID uid"
  shows "parseID (gameName worker @ ''@'' @ uid) = Some (gameName worker, uid)"
proof -
  have "CHR ''@'' \<notin> set (gameName worker)"
    using assms(1) at_not_name by (auto simp: workerID_def gameName_def)
  from split_on_append[OF this, of uid]
  have "split_on (CHR ''@'') (gameName worker @ ''@'' @ uid) = [gameName worker, uid]"
    using split_on_absent[OF at_not_uid[OF assms(2)]] by simp
  then show ?thesis using assms
    by (simp add: parseID_def Let_def gameName_def HasPrefix_def TrimPrefix_def)
qed

lemma parseID_ownedGame: "ownedGame c g \<Longrightarrow> parseID (instance_id g) = Some (om_Name (ga_Metadata g), om_UID (ga_Metadata g))"
  using parseID_id[of "mget (om_Labels (ga_Metadata g)) workerLabel" "om_UID (ga_Metadata g)"]
  by (auto simp: ownedGame_def owned_meta_def instance_id_def)

lemma gameName_inj [simp]: "gameName a = gameName b \<longleftrightarrow> a = b"
  by (simp add: gameName_def)

lemma instance_fields [simp]:
  "in_InstanceID (agones_instance c g) = instance_id g"
  "map_of (in_CustomData (agones_instance c g)) ''worker_id''
     = Some (AnyString (mget (om_Labels (ga_Metadata g)) workerLabel))"
  "map_of (in_CustomData (agones_instance c g)) ''fleet_owner'' = Some (AnyString (k_DeploymentID (kc_cfg c)))"
  "map_of (in_CustomData (agones_instance c g)) ''build_hash''
     = Some (AnyString (mget (om_Annotations (ga_Metadata g)) buildAnnotation))"
  by (simp_all add: agones_instance_def Let_def)

lemma instance_running:
  "in_Status (agones_instance c g) = ''running''
     \<longleftrightarrow> st_State (ga_Status g) = ''Allocated'' \<and> om_DeletionTimestamp (ga_Metadata g) = ''''"
  by (simp add: agones_instance_def Let_def)

subsection \<open>Results\<close>

lemma bindW_Inr:
  "bindW m f s = (Inr y, s') \<longleftrightarrow> (\<exists>x s1. m s = (Inr x, s1) \<and> f x s1 = (Inr y, s'))"
  by (auto simp: bindW_def split: prod.splits sum.splits)

lemma bindW_Inl:
  "bindW m f s = (Inl e, s') \<longleftrightarrow> m s = (Inl e, s') \<or> (\<exists>x s1. m s = (Inr x, s1) \<and> f x s1 = (Inl e, s'))"
  by (auto simp: bindW_def split: prod.splits sum.splits)

lemmas bindW_cases = bindW_Inr bindW_Inl

text \<open>Only a create can have an unknown outcome.\<close>

lemma request_unknown:
  assumes "request W op verb path query body decode s = (Inl e, s')" "ae_OutcomeUnknown e"
  shows "verb = ''POST''"
  using assms
  by (auto simp: request_def read_reply_def rejected_def transport_failure_def failure_def Let_def
      split: option.splits if_splits prod.splits transport.splits)

lemmas read_requests = get_secret_def get_game_def put_secret_def delete_game_def list_page_def

lemma get_secret_known: "get_secret W c op n s = (Inl e, s') \<Longrightarrow> \<not> ae_OutcomeUnknown e"
  using request_unknown by (fastforce simp: get_secret_def)
lemma get_game_known: "get_game W c op n s = (Inl e, s') \<Longrightarrow> \<not> ae_OutcomeUnknown e"
  using request_unknown by (fastforce simp: get_game_def)
lemma put_secret_known: "put_secret W c op x s = (Inl e, s') \<Longrightarrow> \<not> ae_OutcomeUnknown e"
  using request_unknown by (fastforce simp: put_secret_def)
lemma delete_game_known: "delete_game W c n u s = (Inl e, s') \<Longrightarrow> \<not> ae_OutcomeUnknown e"
  using request_unknown by (fastforce simp: delete_game_def)
lemma list_page_known: "list_page W c cu s = (Inl e, s') \<Longrightarrow> \<not> ae_OutcomeUnknown e"
  using request_unknown by (fastforce simp: list_page_def)
lemma deleteSecret_known: "deleteSecret W c x s = (Inl e, s') \<Longrightarrow> \<not> ae_OutcomeUnknown e"
  using request_unknown by (fastforce simp: deleteSecret_def split: prod.splits sum.splits if_splits)

lemma failure_known [simp]: "ae_OutcomeUnknown (failure op st r u) = u"
  by (simp add: failure_def)

lemma cleanupAbsentSecret_known:
  "cleanupAbsentSecret W c n u s = (Inl e, s') \<Longrightarrow> \<not> ae_OutcomeUnknown e"
  by (auto simp: cleanupAbsentSecret_def dest: deleteSecret_known get_secret_known
      split: prod.splits sum.splits if_splits)

lemma Client_get_known: "Client_get W c i s = (Inl e, s') \<Longrightarrow> \<not> ae_OutcomeUnknown e"
  by (auto simp: Client_get_def bindW_cases dest: get_game_known split: option.splits if_splits)

lemma Client_Stop_known: "Client_Stop W c i s = (Inl e, s') \<Longrightarrow> \<not> ae_OutcomeUnknown e"
  by (auto simp: Client_Stop_def dest: Client_get_known cleanupAbsentSecret_known delete_game_known
      split: prod.splits sum.splits if_splits option.splits)

lemma list_pages_known: "list_pages W c n cu cus acc s = (Inl e, s') \<Longrightarrow> \<not> ae_OutcomeUnknown e"
proof (induction n arbitrary: cu cus acc s)
  case (Suc n)
  from Suc.prems Suc.IH show ?case
    by (auto simp: Let_def dest: list_page_known split: prod.splits sum.splits option.splits if_splits)
qed auto

lemma Client_get_exact:
  assumes "Client_get W c i s = (Inr g, s')"
  shows "ownedGame c g" "instance_id g = i"
  using assms parseID_SomeD[of i]
  by (auto simp: Client_get_def bindW_cases instance_id_def split: option.splits if_splits)


subsection \<open>Listing\<close>

text \<open>The pages that are actually read, with the cursor each returns.\<close>

fun pages_read :: "'c world \<Rightarrow> Client \<Rightarrow> nat \<Rightarrow> string \<Rightarrow> 'c \<Rightarrow> (string \<times> gameServer list) list" where
  "pages_read W c 0 cursor s = []"
| "pages_read W c (Suc n) cursor s =
     (case list_page W c cursor s of
        (Inr (next_cursor, Some gs), s1) \<Rightarrow>
          (next_cursor, gs) # (if next_cursor = '''' then [] else pages_read W c n next_cursor s1)
      | _ \<Rightarrow> [])"

text \<open>The first game server of each identity, in the order of arrival.\<close>

fun firsts :: "string list \<Rightarrow> gameServer list \<Rightarrow> gameServer list" where
  "firsts seen [] = []"
| "firsts seen (g # gs) =
     (if instance_id g \<in> set seen then firsts seen gs else g # firsts (instance_id g # seen) gs)"

lemma list_items_spec:
  "list_items c gs (seen, out) =
     (rev (map instance_id (firsts seen (filter (ownedGame c) gs))) @ seen,
      out @ map (agones_instance c) (firsts seen (filter (ownedGame c) gs)))"
  by (induction c gs "(seen, out)" arbitrary: seen out rule: list_items.induct) auto

lemma firsts_append:
  "firsts seen (xs @ ys) = firsts seen xs @ firsts (rev (map instance_id (firsts seen xs)) @ seen) ys"
  by (induction xs arbitrary: seen) auto

lemma firsts_distinct:
  "distinct (map instance_id (firsts seen gs)) \<and> set seen \<inter> instance_id ` set (firsts seen gs) = {}"
proof (induction gs arbitrary: seen)
  case (Cons g gs)
  from Cons.IH[of seen] Cons.IH[of "instance_id g # seen"] show ?case by auto
qed simp

lemma firsts_complete:
  "instance_id ` set (firsts seen gs) \<union> set seen = instance_id ` set gs \<union> set seen"
proof (induction gs arbitrary: seen)
  case (Cons g gs)
  from Cons.IH[of seen] Cons.IH[of "instance_id g # seen"] show ?case by auto
qed simp

lemma list_pages_spec:
  "list_pages W c n cursor cursors (seen, out) s = (Inr res, s') \<Longrightarrow>
   res = out @ map (agones_instance c)
                 (firsts seen (filter (ownedGame c) (concat (map snd (pages_read W c n cursor s)))))
   \<and> pages_read W c n cursor s \<noteq> [] \<and> fst (last (pages_read W c n cursor s)) = ''''"
proof (induction n arbitrary: cursor cursors seen out s)
  case (Suc n)
  from Suc.prems obtain nc gs s1 where page: "list_page W c cursor s = (Inr (nc, Some gs), s1)"
    by (auto split: prod.splits sum.splits option.splits)
  show ?case
  proof (cases "nc = ''''")
    case True
    with Suc.prems page show ?thesis by (simp add: Let_def list_items_spec)
  next
    case False
    with Suc.prems page have
      "list_pages W c n nc (nc # cursors) (rev (map instance_id (firsts seen (filter (ownedGame c) gs))) @ seen,
         out @ map (agones_instance c) (firsts seen (filter (ownedGame c) gs))) s1 = (Inr res, s')"
      by (simp add: Let_def list_items_spec split: if_splits)
    from Suc.IH[OF this] False page show ?thesis by (simp add: firsts_append)
  qed
qed simp

lemma pages_read_bound: "length (pages_read W c n cursor s) \<le> n"
  by (induction n arbitrary: cursor s) (auto split: prod.splits sum.splits option.splits)

subsection \<open>Starting\<close>

lemma create_game_same: "create_game W c want x s = (Inr g, s') \<Longrightarrow> sameGame c g want"
  by (auto simp: create_game_def split: prod.splits sum.splits if_splits)

lemma sameGameD:
  assumes "sameGame c g want"
  shows "ownedGame c g" "om_DeletionTimestamp (ga_Metadata g) = ''''"
    "om_Name (ga_Metadata g) = om_Name (ga_Metadata want)"
    "mget (om_Annotations (ga_Metadata g)) buildAnnotation = mget (om_Annotations (ga_Metadata want)) buildAnnotation"
    "mget (om_Annotations (ga_Metadata g)) profileAnnotation = mget (om_Annotations (ga_Metadata want)) profileAnnotation"
  using assms by (auto simp: sameGame_def)

lemma desired_InrD:
  assumes "desired fp c req = Inr (want, cred)"
  shows "om_Name (ga_Metadata want) = sr_Name req"
    "sr_Name req = gameName (custom req ''worker_id'')" "workerID (custom req ''worker_id'')"
    "mget (om_Annotations (ga_Metadata want)) buildAnnotation = custom req ''build_hash''"
    "ga_Spec want = game_spec c req" "sc_Data cred = sr_EnvironmentVariables req"
    "om_Name (sc_Metadata cred) = secretName (sr_Name req)"
  using assms
  by (auto simp: desired_def Let_def owner_meta_def annotations_def mget_def label_defs split: if_splits)

lemma Client_Start_InrD:
  assumes "Client_Start fp W c req s = (Inr inst, s')"
  obtains g want cred where "desired fp c req = Inr (want, cred)" "sameGame c g want"
    "inst = agones_instance c g"
  using assms create_game_same
  by (fastforce simp: Client_Start_def bindW_Inr split: sum.splits prod.splits)

subsection \<open>Requests sent\<close>

text \<open>A world that records every request that reaches the API server.\<close>

definition logged :: "'c world \<Rightarrow> ('c \<times> http_request list) world" where
  "logged W =
     \<lparr>wd_ctx = (\<lambda>s. wd_ctx W (fst s)), wd_token = (\<lambda>s. wd_token W (fst s)),
      wd_do = (\<lambda>r s. case wd_do W r (fst s) of (t, s') \<Rightarrow> (t, s', snd s @ [r])),
      enc_secret = enc_secret W, enc_game = enc_game W, enc_delete = enc_delete W,
      dec_secret = dec_secret W, dec_game = dec_game W, dec_list = dec_list W\<rparr>"

lemma logged_codecs [simp]:
  "enc_secret (logged W) = enc_secret W" "enc_game (logged W) = enc_game W"
  "enc_delete (logged W) = enc_delete W" "dec_secret (logged W) = dec_secret W"
  "dec_game (logged W) = dec_game W" "dec_list (logged W) = dec_list W"
  by (simp_all add: logged_def)

text \<open>From \<open>s\<close> to \<open>s'\<close> at most \<open>n\<close> requests of kind \<open>f\<close> were sent.\<close>

definition sent :: "(http_request \<Rightarrow> bool) \<Rightarrow> nat \<Rightarrow> 'c \<times> http_request list \<Rightarrow> 'c \<times> http_request list \<Rightarrow> bool" where
  "sent f n s s' \<longleftrightarrow> (\<exists>k. snd s' = snd s @ k \<and> length (filter f k) \<le> n)"

lemma sent_refl [simp, intro]: "sent f n s s"
  by (simp add: sent_def)

lemma sent_trans: "sent f n s s1 \<Longrightarrow> sent f m s1 s2 \<Longrightarrow> n + m \<le> l \<Longrightarrow> sent f l s s2"
  by (fastforce simp: sent_def)

lemma sent_trans0: "sent f 0 s s1 \<Longrightarrow> sent f n s1 s2 \<Longrightarrow> sent f n s s2"
  by (rule sent_trans) auto

lemma sent_mono: "sent f n s s' \<Longrightarrow> n \<le> m \<Longrightarrow> sent f m s s'"
  by (force simp: sent_def)

lemma request_sent:
  assumes "request (logged W) op verb path query body decode s = (r, s')"
    and "\<And>tok. f \<lparr>hq_Method = verb, hq_Path = path, hq_Query = query, hq_Body = body, hq_Bearer = tok\<rparr> \<Longrightarrow> 0 < n"
  shows "sent f n s s'"
proof -
  have "snd s' = snd s \<or> (\<exists>tok. snd s' = snd s @ [\<lparr>hq_Method = verb, hq_Path = path, hq_Query = query,
          hq_Body = body, hq_Bearer = tok\<rparr>])"
    using assms(1)
    by (auto simp: request_def logged_def Let_def split: option.splits if_splits prod.splits transport.splits)
  with assms(2) show ?thesis by (fastforce simp: sent_def)
qed

lemma bindW_sent:
  assumes "bindW m f s = (r, s')" "\<And>s r s'. m s = (r, s') \<Longrightarrow> sent P n s s'"
    "\<And>x s r s'. f x s = (r, s') \<Longrightarrow> sent P k s s'" "n + k \<le> l"
  shows "sent P l s s'"
proof -
  obtain q s1 where m: "m s = (q, s1)" by (metis surj_pair)
  have 1: "sent P n s s1" by (rule assms(2)[OF m])
  show ?thesis
  proof (cases q)
    case (Inl e)
    with m assms(1) have "s' = s1" by (simp add: bindW_def)
    moreover have "n \<le> l" using assms(4) by simp
    ultimately show ?thesis using sent_mono[OF 1] by simp
  next
    case (Inr x)
    with m assms(1) have "f x s1 = (r, s')" by (simp add: bindW_def)
    then have "sent P k s1 s'" by (rule assms(3))
    with 1 show ?thesis using assms(4) by (rule sent_trans)
  qed
qed

lemma create_or_get_sent:
  assumes "create_or_get p g s = (r, s')" "\<And>s r s'. p s = (r, s') \<Longrightarrow> sent P n s s'"
    "\<And>s r s'. g s = (r, s') \<Longrightarrow> sent P 0 s s'"
  shows "sent P n s s'"
proof -
  obtain q s1 q2 s2 where p: "p s = (q, s1)" and g: "g s1 = (q2, s2)" by (metis surj_pair)
  have 1: "sent P n s s1" by (rule assms(2)[OF p])
  have 2: "sent P n s s2" by (rule sent_trans[OF 1 assms(3)[OF g]]) simp
  from assms(1) p g have "s' = s1 \<or> s' = s2"
    by (auto simp: create_or_get_def split: sum.splits if_splits)
  with 1 2 show ?thesis by auto
qed

text \<open>A creation of a GameServer, and a deletion other than the two that \<open>Stop\<close> may issue.\<close>

definition creates_game :: "Client \<Rightarrow> http_request \<Rightarrow> bool" where
  "creates_game c r \<longleftrightarrow> hq_Method r = ''POST'' \<and> hq_Path r = gamePath c"

definition deletes_game :: "Client \<Rightarrow> http_request \<Rightarrow> bool" where
  "deletes_game c r \<longleftrightarrow> hq_Method r = ''DELETE'' \<and> HasPrefix (hq_Path r) (gamePath c)"

definition stray :: "'c world \<Rightarrow> Client \<Rightarrow> string \<Rightarrow> string \<Rightarrow> http_request \<Rightarrow> bool" where
  "stray W c name uid r \<longleftrightarrow>
     \<not> (hq_Method r = ''GET''
        \<or> hq_Method r = ''DELETE'' \<and> hq_Path r = gamePath c @ ''/'' @ name \<and> hq_Body r = Some (enc_delete W uid True)
        \<or> hq_Method r = ''DELETE'' \<and> hq_Path r = secretPath c @ ''/'' @ secretName name)"

lemma secretPath_not_gamePath [simp]:
  "secretPath c \<noteq> gamePath c" "\<not> HasPrefix (secretPath c @ xs) (gamePath c)"
  by (simp_all add: secretPath_def gamePath_def HasPrefix_def)

lemmas request_kinds = get_secret_def get_game_def put_secret_def post_secret_def post_game_def delete_game_def

lemma creates_game_sent:
  "get_secret (logged W) c op n s = (r1, s1) \<Longrightarrow> sent (creates_game c) 0 s s1"
  "get_game (logged W) c op n s = (r2, s2) \<Longrightarrow> sent (creates_game c) 0 s s2"
  "put_secret (logged W) c op x s = (r3, s3) \<Longrightarrow> sent (creates_game c) 0 s s3"
  "post_secret (logged W) c op x s = (r4, s4) \<Longrightarrow> sent (creates_game c) 0 s s4"
  "post_game (logged W) c op g s = (r5, s5) \<Longrightarrow> sent (creates_game c) 1 s s5"
  by (auto simp: request_kinds creates_game_def elim!: request_sent)

lemma deletes_game_sent:
  "get_secret (logged W) c op n s = (r1, s1) \<Longrightarrow> sent (deletes_game c) 0 s s1"
  "get_game (logged W) c op n s = (r2, s2) \<Longrightarrow> sent (deletes_game c) 0 s s2"
  "put_secret (logged W) c op x s = (r3, s3) \<Longrightarrow> sent (deletes_game c) 0 s s3"
  "post_secret (logged W) c op x s = (r4, s4) \<Longrightarrow> sent (deletes_game c) 0 s s4"
  "post_game (logged W) c op g s = (r5, s5) \<Longrightarrow> sent (deletes_game c) 0 s s5"
  by (auto simp: request_kinds deletes_game_def elim!: request_sent)

lemma stray_sent:
  "get_secret (logged W) c op n s = (r1, s1) \<Longrightarrow> sent (stray W c name uid) 0 s s1"
  "get_game (logged W) c op n s = (r2, s2) \<Longrightarrow> sent (stray W c name uid) 0 s s2"
  "delete_game (logged W) c name uid s = (r3, s3) \<Longrightarrow> sent (stray W c name uid) 0 s s3"
  by (auto simp: request_kinds stray_def elim!: request_sent)

lemma deleteSecret_sent:
  assumes "deleteSecret (logged W) c x s = (r, s')"
  shows "sent (creates_game c) 0 s s'" "sent (deletes_game c) 0 s s'"
    "om_Name (sc_Metadata x) = secretName name \<Longrightarrow> sent (stray W c name uid) 0 s s'"
  using assms
  by (auto simp: deleteSecret_def creates_game_def deletes_game_def stray_def elim!: request_sent
      split: prod.splits sum.splits if_splits)

lemmas start_sent = creates_game_sent deletes_game_sent deleteSecret_sent

lemma ensureSecretOwner_sent:
  assumes "ensureSecretOwner (logged W) c g known s = (r, s')"
  shows "sent (creates_game c) 0 s s'" "sent (deletes_game c) 0 s s'"
  using assms unfolding ensureSecretOwner_def
  by - (erule bindW_sent[where n = 0 and k = 0];
        auto simp: Let_def split: option.splits if_splits dest: start_sent
          elim!: bindW_sent[where n = 0 and k = 0])+

lemma secret_owner_check_sent:
  assumes "secret_owner_check (logged W) c want x s = (r, s')"
  shows "sent (creates_game c) 0 s s'" "sent (deletes_game c) 0 s s'"
  using assms
  by (auto simp: secret_owner_check_def Let_def dest: start_sent split: if_splits prod.splits sum.splits)

lemma create_secret_sent:
  assumes "create_secret (logged W) c want cred s = (r, s')"
  shows "sent (creates_game c) 0 s s'" "sent (deletes_game c) 0 s s'"
  using assms unfolding create_secret_def
  by - (erule bindW_sent[where n = 0 and k = 0];
        auto split: if_splits dest: start_sent secret_owner_check_sent
          elim!: create_or_get_sent bindW_sent[where n = 0 and k = 0])+

lemma failed_create_sent:
  shows "sent (creates_game c) 0 s (failed_create (logged W) c want x e s)"
    "sent (deletes_game c) 0 s (failed_create (logged W) c want x e s)"
  by (auto simp: failed_create_def split: prod.splits sum.splits
      dest: start_sent(2,7) intro: sent_trans0 start_sent(11,12)[OF surjective_pairing])

lemma create_game_sent:
  assumes "create_game (logged W) c want x s = (r, s')"
  shows "sent (creates_game c) 1 s s'" "sent (deletes_game c) 0 s s'"
proof -
  obtain q s1 where
    q: "create_or_get (post_game (logged W) c ''start'' want)
          (get_game (logged W) c ''create_reconcile'' (om_Name (ga_Metadata want))) s = (q, s1)"
    by (metis surj_pair)
  have 1: "sent (creates_game c) 1 s s1" "sent (deletes_game c) 0 s s1"
    using q by (auto elim!: create_or_get_sent dest: start_sent)
  consider "s' = s1" | e where "s' = failed_create (logged W) c want x e s1"
    | g q2 where "ensureSecretOwner (logged W) c g (Some x) s1 = (q2, s')"
    using assms q by (auto simp: create_game_def split: sum.splits if_splits prod.splits)
  then have 2: "sent (creates_game c) 0 s1 s' \<and> sent (deletes_game c) 0 s1 s'"
    by cases (simp_all add: failed_create_sent ensureSecretOwner_sent)
  show "sent (creates_game c) 1 s s'" by (rule sent_trans[OF 1(1) conjunct1[OF 2]]) simp
  show "sent (deletes_game c) 0 s s'" by (rule sent_trans0[OF 1(2) conjunct2[OF 2]])
qed

lemma Client_Start_sent:
  assumes "Client_Start fp (logged W) c req s = (r, s')"
  shows "sent (creates_game c) 1 s s'" "sent (deletes_game c) 0 s s'"
proof (atomize (full), cases "desired fp c req")
  case (Inl e)
  with assms show "sent (creates_game c) 1 s s' \<and> sent (deletes_game c) 0 s s'"
    by (simp add: Client_Start_def)
next
  case (Inr d)
  obtain want cred where d: "d = (want, cred)" by (cases d)
  obtain q s1 where k: "create_secret (logged W) c want cred s = (q, s1)" by (metis surj_pair)
  note first = create_secret_sent[OF k]
  show "sent (creates_game c) 1 s s' \<and> sent (deletes_game c) 0 s s'"
  proof (cases q)
    case q: (Inl e)
    with assms Inr d k first sent_mono[OF first(1), of 1] show ?thesis
      by (simp add: Client_Start_def bindW_def)
  next
    case q: (Inr x)
    obtain q2 s2 where g: "create_game (logged W) c want x s1 = (q2, s2)" by (metis surj_pair)
    with assms Inr d k q have "s' = s2" by (auto simp: Client_Start_def bindW_def split: sum.splits)
    with first create_game_sent[OF g] sent_trans0 show ?thesis by blast
  qed
qed

lemma cleanupAbsentSecret_sent:
  assumes "cleanupAbsentSecret (logged W) c name uid s = (r, s')"
  shows "sent (stray W c name uid) 0 s s'"
proof -
  obtain q s1 where g: "get_secret (logged W) c ''secret_cleanup_get'' (secretName name) s = (q, s1)"
    by (metis surj_pair)
  have "s' = s1 \<or> (\<exists>x r. om_Name (sc_Metadata x) = secretName name \<and> deleteSecret (logged W) c x s1 = (r, s'))"
    using assms g by (auto simp: cleanupAbsentSecret_def split: sum.splits if_splits)
  then show ?thesis using stray_sent(1)[OF g] deleteSecret_sent(3) sent_trans0 by blast
qed

lemma Client_Stop_sent:
  assumes "Client_Stop (logged W) c i s = (r, s')"
  shows "(parseID i = None \<and> s' = s) \<or> (\<exists>name uid. parseID i = Some (name, uid) \<and> sent (stray W c name uid) 0 s s')"
proof (cases "parseID i")
  case None
  with assms show ?thesis by (auto simp: Client_Stop_def Client_get_def split: if_splits)
next
  case (Some nu)
  obtain name uid where nu: "nu = (name, uid)" by (cases nu)
  obtain q s1 q2 s2 q3 s3 q4 s4 where
    g: "Client_get (logged W) c i s = (q, s1)"
    and d: "delete_game (logged W) c name uid s1 = (q2, s2)"
    and k: "cleanupAbsentSecret (logged W) c name uid s2 = (q3, s3)"
      "cleanupAbsentSecret (logged W) c name uid s1 = (q4, s4)" by (metis surj_pair)
  have q: "om_Name (ga_Metadata gs) = name" "om_UID (ga_Metadata gs) = uid" if "q = Inr gs" for gs
    using g Some nu that by (auto simp: Client_get_def bindW_Inr split: if_splits)
  have 1: "sent (stray W c name uid) 0 s s1"
    using g Some nu unfolding Client_get_def
    by (auto elim!: bindW_sent[where n = 0 and k = 0] dest: stray_sent(2) split: if_splits)
  have s': "s' = s1 \<or> s' = s2 \<or> s' = s3 \<or> s' = s4"
    using assms g d k q Some nu
    by (auto simp: Client_Stop_def split: sum.splits if_splits)
  have "sent (stray W c name uid) 0 s1 s'"
    using s' stray_sent(3)[OF d] cleanupAbsentSecret_sent[OF k(1)] cleanupAbsentSecret_sent[OF k(2)]
      sent_trans0 by blast
  with Some nu 1 sent_trans0 show ?thesis by blast
qed

text \<open>An invalid request fails without any request to the API server.\<close>

lemma Client_Start_invalid: "desired fp c req = Inl e \<Longrightarrow> Client_Start fp W c req s = (Inl e, s)"
  by (simp add: Client_Start_def)

subsection \<open>Credentials\<close>

text \<open>The specification depends on the names of the variables only.\<close>

lemma game_spec_names:
  assumes "map fst (sr_EnvironmentVariables r1) = map fst (sr_EnvironmentVariables r2)"
    "sr_Name r1 = sr_Name r2" "sr_CPUResources r1 = sr_CPUResources r2" "sr_CustomData r1 = sr_CustomData r2"
  shows "game_spec c r1 = game_spec c r2"
  using assms
  by (simp add: game_spec_def game_container_def env_refs_def mkeys_def cpu_of_def custom_def)

lemma game_spec_refs:
  "\<forall>ct\<in>set (ps_Containers (pt_Spec (gs_Template (game_spec c req)))).
     map en_Name (ct_Env ct) = sort (mkeys (sr_EnvironmentVariables req)) \<and>
     (\<forall>en\<in>set (ct_Env ct). en_Value en = '''' \<and> en_ValueFrom en = Some (secretName (sr_Name req), en_Name en))"
  by (auto simp: game_spec_def game_container_def env_refs_def o_def)

subsection \<open>An example\<close>

text \<open>A scripted API server: it answers with the given replies, in order.\<close>

definition ex_client :: Client where
  "ex_client = \<lparr>kc_cfg = \<lparr>k_APIURL = ''https://k8s'', k_TokenFile = ''/token'', k_CAFile = ''/ca'',
     k_Namespace = ''games'', k_Pool = ''main'', k_DeploymentID = ''prod'', k_GameImage = ''img'',
     k_PortName = ''game'', k_GamePort = 7777, k_CPURequest = ''500m'', k_CPULimit = ''1'',
     k_MemoryRequest = ''1Gi'', k_MemoryLimit = '''', k_NodeSelector = [], k_ImagePullSecret = '''',
     k_Local = False\<rparr>, kc_deploymentHash = ''abcd''\<rparr>"

definition ex_worker :: string where
  "ex_worker = replicate 32 (CHR ''a'')"

definition ex_start :: StartRequest where
  "ex_start = \<lparr>sr_CPUResources = None, sr_Name = gameName ex_worker, sr_Region = ''eu'',
     sr_CustomData = [(''fleet_owner'', AnyString ''prod''), (''worker_id'', AnyString ex_worker),
                      (''build_hash'', AnyString ''b1'')],
     sr_EnvironmentVariables = [(''AGONES_FLEET_WORKER_ID'', ex_worker), (''AGONES_FLEET_BUILD_HASH'', ''b1''),
       (''AGONES_FLEET_BOOTSTRAP_TOKEN'', ''boot''), (''AGONES_FLEET_ADMISSION_KEY'', ''admit'')]\<rparr>"

definition ex_fp :: fingerprint_fn where
  "ex_fp = (\<lambda>key spec region data. ''hmac'')"

definition ex_want :: "gameServer \<times> secret" where
  "ex_want = (case desired ex_fp ex_client ex_start of Inr p \<Rightarrow> p)"

definition ex_game :: gameServer where
  "ex_game = (fst ex_want)\<lparr>ga_Metadata := (ga_Metadata (fst ex_want))\<lparr>om_UID := ''u1''\<rparr>,
     ga_Status := \<lparr>st_State = ''Allocated'', st_Address = ''10.0.0.1'', st_Ports = [(''game'', 7001)]\<rparr>\<rparr>"

definition ex_secret :: secret where
  "ex_secret = (snd ex_want)\<lparr>sc_Metadata := (sc_Metadata (snd ex_want))\<lparr>om_UID := ''s1'', om_ResourceVersion := ''1''\<rparr>\<rparr>"

definition ex_owned_secret :: secret where
  "ex_owned_secret = ex_secret\<lparr>sc_Metadata := (sc_Metadata ex_secret)\<lparr>om_OwnerReferences :=
     [owner_of (gameName ex_worker) ''u1'']\<rparr>\<rparr>"

definition ex_world :: "transport list world" where
  "ex_world = \<lparr>wd_ctx = (\<lambda>_. None), wd_token = (\<lambda>_. Some ''token''),
     wd_do = (\<lambda>r ts. case ts of [] \<Rightarrow> (TransportError None, []) | t # ts \<Rightarrow> (t, ts)),
     enc_secret = (\<lambda>_. ''secret''), enc_game = (\<lambda>_. ''game''), enc_delete = (\<lambda>uid fg. uid),
     dec_secret = (\<lambda>b. if b = ''s'' then Some ex_secret else if b = ''o'' then Some ex_owned_secret else None),
     dec_game = (\<lambda>b. if b = ''g'' then Some ex_game else None),
     dec_list = (\<lambda>b. if b = ''p1'' then Some (''more'', Some [ex_game])
                      else if b = ''p2'' then Some ('''', Some [ex_game]) else None)\<rparr>"

definition ok_reply :: "string \<Rightarrow> transport" where
  "ok_reply b = Reply \<lparr>rp_Status = 200, rp_RetryAfter = '''', rp_Body = Some b\<rparr>"

definition status_reply :: "int \<Rightarrow> transport" where
  "status_reply n = Reply \<lparr>rp_Status = n, rp_RetryAfter = '''', rp_Body = None\<rparr>"

definition ex_id :: string where
  "ex_id = gameName ex_worker @ ''@u1''"

definition ex_instance :: Instance where
  "ex_instance = agones_instance ex_client ex_game"

text \<open>The secret is created, the creation of the GameServer conflicts, and the read finds our own.\<close>

lemma ex_start_run:
  "Client_Start ex_fp ex_world ex_client ex_start [ok_reply ''s'', status_reply 409, ok_reply ''g'', ok_reply ''o'']
     = (Inr ex_instance, [])"
  by code_simp

lemma ex_get_run: "Client_Get ex_world ex_client ex_id [ok_reply ''g''] = (Inr ex_instance, [])"
  by code_simp

lemma ex_list_run:
  "Client_List ex_world ex_client [ok_reply ''p1'', ok_reply ''p2''] = (Inr [ex_instance], [])"
  by code_simp

subsection \<open>Properties\<close>

text \<open>
  C13. An instance returned by \<^verbatim>\<open>Get\<close> is the one asked for: it has exactly the requested identifier, it
  belongs to this deployment, and the worker it names is the one encoded in the identifier. It is reported
  running only when the GameServer is allocated and not being deleted, and never as stopped.
\<close>

theorem get_is_exact:
  assumes "Client_Get W c i s = (Inr inst, s')"
  shows "in_InstanceID inst = i
    \<and> (\<exists>worker uid. parseID i = Some (gameName worker, uid) \<and> workerID worker
         \<and> map_of (in_CustomData inst) ''worker_id'' = Some (AnyString worker))
    \<and> map_of (in_CustomData inst) ''fleet_owner'' = Some (AnyString (k_DeploymentID (kc_cfg c)))
    \<and> in_Status inst \<in> {''launching'', ''running'', ''unhealthy''}"
proof -
  from assms obtain g s1 where g: "Client_get W c i s = (Inr g, s1)" "inst = agones_instance c g"
    by (auto simp: Client_Get_def bindW_Inr)
  note own = Client_get_exact[OF g(1)]
  from own(1) have "om_Name (ga_Metadata g) = gameName (mget (om_Labels (ga_Metadata g)) workerLabel)"
    "workerID (mget (om_Labels (ga_Metadata g)) workerLabel)" by (auto simp: ownedGame_def owned_meta_def)
  moreover have "in_Status inst \<in> {''launching'', ''running'', ''unhealthy''}"
    by (simp add: g(2) agones_instance_def Let_def)
  ultimately show ?thesis using parseID_ownedGame[OF own(1)] own(2) by (auto simp: g(2))
qed

theorem get_is_exact_witness:
  "in_InstanceID ex_instance = ex_id \<and> in_Status ex_instance \<in> {''launching'', ''running'', ''unhealthy''}"
  using get_is_exact[OF ex_get_run] by blast

text \<open>
  C14. When \<^verbatim>\<open>Start\<close> succeeds, also after a conflict or an unknown outcome, the instance is the one the
  request names: its identifier parses to the requested name, and it carries the requested worker, build
  and deployment.
\<close>

theorem start_returns_requested:
  assumes "Client_Start fp W c req s = (Inr inst, s')"
  shows "(\<exists>uid. parseID (in_InstanceID inst) = Some (sr_Name req, uid))
    \<and> map_of (in_CustomData inst) ''worker_id'' = Some (AnyString (custom req ''worker_id''))
    \<and> map_of (in_CustomData inst) ''build_hash'' = Some (AnyString (custom req ''build_hash''))
    \<and> map_of (in_CustomData inst) ''fleet_owner'' = Some (AnyString (k_DeploymentID (kc_cfg c)))
    \<and> in_Status inst \<in> {''launching'', ''running'', ''unhealthy''}"
proof -
  from assms obtain g want cred where d: "desired fp c req = Inr (want, cred)"
    and same: "sameGame c g want" and inst: "inst = agones_instance c g" by (rule Client_Start_InrD)
  note S = sameGameD[OF same] and D = desired_InrD[OF d]
  have "gameName (mget (om_Labels (ga_Metadata g)) workerLabel) = gameName (custom req ''worker_id'')"
    using S(1,3) D(1,2) by (simp add: ownedGame_def)
  then have "mget (om_Labels (ga_Metadata g)) workerLabel = custom req ''worker_id''" by simp
  then show ?thesis
    using S D parseID_ownedGame[OF S(1)] by (auto simp: inst agones_instance_def Let_def)
qed

theorem start_returns_requested_witness:
  "\<exists>uid. parseID (in_InstanceID ex_instance) = Some (sr_Name ex_start, uid)"
  using start_returns_requested[OF ex_start_run] by blast

text \<open>
  C15. \<^verbatim>\<open>List\<close> is complete: when it succeeds, the last page it read has no continuation and the result is
  exactly the owned game servers of all pages it read, the first of each identity, in order. It reads at
  most 100 pages, and no identifier occurs twice.
\<close>

theorem list_is_complete:
  assumes "Client_List W c s = (Inr insts, s')"
  defines "pages \<equiv> pages_read W c 100 '''' s"
  shows "insts = map (agones_instance c) (firsts [] (filter (ownedGame c) (concat (map snd pages))))
    \<and> pages \<noteq> [] \<and> fst (last pages) = '''' \<and> length pages \<le> 100
    \<and> distinct (map in_InstanceID insts)
    \<and> set (map in_InstanceID insts) = {instance_id g | g. ownedGame c g \<and> g \<in> set (concat (map snd pages))}"
proof -
  let ?gs = "firsts [] (filter (ownedGame c) (concat (map snd pages)))"
  have ids: "map in_InstanceID (map (agones_instance c) ?gs) = map instance_id ?gs" by simp
  have spec: "insts = map (agones_instance c) ?gs" "pages \<noteq> []" "fst (last pages) = ''''"
    using list_pages_spec[of W c 100 "''''" "[]" "[]" "[]" s insts s'] assms(1)
    by (simp_all add: Client_List_def pages_def)
  have "instance_id ` set ?gs = instance_id ` set (filter (ownedGame c) (concat (map snd pages)))"
    using firsts_complete[of "[]" "filter (ownedGame c) (concat (map snd pages))"] by simp
  also have "\<dots> = {instance_id g | g. ownedGame c g \<and> g \<in> set (concat (map snd pages))}" by auto
  finally have "set (map in_InstanceID insts) = {instance_id g | g. ownedGame c g \<and> g \<in> set (concat (map snd pages))}"
    unfolding spec(1) ids by simp
  moreover have "distinct (map in_InstanceID insts)" unfolding spec(1) ids using firsts_distinct by blast
  moreover have "length pages \<le> 100" by (simp add: pages_def pages_read_bound)
  ultimately show ?thesis using spec by blast
qed

theorem list_is_complete_witness:
  "distinct (map in_InstanceID [ex_instance])
   \<and> fst (last (pages_read ex_world ex_client 100 '''' [ok_reply ''p1'', ok_reply ''p2''])) = ''''"
  using list_is_complete[OF ex_list_run] by blast

text \<open>
  C16. Only a start can end with an unknown outcome: an error of \<^verbatim>\<open>Get\<close>, \<^verbatim>\<open>List\<close> or \<^verbatim>\<open>Stop\<close> is always
  definite, whatever the API server and the network do.
\<close>

theorem unknown_only_from_start:
  "(Client_Get W c i s = (Inl e, s') \<longrightarrow> \<not> ae_OutcomeUnknown e)
   \<and> (Client_List W c s = (Inl e, s') \<longrightarrow> \<not> ae_OutcomeUnknown e)
   \<and> (Client_Stop W c i s = (Inl e, s') \<longrightarrow> \<not> ae_OutcomeUnknown e)"
  by (auto simp: Client_Get_def Client_List_def bindW_Inl
      dest: Client_get_known list_pages_known Client_Stop_known)

theorem unknown_only_from_start_witness:
  "Client_Stop ex_world ex_client ex_id [] = (Inl (transport_failure ''get'' ''GET'' None), [])
   \<and> \<not> ae_OutcomeUnknown (transport_failure ''get'' ''GET'' None)"
proof -
  have run: "Client_Stop ex_world ex_client ex_id [] = (Inl (transport_failure ''get'' ''GET'' None), [])"
    by code_simp
  with unknown_only_from_start[of ex_world ex_client ex_id "[]"] show ?thesis by blast
qed

text \<open>
  C17. \<^verbatim>\<open>Start\<close> asks for at most one GameServer and never deletes one; \<^verbatim>\<open>Stop\<close> sends only reads and
  two kinds of deletion: of the GameServer its identifier names, with that identifier's UID as
  precondition, and of that GameServer's credentials. An identifier that does not parse sends nothing.
\<close>

theorem requests_are_bounded:
  assumes "Client_Start fp (logged W) c req (s, []) = (r1, s1, log1)"
    and "Client_Stop (logged W) c i (s, []) = (r2, s2, log2)"
  shows "length (filter (creates_game c) log1) \<le> 1 \<and> filter (deletes_game c) log1 = []
    \<and> (case parseID i of
         None \<Rightarrow> log2 = []
       | Some (name, uid) \<Rightarrow> list_all (\<lambda>r. \<not> stray W c name uid r) log2)"
proof -
  have "(case parseID i of None \<Rightarrow> log2 = []
         | Some (name, uid) \<Rightarrow> list_all (\<lambda>r. \<not> stray W c name uid r) log2)"
    using Client_Stop_sent[OF assms(2)] by (auto simp: sent_def filter_empty_conv list_all_iff)
  then show ?thesis using Client_Start_sent[OF assms(1)] by (auto simp: sent_def)
qed

definition ex_start_log :: "http_request list" where
  "ex_start_log = snd (snd (Client_Start ex_fp (logged ex_world) ex_client ex_start
     ([ok_reply ''s'', status_reply 409, ok_reply ''g'', ok_reply ''o''], [])))"

theorem requests_are_bounded_witness:
  "filter (deletes_game ex_client) ex_start_log = []
   \<and> map hq_Method ex_start_log = [''POST'', ''POST'', ''GET'', ''PUT'']"
proof -
  have m: "map hq_Method ex_start_log = [''POST'', ''POST'', ''GET'', ''PUT'']" by code_simp
  obtain r1 s1 where run: "Client_Start ex_fp (logged ex_world) ex_client ex_start
      ([ok_reply ''s'', status_reply 409, ok_reply ''g'', ok_reply ''o''], []) = (r1, s1, ex_start_log)"
    unfolding ex_start_log_def by (metis surjective_pairing)
  obtain r2 s2 log2 where "Client_Stop (logged ex_world) ex_client ex_id
      ([ok_reply ''s'', status_reply 409, ok_reply ''g'', ok_reply ''o''], []) = (r2, s2, log2)"
    by (metis surj_pair)
  from requests_are_bounded[OF run this] m show ?thesis by blast
qed

text \<open>
  C18. Credentials never reach the GameServer: two accepted requests that differ only in the values of
  their variables give the same specification and labels, every variable of the container is a reference
  into the credentials secret, and the secret holds exactly the requested values.
\<close>

theorem credentials_stay_in_secret:
  assumes "desired fp c r1 = Inr (g1, x1)" "desired fp c r2 = Inr (g2, x2)"
    and "mkeys (sr_EnvironmentVariables r1) = mkeys (sr_EnvironmentVariables r2)"
    and "r2 = r1\<lparr>sr_EnvironmentVariables := sr_EnvironmentVariables r2\<rparr>"
  shows "ga_Spec g1 = ga_Spec g2 \<and> om_Labels (ga_Metadata g1) = om_Labels (ga_Metadata g2)
    \<and> mget (om_Annotations (ga_Metadata g1)) buildAnnotation = mget (om_Annotations (ga_Metadata g2)) buildAnnotation
    \<and> (\<forall>ct\<in>set (ps_Containers (pt_Spec (gs_Template (ga_Spec g1)))). \<forall>en\<in>set (ct_Env ct).
         en_Value en = '''' \<and> en_ValueFrom en = Some (om_Name (sc_Metadata x1), en_Name en))
    \<and> sc_Data x1 = sr_EnvironmentVariables r1"
proof -
  have eq: "sr_Name r1 = sr_Name r2" "sr_CPUResources r1 = sr_CPUResources r2" "sr_CustomData r1 = sr_CustomData r2"
    by (subst assms(4), simp)+
  have "game_spec c r1 = game_spec c r2" using assms(3) eq by (intro game_spec_names) (simp_all add: mkeys_def)
  moreover have "om_Labels (ga_Metadata g1) = labels c (custom r1 ''worker_id'')"
    "om_Labels (ga_Metadata g2) = labels c (custom r2 ''worker_id'')"
    using assms(1,2) by (auto simp: desired_def Let_def owner_meta_def split: if_splits)
  ultimately show ?thesis
    using desired_InrD[OF assms(1)] desired_InrD[OF assms(2)] game_spec_refs[of c r1] eq
    by (simp add: custom_def)
qed

definition ex_start2 :: StartRequest where
  "ex_start2 = ex_start\<lparr>sr_EnvironmentVariables := map (\<lambda>(k, v).
     (k, if k = ''AGONES_FLEET_BOOTSTRAP_TOKEN'' then ''other'' else v)) (sr_EnvironmentVariables ex_start)\<rparr>"

lemma isl_projr: "\<not> isl r \<Longrightarrow> r = Inr (fst (projr r), snd (projr r))"
  by (cases r) auto

theorem credentials_stay_in_secret_witness:
  "sr_EnvironmentVariables ex_start \<noteq> sr_EnvironmentVariables ex_start2
   \<and> ga_Spec (fst (projr (desired ex_fp ex_client ex_start))) = ga_Spec (fst (projr (desired ex_fp ex_client ex_start2)))"
proof -
  have 1: "\<not> isl (desired ex_fp ex_client ex_start)" by code_simp
  have 2: "\<not> isl (desired ex_fp ex_client ex_start2)" by code_simp
  have "mkeys (sr_EnvironmentVariables ex_start) = mkeys (sr_EnvironmentVariables ex_start2)"
    "ex_start2 = ex_start\<lparr>sr_EnvironmentVariables := sr_EnvironmentVariables ex_start2\<rparr>"
    "sr_EnvironmentVariables ex_start \<noteq> sr_EnvironmentVariables ex_start2"
    by (simp_all add: ex_start2_def ex_start_def)
  with credentials_stay_in_secret[OF isl_projr[OF 1] isl_projr[OF 2]] show ?thesis by blast
qed

end
