(* ===== verification/Console_Encoding.thy ===== *)
theory Console_Encoding
  imports Go_Stdlib
begin

text \<open>
  The encodings the console relies on: strict unpadded base64 in both alphabets and lower-case hex.
  A strict decoder rejects non-zero trailing bits, so that every text it accepts is, up to line breaks,
  the encoding of what it returns.
\<close>

subsection \<open>Sextets\<close>

fun sextets :: "string \<Rightarrow> nat list" where
  "sextets [] = []"
| "sextets [x] = (let a = of_char x in [a div 4, a mod 4 * 16])"
| "sextets [x, y] = (let a = of_char x; b = of_char y in [a div 4, a mod 4 * 16 + b div 16, b mod 16 * 4])"
| "sextets (x # y # z # rest) =
     (let a = of_char x; b = of_char y; c = of_char z
      in [a div 4, a mod 4 * 16 + b div 16, b mod 16 * 4 + c div 64, c mod 64] @ sextets rest)"

fun strict_tail :: "nat list \<Rightarrow> bool" where
  "strict_tail [p, q] \<longleftrightarrow> q mod 16 = 0"
| "strict_tail [p, q, r] \<longleftrightarrow> r mod 4 = 0"
| "strict_tail (p # q # r # t # rest) \<longleftrightarrow> strict_tail rest"
| "strict_tail _ \<longleftrightarrow> True"

lemma b64_encode_sextets: "b64_encode s = map b64_char (sextets s)"
  by (induction s rule: sextets.induct) (auto simp: Let_def)

lemma sextets_bound: "v \<in> set (sextets s) \<Longrightarrow> v < 64"
proof (induction s rule: sextets.induct)
  case (2 x)
  note b = nat_of_char_less_256[of x]
  from 2 show ?case using b64_sextets[OF b b b] by (auto simp: Let_def)
next
  case (3 x y)
  note b = nat_of_char_less_256[of x] nat_of_char_less_256[of y]
  from 3 show ?case using b64_sextets[OF b b(2)] by (auto simp: Let_def)
next
  case (4 x y z rest)
  note b = nat_of_char_less_256[of x] nat_of_char_less_256[of y] nat_of_char_less_256[of z]
  from 4 show ?case using b64_sextets[OF b] by (auto simp: Let_def)
qed simp

lemma strict_sextets: "strict_tail (sextets s)"
  by (induction s rule: sextets.induct) (auto simp: Let_def)

lemma groups_sextets: "b64_groups (sextets s) = Some s"
proof (induction s rule: sextets.induct)
  case (2 x)
  note b = nat_of_char_less_256[of x]
  show ?case using b64_groups_sextets[OF b b b] by (simp add: Let_def)
next
  case (3 x y)
  note b = nat_of_char_less_256[of x] nat_of_char_less_256[of y]
  show ?case using b64_groups_sextets[OF b b(2)] by (simp add: Let_def)
next
  case (4 x y z rest)
  note b = nat_of_char_less_256[of x] nat_of_char_less_256[of y] nat_of_char_less_256[of z]
  show ?case using b64_groups_sextets[OF b] 4 by (simp add: Let_def)
qed simp

lemma of_char_byte: "n < 256 \<Longrightarrow> (of_char (char_of (n :: nat)) :: nat) = n"
  by simp

text \<open>Three bytes and four sextets determine each other.\<close>

lemma join_sextets:
  fixes p q r t :: nat
  assumes "p < 64" "q < 64" "r < 64" "t < 64"
  defines "a \<equiv> p * 4 + q div 16" and "b \<equiv> q mod 16 * 16 + r div 4" and "c \<equiv> r mod 4 * 64 + t"
  shows "a < 256" "b < 256" "c < 256"
    "a div 4 = p" "a mod 4 * 16 + b div 16 = q" "b mod 16 * 4 + c div 64 = r" "c mod 64 = t"
proof -
  have q: "q div 16 < 4" "r div 4 < 16" using assms(2,3) by (simp_all add: less_mult_imp_div_less)
  show "a < 256" "b < 256" "c < 256"
    using q assms(1,4) mod_less_divisor[of 16 q] mod_less_divisor[of 4 r] unfolding a_def b_def c_def by linarith+
  show "a div 4 = p" unfolding a_def using q by (intro digit_pair)
  have am: "a mod 4 = q div 16" unfolding a_def using q by (intro digit_pair)
  have bd: "b div 16 = q mod 16" unfolding b_def using q by (intro digit_pair)
  have bm: "b mod 16 = r div 4" unfolding b_def using q by (intro digit_pair)
  have cd: "c div 64 = r mod 4" unfolding c_def using assms(4) by (intro digit_pair)
  show "a mod 4 * 16 + b div 16 = q" by (simp add: am bd)
  show "b mod 16 * 4 + c div 64 = r" by (simp add: bm cd)
  show "c mod 64 = t" unfolding c_def using assms(4) by (intro digit_pair)
qed

lemma sextets_groups:
  "b64_groups vs = Some s \<Longrightarrow> strict_tail vs \<Longrightarrow> \<forall>v\<in>set vs. v < 64 \<Longrightarrow> sextets s = vs"
proof (induction vs arbitrary: s rule: b64_groups.induct)
  case (3 p q)
  then have b: "p < 64" "q < 64" and z: "q mod 16 = 0" by auto
  from join_sextets[OF b, of 0 0] 3 z show ?case by (auto simp: Let_def)
next
  case (4 p q r)
  then have b: "p < 64" "q < 64" "r < 64" and z: "r mod 4 = 0" by auto
  from join_sextets[OF b, of 0] 4 z show ?case by (auto simp: Let_def)
next
  case (5 p q r t rest)
  then have b: "p < 64" "q < 64" "r < 64" "t < 64" by auto
  from 5 obtain s' where s': "b64_groups rest = Some s'" by auto
  with 5 have "sextets s' = rest" by auto
  with join_sextets[OF b] 5 s' show ?case by (auto simp: Let_def)
qed auto

lemma length_sextets: "length (sextets s) = (4 * length s + 2) div 3"
  by (induction s rule: sextets.induct) (auto simp: Let_def)

subsection \<open>Strict decoding\<close>

definition strict_decode :: "(char \<Rightarrow> nat option) \<Rightarrow> string \<Rightarrow> string option" where
  "strict_decode val s =
     Option.bind (those (map val (filter not_newline s))) (\<lambda>vs. if strict_tail vs then b64_groups vs else None)"

text \<open>\<^verbatim>\<open>RawURLEncoding.Strict\<close> and \<^verbatim>\<open>RawStdEncoding\<close>, whose last two characters are \<open>+\<close> and \<open>/\<close>.\<close>

definition url_strict :: "string \<Rightarrow> string option" where
  "url_strict = strict_decode b64_val"

definition std_char :: "nat \<Rightarrow> char" where
  "std_char n = (if n = 62 then CHR ''+'' else if n = 63 then CHR ''/'' else b64_char n)"

definition std_val :: "char \<Rightarrow> nat option" where
  "std_val c = (if c = CHR ''+'' then Some 62 else if c = CHR ''/'' then Some 63
     else if c = CHR ''-'' \<or> c = CHR ''_'' then None else b64_val c)"

definition std_encode :: "string \<Rightarrow> string" where
  "std_encode s = map std_char (sextets s)"

definition std_strict :: "string \<Rightarrow> string option" where
  "std_strict = strict_decode std_val"

lemma b64_val_inv:
  assumes "b64_val c = Some n"
  shows "n < 64" "b64_char n = c"
proof -
  have "(of_char c :: nat) < 256" by (rule nat_of_char_less_256)
  then show n: "n < 64" using assms by (auto simp: b64_val_def Let_def split: if_splits)
  have "of_char (b64_char n) = (of_char c :: nat)"
    unfolding of_char_b64_char[OF n] using assms by (auto simp: b64_val_def Let_def split: if_splits)
  then show "b64_char n = c" by simp
qed

lemma char_of_nat_eqI: "(of_char a :: nat) = of_char b \<Longrightarrow> a = b"
  by simp

lemma std_val_char: "n < 64 \<Longrightarrow> std_val (std_char n) = Some n"
proof -
  assume n: "n < 64"
  have "b64_char n \<notin> {CHR ''+'', CHR ''/'', CHR ''-'', CHR ''_''}" if "n \<noteq> 62" "n \<noteq> 63"
  proof -
    have "(of_char (b64_char n) :: nat) \<notin> {43, 47, 45, 95}" using n that by (auto simp: of_char_b64_char)
    then show ?thesis by auto
  qed
  with n show ?thesis by (auto simp: std_val_def std_char_def b64_val_char)
qed

lemma std_char_clean:
  assumes "n < 64"
  shows "std_char n \<noteq> CHR ''$'' \<and> not_newline (std_char n)"
proof -
  have "(of_char (b64_char n) :: nat) \<notin> {10, 13, 36}" using assms by (auto simp: of_char_b64_char)
  then show ?thesis by (auto simp: std_char_def not_newline_def)
qed

lemma std_val_inv:
  assumes "std_val c = Some n"
  shows "n < 64" "std_char n = c"
proof -
  have "n < 64 \<and> std_char n = c"
  proof (cases "c = CHR ''+'' \<or> c = CHR ''/''")
    case True
    with assms show ?thesis by (auto simp: std_val_def std_char_def)
  next
    case False
    with assms have v: "b64_val c = Some n" and c: "c \<noteq> CHR ''-''" "c \<noteq> CHR ''_''"
      by (auto simp: std_val_def split: if_splits)
    note inv = b64_val_inv[OF v]
    have "n \<noteq> 62" "n \<noteq> 63" using c inv(2) by (auto simp: b64_char_def)
    with inv show ?thesis by (simp add: std_char_def)
  qed
  then show "n < 64" "std_char n = c" by auto
qed

lemma those_map_Some: "(\<And>x. x \<in> set xs \<Longrightarrow> f (g x) = Some x) \<Longrightarrow> those (map f (map g xs)) = Some xs"
  by (induction xs) auto

lemma those_SomeD: "those (map f xs) = Some ys \<Longrightarrow> list_all2 (\<lambda>x y. f x = Some y) xs ys"
  by (induction xs arbitrary: ys) (auto split: option.splits)

lemma strict_decode_encode:
  assumes "\<And>n. n < 64 \<Longrightarrow> val (ch n) = Some n \<and> not_newline (ch n)"
  shows "strict_decode val (map ch (sextets s)) = Some s"
proof -
  have f: "filter not_newline (map ch (sextets s)) = map ch (sextets s)"
    using assms sextets_bound by (auto simp: filter_id_conv)
  have "those (map val (map ch (sextets s))) = Some (sextets s)"
    by (rule those_map_Some) (use assms sextets_bound in blast)
  then show ?thesis unfolding strict_decode_def f by (simp add: strict_sextets groups_sextets)
qed

lemma strict_decode_canonical:
  assumes "\<And>c n. val c = Some n \<Longrightarrow> n < 64 \<and> ch n = c" "strict_decode val t = Some s"
  shows "filter not_newline t = map ch (sextets s)"
proof -
  from assms(2) obtain vs where vs: "those (map val (filter not_newline t)) = Some vs"
    "strict_tail vs" "b64_groups vs = Some s"
    by (auto simp: strict_decode_def bind_eq_Some_conv split: if_splits)
  note all = those_SomeD[OF vs(1)]
  have "\<forall>v\<in>set vs. v < 64"
  proof
    fix v
    assume "v \<in> set vs"
    then obtain i where "i < length vs" "v = vs ! i" by (auto simp: in_set_conv_nth)
    then show "v < 64" using list_all2_nthD2[OF all] assms(1) by blast
  qed
  then have "sextets s = vs" by (rule sextets_groups[OF vs(3,2)])
  moreover have "filter not_newline t = map ch vs"
  proof (rule nth_equalityI)
    show "length (filter not_newline t) = length (map ch vs)" using list_all2_lengthD[OF all] by simp
    fix i
    assume i: "i < length (filter not_newline t)"
    from assms(1)[OF list_all2_nthD[OF all i]] show "filter not_newline t ! i = map ch vs ! i"
      using i list_all2_lengthD[OF all] by simp
  qed
  ultimately show ?thesis by simp
qed

lemma url_strict_encode: "url_strict (b64_encode s) = Some s"
  unfolding url_strict_def b64_encode_sextets
  by (rule strict_decode_encode) (simp add: b64_val_char b64_char_clean)

lemma std_strict_encode: "std_strict (std_encode s) = Some s"
  unfolding std_strict_def std_encode_def
  by (rule strict_decode_encode) (simp add: std_val_char std_char_clean)

lemma url_strict_canonical: "url_strict t = Some s \<Longrightarrow> filter not_newline t = b64_encode s"
  unfolding url_strict_def b64_encode_sextets
  by (rule strict_decode_canonical) (auto dest: b64_val_inv)

lemma std_strict_canonical: "std_strict t = Some s \<Longrightarrow> filter not_newline t = std_encode s"
  unfolding std_strict_def std_encode_def
  by (rule strict_decode_canonical) (auto dest: std_val_inv)

lemma length_b64_encode: "length (b64_encode s) = (4 * length s + 2) div 3"
  by (simp add: b64_encode_sextets length_sextets)

text \<open>A text of exactly the right length has no room for line breaks.\<close>

lemma url_strict_exact:
  assumes "url_strict t = Some s" "length t = (4 * length s + 2) div 3"
  shows "t = b64_encode s"
proof -
  have "filter not_newline t = b64_encode s" by (rule url_strict_canonical[OF assms(1)])
  moreover from this have "length (filter not_newline t) = length t"
    using assms(2) by (simp add: length_b64_encode)
  ultimately show ?thesis by (metis filter_True length_filter_less order_less_irrefl)
qed

subsection \<open>Hex\<close>

definition hex_char :: "nat \<Rightarrow> char" where
  "hex_char n = (if n < 10 then char_of (n + 48) else char_of (n + 87))"

definition hex_val :: "char \<Rightarrow> nat option" where
  "hex_val c = (let n = of_char c
     in if 48 \<le> n \<and> n \<le> 57 then Some (n - 48)
        else if 97 \<le> n \<and> n \<le> 102 then Some (n - 87)
        else if 65 \<le> n \<and> n \<le> 70 then Some (n - 55)
        else None)"

fun hex_encode :: "string \<Rightarrow> string" where
  "hex_encode [] = []"
| "hex_encode (x # xs) = (let n = of_char x in hex_char (n div 16) # hex_char (n mod 16) # hex_encode xs)"

fun hex_decode :: "string \<Rightarrow> string option" where
  "hex_decode [] = Some []"
| "hex_decode [x] = None"
| "hex_decode (x # y # rest) =
     (case (hex_val x, hex_val y) of
        (Some a, Some b) \<Rightarrow> map_option ((#) (char_of (a * 16 + b))) (hex_decode rest)
      | _ \<Rightarrow> None)"

lemma hex_val_char: "n < 16 \<Longrightarrow> hex_val (hex_char n) = Some n"
  by (auto simp: hex_val_def hex_char_def Let_def)

lemma hex_decode_encode: "hex_decode (hex_encode s) = Some s"
proof (induction s)
  case (Cons x xs)
  have "(of_char x :: nat) div 16 < 16" "(of_char x :: nat) mod 16 < 16"
    using nat_of_char_less_256[of x] by (simp_all add: less_mult_imp_div_less)
  with Cons show ?case by (simp add: Let_def hex_val_char)
qed simp

lemma length_hex_encode [simp]: "length (hex_encode s) = 2 * length s"
  by (induction s) (auto simp: Let_def)

end
