(* ===== verification/Console_Auth.thy ===== *)
theory Console_Auth
  imports Console_Encoding
begin

text \<open>
  Authentication of the operations console: \<^verbatim>\<open>internal/console/auth.go\<close> and
  \<^verbatim>\<open>internal/console/api_token.go\<close>, with \<^verbatim>\<open>validUsername\<close> of \<^verbatim>\<open>internal/console/config.go\<close>.

  Times are nanoseconds. SHA-256, PBKDF2 and the random bytes are parameters: \<open>sha\<close> maps a text to its
  digest, \<open>kdf\<close> a password, salt, iteration count and key length to a key (or an error), \<open>raw\<close> is what
  \<^verbatim>\<open>rand.Read\<close> returned. The browser cookies are a list of names and values.
\<close>

subsection \<open>Passwords\<close>

definition passwordIterations :: int where "passwordIterations = 600000"
definition passwordSaltSize :: nat where "passwordSaltSize = 32"
definition passwordKeySize :: nat where "passwordKeySize = 32"
definition maxPasswordBytes :: int where "maxPasswordBytes = 1024"
definition sessionLifetime :: int where "sessionLifetime = 28800000000000"
definition maxSessions :: nat where "maxSessions = 64"
definition loginWindow :: int where "loginWindow = 300000000000"
definition loginPerPeer :: int where "loginPerPeer = 5"
definition loginGlobal :: int where "loginGlobal = 20"
definition maxLoginPeers :: nat where "maxLoginPeers = 4096"

type_synonym kdf_fn = "string \<Rightarrow> string \<Rightarrow> int \<Rightarrow> nat \<Rightarrow> string option"

definition password_text :: "int \<Rightarrow> string \<Rightarrow> string \<Rightarrow> string" where
  "password_text iterations salt key =
     ''pbkdf2-sha256$'' @ itoa iterations @ ''$'' @ std_encode salt @ ''$'' @ std_encode key"

definition HashPassword :: "kdf_fn \<Rightarrow> string option \<Rightarrow> string \<Rightarrow> string result" where
  "HashPassword kdf raw password =
     (if int (length password) < 12 \<or> int (length password) > maxPasswordBytes
      then Inl (Errorf ''password must contain 12 to 1024 bytes'')
      else case raw of
        None \<Rightarrow> Inl (Errorf ''cannot generate password salt'')
      | Some salt \<Rightarrow>
          (case kdf password salt passwordIterations passwordKeySize of
             None \<Rightarrow> Inl (Errorf ''cannot hash password'')
           | Some key \<Rightarrow> Inr (password_text passwordIterations salt key)))"

definition parsePasswordHash :: "string \<Rightarrow> (int \<times> string \<times> string) option" where
  "parsePasswordHash v =
     (let parts = split_on (CHR ''$'') v
      in if length parts \<noteq> 4 \<or> parts ! 0 \<noteq> ''pbkdf2-sha256'' \<or> int (length v) > 256 then None
         else case Atoi (parts ! 1) of
           None \<Rightarrow> None
         | Some iterations \<Rightarrow>
             if iterations < passwordIterations \<or> iterations > 2000000 \<or> itoa iterations \<noteq> parts ! 1 then None
             else case std_strict (parts ! 2) of
               None \<Rightarrow> None
             | Some salt \<Rightarrow>
                 if length salt \<noteq> passwordSaltSize then None
                 else case std_strict (parts ! 3) of
                   None \<Rightarrow> None
                 | Some key \<Rightarrow> if length key \<noteq> passwordKeySize then None else Some (iterations, salt, key))"

definition VerifyPassword :: "kdf_fn \<Rightarrow> string \<Rightarrow> string \<Rightarrow> bool" where
  "VerifyPassword kdf password encodedHash =
     (case parsePasswordHash encodedHash of
        None \<Rightarrow> False
      | Some (iterations, salt, expected) \<Rightarrow>
          \<not> (int (length password) > maxPasswordBytes \<or> int (length password) < 12)
          \<and> kdf password salt iterations (length expected) = Some expected)"

subsection \<open>Sessions\<close>

record session =
  se_CSRF :: string
  se_ExpiresAt :: int

record loginAttempts =
  la_Count :: int
  la_Until :: int

record authState =
  au_sessions :: "session gomap"
  au_peers :: "loginAttempts gomap"
  au_global :: loginAttempts

definition new_auth :: authState where
  "new_auth = \<lparr>au_sessions = [], au_peers = [], au_global = \<lparr>la_Count = 0, la_Until = 0\<rparr>\<rparr>"

type_synonym cookies = "(string \<times> string) list"

definition sessionCookieName :: "bool \<Rightarrow> string" where
  "sessionCookieName secure = (if secure then ''__Host-fleet-admin'' else ''fleet-admin-session'')"

record cookie =
  ck_Name :: string
  ck_Value :: string
  ck_Path :: string
  ck_HttpOnly :: bool
  ck_Secure :: bool
  ck_SameSiteStrict :: bool
  ck_Expires :: int
  ck_MaxAge :: int

definition session_cookie :: "bool \<Rightarrow> string \<Rightarrow> int \<Rightarrow> int \<Rightarrow> cookie" where
  "session_cookie secure value expires maxAge =
     \<lparr>ck_Name = sessionCookieName secure, ck_Value = value,
      ck_Path = (if secure then ''/'' else ''/fleet-admin/''), ck_HttpOnly = True, ck_Secure = secure,
      ck_SameSiteStrict = True, ck_Expires = expires, ck_MaxAge = maxAge\<rparr>"

definition requestSessionKey :: "(string \<Rightarrow> string) \<Rightarrow> bool \<Rightarrow> cookies \<Rightarrow> string option" where
  "requestSessionKey sha secure cs =
     (let mine = filter (\<lambda>(n, v). n = sessionCookieName secure) cs; token = snd (last mine)
      in if length mine \<noteq> 1 \<or> int (length token) \<noteq> 43 then None
         else case url_strict token of
           None \<Rightarrow> None
         | Some decoded \<Rightarrow> if length decoded \<noteq> 32 then None else Some (sha token))"

definition requestSession ::
  "(string \<Rightarrow> string) \<Rightarrow> bool \<Rightarrow> int \<Rightarrow> cookies \<Rightarrow> authState \<Rightarrow> session option \<times> authState" where
  "requestSession sha secure now cs a =
     (case requestSessionKey sha secure cs of
        None \<Rightarrow> (None, a)
      | Some key \<Rightarrow>
          (case map_of (au_sessions a) key of
             None \<Rightarrow> (None, a)
           | Some s \<Rightarrow>
               if \<not> now < se_ExpiresAt s then (None, a\<lparr>au_sessions := mdel key (au_sessions a)\<rparr>)
               else (Some s, a)))"

definition randomToken :: "string option \<Rightarrow> string result" where
  "randomToken raw =
     (case raw of None \<Rightarrow> Inl (Errorf ''cannot generate session token'') | Some r \<Rightarrow> Inr (b64_encode r))"

definition pruneLocked :: "int \<Rightarrow> authState \<Rightarrow> authState" where
  "pruneLocked now a = a\<lparr>au_sessions := mfilter (\<lambda>k s. now < se_ExpiresAt s) (au_sessions a),
     au_peers := mfilter (\<lambda>p i. now < la_Until i) (au_peers a)\<rparr>"

text \<open>The entry that expires first; among equals the first one the loop visits.\<close>

definition older :: "string \<times> session \<Rightarrow> (string \<times> session) option \<Rightarrow> (string \<times> session) option" where
  "older e acc = (case acc of
     None \<Rightarrow> Some e
   | Some o' \<Rightarrow> if se_ExpiresAt (snd e) < se_ExpiresAt (snd o') then Some e else acc)"

definition oldest :: "range_fn \<Rightarrow> session gomap \<Rightarrow> (string \<times> session) option" where
  "oldest ro m = fold older (range_entries ro 0 m) None"

definition evict :: "range_fn \<Rightarrow> session gomap \<Rightarrow> session gomap" where
  "evict ro m = (if length m \<ge> maxSessions
     then (case oldest ro m of None \<Rightarrow> m | Some (k, _) \<Rightarrow> mdel k m) else m)"

definition forget :: "(string \<Rightarrow> string) \<Rightarrow> bool \<Rightarrow> cookies \<Rightarrow> session gomap \<Rightarrow> session gomap" where
  "forget sha secure cs m = (case requestSessionKey sha secure cs of None \<Rightarrow> m | Some old \<Rightarrow> mdel old m)"

definition createSession ::
  "(string \<Rightarrow> string) \<Rightarrow> bool \<Rightarrow> range_fn \<Rightarrow> int \<Rightarrow> string option \<Rightarrow> string option \<Rightarrow> cookies \<Rightarrow> authState
     \<Rightarrow> (session \<times> cookie \<times> authState) result" where
  "createSession sha secure ro now raw1 raw2 cs a =
     bindE (randomToken raw1) (\<lambda>token. bindE (randomToken raw2) (\<lambda>csrf.
       let s = \<lparr>se_CSRF = csrf, se_ExpiresAt = now + sessionLifetime\<rparr>;
           a1 = pruneLocked now a;
           m = mput (sha token) s (evict ro (forget sha secure cs (au_sessions a1)))
       in Inr (s, session_cookie secure token (se_ExpiresAt s) (sessionLifetime div 1000000000),
               a1\<lparr>au_sessions := m\<rparr>)))"

definition deleteSession ::
  "(string \<Rightarrow> string) \<Rightarrow> bool \<Rightarrow> cookies \<Rightarrow> authState \<Rightarrow> cookie \<times> authState" where
  "deleteSession sha secure cs a =
     (session_cookie secure '''' 1000000000 (- 1), a\<lparr>au_sessions := forget sha secure cs (au_sessions a)\<rparr>)"

subsection \<open>Login attempts\<close>

text \<open>\<open>addr\<close> is the host part of the remote address, \<open>None\<close> when it has no port.\<close>

definition peer_of :: "string option \<Rightarrow> string" where
  "peer_of addr = (case addr of None \<Rightarrow> ''unknown'' | Some p \<Rightarrow> p)"

definition allowLogin :: "int \<Rightarrow> string option \<Rightarrow> authState \<Rightarrow> bool \<times> authState" where
  "allowLogin now addr a0 =
     (let a = pruneLocked now a0; peer = peer_of addr;
          fresh = \<lparr>la_Count = 0, la_Until = now + loginWindow\<rparr>;
          global = (if \<not> now < la_Until (au_global a) then fresh else au_global a)
      in case map_of (au_peers a) peer of
           None \<Rightarrow>
             if length (au_peers a) \<ge> maxLoginPeers then (False, a)
             else if la_Count global \<ge> loginGlobal \<or> la_Count fresh \<ge> loginPerPeer then (False, a)
             else (True, a\<lparr>au_global := global\<lparr>la_Count := la_Count global + 1\<rparr>,
                           au_peers := mput peer (fresh\<lparr>la_Count := la_Count fresh + 1\<rparr>) (au_peers a)\<rparr>)
         | Some item \<Rightarrow>
             if la_Count global \<ge> loginGlobal \<or> la_Count item \<ge> loginPerPeer then (False, a)
             else (True, a\<lparr>au_global := global\<lparr>la_Count := la_Count global + 1\<rparr>,
                           au_peers := mput peer (item\<lparr>la_Count := la_Count item + 1\<rparr>) (au_peers a)\<rparr>))"

subsection \<open>Read tokens\<close>

definition GenerateReadAPIToken :: "(string \<Rightarrow> string) \<Rightarrow> string option \<Rightarrow> (string \<times> string) result" where
  "GenerateReadAPIToken sha raw =
     (case raw of
        None \<Rightarrow> Inl (Errorf ''cannot generate read API token'')
      | Some v \<Rightarrow>
          let token = ''fcro_'' @ b64_encode v in Inr (token, ''sha256:'' @ hex_encode (sha token)))"

text \<open>Lower case is compared on ASCII letters; a text with other bytes is rejected by the hex decoder.\<close>

definition upper :: "char \<Rightarrow> bool" where
  "upper c \<longleftrightarrow> CHR ''A'' \<le> c \<and> c \<le> CHR ''Z''"

definition validReadAPITokenHash :: "string \<Rightarrow> bool" where
  "validReadAPITokenHash v \<longleftrightarrow> HasPrefix v ''sha256:'' \<and> int (length v) = 71 \<and> \<not> list_ex upper v
     \<and> (case hex_decode (TrimPrefix v ''sha256:'') of None \<Rightarrow> False | Some d \<Rightarrow> length d = 32)"

definition verifyReadAPIToken :: "(string \<Rightarrow> string) \<Rightarrow> string \<Rightarrow> string \<Rightarrow> bool" where
  "verifyReadAPIToken sha token hash \<longleftrightarrow>
     validReadAPITokenHash hash \<and> int (length token) = 48 \<and> HasPrefix token ''fcro_''
     \<and> (case url_strict (TrimPrefix token ''fcro_'') of None \<Rightarrow> False | Some raw \<Rightarrow> length raw = 32)
     \<and> hex_decode (TrimPrefix hash ''sha256:'') = Some (sha token)"

datatype read_access = ByToken | BySession

definition authenticateReadAPI ::
  "(string \<Rightarrow> string) \<Rightarrow> bool \<Rightarrow> string \<Rightarrow> int \<Rightarrow> string list \<Rightarrow> cookies \<Rightarrow> authState
     \<Rightarrow> (string + read_access) \<times> authState" where
  "authenticateReadAPI sha secure hash now auths cs a =
     (if length auths > 0
      then (if length auths \<noteq> 1 \<or> \<not> HasPrefix (auths ! 0) ''Bearer ''
               \<or> \<not> verifyReadAPIToken sha (TrimPrefix (auths ! 0) ''Bearer '') hash
            then (Inl ''invalid_api_token'', a) else (Inr ByToken, a))
      else case requestSession sha secure now cs a of
             (None, a1) \<Rightarrow> (Inl ''unauthenticated'', a1)
           | (Some _, a1) \<Rightarrow> (Inr BySession, a1))"

definition validUsername :: "string \<Rightarrow> bool" where
  "validUsername v \<longleftrightarrow>
     (let alnum = (\<lambda>c. (CHR ''a'' \<le> c \<and> c \<le> CHR ''z'') \<or> (CHR ''A'' \<le> c \<and> c \<le> CHR ''Z'') \<or> is_digit c)
      in \<not> (int (length v) < 1 \<or> int (length v) > 64)
         \<and> list_all (\<lambda>(i, c). alnum c \<or> (i \<noteq> 0 \<and> c \<in> set ''_.@-'')) (enumerate 0 v))"

end
