(* ===== verification/Console_Auth_Laws.thy ===== *)
theory Console_Auth_Laws
  imports Console_Auth
begin

text \<open>
  What console authentication promises: hashes and tokens round-trip, sessions end on time and their
  number is bounded, login attempts are limited over every window.
\<close>

subsection \<open>Passwords\<close>

lemma dollar_not_digit: "is_digit c \<Longrightarrow> c \<noteq> CHR ''$''"
  by (auto simp: is_digit_def less_eq_char_def)

lemma itoa_nonneg_digits: "0 \<le> i \<Longrightarrow> c \<in> set (itoa i) \<Longrightarrow> is_digit c"
  using show_nat_digits by (auto simp: itoa_def all_digits_def list_all_iff)

lemma std_encode_no_dollar: "CHR ''$'' \<notin> set (std_encode s)"
  using std_char_clean sextets_bound by (fastforce simp: std_encode_def)

lemma split_password_text:
  "0 \<le> i \<Longrightarrow> split_on (CHR ''$'') (password_text i salt key)
     = [''pbkdf2-sha256'', itoa i, std_encode salt, std_encode key]"
proof -
  assume i: "0 \<le> i"
  have 1: "CHR ''$'' \<notin> set ''pbkdf2-sha256''" by simp
  have 2: "CHR ''$'' \<notin> set (itoa i)" using itoa_nonneg_digits[OF i] dollar_not_digit by blast
  have t: "password_text i salt key
     = ''pbkdf2-sha256'' @ CHR ''$'' # (itoa i @ CHR ''$'' # (std_encode salt @ CHR ''$'' # std_encode key))"
    by (simp add: password_text_def)
  show ?thesis unfolding t
    by (simp only: split_on_append[OF 1] split_on_append[OF 2] split_on_append[OF std_encode_no_dollar]
        split_on_absent[OF std_encode_no_dollar])
qed

lemma length_std_encode: "length (std_encode s) = (4 * length s + 2) div 3"
  by (simp add: std_encode_def length_sextets)

lemma length_show_nat: "n < 10 ^ Suc k \<Longrightarrow> length (show_nat n) \<le> Suc k"
proof (induction k arbitrary: n)
  case 0
  then show ?case by (simp add: show_nat.simps)
next
  case (Suc k)
  have "n div 10 < 10 ^ Suc k" using Suc.prems by (simp add: less_mult_imp_div_less)
  from Suc.IH[OF this] show ?case by (subst show_nat.simps) simp
qed

lemma parsePasswordHash_text:
  assumes "passwordIterations \<le> i" "i \<le> 2000000" "length salt = 32" "length key = 32"
  shows "parsePasswordHash (password_text i salt key) = Some (i, salt, key)"
proof -
  have i: "0 \<le> i" using assms(1) by (simp add: passwordIterations_def)
  have at: "Atoi (itoa i) = Some i" by (rule Atoi_itoa) (use i assms(2) in simp_all)
  have "length (itoa i) \<le> 7"
    using i assms(2) length_show_nat[of "nat i" 6] by (simp add: itoa_def)
  then show ?thesis
    using assms at unfolding parsePasswordHash_def split_password_text[OF i]
    by (simp add: Let_def std_strict_encode passwordSaltSize_def passwordKeySize_def
        password_text_def length_std_encode)
qed

lemma parsePasswordHash_canonical:
  assumes "parsePasswordHash v = Some (i, salt, key)"
  shows "filter not_newline v = password_text i salt key" "passwordIterations \<le> i" "i \<le> 2000000"
    "length salt = 32" "length key = 32"
proof -
  let ?p = "split_on (CHR ''$'') v"
  from assms have p: "length ?p = 4" "?p ! 0 = ''pbkdf2-sha256''" "itoa i = ?p ! 1"
    and b: "passwordIterations \<le> i" "i \<le> 2000000"
    and s: "std_strict (?p ! 2) = Some salt" "std_strict (?p ! 3) = Some key" "length salt = 32" "length key = 32"
    by (auto simp: parsePasswordHash_def Let_def passwordSaltSize_def passwordKeySize_def
        split: if_splits option.splits)
  have "?p = [''pbkdf2-sha256'', itoa i, ?p ! 2, ?p ! 3]"
    using p by (intro nth_equalityI) (auto simp: less_Suc_eq numeral_eq_Suc)
  from split_on_join[OF this]
  have v: "v = ''pbkdf2-sha256$'' @ itoa i @ ''$'' @ ?p ! 2 @ ''$'' @ ?p ! 3" by simp
  have "0 \<le> i" using b(1) by (simp add: passwordIterations_def)
  then have "filter not_newline (itoa i) = itoa i"
    using itoa_nonneg_digits by (fastforce simp: filter_id_conv not_newline_def is_digit_def less_eq_char_def)
  then show "filter not_newline v = password_text i salt key"
    by (subst v) (simp add: password_text_def not_newline_def std_strict_canonical[OF s(1)]
        std_strict_canonical[OF s(2)])
  show "passwordIterations \<le> i" "i \<le> 2000000" "length salt = 32" "length key = 32" by (fact b s)+
qed

subsection \<open>Sessions\<close>

lemma requestSessionKey_own:
  "length raw = 32 \<Longrightarrow> requestSessionKey sha secure [(sessionCookieName secure, b64_encode raw)] = Some (sha (b64_encode raw))"
  by (simp add: requestSessionKey_def url_strict_encode length_b64_encode)

lemma createSession_InrD:
  assumes "createSession sha secure ro now raw1 raw2 cs a = Inr (s, ck, a')"
  obtains raw where "raw1 = Some raw" "s = \<lparr>se_CSRF = se_CSRF s, se_ExpiresAt = now + sessionLifetime\<rparr>"
    "ck_Value ck = b64_encode raw" "ck_Name ck = sessionCookieName secure"
    "au_sessions a' = mput (sha (b64_encode raw)) s
       (evict ro (forget sha secure cs (mfilter (\<lambda>k s. now < se_ExpiresAt s) (au_sessions a))))"
    "au_peers a' = mfilter (\<lambda>p i. now < la_Until i) (au_peers a)" "au_global a' = au_global a"
  using assms
  by (auto simp: createSession_def randomToken_def pruneLocked_def session_cookie_def Let_def split: option.splits)

lemma oldest_minimal:
  assumes "fold older es acc = Some r"
  shows "(acc = Some r \<or> r \<in> set es) \<and> (\<forall>e\<in>set es. se_ExpiresAt (snd r) \<le> se_ExpiresAt (snd e))
    \<and> (\<forall>e. acc = Some e \<longrightarrow> se_ExpiresAt (snd r) \<le> se_ExpiresAt (snd e))"
  using assms
proof (induction es arbitrary: acc)
  case (Cons e es)
  let ?x = "\<lambda>e. se_ExpiresAt (snd e)"
  from Cons.prems have f: "fold older es (older e acc) = Some r" by simp
  consider "older e acc = Some e" "\<And>o'. acc = Some o' \<Longrightarrow> ?x e < ?x o'"
    | o' where "older e acc = Some o'" "acc = Some o'" "?x o' \<le> ?x e"
    unfolding older_def by (cases acc; cases "\<exists>o'. acc = Some o' \<and> ?x e < ?x o'") (auto simp: not_less)
  then show ?case
  proof cases
    case 1
    from Cons.IH[OF f] 1(1) have r: "?x r \<le> ?x e" by blast
    have "?x r \<le> ?x o'" if "acc = Some o'" for o' using 1(2)[OF that] r by simp
    with Cons.IH[OF f] 1(1) r show ?thesis by auto
  next
    case (2 o')
    from Cons.IH[OF f] 2 have "?x r \<le> ?x o'" by blast
    with Cons.IH[OF f] 2 show ?thesis by auto
  qed
qed simp

lemma oldest_SomeD:
  assumes "range_order ro" "oldest ro m = Some (k, s)"
  shows "map_of m k = Some s" "map_of m k' = Some s' \<Longrightarrow> se_ExpiresAt s \<le> se_ExpiresAt s'"
proof -
  have min: "(k, s) \<in> set (range_entries ro 0 m)" "\<And>e. e \<in> set (range_entries ro 0 m) \<Longrightarrow> se_ExpiresAt s \<le> se_ExpiresAt (snd e)"
    using oldest_minimal[of "range_entries ro 0 m" None "(k, s)"] assms(2) by (auto simp: oldest_def)
  from min(1) show "map_of m k = Some s" by (simp add: range_entries_iff[OF assms(1)])
  assume "map_of m k' = Some s'"
  then have "(k', s') \<in> set (range_entries ro 0 m)" by (simp add: range_entries_iff[OF assms(1)])
  from min(2)[OF this] show "se_ExpiresAt s \<le> se_ExpiresAt s'" by simp
qed

lemma fold_older_Some: "\<exists>r. fold older es (Some e) = Some r"
  by (induction es arbitrary: e) (auto simp: older_def)

lemma oldest_None: "range_order ro \<Longrightarrow> oldest ro m = None \<Longrightarrow> m = []"
proof (cases "range_entries ro 0 m")
  case Nil
  assume ro: "range_order ro"
  have "ro 0 (mkeys m) = []" using range_entries_keys[OF ro, of 0 m] Nil by simp
  then have "mkeys m = []" using range_order_set[OF ro, of 0 "mkeys m"] by simp
  then show "m = []" by (simp add: mkeys_def)
next
  case (Cons e es)
  assume "oldest ro m = None"
  with Cons show "m = []" using fold_older_Some[of es e] by (auto simp: oldest_def older_def)
qed

lemma evict_wf: "mwf m \<Longrightarrow> mwf (evict ro m)"
  by (auto simp: evict_def split: option.splits)

lemma evict_length:
  assumes "range_order ro" "mwf m" "length m \<le> maxSessions"
  shows "length (evict ro m) < maxSessions"
proof (cases "length m \<ge> maxSessions")
  case True
  then have "m \<noteq> []" by (auto simp: maxSessions_def)
  with oldest_None[OF assms(1)] obtain k s where k: "oldest ro m = Some (k, s)" by fastforce
  from oldest_SomeD(1)[OF assms(1) k] have "k \<in> set (mkeys m)" by (simp add: in_mkeys_iff)
  with True assms(2,3) k show ?thesis by (simp add: evict_def length_mdel maxSessions_def)
qed (simp add: evict_def)

lemma forget_wf: "mwf m \<Longrightarrow> mwf (forget sha secure cs m)"
  by (auto simp: forget_def split: option.splits)

lemma length_forget: "length (forget sha secure cs m) \<le> length m"
  by (auto simp: forget_def mdel_def intro: length_mfilter_le split: option.splits)

subsection \<open>Histories of the console\<close>

datatype auth_op = Login "string option" | Create cookies "string option" "string option"
  | Logout cookies | Visit cookies | Expire

text \<open>One operation at a time; the answer is whether a login attempt was admitted.\<close>

definition auth_exec ::
  "(string \<Rightarrow> string) \<Rightarrow> bool \<Rightarrow> range_fn \<Rightarrow> int \<Rightarrow> auth_op \<Rightarrow> authState \<Rightarrow> bool \<times> authState" where
  "auth_exec sha secure ro now op a =
     (case op of
        Login addr \<Rightarrow> allowLogin now addr a
      | Create cs raw1 raw2 \<Rightarrow>
          (case createSession sha secure ro now raw1 raw2 cs a of Inl _ \<Rightarrow> (False, a) | Inr (s, ck, a') \<Rightarrow> (False, a'))
      | Logout cs \<Rightarrow> (False, snd (deleteSession sha secure cs a))
      | Visit cs \<Rightarrow> (False, snd (requestSession sha secure now cs a))
      | Expire \<Rightarrow> (False, pruneLocked now a))"

fun auth_run ::
  "(string \<Rightarrow> string) \<Rightarrow> bool \<Rightarrow> range_fn \<Rightarrow> (int \<times> auth_op) list \<Rightarrow> authState \<Rightarrow> bool list \<times> authState" where
  "auth_run sha secure ro [] a = ([], a)"
| "auth_run sha secure ro ((now, op) # ops) a =
     (let (ok, a1) = auth_exec sha secure ro now op a; (oks, a2) = auth_run sha secure ro ops a1
      in (ok # oks, a2))"

lemma auth_run_append:
  "auth_run sha secure ro (xs @ ys) a =
     (fst (auth_run sha secure ro xs a) @ fst (auth_run sha secure ro ys (snd (auth_run sha secure ro xs a))),
      snd (auth_run sha secure ro ys (snd (auth_run sha secure ro xs a))))"
  by (induction xs arbitrary: a) (auto simp: Let_def split: prod.splits)

text \<open>The number of admitted attempts, of one peer or of all.\<close>

definition admitted :: "(string \<Rightarrow> bool) \<Rightarrow> (int \<times> auth_op) list \<Rightarrow> bool list \<Rightarrow> int" where
  "admitted P ops oks = int (length (filter (\<lambda>((now, op), ok). ok \<and>
     (case op of Login addr \<Rightarrow> P (peer_of addr) | _ \<Rightarrow> False)) (zip ops oks)))"

definition auth_inv :: "authState \<Rightarrow> bool" where
  "auth_inv a \<longleftrightarrow> mwf (au_sessions a) \<and> length (au_sessions a) \<le> maxSessions
     \<and> mwf (au_peers a) \<and> length (au_peers a) \<le> maxLoginPeers
     \<and> 0 \<le> la_Count (au_global a) \<and> la_Count (au_global a) \<le> loginGlobal
     \<and> (\<forall>p i. map_of (au_peers a) p = Some i \<longrightarrow> 1 \<le> la_Count i \<and> la_Count i \<le> loginPerPeer)"

lemma auth_inv_new: "auth_inv new_auth"
  by (simp add: auth_inv_def new_auth_def loginGlobal_def)

lemma auth_inv_shrink:
  assumes "auth_inv a" "mwf m" "length m \<le> maxSessions"
  shows "auth_inv (a\<lparr>au_sessions := m\<rparr>)"
  using assms by (simp add: auth_inv_def)

lemma auth_inv_prune: "auth_inv a \<Longrightarrow> auth_inv (pruneLocked now a)"
  using length_mfilter_le[of "\<lambda>k s. now < se_ExpiresAt s" "au_sessions a"]
    length_mfilter_le[of "\<lambda>p i. now < la_Until i" "au_peers a"]
  by (auto simp: auth_inv_def pruneLocked_def dest: map_of_mfilter_SomeD)

lemma auth_inv_forget:
  "auth_inv a \<Longrightarrow> auth_inv (a\<lparr>au_sessions := forget sha secure cs (au_sessions a)\<rparr>)"
  using length_forget[of sha secure cs "au_sessions a"]
  by (intro auth_inv_shrink) (auto simp: auth_inv_def forget_wf)

lemma auth_inv_create:
  assumes "range_order ro" "auth_inv a" "createSession sha secure ro now raw1 raw2 cs a = Inr (s, ck, a')"
  shows "auth_inv a'"
proof -
  let ?m = "forget sha secure cs (au_sessions (pruneLocked now a))"
  have p: "auth_inv (pruneLocked now a)" by (rule auth_inv_prune[OF assms(2)])
  then have m: "mwf ?m" "length ?m \<le> maxSessions"
    using length_forget[of sha secure cs "au_sessions (pruneLocked now a)"]
    by (auto simp: auth_inv_def forget_wf)
  from assms(3) obtain k where a': "a' = (pruneLocked now a)\<lparr>au_sessions := mput k s (evict ro ?m)\<rparr>"
    by (auto simp: createSession_def randomToken_def Let_def split: option.splits)
  have "length (mput k s (evict ro ?m)) \<le> maxSessions"
    using evict_length[OF assms(1) m] by (simp add: length_mput)
  then show ?thesis unfolding a' using p m evict_wf by (intro auth_inv_shrink) auto
qed

lemma auth_inv_login: "auth_inv a \<Longrightarrow> auth_inv (snd (allowLogin now addr a))"
proof -
  assume "auth_inv a"
  then have p: "auth_inv (pruneLocked now a)" by (rule auth_inv_prune)
  then have "0 \<le> la_Count i" if "map_of (au_peers (pruneLocked now a)) (peer_of addr) = Some i" for i
    using that by (force simp: auth_inv_def)
  with p show ?thesis
    by (auto simp: allowLogin_def Let_def auth_inv_def length_mput in_mkeys_iff loginPerPeer_def loginGlobal_def
        split: option.splits if_splits)
qed

lemma auth_inv_exec:
  assumes "range_order ro" "auth_inv a"
  shows "auth_inv (snd (auth_exec sha secure ro now op a))"
proof (cases op)
  case (Visit cs)
  have "mdel k (au_sessions a) = forget sha secure cs (au_sessions a)" if "requestSessionKey sha secure cs = Some k" for k
    using that by (simp add: forget_def)
  then show ?thesis using assms(2) auth_inv_forget[OF assms(2), of sha secure cs] Visit
    by (auto simp: auth_exec_def requestSession_def split: option.splits)
next
  case (Create cs raw1 raw2)
  then show ?thesis using assms auth_inv_create[OF assms]
    by (auto simp: auth_exec_def split: sum.splits)
qed (use assms in \<open>auto simp: auth_exec_def deleteSession_def auth_inv_prune auth_inv_login auth_inv_forget\<close>)

lemma auth_inv_run:
  assumes "range_order ro"
  shows "auth_inv a \<Longrightarrow> auth_inv (snd (auth_run sha secure ro ops a))"
proof (induction ops arbitrary: a)
  case (Cons x ops)
  obtain now op where x: "x = (now, op)" by (cases x)
  from Cons.IH[OF auth_inv_exec[OF assms Cons.prems, of sha secure now op]] show ?case
    by (simp add: x Let_def split_beta)
qed simp

subsection \<open>The rate limit\<close>

text \<open>
  What can still be admitted before \<open>E\<close>: the rest of the running window, and one more window when the
  running one ends before \<open>E\<close>. While less than a window lies before \<open>E\<close>, no more than that fits.
\<close>

definition budget :: "int \<Rightarrow> int \<Rightarrow> loginAttempts \<Rightarrow> int" where
  "budget limit E g = (limit - la_Count g) + (if la_Until g < E then limit else 0)"

definition peer_budget :: "int \<Rightarrow> string \<Rightarrow> authState \<Rightarrow> int" where
  "peer_budget E p a = (case map_of (au_peers a) p of None \<Rightarrow> loginPerPeer | Some i \<Rightarrow> budget loginPerPeer E i)"

lemma prune_simps [simp]:
  "au_global (pruneLocked now a) = au_global a"
  "au_peers (pruneLocked now a) = mfilter (\<lambda>p i. now < la_Until i) (au_peers a)"
  by (simp_all add: pruneLocked_def)

lemma peer_budget_prune:
  assumes "auth_inv a" "now < E"
  shows "peer_budget E p (pruneLocked now a) \<le> peer_budget E p a"
proof -
  have wf: "mwf (au_peers a)" and c: "\<And>i. map_of (au_peers a) p = Some i \<Longrightarrow> la_Count i \<le> loginPerPeer"
    using assms(1) by (auto simp: auth_inv_def)
  show ?thesis using c assms(2)
    by (auto simp: peer_budget_def budget_def map_of_mfilter[OF wf] split: option.splits)
qed

text \<open>The counter an attempt is charged to: the running one, or a new one.\<close>

definition counter :: "int \<Rightarrow> loginAttempts option \<Rightarrow> loginAttempts" where
  "counter now c = (case c of
     Some g \<Rightarrow> if now < la_Until g then g else \<lparr>la_Count = 0, la_Until = now + loginWindow\<rparr>
   | None \<Rightarrow> \<lparr>la_Count = 0, la_Until = now + loginWindow\<rparr>)"

definition bump :: "loginAttempts \<Rightarrow> loginAttempts" where
  "bump c = c\<lparr>la_Count := la_Count c + 1\<rparr>"

lemma allowLogin_cases:
  assumes "mwf (au_peers a)" "allowLogin now addr a = (ok, a')"
  defines "g \<equiv> counter now (Some (au_global a))"
    and "c \<equiv> counter now (map_of (au_peers (pruneLocked now a)) (peer_of addr))"
  shows "(\<not> ok \<and> a' = pruneLocked now a)
    \<or> (ok \<and> la_Count g < loginGlobal \<and> la_Count c < loginPerPeer \<and> au_global a' = bump g
       \<and> au_peers a' = mput (peer_of addr) (bump c) (au_peers (pruneLocked now a)))"
proof -
  have live: "now < la_Until j" if "map_of (au_peers (pruneLocked now a)) (peer_of addr) = Some j" for j
    using that assms(1) by (auto dest: map_of_mfilter_SomeD)
  show ?thesis
  proof (cases "map_of (au_peers (pruneLocked now a)) (peer_of addr)")
    case None
    with assms(2) show ?thesis
      by (auto simp del: prune_simps(2) simp: allowLogin_def g_def c_def counter_def bump_def Let_def split: if_splits)
  next
    case (Some j)
    with assms(2) live[OF Some] show ?thesis
      by (auto simp del: prune_simps(2) simp: allowLogin_def g_def c_def counter_def bump_def Let_def split: if_splits)
  qed
qed

lemma charge:
  assumes "now < E" "E \<le> now + loginWindow" "la_Count g \<le> limit"
  shows "1 + budget limit E (bump (counter now (Some g))) \<le> budget limit E g"
  using assms by (auto simp: budget_def bump_def counter_def)

lemma charge_new:
  assumes "E \<le> now + loginWindow"
  shows "1 + budget limit E (bump (counter now None)) \<le> limit"
  using assms by (auto simp: budget_def bump_def counter_def)

lemma login_step:
  assumes inv: "auth_inv a" and E: "now < E" "E \<le> now + loginWindow"
    and run: "allowLogin now addr a = (ok, a')"
  shows "of_bool ok + budget loginGlobal E (au_global a') \<le> budget loginGlobal E (au_global a)"
    and "of_bool (ok \<and> peer_of addr = p) + peer_budget E p a' \<le> peer_budget E p a"
proof -
  let ?a = "pruneLocked now a"
  have wf: "mwf (au_peers a)" "la_Count (au_global a) \<le> loginGlobal" using inv by (auto simp: auth_inv_def)
  have i: "auth_inv ?a" by (rule auth_inv_prune[OF inv])
  note cases = allowLogin_cases[OF wf(1) run]
  show "of_bool ok + budget loginGlobal E (au_global a') \<le> budget loginGlobal E (au_global a)"
    using cases charge[OF E wf(2)] by auto
  have "of_bool (ok \<and> peer_of addr = p) + peer_budget E p a' \<le> peer_budget E p ?a"
  proof (cases "ok \<and> peer_of addr = p")
    case True
    then have m: "map_of (au_peers a') p = Some (bump (counter now (map_of (au_peers ?a) p)))" using cases by auto
    show ?thesis
    proof (cases "map_of (au_peers ?a) p")
      case None
      then show ?thesis using True m charge_new[OF E(2), of loginPerPeer] by (simp add: peer_budget_def)
    next
      case (Some j)
      then have "la_Count j \<le> loginPerPeer" using i by (auto simp: auth_inv_def simp del: prune_simps)
      from charge[OF E this] show ?thesis using True m Some by (simp add: peer_budget_def)
    qed
  next
    case False
    then show ?thesis using cases by (auto simp: peer_budget_def simp del: prune_simps)
  qed
  with peer_budget_prune[OF inv E(1), of p]
  show "of_bool (ok \<and> peer_of addr = p) + peer_budget E p a' \<le> peer_budget E p a" by simp
qed

text \<open>Every other operation leaves the counters alone or only prunes them.\<close>

lemma other_step:
  assumes "auth_inv a" "now < E" "\<And>addr. op \<noteq> Login addr"
  shows "fst (auth_exec sha secure ro now op a) = False"
    and "au_global (snd (auth_exec sha secure ro now op a)) = au_global a"
    and "peer_budget E p (snd (auth_exec sha secure ro now op a)) \<le> peer_budget E p a"
proof -
  let ?a' = "snd (auth_exec sha secure ro now op a)"
  have peers: "au_peers ?a' = au_peers a \<or> au_peers ?a' = au_peers (pruneLocked now a)"
    and rest: "fst (auth_exec sha secure ro now op a) = False" "au_global ?a' = au_global a"
    using assms(3)
    by (cases op; auto simp: auth_exec_def deleteSession_def requestSession_def createSession_def
        randomToken_def Let_def split: option.splits sum.splits)+
  show "fst (auth_exec sha secure ro now op a) = False" "au_global ?a' = au_global a" by (fact rest)+
  from peers show "peer_budget E p ?a' \<le> peer_budget E p a"
    using peer_budget_prune[OF assms(1,2), of p] by (auto simp: peer_budget_def simp del: prune_simps)
qed

lemma admitted_Cons:
  "admitted P ((now, op) # ops) (ok # oks) =
     of_bool (ok \<and> (case op of Login addr \<Rightarrow> P (peer_of addr) | _ \<Rightarrow> False)) + admitted P ops oks"
  by (simp add: admitted_def)

lemma rate_run:
  assumes "range_order ro"
  shows "auth_inv a \<Longrightarrow> \<forall>(now, op)\<in>set ops. now < E \<and> E \<le> now + loginWindow \<Longrightarrow>
    admitted (\<lambda>_. True) ops (fst (auth_run sha secure ro ops a)) \<le> budget loginGlobal E (au_global a)
    \<and> admitted (\<lambda>q. q = p) ops (fst (auth_run sha secure ro ops a)) \<le> peer_budget E p a"
proof (induction ops arbitrary: a)
  case Nil
  then have "0 \<le> budget loginGlobal E (au_global a)"
    by (auto simp: budget_def auth_inv_def loginGlobal_def)
  moreover have "0 \<le> peer_budget E p a"
    using Nil(1) by (auto simp: peer_budget_def budget_def auth_inv_def loginPerPeer_def split: option.splits)
  ultimately show ?case by (simp add: admitted_def)
next
  case (Cons x ops)
  obtain now op where x: "x = (now, op)" by (cases x)
  obtain ok a1 where e: "auth_exec sha secure ro now op a = (ok, a1)" by (metis surj_pair)
  have E: "now < E" "E \<le> now + loginWindow" using Cons.prems(2) by (auto simp: x)
  have "auth_inv a1" using auth_inv_exec[OF assms Cons.prems(1), of sha secure now op] by (simp add: e)
  note IH = Cons.IH[OF this] 
  have "of_bool (ok \<and> (case op of Login addr \<Rightarrow> True | _ \<Rightarrow> False)) + budget loginGlobal E (au_global a1)
      \<le> budget loginGlobal E (au_global a)
    \<and> of_bool (ok \<and> (case op of Login addr \<Rightarrow> peer_of addr = p | _ \<Rightarrow> False)) + peer_budget E p a1
      \<le> peer_budget E p a"
  proof (cases "\<exists>addr. op = Login addr")
    case True
    then obtain addr where op: "op = Login addr" by blast
    with e have "allowLogin now addr a = (ok, a1)" by (simp add: auth_exec_def)
    from login_step[OF Cons.prems(1) E this] show ?thesis by (simp add: op)
  next
    case False
    then have n: "op \<noteq> Login addr" for addr by auto
    note o = other_step[OF Cons.prems(1) E(1) n, where sha = sha and secure = secure and ro = ro]
    from o(1,2) o(3)[of p] e show ?thesis by auto
  qed
  with IH Cons.prems(2) e show ?case by (fastforce simp: x admitted_Cons Let_def split: prod.splits)
qed

subsection \<open>The origin of a session\<close>

lemma sessions_after:
  assumes "map_of (au_sessions (snd (auth_exec sha secure ro now op a))) k = Some s" "mwf (au_sessions a)"
  shows "(\<exists>cs raw raw2. op = Create cs (Some raw) raw2 \<and> k = sha (b64_encode raw) \<and> se_ExpiresAt s = now + sessionLifetime)
    \<or> (map_of (au_sessions a) k = Some s \<and> (\<forall>cs. op = Logout cs \<longrightarrow> requestSessionKey sha secure cs \<noteq> Some k))"
proof (cases op)
  case (Create cs raw1 raw2)
  have sub: "map_of (evict ro (forget sha secure cs (mfilter P m))) k = Some s \<Longrightarrow> map_of m k = Some s"
    if "mwf m" for P m
    using that by (auto simp: evict_def forget_def dest: map_of_mfilter_SomeD split: option.splits if_splits)
  show ?thesis
  proof (cases "createSession sha secure ro now raw1 raw2 cs a")
    case (Inl e)
    with assms Create show ?thesis by (simp add: auth_exec_def)
  next
    case (Inr r)
    obtain s0 ck a' where r: "r = (s0, ck, a')" by (cases r)
    from createSession_InrD[OF Inr[unfolded r]] obtain raw where raw: "raw1 = Some raw"
      "s0 = \<lparr>se_CSRF = se_CSRF s0, se_ExpiresAt = now + sessionLifetime\<rparr>"
      "au_sessions a' = mput (sha (b64_encode raw)) s0
         (evict ro (forget sha secure cs (mfilter (\<lambda>k s. now < se_ExpiresAt s) (au_sessions a))))" by metis
    have "se_ExpiresAt s0 = now + sessionLifetime" by (subst raw(2)) simp
    with assms Create Inr r raw sub[OF assms(2)] show ?thesis
      by (auto simp: auth_exec_def split: if_splits)
  qed
next
  case (Login addr)
  have "au_sessions (snd (allowLogin now addr a)) = mfilter (\<lambda>k s. now < se_ExpiresAt s) (au_sessions a)"
    by (auto simp: allowLogin_def pruneLocked_def Let_def split: option.splits)
  with assms Login show ?thesis by (auto simp: auth_exec_def dest: map_of_mfilter_SomeD)
qed (use assms in \<open>auto simp: auth_exec_def deleteSession_def forget_def requestSession_def pruneLocked_def
    dest: map_of_mfilter_SomeD split: option.splits if_splits\<close>)

definition created_by :: "(string \<Rightarrow> string) \<Rightarrow> bool \<Rightarrow> (int \<times> auth_op) list \<Rightarrow> string \<Rightarrow> session \<Rightarrow> bool" where
  "created_by sha secure ops k s \<longleftrightarrow>
     (\<exists>pre post t0 cs raw raw2. ops = pre @ (t0, Create cs (Some raw) raw2) # post
        \<and> k = sha (b64_encode raw) \<and> se_ExpiresAt s = t0 + sessionLifetime
        \<and> (\<forall>(t, op)\<in>set post. \<forall>cs'. op = Logout cs' \<longrightarrow> requestSessionKey sha secure cs' \<noteq> Some k))"

lemma session_origin:
  assumes "range_order ro"
  shows "map_of (au_sessions (snd (auth_run sha secure ro ops new_auth))) k = Some s \<Longrightarrow> created_by sha secure ops k s"
proof (induction ops arbitrary: s rule: rev_induct)
  case Nil
  then show ?case by (simp add: new_auth_def)
next
  case (snoc x ops)
  obtain now op where x: "x = (now, op)" by (cases x)
  let ?a = "snd (auth_run sha secure ro ops new_auth)"
  have wf: "mwf (au_sessions ?a)" using auth_inv_run[OF assms auth_inv_new] by (auto simp: auth_inv_def)
  have "map_of (au_sessions (snd (auth_exec sha secure ro now op ?a))) k = Some s"
    using snoc.prems by (simp add: auth_run_append x Let_def split_beta)
  from sessions_after[OF this wf] show ?case
  proof
    assume "\<exists>cs raw raw2. op = Create cs (Some raw) raw2 \<and> k = sha (b64_encode raw) \<and> se_ExpiresAt s = now + sessionLifetime"
    then show ?thesis unfolding created_by_def x by fastforce
  next
    assume h: "map_of (au_sessions ?a) k = Some s \<and> (\<forall>cs. op = Logout cs \<longrightarrow> requestSessionKey sha secure cs \<noteq> Some k)"
    with snoc.IH obtain pre post t0 cs raw raw2 where "ops = pre @ (t0, Create cs (Some raw) raw2) # post"
      "k = sha (b64_encode raw)" "se_ExpiresAt s = t0 + sessionLifetime"
      "\<forall>(t, op)\<in>set post. \<forall>cs'. op = Logout cs' \<longrightarrow> requestSessionKey sha secure cs' \<noteq> Some k"
      unfolding created_by_def by blast
    with h show ?thesis unfolding created_by_def x
      by (intro exI[of _ pre] exI[of _ "post @ [(now, op)]"] exI[of _ t0] exI[of _ cs] exI[of _ raw] exI[of _ raw2]) auto
  qed
qed

subsection \<open>Read tokens\<close>

lemma hex_clean: "n < 16 \<Longrightarrow> \<not> upper (hex_char n)"
proof -
  assume n: "n < 16"
  have "(of_char (hex_char n) :: nat) = (if n < 10 then n + 48 else n + 87)" using n by (auto simp: hex_char_def)
  then show ?thesis using n by (auto simp: upper_def less_eq_char_def split: if_splits)
qed

lemma hex_encode_lower: "\<not> list_ex upper (hex_encode s)"
proof (induction s)
  case (Cons x xs)
  have "(of_char x :: nat) div 16 < 16" "(of_char x :: nat) mod 16 < 16"
    using nat_of_char_less_256[of x] by (simp_all add: less_mult_imp_div_less)
  with Cons show ?case by (simp add: Let_def hex_clean)
qed simp

lemma TrimPrefix_append [simp]: "TrimPrefix (p @ s) p = s" "HasPrefix (p @ s) p"
  by (simp_all add: TrimPrefix_def HasPrefix_def)

lemma validReadAPITokenHash_hex:
  assumes "length d = 32"
  shows "validReadAPITokenHash (''sha256:'' @ hex_encode d)"
proof -
  have "\<not> list_ex upper (''sha256:'' @ hex_encode d)"
    using hex_encode_lower by (simp add: upper_def less_eq_char_def)
  with assms TrimPrefix_append[of "''sha256:''" "hex_encode d"] show ?thesis
    by (simp add: validReadAPITokenHash_def hex_decode_encode del: append_Cons append_Nil)
qed

lemma verify_generated:
  assumes "length raw = 32" "length (sha (''fcro_'' @ b64_encode raw)) = 32"
  shows "verifyReadAPIToken sha (''fcro_'' @ b64_encode raw) (''sha256:'' @ hex_encode (sha (''fcro_'' @ b64_encode raw)))"
  using assms validReadAPITokenHash_hex[OF assms(2)]
    TrimPrefix_append[of "''fcro_''" "b64_encode raw"]
    TrimPrefix_append[of "''sha256:''" "hex_encode (sha (''fcro_'' @ b64_encode raw))"]
  unfolding verifyReadAPIToken_def
  by (simp add: url_strict_encode length_b64_encode hex_decode_encode del: append_Cons append_Nil)

subsection \<open>Properties\<close>

text \<open>
  C19. Login attempts are limited over every window: in any history of the console, whatever logins,
  sessions and clean-ups it contains, at most 40 attempts are admitted within five minutes, and at most 10
  from one peer (twice the limits of a window, because windows are fixed).
\<close>

theorem logins_are_limited:
  assumes "range_order ro" "\<forall>(now, op)\<in>set ops. t \<le> now \<and> now < t + loginWindow"
  shows "let oks = fst (auth_run sha secure ro ops (snd (auth_run sha secure ro before new_auth)))
    in admitted (\<lambda>_. True) ops oks \<le> 40 \<and> admitted (\<lambda>q. q = peer) ops oks \<le> 10"
proof -
  let ?a = "snd (auth_run sha secure ro before new_auth)"
  have inv: "auth_inv ?a" by (rule auth_inv_run[OF assms(1) auth_inv_new])
  then have "budget loginGlobal (t + loginWindow) (au_global ?a) \<le> 40"
    by (auto simp: auth_inv_def budget_def loginGlobal_def)
  moreover have "peer_budget (t + loginWindow) peer ?a \<le> 10"
    using inv by (fastforce simp: auth_inv_def peer_budget_def budget_def loginPerPeer_def split: option.splits)
  moreover have "\<forall>(now, op)\<in>set ops. now < t + loginWindow \<and> t + loginWindow \<le> now + loginWindow"
    using assms(2) by auto
  ultimately show ?thesis using rate_run[OF assms(1) inv, of ops "t + loginWindow" sha secure peer]
    by (simp add: Let_def)
qed

text \<open>
  C20. A session is accepted only while it is valid: if a request is accepted after any history, the
  history contains the creation of exactly that token, less than eight hours ago, and no later logout of
  it. Reading a session never extends it.
\<close>

theorem session_only_while_valid:
  assumes "range_order ro"
    and "requestSession sha secure now cs (snd (auth_run sha secure ro ops new_auth)) = (Some s, a')"
  shows "\<exists>k pre post t0 cs0 raw raw2. requestSessionKey sha secure cs = Some k
    \<and> ops = pre @ (t0, Create cs0 (Some raw) raw2) # post \<and> k = sha (b64_encode raw)
    \<and> now < t0 + sessionLifetime
    \<and> (\<forall>(t, op)\<in>set post. \<forall>cs'. op = Logout cs' \<longrightarrow> requestSessionKey sha secure cs' \<noteq> Some k)"
proof -
  from assms(2) obtain k where "requestSessionKey sha secure cs = Some k" "now < se_ExpiresAt s"
    "map_of (au_sessions (snd (auth_run sha secure ro ops new_auth))) k = Some s"
    by (auto simp: requestSession_def split: option.splits if_splits)
  with session_origin[OF assms(1)] show ?thesis unfolding created_by_def by fastforce
qed

text \<open>
  C21. Creating a session and using it round-trips: the cookie that is set is accepted, with the same
  session, at every time before it expires and at no later time; after a logout with that cookie it is
  not accepted.
\<close>

theorem session_roundtrip:
  assumes "createSession sha secure ro now (Some raw) raw2 cs a = Inr (s, ck, a')" "length raw = 32"
    and "mwf (au_sessions a)"
  shows "fst (requestSession sha secure t [(ck_Name ck, ck_Value ck)] a')
           = (if t < now + sessionLifetime then Some s else None)
    \<and> fst (requestSession sha secure t [(ck_Name ck, ck_Value ck)]
              (snd (deleteSession sha secure [(ck_Name ck, ck_Value ck)] a'))) = None"
proof -
  from createSession_InrD[OF assms(1)] have c: "ck_Value ck = b64_encode raw" "ck_Name ck = sessionCookieName secure"
    and m: "map_of (au_sessions a') (sha (b64_encode raw)) = Some s"
    and s: "se_ExpiresAt s = now + sessionLifetime"
    by (metis option.inject, metis, metis fun_upd_same map_of_mput option.inject, metis session.select_convs(2))
  have k: "requestSessionKey sha secure [(ck_Name ck, ck_Value ck)] = Some (sha (b64_encode raw))"
    unfolding c by (rule requestSessionKey_own[OF assms(2)])
  show ?thesis using m s by (simp add: requestSession_def deleteSession_def forget_def k)
qed


text \<open>
  C23. The console's memory is bounded and a full table gives up only the oldest session: in every
  history there are at most 64 sessions and 4096 peers, and a creation drops a live session, other than
  the requester's own, only when the table is full and every session that stays expires no earlier.
\<close>

theorem sessions_bounded:
  assumes "range_order ro"
    and "createSession sha secure ro now (Some raw) raw2 cs (snd (auth_run sha secure ro ops new_auth)) = Inr (s, ck, a')"
  shows "length (au_sessions a') \<le> 64 \<and> length (au_peers a') \<le> 4096
    \<and> (\<forall>k old. map_of (au_sessions (snd (auth_run sha secure ro ops new_auth))) k = Some old
         \<and> now < se_ExpiresAt old \<and> requestSessionKey sha secure cs \<noteq> Some k
         \<and> map_of (au_sessions a') k = None \<longrightarrow>
           length (au_sessions a') \<ge> 63
           \<and> (\<forall>k' s'. map_of (au_sessions a') k' = Some s' \<longrightarrow> k' \<noteq> sha (b64_encode raw) \<longrightarrow>
                 se_ExpiresAt old \<le> se_ExpiresAt s'))"
proof -
  let ?a = "snd (auth_run sha secure ro ops new_auth)"
  have inv: "auth_inv ?a" by (rule auth_inv_run[OF assms(1) auth_inv_new])
  let ?f = "mfilter (\<lambda>k s. now < se_ExpiresAt s) (au_sessions ?a)"
  let ?m = "forget sha secure cs ?f"
  have wf: "mwf (au_sessions ?a)" "mwf ?m" using inv by (auto simp: auth_inv_def forget_wf)
  from createSession_InrD[OF assms(2)] have a': "au_sessions a' = mput (sha (b64_encode raw)) s (evict ro ?m)"
    by (metis option.inject)
  have kept: "63 \<le> length (au_sessions a') \<and>
      (\<forall>k' s'. map_of (au_sessions a') k' = Some s' \<longrightarrow> k' \<noteq> sha (b64_encode raw) \<longrightarrow> se_ExpiresAt old \<le> se_ExpiresAt s')"
    if k: "map_of (au_sessions ?a) k = Some old" "now < se_ExpiresAt old" "requestSessionKey sha secure cs \<noteq> Some k"
      "map_of (au_sessions a') k = None" for k old
  proof -
    have m: "map_of ?m k = Some old"
      using k wf(1) by (auto simp: forget_def map_of_mfilter split: option.splits)
    from k(4) a' have ev: "map_of (evict ro ?m) k = None" by (auto split: if_splits)
    then obtain o' where o': "length ?m \<ge> 64" "oldest ro ?m = Some (k, o')"
      using m by (auto simp: evict_def maxSessions_def split: if_splits option.splits)
    have "length (evict ro ?m) \<ge> 63"
      using o' wf(2) m by (simp add: evict_def maxSessions_def length_mdel in_mkeys_iff)
    moreover have "se_ExpiresAt old \<le> se_ExpiresAt s'"
      if "map_of (au_sessions a') k' = Some s'" "k' \<noteq> sha (b64_encode raw)" for k' s'
    proof -
      from that a' have "map_of ?m k' = Some s'"
        by (auto simp: evict_def split: if_splits option.splits)
      with oldest_SomeD[OF assms(1) o'(2)] m show ?thesis by auto
    qed
    ultimately show ?thesis using a' by (auto simp: length_mput)
  qed
  have "auth_inv a'" by (rule auth_inv_create[OF assms(1) inv assms(2)])
  then show ?thesis using kept by (auto simp: auth_inv_def maxSessions_def maxLoginPeers_def)
qed

text \<open>
  Read tokens round-trip and never fall back: a generated token verifies against its hash, only a
  text with the same digest does, and a request that carries an authorization header is decided by that
  header alone, whatever session it also has.
\<close>

theorem read_token_roundtrip:
  assumes "\<And>x. length (sha x) = 32" "length raw = 32"
    and "GenerateReadAPIToken sha (Some raw) = Inr (token, hash)"
  shows "verifyReadAPIToken sha token hash
    \<and> (\<forall>other. verifyReadAPIToken sha other hash \<longrightarrow> sha other = sha token)
    \<and> (\<forall>h rest cs. verifyReadAPIToken sha (TrimPrefix h ''Bearer '') hash \<or>
         fst (authenticateReadAPI sha secure hash now (h # rest) cs a) = Inl ''invalid_api_token'')"
proof -
  have t: "token = ''fcro_'' @ b64_encode raw" "hash = ''sha256:'' @ hex_encode (sha token)"
    using assms(3) by (auto simp: GenerateReadAPIToken_def Let_def)
  have v: "verifyReadAPIToken sha token hash"
    unfolding t(2) unfolding t(1) by (rule verify_generated[OF assms(2,1)])
  then have "sha other = sha token" if "verifyReadAPIToken sha other hash" for other
    using that by (simp add: verifyReadAPIToken_def)
  then have "\<forall>other. verifyReadAPIToken sha other hash \<longrightarrow> sha other = sha token" by blast
  moreover have "verifyReadAPIToken sha (TrimPrefix h ''Bearer '') hash \<or>
      fst (authenticateReadAPI sha secure hash now (h # rest) cs a) = Inl ''invalid_api_token''" for h rest cs
    by (simp add: authenticateReadAPI_def)
  ultimately show ?thesis using v by blast
qed

subsection \<open>Examples\<close>

definition ex_sha :: "string \<Rightarrow> string" where
  "ex_sha s = take 32 (s @ replicate 32 (CHR ''x''))"

definition ex_kdf :: kdf_fn where
  "ex_kdf p s i n = Some (take n (p @ replicate n (CHR ''k'')))"

definition ex_logins :: "(int \<times> auth_op) list" where
  "ex_logins = map (\<lambda>i. (int i, Login (Some ''10.0.0.9''))) [1 ..< 8]"

definition ex_raw :: string where
  "ex_raw = replicate 32 (CHR ''r'')"

definition ex_cookies :: cookies where
  "ex_cookies = [(''__Host-fleet-admin'', b64_encode ex_raw)]"

lemma ex_sha_length: "length (ex_sha x) = 32"
  by (simp add: ex_sha_def)

theorem logins_are_limited_witness:
  "admitted (\<lambda>q. q = ''10.0.0.9'') ex_logins (fst (auth_run ex_sha True (\<lambda>_ ks. ks) ex_logins new_auth)) = 5
   \<and> admitted (\<lambda>_. True) ex_logins (fst (auth_run ex_sha True (\<lambda>_ ks. ks) ex_logins new_auth)) \<le> 40"
proof -
  have "\<forall>(now, op)\<in>set ex_logins. 0 \<le> now \<and> now < 0 + loginWindow" by code_simp
  moreover have "admitted (\<lambda>q. q = ''10.0.0.9'') ex_logins (fst (auth_run ex_sha True (\<lambda>_ ks. ks) ex_logins new_auth)) = 5"
    by code_simp
  ultimately show ?thesis
    using logins_are_limited[OF range_order_id, of ex_logins 0 ex_sha True "[]"] by (simp add: Let_def)
qed

theorem session_only_while_valid_witness:
  "\<exists>k pre post t0 cs0 raw raw2. requestSessionKey ex_sha True ex_cookies = Some k
    \<and> [(50, Create [] (Some ex_raw) (Some ex_raw))] = pre @ (t0, Create cs0 (Some raw) raw2) # post
    \<and> k = ex_sha (b64_encode raw) \<and> 60 < t0 + sessionLifetime"
proof -
  have "requestSession ex_sha True 60 ex_cookies
     (snd (auth_run ex_sha True (\<lambda>_ ks. ks) [(50, Create [] (Some ex_raw) (Some ex_raw))] new_auth))
       = (Some \<lparr>se_CSRF = b64_encode ex_raw, se_ExpiresAt = 50 + sessionLifetime\<rparr>,
          snd (auth_run ex_sha True (\<lambda>_ ks. ks) [(50, Create [] (Some ex_raw) (Some ex_raw))] new_auth))" by code_simp
  from session_only_while_valid[OF range_order_id this] show ?thesis by blast
qed

theorem session_roundtrip_witness:
  "fst (requestSession ex_sha True 60 ex_cookies (snd (snd
     (projr (createSession ex_sha True (\<lambda>_ ks. ks) 50 (Some ex_raw) (Some ex_raw) [] new_auth)))))
     = Some \<lparr>se_CSRF = b64_encode ex_raw, se_ExpiresAt = 50 + sessionLifetime\<rparr>"
proof -
  let ?a = "snd (snd (projr (createSession ex_sha True (\<lambda>_ ks. ks) 50 (Some ex_raw) (Some ex_raw) [] new_auth)))"
  have c: "createSession ex_sha True (\<lambda>_ ks. ks) 50 (Some ex_raw) (Some ex_raw) [] new_auth
    = Inr (\<lparr>se_CSRF = b64_encode ex_raw, se_ExpiresAt = 50 + sessionLifetime\<rparr>,
           session_cookie True (b64_encode ex_raw) (50 + sessionLifetime) (sessionLifetime div 1000000000), ?a)"
    by code_simp
  from session_roundtrip[OF c, of 60] show ?thesis
    by (simp add: ex_raw_def new_auth_def session_cookie_def sessionCookieName_def ex_cookies_def sessionLifetime_def)
qed


theorem sessions_bounded_witness:
  "length (au_sessions (snd (snd (projr (createSession ex_sha True (\<lambda>_ ks. ks) 50 (Some ex_raw) (Some ex_raw) []
     (snd (auth_run ex_sha True (\<lambda>_ ks. ks) ex_logins new_auth))))))) \<le> 64"
proof -
  have c: "\<not> isl (createSession ex_sha True (\<lambda>_ ks. ks) 50 (Some ex_raw) (Some ex_raw) []
     (snd (auth_run ex_sha True (\<lambda>_ ks. ks) ex_logins new_auth)))" by (simp add: createSession_def randomToken_def Let_def)
  then obtain s ck a' where r: "createSession ex_sha True (\<lambda>_ ks. ks) 50 (Some ex_raw) (Some ex_raw) []
     (snd (auth_run ex_sha True (\<lambda>_ ks. ks) ex_logins new_auth)) = Inr (s, ck, a')"
    by (metis isl_def prod_cases3 sum.exhaust)
  from sessions_bounded[OF range_order_id r] show ?thesis by (simp add: r)
qed

theorem read_token_roundtrip_witness:
  "verifyReadAPIToken ex_sha (''fcro_'' @ b64_encode ex_raw) (''sha256:'' @ hex_encode (ex_sha (''fcro_'' @ b64_encode ex_raw)))"
proof -
  have g: "GenerateReadAPIToken ex_sha (Some ex_raw)
    = Inr (''fcro_'' @ b64_encode ex_raw, ''sha256:'' @ hex_encode (ex_sha (''fcro_'' @ b64_encode ex_raw)))"
    by (simp only: GenerateReadAPIToken_def option.case Let_def)
  have "length ex_raw = 32" by (simp add: ex_raw_def)
  from read_token_roundtrip[OF ex_sha_length this g] show ?thesis by blast
qed

end
