(* ===== verification/Console_Json.thy ===== *)
theory Console_Json
  imports Go_Stdlib Agones_Config
begin

text \<open>
  Decoded JSON as the console inspects it, binary64 arithmetic on it, and the small accessors of
  \<^verbatim>\<open>internal/console/api_v1.go\<close>, \<^verbatim>\<open>alerts.go\<close> and \<^verbatim>\<open>source.go\<close>. A number that does not fit
  binary64 is an infinity, which \<^verbatim>\<open>number\<close> reports as unusable.
\<close>

datatype json = VNull | VBool bool | VNum float64 | VText string | VList "json list" | VObj "(string \<times> json) list"

definition vfield :: "(string \<times> json) list \<Rightarrow> string \<Rightarrow> json" where
  "vfield m k = (case map_of m k of None \<Rightarrow> VNull | Some v \<Rightarrow> v)"

fun number :: "json \<Rightarrow> float64 \<times> bool" where
  "number (VNum x) = (x, finite_float x)"
| "number _ = (Fin 0, False)"

fun mapObject :: "json \<Rightarrow> (string \<times> json) list" where
  "mapObject (VObj m) = m"
| "mapObject _ = []"

definition textField :: "(string \<times> json) list \<Rightarrow> string \<Rightarrow> string" where
  "textField m k = (case vfield m k of VText s \<Rightarrow> s | _ \<Rightarrow> '''')"

fun objects :: "json \<Rightarrow> (string \<times> json) list list" where
  "objects (VList xs) = List.map_filter (\<lambda>x. case x of VObj m \<Rightarrow> Some m | _ \<Rightarrow> None) xs"
| "objects _ = []"

subsection \<open>binary64 sums\<close>

definition f64 :: "rat \<Rightarrow> float64" where
  "f64 q =
     (let (n, d) = quotient_of q; (m, e) = round64 \<bar>n\<bar> d; v = of_int (m * pow2 e) / of_int (pow2 (- e))
      in if v \<ge> 2 ^ 1024 then (if q < 0 then NegInf else PosInf) else Fin (if q < 0 then - v else v))"

fun fadd :: "float64 \<Rightarrow> float64 \<Rightarrow> float64" where
  "fadd (Fin x) (Fin y) = f64 (x + y)"
| "fadd NaN _ = NaN"
| "fadd _ NaN = NaN"
| "fadd PosInf NegInf = NaN"
| "fadd NegInf PosInf = NaN"
| "fadd PosInf _ = PosInf"
| "fadd _ PosInf = PosInf"
| "fadd NegInf _ = NegInf"
| "fadd _ NegInf = NegInf"

fun fneg :: "float64 \<Rightarrow> float64" where
  "fneg NaN = NaN"
| "fneg PosInf = NegInf"
| "fneg NegInf = PosInf"
| "fneg (Fin x) = Fin (- x)"

definition fsub :: "float64 \<Rightarrow> float64 \<Rightarrow> float64" where
  "fsub x y = fadd x (fneg y)"

subsection \<open>Names\<close>

text \<open>\<^verbatim>\<open>^[a-z0-9](?:[-a-z0-9.]{0,251}[a-z0-9])?$\<close>\<close>

definition dnsName :: "string \<Rightarrow> bool" where
  "dnsName s \<longleftrightarrow> s \<noteq> [] \<and> int (length s) \<le> 253 \<and> lower_alnum (hd s) \<and> lower_alnum (last s)
     \<and> list_all (\<lambda>c. lower_alnum c \<or> c = CHR ''-'' \<or> c = CHR ''.'') s"

text \<open>\<^verbatim>\<open>^[a-f0-9]{32}$\<close>\<close>

definition workerName :: "string \<Rightarrow> bool" where
  "workerName s \<longleftrightarrow> int (length s) = 32 \<and> list_all hex_lower s"

definition safeErrorCode :: "string \<Rightarrow> bool" where
  "safeErrorCode v \<longleftrightarrow> \<not> (int (length v) = 0 \<or> int (length v) > 64)
     \<and> list_all (\<lambda>c. lower_alnum c \<or> c = CHR ''_'') v"

definition has_dots :: "string \<Rightarrow> bool" where
  "has_dots s \<longleftrightarrow> list_ex (\<lambda>(a, b). a = CHR ''.'' \<and> b = CHR ''.'') (zip s (tl s))"

record sourceError =
  er_status :: int
  er_code :: string

type_synonym 'a source_result = "sourceError + 'a"

definition fail :: "int \<Rightarrow> string \<Rightarrow> 'a source_result" where
  "fail st code = Inl \<lparr>er_status = st, er_code = code\<rparr>"

end
