(* ===== verification/Console_Config.thy ===== *)
theory Console_Config
  imports Console_Json Console_Auth Fleet_Config
begin

text \<open>
  Settings of the console and of its control broker and their validation: \<^verbatim>\<open>internal/console/config.go\<close>,
  \<^verbatim>\<open>ControlConfig\<close> of \<^verbatim>\<open>control.go\<close>, and the syntactic checks of \<^verbatim>\<open>feishu.go\<close>. What \<^verbatim>\<open>url.Parse\<close>,
  \<^verbatim>\<open>net.ParseIP\<close> and \<^verbatim>\<open>net.SplitHostPort\<close> report about a string is a parameter, as in \<open>Agones_Config\<close>.
\<close>

subsection \<open>path/filepath\<close>

definition IsAbs :: "string \<Rightarrow> bool" where
  "IsAbs p \<longleftrightarrow> HasPrefix p ''/''"

text \<open>\<^verbatim>\<open>filepath.Clean\<close> of a rooted path: empty and dot elements vanish, a double dot removes the element before it.\<close>

fun clean_parts :: "string list \<Rightarrow> string list \<Rightarrow> string list" where
  "clean_parts acc [] = rev acc"
| "clean_parts acc (e # es) =
     (if e = '''' \<or> e = ''.'' then clean_parts acc es
      else if e = ''..'' then clean_parts (tl acc) es else clean_parts (e # acc) es)"

definition clean_rooted :: "string \<Rightarrow> string" where
  "clean_rooted p = (case clean_parts [] (split_on (CHR ''/'') p) of [] \<Rightarrow> ''/'' | es \<Rightarrow> concat (map ((#) (CHR ''/'')) es))"

fun clean_relative :: "string list \<Rightarrow> string list \<Rightarrow> string list" where
  "clean_relative acc [] = rev acc"
| "clean_relative acc (e # es) =
     (if e = '''' \<or> e = ''.'' then clean_relative acc es
      else if e = ''..'' \<and> acc \<noteq> [] \<and> hd acc \<noteq> ''..'' then clean_relative (tl acc) es
      else clean_relative (e # acc) es)"

fun join_path :: "string list \<Rightarrow> string" where
  "join_path [] = ''.''"
| "join_path [e] = e"
| "join_path (e # es) = e @ ''/'' @ join_path es"

definition filepath_Clean :: "string \<Rightarrow> string" where
  "filepath_Clean p = (if IsAbs p then clean_rooted p else join_path (clean_relative [] (split_on (CHR ''/'') p)))"

definition canonical_path :: "string \<Rightarrow> bool" where
  "canonical_path p \<longleftrightarrow> IsAbs p \<and> filepath_Clean p = p"

subsection \<open>Feishu\<close>

text \<open>\<^verbatim>\<open>^/open-apis/bot/v2/hook/[A-Za-z0-9_-]{16,128}$\<close>\<close>

definition feishuHookPath :: "string \<Rightarrow> bool" where
  "feishuHookPath p \<longleftrightarrow> HasPrefix p ''/open-apis/bot/v2/hook/''
     \<and> (let k = TrimPrefix p ''/open-apis/bot/v2/hook/''
        in 16 \<le> int (length k) \<and> int (length k) \<le> 128
           \<and> list_all (\<lambda>c. (CHR ''a'' \<le> c \<and> c \<le> CHR ''z'') \<or> (CHR ''A'' \<le> c \<and> c \<le> CHR ''Z'') \<or> is_digit c
                \<or> c = CHR ''_'' \<or> c = CHR ''-'') k)"

definition validFeishuWebhook :: "net_env \<Rightarrow> string \<Rightarrow> bool" where
  "validFeishuWebhook net s \<longleftrightarrow> s = '''' \<or>
     (case url_Parse net s of
        None \<Rightarrow> False
      | Some u \<Rightarrow> u_Scheme u = ''https'' \<and> u_Host u = ''open.feishu.cn'' \<and> \<not> u_HasUser u \<and> u_RawQuery u = ''''
          \<and> \<not> u_ForceQuery u \<and> u_Fragment u = '''' \<and> u_RawPath u = '''' \<and> feishuHookPath (u_Path u))"

text \<open>\<^verbatim>\<open>unicode.IsControl\<close> in valid UTF-8: the ASCII controls, and U+0080 to U+009F as two bytes.\<close>

fun has_control :: "string \<Rightarrow> bool" where
  "has_control [] = False"
| "has_control (a # s) =
     (byte_in 0 31 a \<or> byte_in 127 127 a \<or> (byte_in 194 194 a \<and> (case s of [] \<Rightarrow> False | b # _ \<Rightarrow> byte_in 128 159 b))
      \<or> has_control s)"

definition validFeishuSecret :: "string \<Rightarrow> bool" where
  "validFeishuSecret s \<longleftrightarrow> int (length s) \<le> 256 \<and> utf8_valid s \<and> \<not> has_control s"

subsection \<open>The control broker\<close>

definition validSocketPath :: "string \<Rightarrow> bool" where
  "validSocketPath p \<longleftrightarrow> canonical_path p \<and> int (length p) < 100
     \<and> \<not> list_ex (\<lambda>c. c = CHR 0x00 \<or> c = CHR 0x0D \<or> c = CHR 0x0A) p"

record ControlConfig =
  cc_SocketPath :: string
  cc_FleetURL :: string
  cc_CredentialsFile :: string

definition port_ok :: "string \<Rightarrow> bool" where
  "port_ok p \<longleftrightarrow> (case Atoi p of None \<Rightarrow> False | Some n \<Rightarrow> 1 \<le> n \<and> n \<le> 65535)"

definition ControlConfig_validate :: "net_env \<Rightarrow> ControlConfig \<Rightarrow> unit result" where
  "ControlConfig_validate net cfg =
     (if \<not> validSocketPath (cc_SocketPath cfg) \<or> \<not> canonical_path (cc_CredentialsFile cfg)
      then Inl (Errorf ''control paths must be absolute and canonical'')
      else case url_Parse net (cc_FleetURL cfg) of
        None \<Rightarrow> Inl (Errorf ''control upstream must be a loopback HTTP or HTTPS origin'')
      | Some u \<Rightarrow>
          if u_Host u = '''' \<or> u_HasUser u \<or> u_RawQuery u \<noteq> '''' \<or> u_ForceQuery u \<or> u_Fragment u \<noteq> '''' \<or> u_RawPath u \<noteq> ''''
             \<or> (u_Path u \<noteq> '''' \<and> u_Path u \<noteq> ''/'') \<or> (u_Scheme u \<noteq> ''http'' \<and> u_Scheme u \<noteq> ''https'')
          then Inl (Errorf ''control upstream must be a loopback HTTP or HTTPS origin'')
          else if ip_loopback net (u_Hostname u) \<noteq> Some True \<or> HasSuffix (u_Host u) '':''
          then Inl (Errorf ''control upstream requires a literal loopback address'')
          else if u_Port u \<noteq> '''' \<and> \<not> port_ok (u_Port u) then Inl (Errorf ''invalid control upstream port'')
          else Inr ())"

subsection \<open>The console\<close>

definition loopbackHost :: "net_env \<Rightarrow> string \<Rightarrow> bool" where
  "loopbackHost net host \<longleftrightarrow> host = ''localhost'' \<or> ip_loopback net host = Some True"

text \<open>\<^verbatim>\<open>strings.ToLower\<close> is its effect on ASCII letters; hosts with other letters are outside the model.\<close>

definition publicEndpoint :: "net_env \<Rightarrow> string \<Rightarrow> Url result" where
  "publicEndpoint net raw =
     (case url_Parse net raw of
        None \<Rightarrow> Inl (Errorf ''public_url must be an absolute /fleet-admin/ URL'')
      | Some u \<Rightarrow>
          if u_Host u = '''' \<or> u_HasUser u \<or> u_RawQuery u \<noteq> '''' \<or> u_ForceQuery u \<or> u_Fragment u \<noteq> '''' \<or> u_Opaque u \<noteq> ''''
             \<or> u_RawPath u \<noteq> '''' \<or> u_Path u \<noteq> ''/fleet-admin/''
          then Inl (Errorf ''public_url must be an absolute /fleet-admin/ URL'')
          else if u_Scheme u \<noteq> ''https'' \<and> \<not> (u_Scheme u = ''http'' \<and> loopbackHost net (u_Hostname u))
          then Inl (Errorf ''public_url requires HTTPS or loopback HTTP'')
          else if u_Host u \<noteq> map ascii_lower (u_Host u) \<or> HasSuffix (u_Hostname u) ''.''
             \<or> list_ex (\<lambda>c. c \<in> {CHR '' '', CHR 0x09, CHR 0x0D, CHR 0x0A, CHR 0x5C, CHR ''%''}) (u_Host u)
          then Inl (Errorf ''public_url host must be canonical'')
          else if u_Port u \<noteq> ''''
          then (case Atoi (u_Port u) of
                  None \<Rightarrow> Inl (Errorf ''invalid public_url port'')
                | Some port \<Rightarrow>
                    if port < 1 \<or> port > 65535 \<or> itoa port \<noteq> u_Port u then Inl (Errorf ''invalid public_url port'')
                    else if (u_Scheme u = ''https'' \<and> port = 443) \<or> (u_Scheme u = ''http'' \<and> port = 80)
                    then Inl (Errorf ''public_url must omit the default port'')
                    else Inr u)
          else Inr u)"

end
