(* ===== verification/Console_Control.thy ===== *)
theory Console_Control
  imports Console_Config Fleet_Policy Agones_Client
begin

text \<open>
  The privileged control broker and its client: \<^verbatim>\<open>internal/console/control.go\<close> and
  \<^verbatim>\<open>internal/console/policy.go\<close>, with \<^verbatim>\<open>readJSON\<close>, \<^verbatim>\<open>validWorkerID\<close> and \<^verbatim>\<open>writeBackend\<close> of
  \<^verbatim>\<open>internal/console/http.go\<close> and the management operations of \<^verbatim>\<open>internal/console/source.go\<close>.

  What lies behind a connection is a function on its state: \<open>ask\<close> answers one request of the broker to the
  fleet manager and changes the manager's state \<open>'w\<close>. JSON codecs are parameters (\<open>control_codec\<close>); a
  decoder stands for decoding with unknown fields and trailing data refused.
\<close>

subsection \<open>Request bodies\<close>

datatype body_read = BodyError | Body string

record json_body =
  jb_ContentType :: "string option"
  jb_Data :: body_read

definition requestLimit :: int where
  "requestLimit = 8192"

definition readJSON :: "(string \<Rightarrow> 'a option) \<Rightarrow> json_body \<Rightarrow> 'a source_result" where
  "readJSON decode b =
     (if jb_ContentType b \<noteq> Some ''application/json'' then fail 415 ''json_required''
      else case jb_Data b of
        BodyError \<Rightarrow> fail 400 ''invalid_json''
      | Body data \<Rightarrow>
          (let trimmed = trim_space data
           in if int (length data) > requestLimit then fail 413 ''request_too_large''
              else if trimmed = [] \<or> hd trimmed \<noteq> CHR ''{'' \<or> \<not> utf8_valid data then fail 400 ''invalid_json''
              else case decode data of None \<Rightarrow> fail 400 ''invalid_json'' | Some v \<Rightarrow> Inr v))"

text \<open>\<^verbatim>\<open>writeBackend\<close> passes an error on only when its status and code are presentable.\<close>

definition backend_error :: "sourceError \<Rightarrow> int \<times> string" where
  "backend_error e = (if er_status e \<ge> 400 \<and> er_status e \<le> 599 \<and> safeErrorCode (er_code e)
     then (er_status e, er_code e) else (502, ''upstream_unavailable''))"

subsection \<open>Policies\<close>

record PolicyInput =
  pi_ExpectedRevision :: int
  pi_RoomsPerInstance :: int
  pi_CPURequestMillicores :: int
  pi_CPULimitMillicores :: int

definition PolicyInput_valid :: "PolicyInput \<Rightarrow> bool" where
  "PolicyInput_valid p \<longleftrightarrow> pi_ExpectedRevision p \<ge> 1 \<and> pi_RoomsPerInstance p \<ge> 1 \<and> pi_RoomsPerInstance p \<le> 512
     \<and> pi_CPURequestMillicores p \<ge> 100 \<and> pi_CPURequestMillicores p \<le> 64000
     \<and> pi_CPURequestMillicores p = pi_CPULimitMillicores p"

text \<open>The document a policy request returns: the view of the fleet manager with the console's own fields.\<close>

record policyDoc =
  pd_APIVersion :: string
  pd_CanManage :: bool
  pd_ApplyMode :: string
  pd_View :: PolicyView

record control_codec =
  enc_command :: "PolicyInput \<times> string \<Rightarrow> string"
  dec_command :: "string \<Rightarrow> (PolicyInput \<times> string) option"
  enc_worker :: "string \<Rightarrow> string"
  dec_worker :: "string \<Rightarrow> string option"
  dec_empty :: "string \<Rightarrow> unit option"
  enc_accepted :: string
  status_doc :: "string \<Rightarrow> bool"
  dec_accepted :: "string \<Rightarrow> bool option"
  enc_doc :: "policyDoc \<Rightarrow> string"
  dec_doc :: "string \<Rightarrow> policyDoc option"
  enc_caps :: string
  enc_error :: "string \<Rightarrow> string"
  dec_error :: "string \<Rightarrow> string option"
  dec_caps :: "string \<Rightarrow> (string \<times> bool \<times> string list) option"

definition decodePolicy :: "control_codec \<Rightarrow> string \<Rightarrow> policyDoc source_result" where
  "decodePolicy C raw =
     (case dec_doc C raw of
        None \<Rightarrow> fail 502 ''control_invalid_response''
      | Some p \<Rightarrow>
          if pd_APIVersion p \<noteq> ''v1'' \<or> pv_revision (pd_View p) < 1
             \<or> pv_revision (pd_View p) \<noteq> p_Revision (pv_desired (pd_View p)) \<or> pd_ApplyMode p \<noteq> ''future_instances''
             \<or> int (length (pv_effective_instances (pd_View p))) > 1000 \<or> int (length (pv_audit (pd_View p))) > 100
          then fail 502 ''control_invalid_response'' else Inr p)"

subsection \<open>The broker\<close>

text \<open>
  The credentials file as a sequence of fields, \<open>None\<close> when it cannot be read or is not one JSON object. A
  null token leaves the field empty.
\<close>

definition readControlCredential :: "(string \<times> json) list option \<Rightarrow> string source_result" where
  "readControlCredential file =
     (let bad = fail 502 ''control_credential_unavailable''
      in case file of
           None \<Rightarrow> bad
         | Some fs \<Rightarrow>
             if \<not> distinct (map fst fs) then bad
             else (case vfield fs ''admin_token'' of
                     VText token \<Rightarrow>
                       if int (length token) < 1 \<or> int (length token) > 32768
                          \<or> \<not> list_all (\<lambda>c. (32 :: nat) < of_char c \<and> of_char c < (127 :: nat)) token
                       then bad else Inr token
                   | _ \<Rightarrow> bad))"

record up_request =
  uq_Method :: string
  uq_Path :: string
  uq_Body :: "string option"
  uq_Bearer :: string

datatype up_reply = UpError | UpReply int string "string option"

type_synonym 'w asker = "up_request \<Rightarrow> 'w \<Rightarrow> up_reply \<times> 'w"

definition upstream_status :: "string \<Rightarrow> string \<Rightarrow> int \<Rightarrow> unit source_result" where
  "upstream_status verb path st =
     (if st = 401 \<or> st = 403 then fail 502 ''control_access_denied''
      else if verb = ''POST'' \<and> HasSuffix path ''/drain'' \<and> st = 404 then fail 404 ''worker_not_found''
      else if verb = ''POST'' \<and> HasSuffix path ''/drain'' \<and> st = 409 then fail 409 ''worker_not_drainable''
      else if HasSuffix path ''/policy'' \<and> st = 400 then fail 400 ''policy_invalid''
      else if HasSuffix path ''/policy'' \<and> st = 409 then fail 409 ''policy_conflict''
      else if HasSuffix path ''/policy'' \<and> st = 404 then fail 503 ''policy_unavailable''
      else if st \<noteq> (if verb = ''POST'' \<and> \<not> HasSuffix path ''/policy'' then 202 else 200)
      then fail 502 ''control_unavailable'' else Inr ())"

definition upstream ::
  "string source_result \<Rightarrow> 'w asker \<Rightarrow> string \<Rightarrow> string \<Rightarrow> string option \<Rightarrow> int \<Rightarrow> 'w \<Rightarrow> string source_result \<times> 'w" where
  "upstream credential ask verb path body limit w =
     (case credential of
        Inl _ \<Rightarrow> (fail 502 ''control_credential_unavailable'', w)
      | Inr token \<Rightarrow>
          (case ask \<lparr>uq_Method = verb, uq_Path = path, uq_Body = body, uq_Bearer = token\<rparr> w of
             (UpError, w1) \<Rightarrow> (fail 502 ''control_unavailable'', w1)
           | (UpReply st enc data, w1) \<Rightarrow>
               (case upstream_status verb path st of
                  Inl e \<Rightarrow> (Inl e, w1)
                | Inr _ \<Rightarrow>
                    if enc \<noteq> '''' \<and> enc \<noteq> ''identity'' then (fail 502 ''control_invalid_response'', w1)
                    else case data of
                      None \<Rightarrow> (fail 502 ''control_invalid_response'', w1)
                    | Some d \<Rightarrow> if int (length d) > limit then (fail 502 ''control_invalid_response'', w1) else (Inr d, w1))))"

record control_request =
  co_Host :: string
  co_RawQuery :: string
  co_RawPath :: string
  co_EscapedPath :: string
  co_Path :: string
  co_Method :: string
  co_ContentLength :: int
  co_Body :: json_body

datatype control_body = CError string | CCapabilities | CAccepted | CPolicy policyDoc

type_synonym control_response = "int \<times> control_body"

definition write_error :: "int \<Rightarrow> string \<Rightarrow> control_response" where
  "write_error st code = (st, CError code)"

definition write_backend :: "sourceError \<Rightarrow> control_response" where
  "write_backend e = (fst (backend_error e), CError (snd (backend_error e)))"

definition control_policy ::
  "control_codec \<Rightarrow> string source_result \<Rightarrow> 'w asker \<Rightarrow> control_request \<Rightarrow> 'w \<Rightarrow> control_response \<times> 'w" where
  "control_policy C credential ask r w =
     (let forward = (\<lambda>payload. case upstream credential ask (co_Method r) ''/agones/fleet/v1/admin/policy'' payload 1048576 w of
                       (Inl e, w1) \<Rightarrow> (write_backend e, w1)
                     | (Inr raw, w1) \<Rightarrow>
                         (case decodePolicy C raw of Inl e \<Rightarrow> write_backend e | Inr p \<Rightarrow> (200, CPolicy p), w1))
      in if co_Method r = ''POST''
         then (case readJSON (dec_command C) (co_Body r) of
                 Inl e \<Rightarrow> (write_error (er_status e) (er_code e), w)
               | Inr (inp, actor) \<Rightarrow>
                   if \<not> PolicyInput_valid inp \<or> \<not> validUsername actor then (write_error 400 ''policy_invalid'', w)
                   else forward (Some (enc_command C (inp, actor))))
         else if co_ContentLength r \<noteq> 0 then (write_error 400 ''invalid_request'', w)
         else forward None)"

definition control_action ::
  "control_codec \<Rightarrow> string source_result \<Rightarrow> 'w asker \<Rightarrow> string \<Rightarrow> string \<Rightarrow> 'w \<Rightarrow> control_response \<times> 'w" where
  "control_action C credential ask path payload w =
     (case upstream credential ask ''POST'' path (Some payload) 65536 w of
        (Inl e, w1) \<Rightarrow> (write_backend e, w1)
      | (Inr raw, w1) \<Rightarrow>
          (if dec_accepted C raw = Some True then (202, CAccepted) else write_error 502 ''control_invalid_response'', w1))"

text \<open>\<open>busy\<close>: both slots are taken.\<close>

definition ControlServer_ServeHTTP ::
  "control_codec \<Rightarrow> string source_result \<Rightarrow> bool \<Rightarrow> 'w asker \<Rightarrow> control_request \<Rightarrow> 'w \<Rightarrow> control_response \<times> 'w" where
  "ControlServer_ServeHTTP C credential busy ask r w =
     (let known = co_Path r \<in> {''/v1/policy'', ''/v1/capabilities'', ''/v1/drain'', ''/v1/retry-creation''};
          want = (if co_Path r = ''/v1/policy'' \<and> co_Method r = ''GET'' then ''GET''
                  else if co_Path r = ''/v1/capabilities'' then ''GET'' else ''POST'')
      in if co_Host r \<noteq> ''fleet-console-control'' \<or> co_RawQuery r \<noteq> '''' \<or> co_RawPath r \<noteq> ''''
            \<or> co_EscapedPath r \<noteq> co_Path r
         then (write_error 404 ''not_found'', w)
         else if \<not> known then (write_error 404 ''not_found'', w)
         else if co_Method r \<noteq> want then (write_error 405 ''method_not_allowed'', w)
         else if busy then (write_error 429 ''control_busy'', w)
         else if co_Path r = ''/v1/policy'' then control_policy C credential ask r w
         else if want = ''GET''
         then (if co_ContentLength r \<noteq> 0 then (write_error 400 ''invalid_request'', w)
               else case upstream credential ask ''GET'' ''/agones/fleet/v1/admin/status'' None 8388608 w of
                 (Inl e, w1) \<Rightarrow> (write_backend e, w1)
               | (Inr raw, w1) \<Rightarrow>
                   (if status_doc C raw then (200, CCapabilities) else write_error 502 ''control_invalid_response'', w1))
         else if co_Path r = ''/v1/drain''
         then (case readJSON (dec_worker C) (co_Body r) of
                 Inl e \<Rightarrow> (write_error (er_status e) (er_code e), w)
               | Inr worker \<Rightarrow>
                   if \<not> workerName worker then (write_error 400 ''invalid_worker_id'', w)
                   else control_action C credential ask ''/agones/fleet/v1/admin/drain'' (enc_worker C worker) w)
         else (case readJSON (dec_empty C) (co_Body r) of
                 Inl e \<Rightarrow> (write_error (er_status e) (er_code e), w)
               | Inr _ \<Rightarrow> control_action C credential ask ''/agones/fleet/v1/admin/retry-creation'' ''{}'' w))"

text \<open>What \<^verbatim>\<open>writeJSON\<close> puts on the wire: the encoded value and a newline.\<close>

fun writeJSON :: "control_codec \<Rightarrow> control_response \<Rightarrow> int \<times> string option" where
  "writeJSON C (st, CError code) = (st, Some (enc_error C code @ [CHR 0x0A]))"
| "writeJSON C (st, CCapabilities) = (st, Some (enc_caps C @ [CHR 0x0A]))"
| "writeJSON C (st, CAccepted) = (st, Some (enc_accepted C @ [CHR 0x0A]))"
| "writeJSON C (st, CPolicy p) = (st, Some (enc_doc C p @ [CHR 0x0A]))"

subsection \<open>The client\<close>

text \<open>\<open>serve\<close> is the connection to the broker: \<open>None\<close> when it fails; the body is \<open>None\<close> when reading it fails.\<close>

type_synonym 'w server = "control_request \<Rightarrow> 'w \<Rightarrow> (int \<times> string option) option \<times> 'w"

definition control_errors :: "string list" where
  "control_errors = [''control_unavailable'', ''control_access_denied'', ''control_credential_unavailable'',
     ''control_invalid_response'', ''control_busy'', ''worker_not_found'', ''worker_not_drainable'',
     ''policy_invalid'', ''policy_conflict'', ''policy_unavailable'']"

definition client_result :: "control_codec \<Rightarrow> string \<Rightarrow> string \<Rightarrow> int \<Rightarrow> string option \<Rightarrow> string source_result" where
  "client_result C verb path st data =
     (case data of
        None \<Rightarrow> fail 502 ''control_invalid_response''
      | Some raw \<Rightarrow>
          if int (length raw) > (if path = ''policy'' then 1048576 else 16384) then fail 502 ''control_invalid_response''
          else if (verb = ''GET'' \<and> st = 200) \<or> (verb = ''POST'' \<and> (st = 202 \<or> path = ''policy'' \<and> st = 200)) then Inr raw
          else case dec_error C raw of
            None \<Rightarrow> fail 502 ''control_invalid_response''
          | Some code \<Rightarrow>
              if code \<in> set control_errors \<and> st \<ge> 400 \<and> st \<le> 599 then fail st code
              else fail 502 ''control_invalid_response'')"

definition client_request ::
  "control_codec \<Rightarrow> 'w server \<Rightarrow> string \<Rightarrow> string \<Rightarrow> string option \<Rightarrow> 'w \<Rightarrow> string source_result \<times> 'w" where
  "client_request C serve verb path body w =
     (case serve \<lparr>co_Host = ''fleet-console-control'', co_RawQuery = '''', co_RawPath = '''',
                  co_EscapedPath = ''/v1/'' @ path, co_Path = ''/v1/'' @ path, co_Method = verb,
                  co_ContentLength = (case body of None \<Rightarrow> 0 | Some b \<Rightarrow> int (length b)),
                  co_Body = (case body of
                    None \<Rightarrow> \<lparr>jb_ContentType = None, jb_Data = Body ''''\<rparr>
                  | Some b \<Rightarrow> \<lparr>jb_ContentType = Some ''application/json'', jb_Data = Body b\<rparr>)\<rparr> w of
        (None, w1) \<Rightarrow> (fail 502 ''control_unavailable'', w1)
      | (Some (st, data), w1) \<Rightarrow> (client_result C verb path st data, w1))"

definition client_capabilities :: "control_codec \<Rightarrow> 'w server \<Rightarrow> 'w \<Rightarrow> unit source_result \<times> 'w" where
  "client_capabilities C serve w =
     (case client_request C serve ''GET'' ''capabilities'' None w of
        (Inl e, w1) \<Rightarrow> (Inl e, w1)
      | (Inr raw, w1) \<Rightarrow>
          (case dec_caps C raw of
             None \<Rightarrow> fail 502 ''control_invalid_response''
           | Some (version, manage, actions) \<Rightarrow>
               if version \<noteq> ''v1'' \<or> \<not> manage
                  \<or> actions \<notin> {[''drain'', ''retry-creation''], [''drain'', ''retry-creation'', ''policy'']}
               then fail 502 ''control_invalid_response'' else Inr (), w1))"

definition client_action ::
  "control_codec \<Rightarrow> 'w server \<Rightarrow> string \<Rightarrow> string \<Rightarrow> 'w \<Rightarrow> unit source_result \<times> 'w" where
  "client_action C serve action payload w =
     (if action \<noteq> ''drain'' \<and> action \<noteq> ''retry-creation'' then (fail 400 ''invalid_action'', w)
      else case client_request C serve ''POST'' action (Some payload) w of
        (Inl e, w1) \<Rightarrow> (Inl e, w1)
      | (Inr raw, w1) \<Rightarrow>
          (if dec_accepted C raw = Some True then Inr () else fail 502 ''control_invalid_response'', w1))"

subsection \<open>Management operations of the data source\<close>

text \<open>\<open>serve\<close> is \<open>None\<close> without a control socket.\<close>

record source =
  ds_AllowManagement :: bool
  ds_cached :: bool

definition invalidateSnapshot :: "source \<Rightarrow> source" where
  "invalidateSnapshot d = d\<lparr>ds_cached := False\<rparr>"

definition managed :: "'w server option \<Rightarrow> source \<Rightarrow> bool" where
  "managed serve d \<longleftrightarrow> ds_AllowManagement d \<and> serve \<noteq> None"

definition after_action ::
  "unit source_result \<times> 'w \<Rightarrow> source \<Rightarrow> unit source_result \<times> source \<times> 'w" where
  "after_action r d = (fst r, (case fst r of Inl _ \<Rightarrow> d | Inr _ \<Rightarrow> invalidateSnapshot d), snd r)"

definition DataSource_Drain ::
  "control_codec \<Rightarrow> 'w server option \<Rightarrow> string \<Rightarrow> source \<Rightarrow> 'w \<Rightarrow> unit source_result \<times> source \<times> 'w" where
  "DataSource_Drain C serve worker d w =
     (if \<not> managed serve d then (fail 403 ''management_disabled'', d, w)
      else if \<not> workerName worker then (fail 400 ''invalid_query'', d, w)
      else after_action (client_action C (the serve) ''drain'' (enc_worker C worker) w) d)"

definition DataSource_RetryCreation ::
  "control_codec \<Rightarrow> 'w server option \<Rightarrow> source \<Rightarrow> 'w \<Rightarrow> unit source_result \<times> source \<times> 'w" where
  "DataSource_RetryCreation C serve d w =
     (if \<not> managed serve d then (fail 403 ''management_disabled'', d, w)
      else after_action (client_action C (the serve) ''retry-creation'' ''{}'' w) d)"

definition DataSource_Policy ::
  "control_codec \<Rightarrow> 'w server option \<Rightarrow> source \<Rightarrow> 'w \<Rightarrow> policyDoc source_result \<times> 'w" where
  "DataSource_Policy C serve d w =
     (case serve of
        None \<Rightarrow> (fail 503 ''policy_unavailable'', w)
      | Some srv \<Rightarrow>
          (case client_request C srv ''GET'' ''policy'' None w of
             (Inl e, w1) \<Rightarrow> (Inl e, w1)
           | (Inr raw, w1) \<Rightarrow>
               (case decodePolicy C raw of Inl e \<Rightarrow> Inl e | Inr p \<Rightarrow> Inr (p\<lparr>pd_CanManage := ds_AllowManagement d\<rparr>), w1)))"

definition DataSource_UpdatePolicy ::
  "control_codec \<Rightarrow> 'w server option \<Rightarrow> PolicyInput \<Rightarrow> string \<Rightarrow> source \<Rightarrow> 'w
     \<Rightarrow> policyDoc source_result \<times> source \<times> 'w" where
  "DataSource_UpdatePolicy C serve inp actor d w =
     (if \<not> managed serve d then (fail 403 ''management_disabled'', d, w)
      else if \<not> PolicyInput_valid inp then (fail 400 ''policy_invalid'', d, w)
      else case client_request C (the serve) ''POST'' ''policy'' (Some (enc_command C (inp, actor))) w of
        (Inl e, w1) \<Rightarrow> (Inl e, d, w1)
      | (Inr raw, w1) \<Rightarrow>
          (case decodePolicy C raw of Inl e \<Rightarrow> (Inl e, d, w1) | Inr p \<Rightarrow> (Inr p, invalidateSnapshot d, w1)))"

end
