(* ===== verification/Console_Control_Laws.thy ===== *)
theory Console_Control_Laws
  imports Console_Control Fleet_Example
begin

text \<open>
  The console's management operations, end to end: the console's client, the broker and the fleet manager's
  HTTP handler composed. What the console gets is what the manager's own operation does, every error of it
  included; the broker forwards nothing but four fixed requests.
\<close>

subsection \<open>The composed system\<close>

text \<open>The manager behind its HTTP interface; \<open>enc\<close> encodes its replies.\<close>

definition manager_ask ::
  "Config \<Rightarrow> mac_fn \<Rightarrow> codec \<Rightarrow> range_fn \<Rightarrow> id_stream \<Rightarrow> int \<Rightarrow> (reply \<Rightarrow> string) \<Rightarrow> txn asker" where
  "manager_ask cfg mac cd ro rnd now enc r t =
     (let ((st, rep), t') = HTTPHandler cfg mac cd ro rnd now
            \<lparr>rq_Method = uq_Method r, rq_Path = uq_Path r, rq_Authorization = ''Bearer '' @ uq_Bearer r,
             rq_Body = (case uq_Body r of None \<Rightarrow> '''' | Some b \<Rightarrow> b)\<rparr> t
      in (UpReply st '''' (Some (enc rep)), t'))"

definition broker :: "control_codec \<Rightarrow> string source_result \<Rightarrow> bool \<Rightarrow> 'w asker \<Rightarrow> 'w server" where
  "broker C credential busy ask r w =
     (let (resp, w') = ControlServer_ServeHTTP C credential busy ask r w in (Some (writeJSON C resp), w'))"

text \<open>A text that a reader of request bodies accepts and decodes to \<open>v\<close>.\<close>

definition carries :: "(string \<Rightarrow> 'a option) \<Rightarrow> string \<Rightarrow> 'a \<Rightarrow> bool" where
  "carries decode text v \<longleftrightarrow> decode text = Some v \<and> utf8_valid text \<and> trim_space text \<noteq> []
     \<and> hd (trim_space text) = CHR ''{'' \<and> int (length text) \<le> requestLimit"

text \<open>An error document that survives the way from the broker to the console.\<close>

definition carries_error :: "control_codec \<Rightarrow> string \<Rightarrow> bool" where
  "carries_error C code \<longleftrightarrow> dec_error C (enc_error C code @ [CHR 0x0A]) = Some code
     \<and> int (length (enc_error C code)) < 16384"

lemma readJSON_carries:
  "carries decode text v \<Longrightarrow>
     readJSON decode \<lparr>jb_ContentType = Some ''application/json'', jb_Data = Body text\<rparr> = Inr v"
  by (simp add: readJSON_def carries_def)

lemma mux_admin:
  "mux_match cfg \<lparr>rq_Method = ''POST'', rq_Path = ''/agones/fleet/v1/admin/drain'', rq_Authorization = a, rq_Body = b\<rparr>
     = Inr RDrain"
  "mux_match cfg \<lparr>rq_Method = ''POST'', rq_Path = ''/agones/fleet/v1/admin/retry-creation'', rq_Authorization = a, rq_Body = b\<rparr>
     = Inr RRetryCreation"
  "mux_match cfg \<lparr>rq_Method = ''POST'', rq_Path = ''/agones/fleet/v1/admin/policy'', rq_Authorization = a, rq_Body = b\<rparr>
     = Inr RPolicyPost"
  "mux_match cfg \<lparr>rq_Method = ''GET'', rq_Path = ''/agones/fleet/v1/admin/policy'', rq_Authorization = a, rq_Body = b\<rparr>
     = Inr RPolicyGet"
  by (simp_all add: mux_match_def routes_def)

lemma bearer_Bearer: "bearer (''Bearer '' @ token) = token"
  by (simp add: bearer_def TrimPrefix_def HasPrefix_def)

lemmas bearer_text = bearer_Bearer [simplified]

subsection \<open>Draining\<close>

definition drain_outcome :: "source \<Rightarrow> txn \<Rightarrow> txn result \<Rightarrow> unit source_result \<times> source \<times> txn" where
  "drain_outcome d t r =
     (case r of
        Inr t' \<Rightarrow> (Inr (), invalidateSnapshot d, t')
      | Inl ErrNotFound \<Rightarrow> (fail 404 ''worker_not_found'', d, t)
      | Inl ErrBusy \<Rightarrow> (fail 409 ''worker_not_drainable'', d, t)
      | Inl ErrForbidden \<Rightarrow> (fail 502 ''control_access_denied'', d, t)
      | Inl _ \<Rightarrow> (fail 502 ''control_unavailable'', d, t))"

lemma upstream_status_drain:
  "upstream_status ''POST'' ''/agones/fleet/v1/admin/drain'' st =
     (if st = 401 \<or> st = 403 then fail 502 ''control_access_denied''
      else if st = 404 then fail 404 ''worker_not_found''
      else if st = 409 then fail 409 ''worker_not_drainable''
      else if st \<noteq> 202 then fail 502 ''control_unavailable'' else Inr ())"
  by (simp add: upstream_status_def HasSuffix_def)

lemma manager_drain:
  assumes "cfg_AdminToken cfg \<noteq> ''''" "dec_drain cd payload = Some wid"
  shows "manager_ask cfg mac cd ro rnd now enc
      \<lparr>uq_Method = ''POST'', uq_Path = ''/agones/fleet/v1/admin/drain'', uq_Body = Some payload,
       uq_Bearer = cfg_AdminToken cfg\<rparr> t
    = (case Drain rnd now wid t of
         Inr t' \<Rightarrow> (UpReply 202 '''' (Some (enc Accepted)), t')
       | Inl e \<Rightarrow> (UpReply (fst (failHTTP e)) '''' (Some (enc (snd (failHTTP e)))), t))"
  using assms
  by (simp add: manager_ask_def HTTPHandler_def mux_admin admin_def bearer_text equalToken_def drainHTTP_def
      respond_def split: sum.splits prod.splits)

lemma safe_codes:
  "safeErrorCode ''worker_not_found''" "safeErrorCode ''worker_not_drainable''" "safeErrorCode ''control_unavailable''"
  "safeErrorCode ''control_access_denied''" "safeErrorCode ''control_invalid_response''"
  "safeErrorCode ''policy_conflict''" "safeErrorCode ''policy_invalid''"
  by code_simp+

lemma client_result_error:
  assumes "carries_error C code" "code \<in> set control_errors" "400 \<le> st" "st \<le> 599"
  shows "client_result C verb path st (snd (writeJSON C (st, CError code))) = fail st code"
  using assms by (auto simp: client_result_def carries_error_def)

text \<open>
  What the drain operation needs of the JSON encodings: the identifier reaches the broker and the manager
  unchanged, and so do the acknowledgement and the four error codes on the way back.
\<close>

definition drain_wire :: "control_codec \<Rightarrow> codec \<Rightarrow> (reply \<Rightarrow> string) \<Rightarrow> string \<Rightarrow> bool" where
  "drain_wire C cd enc wid \<longleftrightarrow>
     carries (dec_worker C) (enc_worker C wid) wid \<and> dec_drain cd (enc_worker C wid) = Some wid
     \<and> dec_accepted C (enc Accepted) = Some True \<and> int (length (enc Accepted)) \<le> 65536
     \<and> dec_accepted C (enc_accepted C @ [CHR 0x0A]) = Some True \<and> int (length (enc_accepted C)) < 16384
     \<and> list_all (carries_error C) [''worker_not_found'', ''worker_not_drainable'', ''control_unavailable'', ''control_access_denied'']"

lemma serve_drain:
  assumes "carries (dec_worker C) payload wid" "workerName wid"
  shows "client_request C (broker C cred False ask) ''POST'' ''drain'' (Some payload) w =
    (let (resp, w') = control_action C cred ask ''/agones/fleet/v1/admin/drain'' (enc_worker C wid) w
     in (client_result C ''POST'' ''drain'' (fst (writeJSON C resp)) (snd (writeJSON C resp)), w'))"
  using assms
  by (simp add: client_request_def broker_def ControlServer_ServeHTTP_def readJSON_carries Let_def split: prod.splits)

lemma action_drain:
  assumes "cfg_AdminToken cfg \<noteq> ''''" "drain_wire C cd enc wid"
  shows "control_action C (Inr (cfg_AdminToken cfg)) (manager_ask cfg mac cd ro rnd now enc)
      ''/agones/fleet/v1/admin/drain'' (enc_worker C wid) t
    = (case Drain rnd now wid t of
         Inr t' \<Rightarrow> ((202, CAccepted), t')
       | Inl ErrNotFound \<Rightarrow> ((404, CError ''worker_not_found''), t)
       | Inl ErrBusy \<Rightarrow> ((409, CError ''worker_not_drainable''), t)
       | Inl ErrForbidden \<Rightarrow> ((502, CError ''control_access_denied''), t)
       | Inl _ \<Rightarrow> ((502, CError ''control_unavailable''), t))"
  using assms
  by (auto simp: control_action_def upstream_def manager_drain drain_wire_def upstream_status_drain failHTTP_def fail_def
      write_backend_def backend_error_def safe_codes split: sum.splits fleet_error.splits)

lemma drain_end_to_end:
  assumes "cfg_AdminToken cfg \<noteq> ''''" "drain_wire C cd enc wid" "workerName wid" "ds_AllowManagement d"
  shows "DataSource_Drain C (Some (broker C (Inr (cfg_AdminToken cfg)) False (manager_ask cfg mac cd ro rnd now enc))) wid d t
    = drain_outcome d t (Drain rnd now wid t)"
  using assms
  by (auto simp: DataSource_Drain_def managed_def client_action_def serve_drain [of C _ wid] action_drain drain_outcome_def
      after_action_def drain_wire_def client_result_error control_errors_def fail_def client_result_def carries_error_def
      split: sum.splits fleet_error.splits)

subsection \<open>Policy updates\<close>

definition policy_update :: "PolicyInput \<Rightarrow> string \<Rightarrow> PolicyUpdate" where
  "policy_update inp actor =
     \<lparr>pu_ExpectedRevision = pi_ExpectedRevision inp, pu_RoomsPerInstance = pi_RoomsPerInstance inp,
      pu_CPURequestMillicores = pi_CPURequestMillicores inp, pu_CPULimitMillicores = pi_CPULimitMillicores inp,
      pu_Actor = actor\<rparr>"

definition policy_doc :: "PolicyView \<Rightarrow> policyDoc" where
  "policy_doc v = \<lparr>pd_APIVersion = ''v1'', pd_CanManage = True, pd_ApplyMode = ''future_instances'', pd_View = v\<rparr>"

text \<open>The state a policy update leaves when the expected revision is the current one.\<close>

definition updated :: "Config \<Rightarrow> int \<Rightarrow> PolicyInput \<Rightarrow> string \<Rightarrow> FleetState \<Rightarrow> FleetState" where
  "updated cfg now inp actor s = (case UpdatePolicy cfg now (policy_update inp actor) s of Inl _ \<Rightarrow> s | Inr (s', _) \<Rightarrow> s')"

text \<open>A policy document that fits the limits and survives from the manager to the broker and on to the console.\<close>

definition carries_policy :: "control_codec \<Rightarrow> (reply \<Rightarrow> string) \<Rightarrow> PolicyView \<Rightarrow> bool" where
  "carries_policy C enc v \<longleftrightarrow>
     dec_doc C (enc (PolicyReply v)) = Some (policy_doc v) \<and> int (length (enc (PolicyReply v))) \<le> 1048576
     \<and> dec_doc C (enc_doc C (policy_doc v) @ [CHR 0x0A]) = Some (policy_doc v)
     \<and> int (length (enc_doc C (policy_doc v))) < 1048576
     \<and> int (length (pv_effective_instances v)) \<le> 1000"

definition policy_wire :: "control_codec \<Rightarrow> codec \<Rightarrow> (reply \<Rightarrow> string) \<Rightarrow> PolicyInput \<Rightarrow> string \<Rightarrow> bool" where
  "policy_wire C cd enc inp actor \<longleftrightarrow>
     carries (dec_command C) (enc_command C (inp, actor)) (inp, actor)
     \<and> dec_policy cd (enc_command C (inp, actor)) = Some (policy_update inp actor) \<and> carries_error C ''policy_conflict''"

lemma validUsername_actor: "validUsername actor \<Longrightarrow> list_all actor_char actor"
  by (fastforce simp: validUsername_def actor_char_def is_digit_def list_all_length nth_enumerate_eq Let_def)

lemma policy_update_valid:
  assumes "PolicyInput_valid inp" "validUsername actor"
  shows "PolicyUpdate_Validate (policy_update inp actor) = Inr ()"
proof -
  have "\<not> length actor < 1" "\<not> length actor > 64"
    using assms(2) by (auto simp: validUsername_def Let_def Suc_le_eq)
  then show ?thesis
    using assms(1) validUsername_actor [OF assms(2)]
    by (auto simp: PolicyUpdate_Validate_def policy_update_def PolicyInput_valid_def)
qed

lemma UpdatePolicy_console:
  assumes "PolicyInput_valid inp" "validUsername actor"
  shows "UpdatePolicy cfg now (policy_update inp actor) s =
    (if p_Revision (policy cfg s) = pi_ExpectedRevision inp then Inr (updated cfg now inp actor s, ()) else Inl ErrPolicyConflict)"
  using policy_update_valid [OF assms]
  by (simp add: updated_def UpdatePolicy_def Let_def) (simp add: policy_update_def)

lemma manager_policy:
  assumes "cfg_AdminToken cfg \<noteq> ''''" "dec_policy cd payload = Some (policy_update inp actor)"
    and "PolicyInput_valid inp" "validUsername actor"
  shows "manager_ask cfg mac cd ro rnd now enc
      \<lparr>uq_Method = ''POST'', uq_Path = ''/agones/fleet/v1/admin/policy'', uq_Body = Some payload,
       uq_Bearer = cfg_AdminToken cfg\<rparr> t
    = (if p_Revision (policy cfg (t_s t)) = pi_ExpectedRevision inp
       then (UpReply 200 '''' (Some (enc (PolicyReply (Policy cfg (updated cfg now inp actor (t_s t)))))),
             t\<lparr>t_s := updated cfg now inp actor (t_s t)\<rparr>)
       else (UpReply 409 '''' (Some (enc (ErrorReply ''policy_conflict''))), t))"
  using assms
  by (simp add: manager_ask_def HTTPHandler_def mux_admin admin_def bearer_text equalToken_def policyHTTP_def
      UpdatePolicy_console)

lemma upstream_status_policy:
  "upstream_status verb ''/agones/fleet/v1/admin/policy'' st =
     (if st = 401 \<or> st = 403 then fail 502 ''control_access_denied''
      else if st = 400 then fail 400 ''policy_invalid''
      else if st = 409 then fail 409 ''policy_conflict''
      else if st = 404 then fail 503 ''policy_unavailable''
      else if st \<noteq> 200 then fail 502 ''control_unavailable'' else Inr ())"
  by (simp add: upstream_status_def HasSuffix_def)

lemma policy_revision:
  "pv_revision (Policy cfg s) = p_Revision (pv_desired (Policy cfg s))" "pv_desired (Policy cfg s) = policy cfg s"
  "pv_audit (Policy cfg s) = s_PolicyAudit s"
  by (simp_all add: Policy_def Let_def)

lemma updated_policy:
  assumes "PolicyInput_valid inp" "validUsername actor" "p_Revision (policy cfg s) = pi_ExpectedRevision inp"
  shows "p_Revision (policy cfg (updated cfg now inp actor s)) = pi_ExpectedRevision inp + 1"
    and "length (s_PolicyAudit s) \<le> 100 \<Longrightarrow> length (s_PolicyAudit (updated cfg now inp actor s)) \<le> 100"
proof -
  have U: "UpdatePolicy cfg now (policy_update inp actor) s = Inr (updated cfg now inp actor s, ())"
    using assms by (simp add: UpdatePolicy_console)
  show "p_Revision (policy cfg (updated cfg now inp actor s)) = pi_ExpectedRevision inp + 1"
    using UpdatePolicy_policy(2) [OF U] assms(3) by simp
  show "length (s_PolicyAudit (updated cfg now inp actor s)) \<le> 100" if "length (s_PolicyAudit s) \<le> 100"
    using UpdatePolicy_audit(1) [OF U that] .
qed

lemma decode_carried:
  assumes "dec_doc C text = Some (policy_doc (Policy cfg s))" "1 \<le> p_Revision (policy cfg s)"
    and "int (length (pv_effective_instances (Policy cfg s))) \<le> 1000" "length (s_PolicyAudit s) \<le> 100"
  shows "decodePolicy C text = Inr (policy_doc (Policy cfg s))"
proof -
  have "int (length (s_PolicyAudit s)) \<le> 100" using assms(4) by linarith
  then show ?thesis using assms by (auto simp: decodePolicy_def policy_doc_def policy_revision)
qed

lemma serve_policy:
  assumes "carries (dec_command C) (enc_command C (inp, actor)) (inp, actor)" "PolicyInput_valid inp" "validUsername actor"
  shows "client_request C (broker C cred False ask) ''POST'' ''policy'' (Some (enc_command C (inp, actor))) w =
    (let (resp, w') = (case upstream cred ask ''POST'' ''/agones/fleet/v1/admin/policy'' (Some (enc_command C (inp, actor))) 1048576 w of
                         (Inl e, w1) \<Rightarrow> (write_backend e, w1)
                       | (Inr raw, w1) \<Rightarrow> (case decodePolicy C raw of Inl e \<Rightarrow> write_backend e | Inr p \<Rightarrow> (200, CPolicy p), w1))
     in (client_result C ''POST'' ''policy'' (fst (writeJSON C resp)) (snd (writeJSON C resp)), w'))"
  using assms
  by (simp add: client_request_def broker_def ControlServer_ServeHTTP_def control_policy_def readJSON_carries Let_def
      split: prod.splits)

lemma policy_end_to_end:
  assumes "cfg_AdminToken cfg \<noteq> ''''" "policy_wire C cd enc inp actor" "PolicyInput_valid inp" "validUsername actor"
    and "ds_AllowManagement d" "length (s_PolicyAudit (t_s t)) \<le> 100"
    and "carries_policy C enc (Policy cfg (updated cfg now inp actor (t_s t)))"
  shows "DataSource_UpdatePolicy C (Some (broker C (Inr (cfg_AdminToken cfg)) False (manager_ask cfg mac cd ro rnd now enc)))
      inp actor d t
    = (if p_Revision (policy cfg (t_s t)) = pi_ExpectedRevision inp
       then (Inr (policy_doc (Policy cfg (updated cfg now inp actor (t_s t)))), invalidateSnapshot d,
             t\<lparr>t_s := updated cfg now inp actor (t_s t)\<rparr>)
       else (fail 409 ''policy_conflict'', d, t))"
proof (cases "p_Revision (policy cfg (t_s t)) = pi_ExpectedRevision inp")
  case True
  let ?s = "updated cfg now inp actor (t_s t)"
  have "1 \<le> p_Revision (policy cfg ?s)"
    using updated_policy(1) [OF assms(3,4) True] assms(3) by (simp add: PolicyInput_valid_def)
  moreover have "length (s_PolicyAudit ?s) \<le> 100" using updated_policy(2) [OF assms(3,4) True assms(6)] .
  ultimately have D: "decodePolicy C raw = Inr (policy_doc (Policy cfg ?s))"
    if "dec_doc C raw = Some (policy_doc (Policy cfg ?s))" for raw
    using decode_carried [OF that] assms(7) by (simp add: carries_policy_def)
  show ?thesis
    using assms True
    by (simp add: DataSource_UpdatePolicy_def managed_def serve_policy policy_wire_def upstream_def manager_policy
        upstream_status_policy carries_policy_def D client_result_def)
next
  case False
  then show ?thesis
    using assms
    by (simp add: DataSource_UpdatePolicy_def managed_def serve_policy policy_wire_def upstream_def manager_policy
        upstream_status_policy fail_def write_backend_def backend_error_def safe_codes client_result_def carries_error_def
        control_errors_def)
qed

subsection \<open>What the broker forwards\<close>

text \<open>The upstream with the requests it received, in order.\<close>

definition logged :: "'w asker \<Rightarrow> (up_request list \<times> 'w) asker" where
  "logged ask r = (\<lambda>(sent, w). let (rep, w') = ask r w in (rep, (sent @ [r], w')))"

definition permitted :: "control_codec \<Rightarrow> string source_result \<Rightarrow> up_request \<Rightarrow> bool" where
  "permitted C cred q \<longleftrightarrow> cred = Inr (uq_Bearer q) \<and>
     ((uq_Method q = ''GET'' \<and> uq_Body q = None
        \<and> uq_Path q \<in> {''/agones/fleet/v1/admin/status'', ''/agones/fleet/v1/admin/policy''})
      \<or> (uq_Method q = ''POST'' \<and> uq_Path q = ''/agones/fleet/v1/admin/retry-creation'' \<and> uq_Body q = Some ''{}'')
      \<or> (uq_Method q = ''POST'' \<and> uq_Path q = ''/agones/fleet/v1/admin/drain''
           \<and> (\<exists>wid. workerName wid \<and> uq_Body q = Some (enc_worker C wid)))
      \<or> (uq_Method q = ''POST'' \<and> uq_Path q = ''/agones/fleet/v1/admin/policy''
           \<and> (\<exists>inp actor. PolicyInput_valid inp \<and> validUsername actor \<and> uq_Body q = Some (enc_command C (inp, actor)))))"

lemma upstream_logged:
  "upstream cred (logged ask) verb path body limit ([], w) = (r, (sent, w')) \<Longrightarrow>
     sent = [] \<or> (\<exists>token. cred = Inr token
       \<and> sent = [\<lparr>uq_Method = verb, uq_Path = path, uq_Body = body, uq_Bearer = token\<rparr>])"
  by (auto simp: upstream_def logged_def split: sum.splits prod.splits up_reply.splits option.splits if_splits)

definition one_permitted :: "control_codec \<Rightarrow> string source_result \<Rightarrow> up_request list \<Rightarrow> bool" where
  "one_permitted C cred sent \<longleftrightarrow> sent = [] \<or> (\<exists>q. sent = [q] \<and> permitted C cred q)"

lemma one_permitted_none [simp]: "one_permitted C cred []"
  by (simp add: one_permitted_def)

lemma upstream_permitted:
  assumes "upstream cred (logged ask) verb path body limit ([], w) = (r, (sent, w'))"
    and "\<And>token. permitted C (Inr token) \<lparr>uq_Method = verb, uq_Path = path, uq_Body = body, uq_Bearer = token\<rparr>"
  shows "one_permitted C cred sent"
  using upstream_logged [OF assms(1)] assms(2) by (auto simp: one_permitted_def)

lemma action_permitted:
  assumes "control_action C cred (logged ask) path payload ([], w) = (r, (sent, w'))"
    and "\<And>token. permitted C (Inr token) \<lparr>uq_Method = ''POST'', uq_Path = path, uq_Body = Some payload, uq_Bearer = token\<rparr>"
  shows "one_permitted C cred sent"
  using assms(1) upstream_permitted [OF _ assms(2)]
  by (auto simp: control_action_def split: sum.splits prod.splits)

lemma policy_permitted:
  assumes "control_policy C cred (logged ask) r ([], w) = (resp, (sent, w'))" "co_Method r \<in> {''GET'', ''POST''}"
  shows "one_permitted C cred sent"
proof (cases "co_Method r = ''POST''")
  case post: True
  show ?thesis
  proof (cases "readJSON (dec_command C) (co_Body r)")
    case (Inl e)
    then show ?thesis using assms(1) post by (simp add: control_policy_def one_permitted_def)
  next
    case (Inr command)
    obtain inp actor where cmd: "command = (inp, actor)" by force
    show ?thesis
    proof (cases "PolicyInput_valid inp \<and> validUsername actor")
      case True
      then have "permitted C (Inr token) \<lparr>uq_Method = ''POST'', uq_Path = ''/agones/fleet/v1/admin/policy'',
          uq_Body = Some (enc_command C (inp, actor)), uq_Bearer = token\<rparr>" for token
        by (auto simp: permitted_def)
      from upstream_permitted [OF _ this] show ?thesis
        using assms(1) post Inr cmd True by (auto simp: control_policy_def split: prod.splits sum.splits)
    next
      case False
      then show ?thesis using assms(1) post Inr cmd by (auto simp: control_policy_def one_permitted_def)
    qed
  qed
next
  case False
  have "permitted C (Inr token) \<lparr>uq_Method = ''GET'', uq_Path = ''/agones/fleet/v1/admin/policy'',
      uq_Body = None, uq_Bearer = token\<rparr>" for token
    by (simp add: permitted_def)
  from upstream_permitted [OF _ this] show ?thesis
    using assms False
    by (auto simp: control_policy_def split: prod.splits sum.splits if_splits)
qed

lemma permitted_fixed:
  "permitted C (Inr token) \<lparr>uq_Method = ''GET'', uq_Path = ''/agones/fleet/v1/admin/status'', uq_Body = None, uq_Bearer = token\<rparr>"
  "permitted C (Inr token) \<lparr>uq_Method = ''POST'', uq_Path = ''/agones/fleet/v1/admin/retry-creation'', uq_Body = Some ''{}'', uq_Bearer = token\<rparr>"
  "workerName wid \<Longrightarrow>
     permitted C (Inr token) \<lparr>uq_Method = ''POST'', uq_Path = ''/agones/fleet/v1/admin/drain'', uq_Body = Some (enc_worker C wid), uq_Bearer = token\<rparr>"
  by (auto simp: permitted_def)

lemma broker_permitted:
  assumes "ControlServer_ServeHTTP C cred busy (logged ask) r ([], w) = (resp, (sent, w'))"
  shows "one_permitted C cred sent"
proof (cases "co_Path r = ''/v1/policy''")
  case True
  then show ?thesis
    using assms policy_permitted [of C cred ask r w resp sent w']
    by (simp add: ControlServer_ServeHTTP_def Let_def split: if_splits)
next
  case False
  then show ?thesis
    using assms
    by (auto simp: ControlServer_ServeHTTP_def Let_def permitted_fixed
        split: if_splits sum.splits prod.splits
        elim!: upstream_permitted action_permitted)
qed

subsection \<open>A concrete console\<close>

definition ex_wid :: string where
  "ex_wid = replicate 32 (CHR ''a'')"

definition ex_input :: PolicyInput where
  "ex_input = \<lparr>pi_ExpectedRevision = 1, pi_RoomsPerInstance = 4, pi_CPURequestMillicores = 500, pi_CPULimitMillicores = 500\<rparr>"

text \<open>One instance, ready to be drained.\<close>

definition ex_t :: txn where
  "ex_t = upd_worker ex_wid (\<lambda>w. w\<lparr>w_State := WReady\<rparr>) (snd (newWorker ex_cfg (\<lambda>_. ex_wid) 50 2 \<lparr>t_s = NewState, t_n = 0\<rparr>))"

definition ex_C :: control_codec where
  "ex_C = \<lparr>enc_command = (\<lambda>_. ''{}''), dec_command = (\<lambda>_. Some (ex_input, ''ops'')),
     enc_worker = (\<lambda>s. ''{'' @ s @ ''}''), dec_worker = (\<lambda>s. Some (butlast (tl s))), dec_empty = (\<lambda>_. Some ()),
     enc_accepted = ''{}'', status_doc = (\<lambda>_. True), dec_accepted = (\<lambda>_. Some True), enc_doc = (\<lambda>_. ''{}''),
     dec_doc = (\<lambda>_. Some (policy_doc (Policy ex_cfg (updated ex_cfg 60 ex_input ''ops'' (t_s ex_t))))),
     enc_caps = ''{}'', enc_error = (\<lambda>s. s), dec_error = (\<lambda>s. Some (butlast s)), dec_caps = (\<lambda>_. None)\<rparr>"

definition ex_manager_cd :: codec where
  "ex_manager_cd = ex_cd\<lparr>dec_policy := (\<lambda>_. Some (policy_update ex_input ''ops'')), dec_drain := (\<lambda>s. Some (butlast (tl s)))\<rparr>"

definition ex_source :: source where
  "ex_source = \<lparr>ds_AllowManagement = True, ds_cached = True\<rparr>"

definition ex_broker :: "txn server" where
  "ex_broker = broker ex_C (Inr (cfg_AdminToken ex_cfg)) False (manager_ask ex_cfg ex_mac ex_manager_cd ex_ro ex_rnd 60 (\<lambda>_. ''{}''))"

lemma ex_drain_wire: "drain_wire ex_C ex_manager_cd (\<lambda>_. ''{}'') ex_wid" "workerName ex_wid"
  by code_simp+

lemma ex_policy_wire: "policy_wire ex_C ex_manager_cd (\<lambda>_. ''{}'') ex_input ''ops''" "PolicyInput_valid ex_input" "validUsername ''ops''"
  by code_simp+

lemma ex_carries: "carries_policy ex_C (\<lambda>_. ''{}'') (Policy ex_cfg (updated ex_cfg 60 ex_input ''ops'' (t_s ex_t)))"
  by (simp add: carries_policy_def ex_C_def) code_simp

lemma ex_revision: "p_Revision (policy ex_cfg (t_s ex_t)) = 1" "length (s_PolicyAudit (t_s ex_t)) \<le> 100"
  by code_simp+

lemma ex_drains: "case Drain ex_rnd 60 ex_wid ex_t of Inr t \<Rightarrow> map_option w_State (map_of (t_workers t) ex_wid) = Some WDraining | Inl _ \<Rightarrow> False"
  by code_simp

definition ex_drain_request :: control_request where
  "ex_drain_request = \<lparr>co_Host = ''fleet-console-control'', co_RawQuery = '''', co_RawPath = '''', co_EscapedPath = ''/v1/drain'',
     co_Path = ''/v1/drain'', co_Method = ''POST'', co_ContentLength = 34,
     co_Body = \<lparr>jb_ContentType = Some ''application/json'', jb_Data = Body (''{'' @ ex_wid @ ''}'')\<rparr>\<rparr>"

definition ex_upstream :: "unit asker" where
  "ex_upstream r w = (UpReply 202 '''' (Some ''{}''), w)"

subsection \<open>Properties\<close>

text \<open>
  C28. Draining from the console is the manager's drain: with the broker holding the administrator token and
  the encodings carrying the identifier and the replies, the console's call returns success exactly when the
  manager's transaction does, leaves exactly its state and forgets the cached snapshot; an unknown worker is
  404 worker_not_found, one that cannot be drained 409 worker_not_drainable, and an error changes nothing.
\<close>

theorem console_drain_refines:
  assumes "cfg_AdminToken cfg \<noteq> ''''" "drain_wire C cd enc wid" "workerName wid" "ds_AllowManagement d"
  shows "DataSource_Drain C (Some (broker C (Inr (cfg_AdminToken cfg)) False (manager_ask cfg mac cd ro rnd now enc))) wid d t
    = drain_outcome d t (Drain rnd now wid t)"
  using assms by (rule drain_end_to_end)

theorem console_drain_refines_witness:
  "\<exists>t'. DataSource_Drain ex_C (Some ex_broker) ex_wid ex_source ex_t = (Inr (), invalidateSnapshot ex_source, t')
     \<and> map_option w_State (map_of (t_workers t') ex_wid) = Some WDraining"
  using console_drain_refines [of ex_cfg ex_C ex_manager_cd "\<lambda>_. ''{}''" ex_wid ex_source ex_mac ex_ro ex_rnd 60 ex_t]
    ex_drain_wire ex_drains
  by (auto simp: ex_broker_def ex_cfg_def ex_source_def drain_outcome_def split: sum.splits)

text \<open>
  C29. Changing the policy from the console is the manager's optimistic update: an input the console accepts is
  never refused by the manager as invalid, the update takes place exactly when the expected revision is the
  current one (the console then gets the new policy and forgets the cached snapshot), and is otherwise
  409 policy_conflict and changes nothing.
\<close>

theorem console_policy_refines:
  assumes "cfg_AdminToken cfg \<noteq> ''''" "policy_wire C cd enc inp actor" "PolicyInput_valid inp" "validUsername actor"
    and "ds_AllowManagement d" "length (s_PolicyAudit (t_s t)) \<le> 100"
    and "carries_policy C enc (Policy cfg (updated cfg now inp actor (t_s t)))"
  shows "DataSource_UpdatePolicy C (Some (broker C (Inr (cfg_AdminToken cfg)) False (manager_ask cfg mac cd ro rnd now enc)))
      inp actor d t
    = (if p_Revision (policy cfg (t_s t)) = pi_ExpectedRevision inp
       then (Inr (policy_doc (Policy cfg (updated cfg now inp actor (t_s t)))), invalidateSnapshot d,
             t\<lparr>t_s := updated cfg now inp actor (t_s t)\<rparr>)
       else (fail 409 ''policy_conflict'', d, t))"
  using assms by (rule policy_end_to_end)

theorem console_policy_refines_witness:
  "DataSource_UpdatePolicy ex_C (Some ex_broker) ex_input ''ops'' ex_source ex_t =
     (Inr (policy_doc (Policy ex_cfg (updated ex_cfg 60 ex_input ''ops'' (t_s ex_t)))), invalidateSnapshot ex_source,
      ex_t\<lparr>t_s := updated ex_cfg 60 ex_input ''ops'' (t_s ex_t)\<rparr>)"
  using console_policy_refines [of ex_cfg ex_C ex_manager_cd "\<lambda>_. ''{}''" ex_input "''ops''" ex_source ex_t 60 ex_mac ex_ro ex_rnd]
    ex_policy_wire ex_carries ex_revision
  by (simp add: ex_broker_def ex_cfg_def ex_source_def) (simp add: ex_input_def)

text \<open>
  C30. The broker is no proxy: whatever request it serves and whatever the fleet manager answers, it sends at
  most one request on, with its own credential, and only one of: reading the status or the policy, retrying
  creation, draining a worker with a well-formed identifier, or a policy update whose values and actor passed
  validation. Nothing else of the caller's request reaches the manager.
\<close>

theorem broker_is_no_proxy:
  assumes "ControlServer_ServeHTTP C cred busy (logged ask) r ([], w) = (resp, (sent, w'))"
  shows "sent = [] \<or> (\<exists>q. sent = [q] \<and> permitted C cred q)"
  using broker_permitted [OF assms] by (simp add: one_permitted_def)

theorem broker_is_no_proxy_witness:
  "\<exists>q. fst (snd (ControlServer_ServeHTTP ex_C (Inr ''token'') False (logged ex_upstream) ex_drain_request ([], ()))) = [q]
     \<and> permitted ex_C (Inr ''token'') q"
proof -
  obtain resp sent w' where R: "ControlServer_ServeHTTP ex_C (Inr ''token'') False (logged ex_upstream) ex_drain_request ([], ())
      = (resp, (sent, w'))"
    by (metis prod.collapse)
  moreover have "length (fst (snd (ControlServer_ServeHTTP ex_C (Inr ''token'') False (logged ex_upstream) ex_drain_request ([], ())))) = 1"
    by code_simp
  ultimately show ?thesis using broker_is_no_proxy [OF R] by auto
qed

end
