(* ===== verification/Console_Alerts.thy ===== *)
theory Console_Alerts
  imports Console_Config
begin

text \<open>
  Alerting of the operations console: \<^verbatim>\<open>internal/console/alerts.go\<close>, with the storage contract of
  \<^verbatim>\<open>save\<close> in \<^verbatim>\<open>internal/console/operations_file.go\<close>.

  \<^verbatim>\<open>evaluate\<close> holds its lock twice, around the evaluation and around the bookkeeping after the
  notification was sent; it is two definitions, between which other operations may run. The environment
  says how saving ends (\<open>save_outcome\<close>) and whether the notification was delivered. A notification is
  the list of its lines as data; their rendering as text is not modelled. Times are Unix seconds.
\<close>

subsection \<open>State\<close>

record AlertConfig =
  ac_Enabled :: bool
  ac_FeishuEnabled :: bool
  ac_WaitP95MS :: float64
  ac_FrameP99MS :: float64
  ac_HoldSeconds :: int
  ac_CooldownSeconds :: int
  ac_MinSamples :: int

record AlertUpdate =
  up_ExpectedRevision :: int
  up_Config :: AlertConfig
  up_FeishuWebhook :: "string option"
  up_FeishuSigningSecret :: "string option"

record alertSample =
  sm_Key :: string
  sm_Kind :: string
  sm_WorkerID :: string
  sm_Region :: string
  sm_Source :: string
  sm_Value :: float64
  sm_Threshold :: float64
  sm_Known :: bool
  sm_Breached :: bool

datatype alert_state = AlertNew | AlertUnknown | AlertPending | AlertFiring | AlertRecovering | AlertHealthy

record alertCondition =
  al_Key :: string
  al_Kind :: string
  al_WorkerID :: string
  al_Region :: string
  al_Source :: string
  al_State :: alert_state
  al_Since :: int
  al_LastObservedAt :: int
  al_LastNotifiedAt :: int
  al_LastAttemptAt :: int
  al_Value :: float64
  al_Threshold :: float64
  al_Firing :: bool
  al_RecoverySince :: int
  al_RecoveryPending :: bool

record alertEvent =
  ev_At :: int
  ev_Key :: string
  ev_Kind :: string
  ev_Event :: string
  ev_WorkerID :: string
  ev_Value :: float64

record alertDelivery =
  de_LastSuccessAt :: int
  de_LastErrorCode :: string

record alertAudit =
  aa_At :: int
  aa_Actor :: string
  aa_Revision :: int
  aa_WebhookChanged :: bool
  aa_SigningChanged :: bool

record operationsState =
  op_Revision :: int
  op_Config :: AlertConfig
  op_FeishuWebhook :: string
  op_FeishuSigningSecret :: string
  op_Active :: "alertCondition gomap"
  op_History :: "alertEvent list"
  op_Delivery :: alertDelivery
  op_Audit :: "alertAudit list"

definition defaultAlerts :: AlertConfig where
  "defaultAlerts = \<lparr>ac_Enabled = True, ac_FeishuEnabled = False, ac_WaitP95MS = Fin 1000, ac_FrameP99MS = Fin 100,
     ac_HoldSeconds = 60, ac_CooldownSeconds = 600, ac_MinSamples = 5\<rparr>"

definition AlertConfig_valid :: "AlertConfig \<Rightarrow> bool" where
  "AlertConfig_valid c \<longleftrightarrow> finite_float (ac_WaitP95MS c) \<and> finite_float (ac_FrameP99MS c)
     \<and> Fin 100 \<le> ac_WaitP95MS c \<and> ac_WaitP95MS c \<le> Fin 10000
     \<and> Fin 10 \<le> ac_FrameP99MS c \<and> ac_FrameP99MS c \<le> Fin 1000
     \<and> 15 \<le> ac_HoldSeconds c \<and> ac_HoldSeconds c \<le> 1800
     \<and> 60 \<le> ac_CooldownSeconds c \<and> ac_CooldownSeconds c \<le> 86400
     \<and> 1 \<le> ac_MinSamples c \<and> ac_MinSamples c \<le> 1000"

text \<open>The state of a new operations file.\<close>

definition new_operations :: operationsState where
  "new_operations = \<lparr>op_Revision = 1, op_Config = defaultAlerts, op_FeishuWebhook = '''', op_FeishuSigningSecret = '''',
     op_Active = [], op_History = [], op_Delivery = \<lparr>de_LastSuccessAt = 0, de_LastErrorCode = ''''\<rparr>, op_Audit = []\<rparr>"

text \<open>
  Saving publishes the new state by a rename. It can fail before that, leaving the state as it was, or
  after it, when the directory cannot be synced: then the new state is in force although an error is
  returned.
\<close>

datatype save_outcome = Stored | StoredNotSynced | NotStored sourceError

definition last_n :: "nat \<Rightarrow> 'a list \<Rightarrow> 'a list" where
  "last_n n xs = (if length xs > n then drop (length xs - n) xs else xs)"

text \<open>
  \<^verbatim>\<open>cloneOperations\<close> encodes and decodes the state and ignores errors: a state with a number JSON
  cannot express is replaced by the zero state.
\<close>

definition op_encodable :: "operationsState \<Rightarrow> bool" where
  "op_encodable s \<longleftrightarrow> finite_float (ac_WaitP95MS (op_Config s)) \<and> finite_float (ac_FrameP99MS (op_Config s))
     \<and> list_all (\<lambda>(k, a). finite_float (al_Value a) \<and> finite_float (al_Threshold a)) (op_Active s)
     \<and> list_all (\<lambda>e. finite_float (ev_Value e)) (op_History s)"

definition zero_operations :: operationsState where
  "zero_operations = \<lparr>op_Revision = 0,
     op_Config = \<lparr>ac_Enabled = False, ac_FeishuEnabled = False, ac_WaitP95MS = Fin 0, ac_FrameP99MS = Fin 0,
       ac_HoldSeconds = 0, ac_CooldownSeconds = 0, ac_MinSamples = 0\<rparr>,
     op_FeishuWebhook = '''', op_FeishuSigningSecret = '''', op_Active = [], op_History = [],
     op_Delivery = \<lparr>de_LastSuccessAt = 0, de_LastErrorCode = ''''\<rparr>, op_Audit = []\<rparr>"

definition cloneOperations :: "operationsState \<Rightarrow> operationsState" where
  "cloneOperations s = (if op_encodable s then s else zero_operations)"

definition save ::
  "save_outcome \<Rightarrow> operationsState \<Rightarrow> operationsState \<Rightarrow> unit source_result \<times> operationsState" where
  "save out next_state s =
     (if \<not> op_encodable next_state then (fail 503 ''alerts_storage_unavailable'', s)
      else case out of
        Stored \<Rightarrow> (Inr (), next_state)
      | StoredNotSynced \<Rightarrow> (fail 503 ''alerts_storage_unavailable'', next_state)
      | NotStored e \<Rightarrow> (Inl e, s))"

subsection \<open>Configuration\<close>

definition operations_update ::
  "net_env \<Rightarrow> save_outcome \<Rightarrow> int \<Rightarrow> AlertUpdate \<Rightarrow> string \<Rightarrow> operationsState
     \<Rightarrow> unit source_result \<times> operationsState" where
  "operations_update net out now inp actor s =
     (if \<not> AlertConfig_valid (up_Config inp) \<or> \<not> validUsername actor then (fail 400 ''alerts_invalid'', s)
      else if (case up_FeishuWebhook inp of None \<Rightarrow> False | Some h \<Rightarrow> \<not> validFeishuWebhook net h) then (fail 400 ''alerts_invalid'', s)
      else if (case up_FeishuSigningSecret inp of None \<Rightarrow> False | Some h \<Rightarrow> \<not> validFeishuSecret h)
      then (fail 400 ''alerts_invalid'', s)
      else if up_ExpectedRevision inp \<noteq> op_Revision s then (fail 409 ''alerts_conflict'', s)
      else let c = cloneOperations s;
               n1 = c\<lparr>op_Revision := op_Revision c + 1, op_Config := up_Config inp,
                      op_FeishuWebhook := (case up_FeishuWebhook inp of None \<Rightarrow> op_FeishuWebhook c | Some h \<Rightarrow> h),
                      op_FeishuSigningSecret :=
                        (case up_FeishuSigningSecret inp of None \<Rightarrow> op_FeishuSigningSecret c | Some h \<Rightarrow> h)\<rparr>
           in if ac_FeishuEnabled (op_Config n1) \<and> op_FeishuWebhook n1 = ''''
              then (fail 400 ''feishu_not_configured'', s)
              else save out (n1\<lparr>op_Audit := last_n 100 (op_Audit n1 @
                     [\<lparr>aa_At = now, aa_Actor = actor, aa_Revision = op_Revision n1,
                       aa_WebhookChanged = (up_FeishuWebhook inp \<noteq> None),
                       aa_SigningChanged = (up_FeishuSigningSecret inp \<noteq> None)\<rparr>])\<rparr>) s)"

subsection \<open>Samples\<close>

definition worker_fresh :: "int \<Rightarrow> float64 \<Rightarrow> bool" where
  "worker_fresh now hb \<longleftrightarrow> hb > Fin 0 \<and> fsub (Fin (of_int now)) hb \<le> Fin 15 \<and> fsub hb (Fin 5) \<le> Fin (of_int now)"

definition breach :: "alertSample \<Rightarrow> alertSample" where
  "breach s = s\<lparr>sm_Breached := (sm_Known s \<and> sm_Threshold s < sm_Value s)\<rparr>"

definition worker_sample ::
  "string \<Rightarrow> (string \<times> json) list \<Rightarrow> string \<Rightarrow> string \<Rightarrow> float64 \<Rightarrow> float64 \<Rightarrow> bool \<Rightarrow> alertSample" where
  "worker_sample i w kind src threshold v known = breach
     \<lparr>sm_Key = kind @ '':'' @ i, sm_Kind = kind, sm_WorkerID = i, sm_Region = textField w ''region'',
      sm_Source = src, sm_Value = v, sm_Threshold = threshold, sm_Known = known, sm_Breached = False\<rparr>"

definition window_sample ::
  "AlertConfig \<Rightarrow> int \<Rightarrow> string \<Rightarrow> (string \<times> json) list \<Rightarrow> string \<Rightarrow> string \<Rightarrow> alertSample" where
  "window_sample cfg now i w fld kind =
     (let window = mapObject (vfield (mapObject (vfield w ''metrics'')) fld);
          hb = fst (number (vfield w ''last_heartbeat''));
          (count, ok) = number (vfield window ''count'');
          (age, ageOK) = number (vfield window ''last_sample_age_seconds'');
          (v, vOK) = number (vfield window ''p95'');
          seconds = fst (number (vfield window ''window_seconds''))
      in worker_sample i w kind ''client_reported'' (ac_WaitP95MS cfg) v
           (worker_fresh now hb \<and> ok \<and> Fin (of_int (ac_MinSamples cfg)) \<le> count \<and> seconds = Fin 60
            \<and> ageOK \<and> Fin 0 \<le> age \<and> fsub (fadd age (Fin (of_int now))) hb \<le> Fin 60 \<and> vOK \<and> Fin 0 \<le> v))"

definition frame_sample :: "AlertConfig \<Rightarrow> int \<Rightarrow> string \<Rightarrow> (string \<times> json) list \<Rightarrow> alertSample" where
  "frame_sample cfg now i w =
     (let hb = fst (number (vfield w ''last_heartbeat''));
          (v, ok) = number (vfield (mapObject (vfield w ''metrics'')) ''frame_p99_ms'')
      in worker_sample i w ''frame_p99_high'' ''game_server'' (ac_FrameP99MS cfg) v
           (worker_fresh now hb \<and> ok \<and> Fin 0 \<le> v))"

definition worker_samples :: "AlertConfig \<Rightarrow> int \<Rightarrow> (string \<times> json) list \<Rightarrow> alertSample list" where
  "worker_samples cfg now w =
     (let i = textField w ''id''
      in if \<not> workerName i then []
         else [window_sample cfg now i w ''client_presentation_to_ready_ms'' ''client_wait_high'',
               window_sample cfg now i w ''client_presentation_to_settlement_ms'' ''client_settlement_wait_high'',
               frame_sample cfg now i w])"

definition capacity_sample :: "(string \<times> json) list \<Rightarrow> alertSample list" where
  "capacity_sample r =
     (let name = textField r ''name'';
          n = length (filter (\<lambda>p. vfield p ''phase'' = VText ''Pending''
                                 \<and> vfield p ''scheduling_capacity_shortage'' = VBool True) (objects (vfield r ''pods'')))
      in if \<not> dnsName name then []
         else [breach \<lparr>sm_Key = ''physical_capacity_shortage:'' @ name, sm_Kind = ''physical_capacity_shortage'',
                sm_WorkerID = '''', sm_Region = name, sm_Source = ''kubernetes_scheduler'', sm_Value = Fin (of_nat n),
                sm_Threshold = Fin 0, sm_Known = (vfield r ''ok'' = VBool True), sm_Breached = False\<rparr>])"

text \<open>Later samples with the same key replace earlier ones.\<close>

definition alertSamples :: "(string \<times> json) list \<Rightarrow> AlertConfig \<Rightarrow> int \<Rightarrow> alertSample gomap" where
  "alertSamples snapshot cfg now =
     (let fleet = mapObject (vfield snapshot ''fleet'');
          ws = (if vfield fleet ''ok'' = VBool True
                then concat (map (worker_samples cfg now) (objects (vfield fleet ''workers''))) else []);
          rs = concat (map capacity_sample (objects (vfield snapshot ''regions'')))
      in fold (\<lambda>s m. mput (sm_Key s) s m) (ws @ rs) [])"

subsection \<open>Evaluation\<close>

definition lose_sight :: "alertCondition \<Rightarrow> alertCondition" where
  "lose_sight a = a\<lparr>al_State := AlertUnknown, al_Since := (if al_Firing a then al_Since a else 0), al_RecoverySince := 0\<rparr>"

definition new_condition :: "string \<Rightarrow> alertSample \<Rightarrow> alertCondition" where
  "new_condition key s = \<lparr>al_Key = key, al_Kind = sm_Kind s, al_WorkerID = sm_WorkerID s, al_Region = sm_Region s,
     al_Source = sm_Source s, al_State = AlertNew, al_Since = 0, al_LastObservedAt = 0, al_LastNotifiedAt = 0,
     al_LastAttemptAt = 0, al_Value = Fin 0, al_Threshold = Fin 0, al_Firing = False, al_RecoverySince = 0,
     al_RecoveryPending = False\<rparr>"

definition obs_gap :: "int \<Rightarrow> alertCondition \<Rightarrow> bool" where
  "obs_gap now a \<longleftrightarrow> al_LastObservedAt a > 0 \<and> now - al_LastObservedAt a > 20"

text \<open>A known sample; the second component names the event that it adds to the history.\<close>

definition observe :: "AlertConfig \<Rightarrow> int \<Rightarrow> alertSample \<Rightarrow> alertCondition \<Rightarrow> alertCondition \<times> string option" where
  "observe cfg now s a =
     (let a1 = a\<lparr>al_LastObservedAt := now, al_Value := sm_Value s, al_Threshold := sm_Threshold s\<rparr>
      in if sm_Breached s
         then let a2 = a1\<lparr>al_RecoverySince := 0, al_RecoveryPending := False\<rparr>
              in if \<not> al_Firing a
                 then let a3 = a2\<lparr>al_Since := (if al_Since a = 0 \<or> obs_gap now a then now else al_Since a),
                                  al_State := AlertPending\<rparr>
                      in if now - al_Since a3 \<ge> ac_HoldSeconds cfg
                         then (a3\<lparr>al_Firing := True, al_State := AlertFiring\<rparr>, Some ''firing'')
                         else (a3, None)
                 else (a2\<lparr>al_State := AlertFiring\<rparr>, None)
         else if al_Firing a
         then let a2 = a1\<lparr>al_RecoverySince := (if al_RecoverySince a = 0 \<or> obs_gap now a then now else al_RecoverySince a),
                          al_State := AlertRecovering\<rparr>
              in if now - al_RecoverySince a2 \<ge> ac_HoldSeconds cfg
                 then (a2\<lparr>al_Firing := False, al_State := AlertHealthy, al_Since := 0,
                          al_RecoveryPending := (al_LastNotifiedAt a > 0)\<rparr>, Some ''recovered'')
                 else (a2, None)
         else (a1\<lparr>al_State := AlertHealthy, al_Since := 0\<rparr>, None))"

record notice =
  nt_Key :: string
  nt_Recovery :: bool
  nt_Condition :: alertCondition

definition wants_notice :: "AlertConfig \<Rightarrow> int \<Rightarrow> nat \<Rightarrow> alertCondition \<Rightarrow> bool" where
  "wants_notice cfg now sent_keys a \<longleftrightarrow>
     (let fire = al_Firing a \<and> al_State a = AlertFiring
                 \<and> (al_LastNotifiedAt a = 0 \<or> now - al_LastNotifiedAt a \<ge> ac_CooldownSeconds cfg)
      in ac_FeishuEnabled cfg \<and> (fire \<or> al_RecoveryPending a) \<and> now - al_LastAttemptAt a \<ge> 30 \<and> sent_keys < 20)"

record evaluation =
  el_Active :: "alertCondition gomap"
  el_History :: "alertEvent list"
  el_Notices :: "notice list"

definition evaluate_sample :: "AlertConfig \<Rightarrow> int \<Rightarrow> alertSample gomap \<Rightarrow> string \<Rightarrow> evaluation \<Rightarrow> evaluation" where
  "evaluate_sample cfg now samples key e =
     (case map_of samples key of
        None \<Rightarrow> e
      | Some s \<Rightarrow>
          (let a = (case map_of (el_Active e) key of None \<Rightarrow> new_condition key s | Some a \<Rightarrow> a)
           in if \<not> sm_Known s then e\<lparr>el_Active := mput key (lose_sight a) (el_Active e)\<rparr>
              else let (a1, event) = observe cfg now s a;
                       e1 = (case event of None \<Rightarrow> e
                             | Some n \<Rightarrow> e\<lparr>el_History := el_History e @
                                 [\<lparr>ev_At = now, ev_Key = key, ev_Kind = al_Kind a1, ev_Event = n,
                                   ev_WorkerID = al_WorkerID a1, ev_Value = al_Value a1\<rparr>]\<rparr>)
                   in if wants_notice cfg now (length (el_Notices e)) a1
                      then let a2 = a1\<lparr>al_LastAttemptAt := now\<rparr>
                           in e1\<lparr>el_Active := mput key a2 (el_Active e),
                                 el_Notices := el_Notices e @
                                   [\<lparr>nt_Key = key, nt_Recovery = al_RecoveryPending a2, nt_Condition = a2\<rparr>]\<rparr>
                      else e1\<lparr>el_Active := mput key a1 (el_Active e)\<rparr>))"

definition stale :: "int \<Rightarrow> alertCondition \<Rightarrow> bool" where
  "stale now a \<longleftrightarrow> (al_State a = AlertHealthy \<or> al_State a = AlertUnknown) \<and> \<not> al_Firing a
     \<and> \<not> al_RecoveryPending a \<and> now - al_LastObservedAt a > 86400"

definition mark_missing :: "alertSample gomap \<Rightarrow> alertCondition gomap \<Rightarrow> alertCondition gomap" where
  "mark_missing samples m = map (\<lambda>(k, a). (k, if map_of samples k = None then lose_sight a else a)) m"

definition evaluate_next :: "int \<Rightarrow> alertSample gomap \<Rightarrow> operationsState \<Rightarrow> operationsState \<times> notice list" where
  "evaluate_next now samples s =
     (let e0 = \<lparr>el_Active = mark_missing samples (op_Active s), el_History = op_History s, el_Notices = []\<rparr>;
          e = fold (evaluate_sample (op_Config s) now samples) (sort (mkeys samples)) e0
      in (s\<lparr>op_Active := mfilter (\<lambda>k a. \<not> stale now a) (el_Active e),
            op_History := last_n 200 (el_History e)\<rparr>, el_Notices e))"

text \<open>The first half returns the new state and, when one is to be sent, the notification with its revision.\<close>

definition evaluate_begin ::
  "save_outcome \<Rightarrow> int \<Rightarrow> (string \<times> json) list \<Rightarrow> operationsState \<Rightarrow> (int \<times> notice list) option \<times> operationsState" where
  "evaluate_begin out now snapshot s =
     (if \<not> ac_Enabled (op_Config (cloneOperations s)) then (None, s)
      else let samples = alertSamples snapshot (op_Config (cloneOperations s)) now;
               (n, notices) = evaluate_next now samples (cloneOperations s)
           in if int (length (op_Active n)) > 5000 then (None, s)
              else case save out n s of
                (Inl _, s1) \<Rightarrow> (None, s1)
              | (Inr _, s1) \<Rightarrow>
                  if notices = [] \<or> op_FeishuWebhook n = '''' \<or> \<not> ac_FeishuEnabled (op_Config n) then (None, s1)
                  else (Some (op_Revision n, notices), s1))"

definition mark_delivered :: "int \<Rightarrow> notice \<Rightarrow> alertCondition gomap \<Rightarrow> alertCondition gomap" where
  "mark_delivered now n m = mupd (nt_Key n) (\<lambda>a. a\<lparr>al_LastNotifiedAt := now,
     al_RecoveryPending := (if nt_Recovery n then False else al_RecoveryPending a)\<rparr>) m"

definition evaluate_finish ::
  "save_outcome \<Rightarrow> int \<Rightarrow> bool \<Rightarrow> int \<times> notice list \<Rightarrow> operationsState \<Rightarrow> operationsState" where
  "evaluate_finish out now delivered msg s =
     (if op_Revision s \<noteq> fst msg then s
      else let c = cloneOperations s;
               n = (if \<not> delivered
                    then c\<lparr>op_Delivery := (op_Delivery c)\<lparr>de_LastErrorCode := ''feishu_delivery_failed''\<rparr>\<rparr>
                    else c\<lparr>op_Delivery := \<lparr>de_LastSuccessAt = now, de_LastErrorCode = ''''\<rparr>,
                           op_Active := fold (mark_delivered now) (snd msg) (op_Active c)\<rparr>)
           in snd (save out n s))"

record alerts_view =
  vw_revision :: int
  vw_config :: AlertConfig
  vw_feishu_configured :: bool
  vw_signing_configured :: bool
  vw_active :: "alertCondition list"
  vw_history :: "alertEvent list"
  vw_delivery :: alertDelivery
  vw_audit :: "alertAudit list"

definition operations_view :: "operationsState \<Rightarrow> alerts_view" where
  "operations_view s = \<lparr>vw_revision = op_Revision s, vw_config = op_Config s,
     vw_feishu_configured = (op_FeishuWebhook s \<noteq> ''''), vw_signing_configured = (op_FeishuSigningSecret s \<noteq> ''''),
     vw_active = sort_key al_Key (filter (\<lambda>a. al_State a \<noteq> AlertHealthy) (map snd (op_Active s))),
     vw_history = op_History s, vw_delivery = op_Delivery s, vw_audit = op_Audit s\<rparr>"

end
