(* ===== verification/Console_Redact.thy ===== *)
theory Console_Redact
  imports Console_Json "HOL-Library.Sublist"
begin

text \<open>
  Redaction of texts that may hold credentials: \<^verbatim>\<open>credentialLine\<close>, \<^verbatim>\<open>safeText\<close> and \<^verbatim>\<open>sourceCode\<close> of
  \<^verbatim>\<open>internal/console/source.go\<close> and \<^verbatim>\<open>smallSafe\<close> of \<^verbatim>\<open>internal/console/onboarding.go\<close>. The regular
  expression is written as a value of a small datatype with an executable matcher on bytes; under the flag i
  the letters s and k also stand for U+017F and U+212A, as in Go.
\<close>

subsection \<open>Regular expressions\<close>

datatype rx = Empty | Ch "char \<Rightarrow> bool" | Cat rx rx | Or rx rx | Many rx

text \<open>What may be left of a text after a match at its start; the number bounds the repetitions.\<close>

fun rests :: "nat \<Rightarrow> rx \<Rightarrow> string \<Rightarrow> string list" where
  "rests n Empty s = [s]"
| "rests n (Ch P) [] = []"
| "rests n (Ch P) (c # s) = (if P c then [s] else [])"
| "rests n (Cat a b) s = concat (map (rests n b) (rests n a s))"
| "rests n (Or a b) s = rests n a s @ rests n b s"
| "rests 0 (Many a) s = [s]"
| "rests (Suc n) (Many a) s = s # concat (map (rests n (Many a)) (rests (Suc n) a s))"

definition MatchString :: "rx \<Rightarrow> string \<Rightarrow> bool" where
  "MatchString r s \<longleftrightarrow> list_ex (\<lambda>t. rests (length t) r t \<noteq> []) (suffixes s)"

fun seq :: "rx list \<Rightarrow> rx" where
  "seq [] = Empty"
| "seq (r # rs) = Cat r (seq rs)"

fun alts :: "rx list \<Rightarrow> rx" where
  "alts [] = Ch (\<lambda>_. False)"
| "alts [r] = r"
| "alts (r # rs) = Or r (alts rs)"

definition opt :: "rx \<Rightarrow> rx" where "opt r = Or r Empty"

definition many1 :: "rx \<Rightarrow> rx" where "many1 r = Cat r (Many r)"

definition one_of :: "string \<Rightarrow> rx" where "one_of cs = Ch (\<lambda>c. c \<in> set cs)"

text \<open>Letters that fold to the ASCII letters s and k.\<close>

definition long_s :: rx where "long_s = seq [one_of [CHR 0xC5], one_of [CHR 0xBF]]"

definition kelvin :: rx where "kelvin = seq [one_of [CHR 0xE2], one_of [CHR 0x84], one_of [CHR 0xAA]]"

definition folded :: "char \<Rightarrow> rx" where
  "folded c = (let r = Ch (\<lambda>x. ascii_lower x = c)
     in if c = CHR ''s'' then Or r long_s else if c = CHR ''k'' then Or r kelvin else r)"

definition word :: "string \<Rightarrow> rx" where "word s = seq (map folded s)"

definition lower_letter :: "char \<Rightarrow> bool" where
  "lower_letter c \<longleftrightarrow> CHR ''a'' \<le> ascii_lower c \<and> ascii_lower c \<le> CHR ''z''"

definition letters_or :: "string \<Rightarrow> rx" where
  "letters_or cs = Or (Ch (\<lambda>c. lower_letter c \<or> c \<in> set cs)) (Or long_s kelvin)"

definition digit_text :: string where "digit_text = ''0123456789''"

definition space_text :: string where "space_text = [CHR 0x09, CHR 0x0A, CHR 0x0C, CHR 0x0D, CHR '' '']"

definition spaces :: rx where "spaces = Many (one_of space_text)"

definition none_of :: "string \<Rightarrow> rx" where "none_of cs = Ch (\<lambda>c. c \<notin> set (cs @ space_text))"

subsection \<open>Credentials\<close>

definition credentialRegexp :: rx where
  "credentialRegexp = alts
     [seq [word ''authorization'', spaces, one_of '':=''],
      seq [word ''bearer'', many1 (one_of space_text), many1 (letters_or (digit_text @ ''._-''))],
      seq [alts [word ''password'', word ''passwd'', word ''secret'',
                 seq [alts [word ''access'', word ''refresh'', word ''bootstrap'', word ''admission'', word ''api''],
                      opt (one_of ''_-''), alts [word ''token'', word ''key'']],
                 seq [word ''signing'', opt (one_of ''_-''), word ''key'']],
           spaces, opt (one_of [CHR 0x22, CHR 0x27]), spaces, one_of '':=''],
      seq [word ''postgres'', opt (word ''ql''), word ''://''],
      seq [letters_or [], Many (letters_or (digit_text @ ''+.-'')), word ''://'', many1 (none_of ''/@:''), one_of '':'',
           many1 (none_of ''/@''), one_of ''@''],
      seq [word ''eyj'', seq (replicate 10 (letters_or (digit_text @ ''_-''))), Many (letters_or (digit_text @ ''_-'')),
           one_of ''.'', many1 (letters_or (digit_text @ ''_-'')), one_of ''.'']]"

definition credentialLine :: "string \<Rightarrow> bool" where
  "credentialLine s \<longleftrightarrow> MatchString credentialRegexp s"

definition safeText :: "string \<Rightarrow> string" where
  "safeText s =
     (if credentialLine s then ''[REDACTED: sensitive log line]''
      else if int (length s) > 16384 then take 16384 s @ '' [truncated]'' else s)"

definition smallSafe :: "string \<Rightarrow> string" where
  "smallSafe s = (let t = safeText s in if int (length t) > 512 then take 512 t else t)"

end
