(* ===== verification/Console_Enrollment.thy ===== *)
theory Console_Enrollment
  imports Console_Config Console_Redact Agones_Client
begin

text \<open>
  Node enrollment and retirement resources: \<^verbatim>\<open>internal/console/enrollment_client.go\<close>, the resource part of
  \<^verbatim>\<open>internal/console/onboarding.go\<close> and of \<^verbatim>\<open>retirement.go\<close>. The cluster, the clock, the credential file and
  the random source are an environment over a state \<open>'w\<close> (\<open>enroll_env\<close>), and so are the JSON decoders of
  the replies; request bodies are typed values. Times in resources are texts; \<open>ee_time\<close> is \<^verbatim>\<open>time.Parse\<close> in
  RFC 3339, \<open>None\<close> where it gives the zero time.
\<close>

subsection \<open>Names\<close>

definition enrollmentNamespace :: string where "enrollmentNamespace = ''fleet-enrollment-requests''"

definition enrollmentAPIVersion :: string where "enrollmentAPIVersion = ''infrastructure.nakama-agones.io/v1alpha1''"

definition enrollmentAPIPath :: string where
  "enrollmentAPIPath = ''/apis/'' @ enrollmentAPIVersion @ ''/namespaces/'' @ enrollmentNamespace"

definition enrollmentSecretPath :: string where
  "enrollmentSecretPath = ''/api/v1/namespaces/'' @ enrollmentNamespace @ ''/secrets''"

definition enrollmentSubject :: string where
  "enrollmentSubject = ''system:serviceaccount:fleet-enrollment-system:fleet-enrollment-submitter''"

definition alnum :: "char \<Rightarrow> bool" where
  "alnum c \<longleftrightarrow> (CHR ''a'' \<le> c \<and> c \<le> CHR ''z'') \<or> (CHR ''A'' \<le> c \<and> c \<le> CHR ''Z'') \<or> is_digit c"

text \<open>\<^verbatim>\<open>^[a-z0-9](?:[-a-z0-9]{0,61}[a-z0-9])?$\<close>\<close>

definition enrollmentLabel :: "string \<Rightarrow> bool" where
  "enrollmentLabel s \<longleftrightarrow> s \<noteq> [] \<and> int (length s) \<le> 63 \<and> lower_alnum (hd s) \<and> lower_alnum (last s)
     \<and> list_all (\<lambda>c. lower_alnum c \<or> c = CHR ''-'') s"

definition enrollmentID :: "string \<Rightarrow> bool" where
  "enrollmentID s \<longleftrightarrow> int (length s) = 32 \<and> list_all hex_lower s"

definition enrollmentUID :: "string \<Rightarrow> bool" where
  "enrollmentUID s \<longleftrightarrow> s \<noteq> [] \<and> int (length s) \<le> 128 \<and> list_all (\<lambda>c. alnum c \<or> c = CHR ''-'') s"

definition enrollmentVersion :: "string \<Rightarrow> bool" where
  "enrollmentVersion s \<longleftrightarrow> s \<noteq> [] \<and> int (length s) \<le> 32 \<and> list_all is_digit s"

definition enrollmentDigest :: "string \<Rightarrow> bool" where
  "enrollmentDigest s \<longleftrightarrow> int (length s) = 64 \<and> list_all hex_lower s"

definition enrollmentFingerprint :: "string \<Rightarrow> bool" where
  "enrollmentFingerprint s \<longleftrightarrow> HasPrefix s ''SHA256:'' \<and> int (length s) = 50
     \<and> list_all (\<lambda>c. alnum c \<or> c = CHR ''+'' \<or> c = CHR ''/'') (TrimPrefix s ''SHA256:'')"

subsection \<open>Configuration\<close>

record NodeOnboardingConfig =
  nc_Region :: string
  nc_ClusterID :: string
  nc_APIURL :: string
  nc_CAFile :: string
  nc_TokenFile :: string
  nc_GamePortMin :: int
  nc_GamePortMax :: int

record RegionConfig =
  rc_Name :: string
  rc_APIURL :: string
  rc_CAFile :: string
  rc_TokenFile :: string
  rc_Namespace :: string
  rc_SystemNamespace :: string
  rc_LogNamespace :: string
  rc_LogService :: string

text \<open>\<open>same\<close> says whether two paths exist and name the same file.\<close>

definition sameCredentialFile :: "(string \<Rightarrow> string \<Rightarrow> bool) \<Rightarrow> string \<Rightarrow> string \<Rightarrow> bool" where
  "sameCredentialFile same a b \<longleftrightarrow> b \<noteq> '''' \<and> (filepath_Clean a = filepath_Clean b \<or> same a b)"

definition onboarding_url_ok :: "Url \<Rightarrow> bool" where
  "onboarding_url_ok u \<longleftrightarrow> \<not> (u_Scheme u \<noteq> ''https'' \<or> u_Host u = '''' \<or> u_HasUser u \<or> u_RawQuery u \<noteq> '''' \<or> u_ForceQuery u
     \<or> u_Fragment u \<noteq> '''' \<or> u_Opaque u \<noteq> '''' \<or> u_RawPath u \<noteq> '''' \<or> u_Path u \<noteq> ''''
     \<or> list_ex (\<lambda>c. c \<in> {CHR 0x5C, CHR ''%'', CHR '' '', CHR 0x09, CHR 0x0D, CHR 0x0A}) (u_Host u)
     \<or> u_Host u \<noteq> map ascii_lower (u_Host u) \<or> HasSuffix (u_Hostname u) ''.'')"

definition trim_slashes :: "string \<Rightarrow> string" where
  "trim_slashes s = rev (dropWhile (\<lambda>c. c = CHR ''/'') (rev s))"

text \<open>The loop over the observed regions: whether one matches, or the error that ends it.\<close>

fun region_binding ::
  "(string \<Rightarrow> string \<Rightarrow> bool) \<Rightarrow> NodeOnboardingConfig \<Rightarrow> bool \<Rightarrow> RegionConfig list \<Rightarrow> bool result" where
  "region_binding same c found [] = Inr found"
| "region_binding same c found (r # rs) =
     (let found' = (found \<or> (rc_Name r = nc_Region c \<and> trim_slashes (rc_APIURL r) = nc_APIURL c \<and> rc_CAFile r = nc_CAFile c))
      in if sameCredentialFile same (nc_TokenFile c) (rc_TokenFile r)
         then Inl (Errorf ''node onboarding must not reuse observer credentials'')
         else region_binding same c found' rs)"

definition NodeOnboardingConfig_validate ::
  "net_env \<Rightarrow> (string \<Rightarrow> string \<Rightarrow> bool) \<Rightarrow> RegionConfig list \<Rightarrow> string \<Rightarrow> NodeOnboardingConfig \<Rightarrow> unit result" where
  "NodeOnboardingConfig_validate net same regions fleet_token c =
     (case url_Parse net (nc_APIURL c) of
        None \<Rightarrow> Inl (Errorf ''node onboarding requires a canonical HTTPS Kubernetes API URL'')
      | Some u \<Rightarrow>
          if \<not> onboarding_url_ok u then Inl (Errorf ''node onboarding requires a canonical HTTPS Kubernetes API URL'')
          else if u_Port u \<noteq> '''' \<and> \<not> (case Atoi (u_Port u) of None \<Rightarrow> False | Some p \<Rightarrow> 1 \<le> p \<and> p \<le> 65535 \<and> itoa p = u_Port u)
          then Inl (Errorf ''invalid node onboarding API port'')
          else if \<not> enrollmentLabel (nc_Region c) \<or> \<not> enrollmentLabel (nc_ClusterID c) \<or> has_dots (nc_Region c)
             \<or> has_dots (nc_ClusterID c) \<or> \<not> canonical_path (nc_TokenFile c) \<or> \<not> canonical_path (nc_CAFile c)
             \<or> nc_GamePortMin c < 1024 \<or> nc_GamePortMax c < nc_GamePortMin c \<or> nc_GamePortMax c > 65535
          then Inl (Errorf ''invalid node onboarding configuration'')
          else case region_binding same c False regions of
            Inl e \<Rightarrow> Inl e
          | Inr found \<Rightarrow>
              if sameCredentialFile same (nc_TokenFile c) fleet_token
              then Inl (Errorf ''node onboarding must not reuse Fleet credentials'')
              else if \<not> found
              then Inl (Errorf ''node onboarding must bind one configured region and its pinned cluster CA'')
              else Inr ())"

subsection \<open>Resources\<close>

record enrollmentMeta =
  em_Name :: string
  em_Namespace :: string
  em_UID :: string
  em_ResourceVersion :: string
  em_Generation :: int
  em_CreatedAt :: string

record enrollmentRef =
  rf_Name :: string
  rf_UID :: string

record enrollmentSpec =
  es_Region :: string
  es_Host :: string
  es_Port :: int
  es_Action :: string
  es_HostFingerprint :: string
  es_CredentialSecretRef :: "enrollmentRef option"
  es_ApprovedPreflightDigest :: string

record enrollmentCheck =
  ch_Name :: string
  ch_OK :: bool
  ch_Detail :: string

record enrollmentScan =
  sn_ID :: string
  sn_Host :: string
  sn_Port :: int
  sn_Region :: string
  sn_ExpiresAt :: int
  sn_Fingerprints :: "(string \<times> string) list"

record enrollmentPreflight =
  pf_ID :: string
  pf_Host :: string
  pf_Region :: string
  pf_NodeName :: string
  pf_ExpiresAt :: int
  pf_CanJoin :: bool
  pf_PrivateIP :: string
  pf_ExternalIP :: string
  pf_Interface :: string
  pf_CPUCores :: float64
  pf_MemoryMiB :: float64
  pf_DiskFreeGiB :: float64
  pf_ExistingInstallation :: bool
  pf_Checks :: "enrollmentCheck list"
  pf_Plan :: "string list"

record retirementBlocker =
  bl_Kind :: string
  bl_Namespace :: string
  bl_Name :: string
  bl_Reason :: string

record enrollmentJob =
  ej_ID :: string
  ej_Host :: string
  ej_Region :: string
  ej_NodeName :: string
  ej_NodeUID :: string
  ej_State :: string
  ej_Stage :: string
  ej_Error :: string
  ej_CreatedAt :: int
  ej_UpdatedAt :: int
  ej_Checks :: "enrollmentCheck list"
  ej_Phase :: string
  ej_Pending :: bool
  ej_Scan :: "enrollmentScan option"
  ej_Preflight :: "enrollmentPreflight option"
  ej_Blockers :: "retirementBlocker list"
  ej_AllowedSystemPods :: "retirementBlocker list"
  ej_BlockersTruncated :: bool

text \<open>Of the job in a status only its node name, stage and checks are read.\<close>

record enrollmentResource =
  ey_APIVersion :: string
  ey_Kind :: string
  ey_Metadata :: enrollmentMeta
  ey_Spec :: enrollmentSpec
  ey_Phase :: string
  ey_ObservedGeneration :: int
  ey_UpdatedAt :: string
  ey_Error :: string
  ey_PreflightDigest :: string
  ey_Scan :: "enrollmentScan option"
  ey_Preflight :: "enrollmentPreflight option"
  ey_JobNodeName :: string
  ey_JobStage :: string
  ey_JobChecks :: "enrollmentCheck list"

record retirementSpec =
  rs_Region :: string
  rs_NodeName :: string
  rs_NodeUID :: string
  rs_InternalIPs :: "string list"
  rs_ExternalIPs :: "string list"
  rs_ConfirmedNodeName :: string
  rs_ConfirmedIP :: string
  rs_PermanentRetirement :: bool

record retirementResource =
  ry_APIVersion :: string
  ry_Kind :: string
  ry_Metadata :: enrollmentMeta
  ry_Spec :: retirementSpec
  ry_Phase :: string
  ry_ObservedGeneration :: int
  ry_UpdatedAt :: string
  ry_Error :: string
  ry_JobStage :: string
  ry_Blockers :: "retirementBlocker list"
  ry_AllowedSystemPods :: "retirementBlocker list"
  ry_BlockersTruncated :: bool

subsection \<open>Requests to the cluster\<close>

record ssh_secret =
  ss_Name :: string
  ss_EnrollmentID :: string
  ss_OwnerName :: string
  ss_OwnerUID :: string
  ss_Password :: string

datatype patch_value = PatchText string | PatchRef enrollmentRef

datatype patch_op = TestOp string string | AddOp string patch_value

datatype en_value =
    NewEnrollment string enrollmentSpec
  | NewRetirement string retirementSpec
  | NewSecret ssh_secret
  | PatchEnrollment "patch_op list"
  | DeleteUID string

record en_request =
  nq_Method :: string
  nq_Path :: string
  nq_Value :: "en_value option"
  nq_Bearer :: string

datatype en_reply = EnError | EnReply int "string option"

record token_claims =
  tc_Subject :: string
  tc_Issued :: int
  tc_Expires :: int
  tc_NotBefore :: int

record 'w enroll_env =
  ee_ask :: "en_request \<Rightarrow> 'w \<Rightarrow> en_reply \<times> 'w"
  ee_token :: "'w \<Rightarrow> string option"
  ee_now :: "'w \<Rightarrow> int"
  ee_rand :: "'w \<Rightarrow> string option \<times> 'w"
  ee_done :: "'w \<Rightarrow> bool \<times> 'w"
  ee_time :: "string \<Rightarrow> int option"
  ee_claims :: "string \<Rightarrow> token_claims option"
  ee_enrollment :: "string \<Rightarrow> enrollmentResource option"
  ee_enrollments :: "string \<Rightarrow> (enrollmentResource list \<times> string) option"
  ee_meta :: "string \<Rightarrow> enrollmentMeta option"
  ee_retirement :: "string \<Rightarrow> retirementResource option"
  ee_retirements :: "string \<Rightarrow> (retirementResource list \<times> string) option"

definition validEnrollmentToken :: "(string \<Rightarrow> token_claims option) \<Rightarrow> string \<Rightarrow> int \<Rightarrow> bool" where
  "validEnrollmentToken decode token now =
     (case split_on (CHR ''.'') token of
        [a, b, c] \<Rightarrow>
          if a = '''' \<or> c = '''' then False
          else (case b64_decode b of
                  None \<Rightarrow> False
                | Some raw \<Rightarrow>
                    if int (length raw) > 16384 then False
                    else (case decode raw of
                            None \<Rightarrow> False
                          | Some cl \<Rightarrow> tc_Subject cl = enrollmentSubject \<and> tc_Issued cl > 0 \<and> tc_Expires cl > tc_Issued cl
                              \<and> tc_Expires cl - tc_Issued cl \<le> 7200 \<and> tc_Issued cl \<le> now + 60
                              \<and> tc_NotBefore cl \<le> now + 60 \<and> tc_Expires cl \<ge> now + 30))
      | _ \<Rightarrow> False)"

definition readEnrollmentToken :: "(string \<Rightarrow> token_claims option) \<Rightarrow> string option \<Rightarrow> int \<Rightarrow> string source_result" where
  "readEnrollmentToken decode file now =
     (let bad = fail 503 ''node_onboarding_credential_unavailable''
      in case file of
           None \<Rightarrow> bad
         | Some raw \<Rightarrow>
             (let token = trim_space raw
              in if token = '''' \<or> list_ex (\<lambda>c. of_char c \<in> {0, 9, 10, 13, 32 :: nat}) token
                    \<or> \<not> validEnrollmentToken decode token now
                 then bad else Inr token))"

definition named_resource :: "string \<Rightarrow> string \<Rightarrow> bool" where
  "named_resource pre path \<longleftrightarrow> HasPrefix path pre \<and> enrollmentID (TrimPrefix path pre)"

definition permittedEnrollmentRequest :: "string \<Rightarrow> string \<Rightarrow> bool" where
  "permittedEnrollmentRequest verb path =
     (if verb = ''POST'' \<and> (path = enrollmentAPIPath @ ''/nodeenrollments'' \<or> path = enrollmentAPIPath @ ''/noderetirements''
           \<or> path = enrollmentSecretPath) then True
      else if verb = ''GET'' \<and> (path = enrollmentAPIPath @ ''/nodeenrollments?limit=100''
           \<or> path = enrollmentAPIPath @ ''/noderetirements?limit=100'') then True
      else if named_resource (enrollmentAPIPath @ ''/nodeenrollments/enroll-'') path then verb = ''GET'' \<or> verb = ''PATCH''
      else if named_resource (enrollmentAPIPath @ ''/noderetirements/retire-'') path then verb = ''GET''
      else verb = ''DELETE'' \<and> named_resource (enrollmentSecretPath @ ''/ssh-'') path)"

definition enrollment_status :: "int \<Rightarrow> unit source_result" where
  "enrollment_status st =
     (if st = 404 then fail 404 ''job_not_found''
      else if st = 409 then fail 409 ''onboarding_state_changed''
      else if st = 401 \<or> st = 403 then fail 503 ''node_onboarding_access_denied''
      else if st < 200 \<or> st \<ge> 300 then fail 502 ''node_onboarding_request_failed''
      else Inr ())"

definition enrollment_request ::
  "'w enroll_env \<Rightarrow> string \<Rightarrow> string \<Rightarrow> en_value option \<Rightarrow> (string \<Rightarrow> 'a option) \<Rightarrow> 'w \<Rightarrow> 'a source_result \<times> 'w" where
  "enrollment_request E verb path val decode w =
     (if \<not> permittedEnrollmentRequest verb path then (fail 400 ''invalid_enrollment_operation'', w)
      else case readEnrollmentToken (ee_claims E) (ee_token E w) (ee_now E w) of
        Inl e \<Rightarrow> (Inl e, w)
      | Inr token \<Rightarrow>
          (case ee_ask E \<lparr>nq_Method = verb, nq_Path = path, nq_Value = val, nq_Bearer = token\<rparr> w of
             (EnError, w1) \<Rightarrow> (fail 503 ''node_onboarding_unavailable'', w1)
           | (EnReply st data, w1) \<Rightarrow>
               (case enrollment_status st of
                  Inl e \<Rightarrow> (Inl e, w1)
                | Inr _ \<Rightarrow>
                    (case data of
                       None \<Rightarrow> (fail 502 ''node_onboarding_invalid_response'', w1)
                     | Some d \<Rightarrow>
                         if int (length d) > 1048576 then (fail 502 ''node_onboarding_invalid_response'', w1)
                         else (case decode d of
                                 None \<Rightarrow> (fail 502 ''node_onboarding_invalid_response'', w1)
                               | Some v \<Rightarrow> (Inr v, w1))))))"

subsection \<open>Checking resources\<close>

definition newEnrollmentID :: "'w enroll_env \<Rightarrow> 'w \<Rightarrow> string source_result \<times> 'w" where
  "newEnrollmentID E w =
     (case ee_rand E w of
        (None, w1) \<Rightarrow> (fail 503 ''node_onboarding_unavailable'', w1)
      | (Some b, w1) \<Rightarrow> (Inr (hex_encode b), w1))"

text \<open>\<^verbatim>\<open>netip.ParseAddr\<close> of an IPv4 address: four decimal octets without leading zeros.\<close>

definition octet :: "string \<Rightarrow> int option" where
  "octet s = (if s \<noteq> [] \<and> list_all is_digit s \<and> length s \<le> 3 \<and> (s = ''0'' \<or> hd s \<noteq> CHR ''0'')
     then (case Atoi s of Some n \<Rightarrow> if n \<le> 255 then Some n else None | None \<Rightarrow> None) else None)"

definition parse_ipv4 :: "string \<Rightarrow> (int \<times> int \<times> int \<times> int) option" where
  "parse_ipv4 s =
     (case map octet (split_on (CHR ''.'') s) of
        [Some a, Some b, Some c, Some d] \<Rightarrow> Some (a, b, c, d)
      | _ \<Rightarrow> None)"

definition IsGlobalUnicast :: "int \<times> int \<times> int \<times> int \<Rightarrow> bool" where
  "IsGlobalUnicast = (\<lambda>(a, b, c, d). (a, b, c, d) \<noteq> (0, 0, 0, 0) \<and> (a, b, c, d) \<noteq> (255, 255, 255, 255) \<and> a \<noteq> 127
     \<and> \<not> (224 \<le> a \<and> a \<le> 239) \<and> \<not> (a = 169 \<and> b = 254))"

definition IsPrivate :: "int \<times> int \<times> int \<times> int \<Rightarrow> bool" where
  "IsPrivate = (\<lambda>(a, b, c, d). a = 10 \<or> (a = 172 \<and> 16 \<le> b \<and> b \<le> 31) \<or> (a = 192 \<and> b = 168))"

text \<open>The reserved networks, as conditions on the octets.\<close>

definition reserved_ipv4 :: "int \<times> int \<times> int \<times> int \<Rightarrow> bool" where
  "reserved_ipv4 = (\<lambda>(a, b, c, d). a = 0 \<or> (a = 100 \<and> 64 \<le> b \<and> b \<le> 127) \<or> (a = 192 \<and> b = 0 \<and> c = 0) \<or> (a = 192 \<and> b = 0 \<and> c = 2)
     \<or> (a = 192 \<and> b = 88 \<and> c = 99) \<or> (a = 198 \<and> 18 \<le> b \<and> b \<le> 19) \<or> (a = 198 \<and> b = 51 \<and> c = 100)
     \<or> (a = 203 \<and> b = 0 \<and> c = 113) \<or> 240 \<le> a)"

definition validEnrollmentHost :: "string \<Rightarrow> bool" where
  "validEnrollmentHost host =
     (case parse_ipv4 host of
        None \<Rightarrow> False
      | Some ip \<Rightarrow> IsGlobalUnicast ip \<and> \<not> IsPrivate ip \<and> \<not> reserved_ipv4 ip)"

definition enrollmentPath :: "string \<Rightarrow> string" where
  "enrollmentPath i = enrollmentAPIPath @ ''/nodeenrollments/enroll-'' @ i"

definition meta_ok :: "string \<Rightarrow> enrollmentMeta \<Rightarrow> bool" where
  "meta_ok name m \<longleftrightarrow> em_Name m = name \<and> em_Namespace m = enrollmentNamespace \<and> enrollmentUID (em_UID m)
     \<and> enrollmentVersion (em_ResourceVersion m) \<and> \<not> em_Generation m < 1"

definition verify_enrollment :: "NodeOnboardingConfig \<Rightarrow> enrollmentResource \<Rightarrow> string \<Rightarrow> unit source_result" where
  "verify_enrollment c r i =
     (if ey_APIVersion r \<noteq> enrollmentAPIVersion \<or> ey_Kind r \<noteq> ''NodeEnrollment'' \<or> \<not> meta_ok (''enroll-'' @ i) (ey_Metadata r)
         \<or> es_Region (ey_Spec r) \<noteq> nc_Region c \<or> \<not> validEnrollmentHost (es_Host (ey_Spec r)) \<or> es_Port (ey_Spec r) < 1
         \<or> es_Port (ey_Spec r) > 65535
      then fail 502 ''node_onboarding_invalid_response''
      else if es_Action (ey_Spec r) \<in> {''Scan'', ''Preflight'', ''Join''} then Inr ()
      else fail 502 ''node_onboarding_invalid_response'')"

definition get_enrollment ::
  "'w enroll_env \<Rightarrow> NodeOnboardingConfig \<Rightarrow> string \<Rightarrow> 'w \<Rightarrow> enrollmentResource source_result \<times> 'w" where
  "get_enrollment E c i w =
     (case enrollment_request E ''GET'' (enrollmentPath i) None (ee_enrollment E) w of
        (Inl e, w1) \<Rightarrow> (Inl e, w1)
      | (Inr r, w1) \<Rightarrow> (case verify_enrollment c r i of Inl e \<Rightarrow> Inl e | Inr _ \<Rightarrow> Inr r, w1))"

definition enrollmentPhase :: "enrollmentResource \<Rightarrow> string" where
  "enrollmentPhase r =
     (let told = (if ey_Phase r \<in> {''Scanning'', ''AwaitingPreflight'', ''Preflighting'', ''AwaitingApproval'', ''Installing'',
                      ''Verifying'', ''Ready'', ''Failed'', ''NeedsReview'', ''Expired''}
                  then ey_Phase r else ''NeedsReview'')
      in if ey_ObservedGeneration r \<noteq> em_Generation (ey_Metadata r)
         then (if es_Action (ey_Spec r) = ''Scan'' then ''Scanning''
               else if es_Action (ey_Spec r) = ''Preflight'' then ''Preflighting''
               else if es_Action (ey_Spec r) = ''Join'' then ''Installing'' else told)
         else told)"

definition safeChecks :: "enrollmentCheck list \<Rightarrow> enrollmentCheck list" where
  "safeChecks cs = map (\<lambda>c. \<lparr>ch_Name = smallSafe (ch_Name c), ch_OK = ch_OK c, ch_Detail = smallSafe (ch_Detail c)\<rparr>) (take 32 cs)"

definition safeScan :: "enrollmentResource \<Rightarrow> string \<Rightarrow> enrollmentScan option" where
  "safeScan r i =
     (case ey_Scan r of
        None \<Rightarrow> None
      | Some s \<Rightarrow>
          if sn_ID s \<noteq> i \<or> sn_Host s \<noteq> es_Host (ey_Spec r) \<or> sn_Region s \<noteq> es_Region (ey_Spec r)
             \<or> sn_Port s \<noteq> es_Port (ey_Spec r) \<or> sn_ExpiresAt s \<le> 0 then None
          else let fs = take 4 (filter (\<lambda>(a, f). a = ''ssh-ed25519'' \<and> enrollmentFingerprint f) (sn_Fingerprints s))
               in if fs = [] then None else Some (s\<lparr>sn_Fingerprints := fs\<rparr>))"

definition safePreflight :: "enrollmentResource \<Rightarrow> string \<Rightarrow> enrollmentPreflight option" where
  "safePreflight r i =
     (case ey_Preflight r of
        None \<Rightarrow> None
      | Some p \<Rightarrow>
          if pf_ID p \<noteq> i \<or> pf_Host p \<noteq> es_Host (ey_Spec r) \<or> pf_Region p \<noteq> es_Region (ey_Spec r) \<or> pf_ExpiresAt p \<le> 0 then None
          else Some (p\<lparr>pf_NodeName := smallSafe (pf_NodeName p), pf_Interface := smallSafe (pf_Interface p),
                       pf_PrivateIP := smallSafe (pf_PrivateIP p), pf_ExternalIP := smallSafe (pf_ExternalIP p),
                       pf_Checks := safeChecks (pf_Checks p), pf_Plan := take 16 (map smallSafe (pf_Plan p))\<rparr>))"

definition empty_job :: enrollmentJob where
  "empty_job = \<lparr>ej_ID = '''', ej_Host = '''', ej_Region = '''', ej_NodeName = '''', ej_NodeUID = '''', ej_State = '''', ej_Stage = '''',
     ej_Error = '''', ej_CreatedAt = 0, ej_UpdatedAt = 0, ej_Checks = [], ej_Phase = '''', ej_Pending = False, ej_Scan = None,
     ej_Preflight = None, ej_Blockers = [], ej_AllowedSystemPods = [], ej_BlockersTruncated = False\<rparr>"

definition job_times :: "(string \<Rightarrow> int option) \<Rightarrow> string \<Rightarrow> string \<Rightarrow> enrollmentJob \<Rightarrow> enrollmentJob" where
  "job_times parse created updated j =
     (let c = (case parse created of None \<Rightarrow> 0 | Some t \<Rightarrow> t)
      in j\<lparr>ej_CreatedAt := c, ej_UpdatedAt := (case parse updated of None \<Rightarrow> c | Some t \<Rightarrow> t)\<rparr>)"

definition enrollment_state :: "string \<Rightarrow> string" where
  "enrollment_state phase =
     (if phase = ''Installing'' then ''installing'' else if phase = ''Verifying'' then ''verifying''
      else if phase = ''Ready'' then ''ready'' else if phase = ''Failed'' then ''failed''
      else if phase = ''NeedsReview'' then ''needs_review'' else if phase = ''Expired'' then ''expired'' else ''queued'')"

definition projectedEnrollment :: "(string \<Rightarrow> int option) \<Rightarrow> enrollmentResource \<Rightarrow> string \<Rightarrow> enrollmentJob" where
  "projectedEnrollment parse r i =
     (let phase = enrollmentPhase r;
          j = job_times parse (em_CreatedAt (ey_Metadata r)) (ey_UpdatedAt r)
                (empty_job\<lparr>ej_ID := i, ej_Host := es_Host (ey_Spec r), ej_Region := es_Region (ey_Spec r),
                  ej_State := enrollment_state phase, ej_Phase := phase,
                  ej_Stage := (if safeErrorCode (ey_JobStage r) then ey_JobStage r else phase),
                  ej_Error := (if safeErrorCode (ey_Error r) then ey_Error r else ''''),
                  ej_NodeName := smallSafe (ey_JobNodeName r), ej_Checks := safeChecks (ey_JobChecks r)\<rparr>)
      in if ey_ObservedGeneration r = em_Generation (ey_Metadata r)
         then j\<lparr>ej_Scan := safeScan r i, ej_Preflight := safePreflight r i,
                ej_Checks := (case (ej_Checks j, safePreflight r i) of ([], Some p) \<Rightarrow> pf_Checks p | (cs, _) \<Rightarrow> cs)\<rparr>
         else j)"

text \<open>
  Polling until a phase is reached: at most twenty pauses of 200 ms fit into the four seconds it may take, and
  after them a further request fails. \<open>ee_done\<close> ends it earlier.
\<close>

fun wait :: "'w enroll_env \<Rightarrow> NodeOnboardingConfig \<Rightarrow> nat \<Rightarrow> enrollmentResource \<Rightarrow> string \<Rightarrow> string \<Rightarrow> 'w \<Rightarrow> enrollmentResource \<times> 'w" where
  "wait E c 0 r i phase w = (r, w)"
| "wait E c (Suc n) r i phase w =
     (if enrollmentPhase r = phase \<or> enrollmentPhase r \<in> {''Failed'', ''NeedsReview'', ''Expired''} then (r, w)
      else case ee_done E w of
        (True, w1) \<Rightarrow> (r, w1)
      | (False, w1) \<Rightarrow>
          (case get_enrollment E c i w1 of
             (Inl _, w2) \<Rightarrow> (r, w2)
           | (Inr r', w2) \<Rightarrow> wait E c n r' i phase w2))"

definition casEnrollment :: "enrollmentResource \<Rightarrow> (string \<times> patch_value) list \<Rightarrow> patch_op list" where
  "casEnrollment r updates =
     [TestOp ''/metadata/uid'' (em_UID (ey_Metadata r)), TestOp ''/metadata/resourceVersion'' (em_ResourceVersion (ey_Metadata r)),
      TestOp ''/spec/action'' (es_Action (ey_Spec r))]
     @ map (\<lambda>(k, v). AddOp (''/spec/'' @ k) v) (sort_key fst updates)"

subsection \<open>Retirements\<close>

definition retirementPath :: "string \<Rightarrow> string" where
  "retirementPath i = enrollmentAPIPath @ ''/noderetirements/retire-'' @ i"

text \<open>\<open>ips\<close> gives the canonical text of what \<^verbatim>\<open>net.ParseIP\<close> reads, \<open>None\<close> for anything else.\<close>

definition canonical_ip :: "(string \<Rightarrow> string option) \<Rightarrow> string \<Rightarrow> bool" where
  "canonical_ip ips v \<longleftrightarrow> ips v = Some v"

definition validRetirementIPs :: "(string \<Rightarrow> string option) \<Rightarrow> string list \<Rightarrow> string list \<Rightarrow> string \<Rightarrow> bool" where
  "validRetirementIPs ips internal external confirmed \<longleftrightarrow>
     list_all (\<lambda>vs. length vs \<le> 8 \<and> distinct vs \<and> list_all (canonical_ip ips) vs) [internal, external]
     \<and> confirmed \<in> set internal \<union> set external"

definition verifyRetirement :: "(string \<Rightarrow> string option) \<Rightarrow> NodeOnboardingConfig \<Rightarrow> retirementResource \<Rightarrow> string \<Rightarrow> unit source_result" where
  "verifyRetirement ips c v i =
     (let s = ry_Spec v
      in if ry_APIVersion v \<noteq> enrollmentAPIVersion \<or> ry_Kind v \<noteq> ''NodeRetirement'' \<or> \<not> meta_ok (''retire-'' @ i) (ry_Metadata v)
            \<or> rs_Region s \<noteq> nc_Region c \<or> \<not> enrollmentLabel (rs_NodeName s) \<or> has_dots (rs_NodeName s)
            \<or> \<not> enrollmentUID (rs_NodeUID s) \<or> \<not> rs_PermanentRetirement s \<or> rs_ConfirmedNodeName s \<noteq> rs_NodeName s
            \<or> \<not> validRetirementIPs ips (rs_InternalIPs s) (rs_ExternalIPs s) (rs_ConfirmedIP s)
         then fail 502 ''node_retirement_invalid_response'' else Inr ())"

definition blocker_ok :: "retirementBlocker \<Rightarrow> bool" where
  "blocker_ok b \<longleftrightarrow> \<not> ((bl_Kind b \<noteq> ''Pod'' \<and> bl_Kind b \<noteq> ''GameServer'') \<or> \<not> dnsName (bl_Namespace b) \<or> \<not> dnsName (bl_Name b)
     \<or> has_dots (bl_Namespace b) \<or> has_dots (bl_Name b) \<or> \<not> safeErrorCode (bl_Reason b))"

definition safeRetirementBlockers :: "retirementBlocker list \<Rightarrow> retirementBlocker list" where
  "safeRetirementBlockers bs = take 200 (filter blocker_ok bs)"

definition projectedRetirement :: "(string \<Rightarrow> int option) \<Rightarrow> retirementResource \<Rightarrow> string \<Rightarrow> enrollmentJob" where
  "projectedRetirement parse v i =
     (let observed = (ry_ObservedGeneration v = em_Generation (ry_Metadata v));
          told = (if observed then ry_Phase v else ''Pending'');
          (phase, st) = (if told = ''Pending'' then (told, ''queued'') else if told = ''Checking'' then (told, ''checking'')
                         else if told = ''Deleted'' then (told, ''deleted'') else if told = ''Blocked'' then (told, ''blocked'')
                         else (''NeedsReview'', ''needs_review''));
          j = job_times parse (em_CreatedAt (ry_Metadata v)) (ry_UpdatedAt v)
                (empty_job\<lparr>ej_ID := i, ej_Region := rs_Region (ry_Spec v), ej_NodeName := rs_NodeName (ry_Spec v),
                  ej_NodeUID := rs_NodeUID (ry_Spec v), ej_State := st, ej_Phase := phase,
                  ej_Stage := (if safeErrorCode (ry_JobStage v) then ry_JobStage v else phase),
                  ej_Error := (if safeErrorCode (ry_Error v) then ry_Error v else '''')\<rparr>)
      in if observed
         then j\<lparr>ej_Blockers := safeRetirementBlockers (ry_Blockers v),
                ej_AllowedSystemPods := safeRetirementBlockers (ry_AllowedSystemPods v),
                ej_BlockersTruncated := (ry_BlockersTruncated v \<or> length (ry_Blockers v) > 200)\<rparr>
         else j)"

end
