(* ===== verification/Console_Backend.thy ===== *)
theory Console_Backend
  imports Console_Alerts Console_Control Console_Enrollment
begin

text \<open>
  Requests and replies of the console's HTTP server and the operations it calls: the types of
  \<^verbatim>\<open>internal/console/http.go\<close> and \<^verbatim>\<open>api_v1.go\<close>, the request checks \<^verbatim>\<open>validOrigin\<close>, \<^verbatim>\<open>validCSRF\<close>,
  \<^verbatim>\<open>hasCredentialQuery\<close>, \<^verbatim>\<open>authorizeNodeAPI\<close>, and the backend interface as a record of functions on a state
  \<open>'w\<close>. Header lines are lists of their values, the query is what \<^verbatim>\<open>url.ParseQuery\<close> returns with \<open>hq_QueryOK\<close>
  for the absence of an error.
\<close>

subsection \<open>Requests\<close>

type_synonym query = "(string \<times> string list) list"

record con_request =
  hq_Host :: string
  hq_Method :: string
  hq_Path :: string
  hq_RawPath :: string
  hq_EscapedPath :: string
  hq_RawQuery :: string
  hq_Query :: query
  hq_QueryOK :: bool
  hq_ContentLength :: int
  hq_Authorization :: "string list"
  hq_Origin :: "string list"
  hq_SecFetchSite :: string
  hq_CSRF :: "string list"
  hq_Cookies :: cookies
  hq_Remote :: "string option"
  hq_Body :: json_body

definition query_Get :: "query \<Rightarrow> string \<Rightarrow> string" where
  "query_Get q k = (case map_of q k of Some (v # _) \<Rightarrow> v | _ \<Rightarrow> '''')"

record console_config =
  cs_Username :: string
  cs_PasswordHash :: string
  cs_ReadAPITokenHash :: string
  cs_Host :: string
  cs_Origin :: string
  cs_Secure :: bool
  cs_Onboarding :: "NodeOnboardingConfig option"

subsection \<open>Replies\<close>

record apiPage =
  pg_Offset :: int
  pg_Limit :: int
  pg_Returned :: int
  pg_Total :: int
  pg_NextOffset :: "int option"

type_synonym apiWarning = "string \<times> string"

record apiResponse =
  ar_ObservedAt :: string
  ar_ReadOnly :: bool
  ar_Partial :: bool
  ar_Warnings :: "apiWarning list"
  ar_Data :: json
  ar_Page :: "apiPage option"

record retirementIdentity =
  ri_Name :: string
  ri_UID :: string
  ri_ResourceVersion :: string
  ri_InternalIPs :: "string list"
  ri_ExternalIPs :: "string list"

record retirementCheck =
  rk_Enabled :: bool
  rk_Eligible :: bool
  rk_Reason :: string
  rk_Region :: string
  rk_Identity :: retirementIdentity

datatype con_body =
    BError string
  | BOk
  | BSession string string int
  | BData json
  | BPolicy policyDoc bool
  | BAlerts alerts_view bool bool
  | BApi apiResponse
  | BJob enrollmentJob
  | BJobs "enrollmentJob list" bool
  | BOnboardingOff
  | BOnboarding NodeOnboardingConfig "enrollmentJob list" bool
  | BScan enrollmentScan
  | BPreflight enrollmentPreflight
  | BRetirementOff
  | BCheck retirementCheck
  | BRedirect string
  | BFile string string

type_synonym con_reply = "int \<times> con_body"

definition con_error :: "int \<Rightarrow> string \<Rightarrow> con_reply" where
  "con_error st code = (st, BError code)"

definition con_fail :: "sourceError \<Rightarrow> con_reply" where
  "con_fail e = (case backend_error e of (st, code) \<Rightarrow> (st, BError code))"

definition con_backend :: "('a \<Rightarrow> con_body) \<Rightarrow> 'a source_result \<Rightarrow> con_reply" where
  "con_backend f r = (case r of Inl e \<Rightarrow> con_fail e | Inr v \<Rightarrow> (200, f v))"

subsection \<open>The backend\<close>

text \<open>The optional operations are those the server finds by a type assertion.\<close>

record 'w backend =
  be_Snapshot :: "'w \<Rightarrow> json source_result \<times> 'w"
  be_Logs :: "query \<Rightarrow> 'w \<Rightarrow> json source_result \<times> 'w"
  be_Drain :: "string \<Rightarrow> 'w \<Rightarrow> unit source_result \<times> 'w"
  be_RetryCreation :: "'w \<Rightarrow> unit source_result \<times> 'w"
  be_Policy :: "('w \<Rightarrow> policyDoc source_result \<times> 'w) option"
  be_UpdatePolicy :: "PolicyInput \<Rightarrow> string \<Rightarrow> 'w \<Rightarrow> policyDoc source_result \<times> 'w"
  be_Alerts :: "('w \<Rightarrow> (alerts_view \<times> bool) source_result \<times> 'w) option"
  be_UpdateAlerts :: "AlertUpdate \<Rightarrow> string \<Rightarrow> 'w \<Rightarrow> (alerts_view \<times> bool) source_result \<times> 'w"
  be_CheckNodeRetirement :: "(string \<Rightarrow> string \<Rightarrow> string \<Rightarrow> 'w \<Rightarrow> retirementCheck source_result \<times> 'w) option"

subsection \<open>Checks of a request\<close>

definition validOrigin :: "console_config \<Rightarrow> con_request \<Rightarrow> bool" where
  "validOrigin cfg r \<longleftrightarrow> hq_Origin r = [cs_Origin cfg] \<and> hq_SecFetchSite r \<noteq> ''cross-site''"

definition validCSRF :: "con_request \<Rightarrow> string \<Rightarrow> bool" where
  "validCSRF r expected \<longleftrightarrow> hq_CSRF r = [expected]"

text \<open>\<^verbatim>\<open>strings.ToLower\<close> where the result is ASCII: U+212A becomes k and U+0130 becomes i.\<close>

fun lower_text :: "string \<Rightarrow> string" where
  "lower_text [] = []"
| "lower_text (c # s) =
     (if c = CHR 0xE2 \<and> take 2 s = [CHR 0x84, CHR 0xAA] then CHR ''k'' # lower_text (drop 2 s)
      else if c = CHR 0xC4 \<and> take 1 s = [CHR 0xB0] then CHR ''i'' # lower_text (drop 1 s)
      else ascii_lower c # lower_text s)"

definition hasCredentialQuery :: "query \<Rightarrow> bool" where
  "hasCredentialQuery q \<longleftrightarrow> list_ex (\<lambda>(k, vs). lower_text k \<in>
     {''token'', ''api_token'', ''access_token'', ''read_api_token'', ''api_key'', ''authorization''}) q"

definition validWorkerID :: "string \<Rightarrow> bool" where
  "validWorkerID v \<longleftrightarrow> \<not> (v = [] \<or> int (length v) > 128) \<and> list_all (\<lambda>c. alnum c \<or> c = CHR ''-'' \<or> c = CHR ''_'') v"

definition read_auth ::
  "(string \<Rightarrow> string) \<Rightarrow> console_config \<Rightarrow> int \<Rightarrow> con_request \<Rightarrow> authState \<Rightarrow> (con_reply + read_access) \<times> authState" where
  "read_auth sha cfg now r a =
     (case authenticateReadAPI sha (cs_Secure cfg) (cs_ReadAPITokenHash cfg) now (hq_Authorization r) (hq_Cookies r) a of
        (Inl code, a1) \<Rightarrow> (Inl (con_error 401 code), a1)
      | (Inr m, a1) \<Rightarrow> (Inr m, a1))"

text \<open>The answer that refuses the request, \<open>None\<close> when it may go on.\<close>

definition authorizeNodeAPI ::
  "(string \<Rightarrow> string) \<Rightarrow> console_config \<Rightarrow> int \<Rightarrow> con_request \<Rightarrow> string \<Rightarrow> authState \<Rightarrow> con_reply option \<times> authState" where
  "authorizeNodeAPI sha cfg now r verb a =
     (if hq_Method r = ''GET'' \<and> verb = ''GET''
      then (if hq_ContentLength r \<noteq> 0 \<or> hasCredentialQuery (hq_Query r) then (Some (con_error 400 ''invalid_request''), a)
            else case read_auth sha cfg now r a of (Inl e, a1) \<Rightarrow> (Some e, a1) | (Inr _, a1) \<Rightarrow> (None, a1))
      else if hq_Authorization r \<noteq> [] then (Some (con_error 403 ''api_token_scope''), a)
      else if hq_Method r \<noteq> verb then (Some (con_error 405 ''method_not_allowed''), a)
      else case requestSession sha (cs_Secure cfg) now (hq_Cookies r) a of
        (None, a1) \<Rightarrow> (Some (con_error 401 ''unauthenticated''), a1)
      | (Some cur, a1) \<Rightarrow>
          (if verb = ''POST''
           then (if \<not> validOrigin cfg r then Some (con_error 403 ''invalid_origin'')
                 else if \<not> validCSRF r (se_CSRF cur) then Some (con_error 403 ''invalid_csrf'') else None)
           else None, a1))"

end
