(* ===== verification/Console_Onboarding.thy ===== *)
theory Console_Onboarding
  imports Console_Backend
begin

text \<open>
  Node onboarding and retirement over HTTP: the handlers of \<^verbatim>\<open>internal/console/onboarding.go\<close> and
  \<^verbatim>\<open>internal/console/retirement.go\<close>. The decoders of the request bodies are parameters (\<open>console_codec\<close>).
\<close>

record scan_input =
  xs_Region :: string
  xs_Host :: string
  xs_Port :: int

record preflight_input =
  xp_ID :: string
  xp_Username :: string
  xp_Password :: string
  xp_Fingerprint :: string

record retirement_input =
  xr_Region :: string
  xr_NodeName :: string
  xr_NodeUID :: string
  xr_ResourceVersion :: string
  xr_ConfirmedNodeName :: string
  xr_ConfirmedIP :: string
  xr_PermanentRetirement :: bool

record console_codec =
  ci_login :: "string \<Rightarrow> (string \<times> string) option"
  ci_empty :: "string \<Rightarrow> unit option"
  ci_worker :: "string \<Rightarrow> string option"
  ci_policy :: "string \<Rightarrow> PolicyInput option"
  ci_alerts :: "string \<Rightarrow> AlertUpdate option"
  ci_scan :: "string \<Rightarrow> scan_input option"
  ci_preflight :: "string \<Rightarrow> preflight_input option"
  ci_join :: "string \<Rightarrow> string option"
  ci_retirement :: "string \<Rightarrow> retirement_input option"

definition refuse_body :: "sourceError \<Rightarrow> con_reply" where
  "refuse_body e = (er_status e, BError (er_code e))"

definition jobQuery :: "con_request \<Rightarrow> string option" where
  "jobQuery r =
     (if hq_QueryOK r \<and> length (hq_Query r) = 1
      then (case map_of (hq_Query r) ''id'' of
              Some [i] \<Rightarrow> if enrollmentID i then Some i else None
            | _ \<Rightarrow> None)
      else None)"

subsection \<open>Enrollment\<close>

definition writeEnrollmentAction :: "(string \<Rightarrow> int option) \<Rightarrow> enrollmentResource \<Rightarrow> string \<Rightarrow> string \<Rightarrow> con_reply" where
  "writeEnrollmentAction parse item i action =
     (let view = projectedEnrollment parse item i;
          rest = (if ej_State view \<in> {''failed'', ''needs_review'', ''expired''}
                  then con_error 409 (if ej_Error view = '''' then ''node_onboarding_failed'' else ej_Error view)
                  else case (action = ''scan'' \<and> ej_Phase view = ''AwaitingPreflight'', ej_Scan view) of
                    (True, Some s) \<Rightarrow> (200, BScan s)
                  | _ \<Rightarrow>
                      (case (action = ''preflight'' \<and> ej_Phase view = ''AwaitingApproval'', ej_Preflight view) of
                         (True, Some p) \<Rightarrow> (200, BPreflight p)
                       | _ \<Rightarrow> (202, BJob (view\<lparr>ej_Pending := True\<rparr>))))
      in case (action = ''preflight'' \<and> ej_Phase view = ''Failed'', ej_Preflight view) of
           (True, Some p) \<Rightarrow> if \<not> pf_CanJoin p then (200, BPreflight p) else rest
         | _ \<Rightarrow> rest)"

definition wait_fuel :: nat where "wait_fuel = 20"

definition verified_action ::
  "'w enroll_env \<Rightarrow> NodeOnboardingConfig \<Rightarrow> enrollmentResource \<Rightarrow> string \<Rightarrow> string \<Rightarrow> string \<Rightarrow> 'w \<Rightarrow> con_reply \<times> 'w" where
  "verified_action E c item i phase action w =
     (case verify_enrollment c item i of
        Inl e \<Rightarrow> (con_fail e, w)
      | Inr _ \<Rightarrow> (case wait E c wait_fuel item i phase w of (item', w1) \<Rightarrow> (writeEnrollmentAction (ee_time E) item' i action, w1)))"

definition submitScan ::
  "console_codec \<Rightarrow> 'w enroll_env \<Rightarrow> NodeOnboardingConfig \<Rightarrow> con_request \<Rightarrow> 'w \<Rightarrow> con_reply \<times> 'w" where
  "submitScan D E c r w =
     (case readJSON (ci_scan D) (hq_Body r) of
        Inl e \<Rightarrow> (refuse_body e, w)
      | Inr inp \<Rightarrow>
          (let port = (if xs_Port inp = 0 then 22 else xs_Port inp)
           in if xs_Region inp \<noteq> nc_Region c then (con_error 400 ''unknown_region'', w)
              else if \<not> validEnrollmentHost (xs_Host inp) \<or> port < 1 \<or> port > 65535 then (con_error 400 ''invalid_request'', w)
              else case newEnrollmentID E w of
                (Inl e, w1) \<Rightarrow> (con_fail e, w1)
              | (Inr i, w1) \<Rightarrow>
                  (case enrollment_request E ''POST'' (enrollmentAPIPath @ ''/nodeenrollments'')
                          (Some (NewEnrollment (''enroll-'' @ i)
                             \<lparr>es_Region = xs_Region inp, es_Host = xs_Host inp, es_Port = port, es_Action = ''Scan'',
                              es_HostFingerprint = '''', es_CredentialSecretRef = None, es_ApprovedPreflightDigest = ''''\<rparr>))
                          (ee_enrollment E) w1 of
                     (Inl e, w2) \<Rightarrow> (con_fail e, w2)
                   | (Inr item, w2) \<Rightarrow> verified_action E c item i ''AwaitingPreflight'' ''scan'' w2)))"

definition preflight_input_ok :: "preflight_input \<Rightarrow> bool" where
  "preflight_input_ok inp \<longleftrightarrow> \<not> (\<not> enrollmentID (xp_ID inp) \<or> xp_Username inp \<noteq> ''root'' \<or> \<not> enrollmentFingerprint (xp_Fingerprint inp)
     \<or> \<not> utf8_valid (xp_Password inp) \<or> xp_Password inp = '''' \<or> int (length (xp_Password inp)) > 1024
     \<or> list_ex (\<lambda>c. c = CHR 0x0D \<or> c = CHR 0x0A \<or> c = CHR 0x00) (xp_Password inp))"

text \<open>\<^verbatim>\<open>base64.StdEncoding\<close>: the unpadded text and its padding.\<close>

definition std_padded :: "string \<Rightarrow> string" where
  "std_padded s = (let e = std_encode s in e @ replicate ((4 - length e mod 4) mod 4) (CHR ''=''))"

definition ssh_secret_of :: "preflight_input \<Rightarrow> enrollmentResource \<Rightarrow> ssh_secret" where
  "ssh_secret_of inp item =
     \<lparr>ss_Name = ''ssh-'' @ xp_ID inp, ss_EnrollmentID = xp_ID inp, ss_OwnerName = em_Name (ey_Metadata item),
      ss_OwnerUID = em_UID (ey_Metadata item), ss_Password = std_padded (xp_Password inp)\<rparr>"

definition preflight_patch :: "preflight_input \<Rightarrow> enrollmentResource \<Rightarrow> string \<Rightarrow> patch_op list" where
  "preflight_patch inp item uid = casEnrollment item
     [(''action'', PatchText ''Preflight''), (''hostFingerprint'', PatchText (xp_Fingerprint inp)),
      (''credentialSecretRef'', PatchRef \<lparr>rf_Name = ''ssh-'' @ xp_ID inp, rf_UID = uid\<rparr>)]"

text \<open>The last step of a preflight: the patch, and the removal of the secret when the state had changed.\<close>

definition patch_preflight ::
  "'w enroll_env \<Rightarrow> NodeOnboardingConfig \<Rightarrow> preflight_input \<Rightarrow> enrollmentResource \<Rightarrow> string \<Rightarrow> 'w \<Rightarrow> con_reply \<times> 'w" where
  "patch_preflight E c inp item uid w =
     (case enrollment_request E ''PATCH'' (enrollmentPath (xp_ID inp)) (Some (PatchEnrollment (preflight_patch inp item uid)))
             (ee_enrollment E) w of
        (Inl e, w1) \<Rightarrow>
          (con_fail e,
           if er_code e = ''onboarding_state_changed''
           then snd (enrollment_request E ''DELETE'' (enrollmentSecretPath @ ''/ssh-'' @ xp_ID inp) (Some (DeleteUID uid))
                       (\<lambda>_. Some ()) w1)
           else w1)
      | (Inr item', w1) \<Rightarrow> verified_action E c item' (xp_ID inp) ''AwaitingApproval'' ''preflight'' w1)"

definition submitPreflight ::
  "console_codec \<Rightarrow> 'w enroll_env \<Rightarrow> NodeOnboardingConfig \<Rightarrow> con_request \<Rightarrow> 'w \<Rightarrow> con_reply \<times> 'w" where
  "submitPreflight D E c r w =
     (case readJSON (ci_preflight D) (hq_Body r) of
        Inl e \<Rightarrow> (refuse_body e, w)
      | Inr inp \<Rightarrow>
          if \<not> preflight_input_ok inp then (con_error 400 ''invalid_request'', w)
          else case get_enrollment E c (xp_ID inp) w of
            (Inl e, w1) \<Rightarrow> (con_fail e, w1)
          | (Inr item, w1) \<Rightarrow>
              (case safeScan item (xp_ID inp) of
                 None \<Rightarrow> (con_error 409 ''scan_expired'', w1)
               | Some scan \<Rightarrow>
                   if es_Action (ey_Spec item) \<noteq> ''Scan'' \<or> enrollmentPhase item \<noteq> ''AwaitingPreflight'' \<or> sn_ExpiresAt scan \<le> ee_now E w1
                   then (con_error 409 ''scan_expired'', w1)
                   else if xp_Fingerprint inp \<notin> snd ` set (sn_Fingerprints scan) then (con_error 409 ''host_fingerprint_mismatch'', w1)
                   else case enrollment_request E ''POST'' enrollmentSecretPath (Some (NewSecret (ssh_secret_of inp item))) (ee_meta E) w1 of
                     (Inl e, w2) \<Rightarrow> (con_fail e, w2)
                   | (Inr m, w2) \<Rightarrow>
                       if em_Name m \<noteq> ''ssh-'' @ xp_ID inp \<or> em_Namespace m \<noteq> enrollmentNamespace \<or> \<not> enrollmentUID (em_UID m)
                       then (con_error 502 ''node_onboarding_invalid_response'', w2)
                       else patch_preflight E c inp item (em_UID m) w2))"

definition submitJoin ::
  "console_codec \<Rightarrow> 'w enroll_env \<Rightarrow> NodeOnboardingConfig \<Rightarrow> con_request \<Rightarrow> 'w \<Rightarrow> con_reply \<times> 'w" where
  "submitJoin D E c r w =
     (case readJSON (ci_join D) (hq_Body r) of
        Inl e \<Rightarrow> (refuse_body e, w)
      | Inr i \<Rightarrow>
          if \<not> enrollmentID i then (con_error 400 ''invalid_request'', w)
          else case get_enrollment E c i w of
            (Inl e, w1) \<Rightarrow> (con_fail e, w1)
          | (Inr item, w1) \<Rightarrow>
              if es_Action (ey_Spec item) = ''Join'' then ((200, BJob (projectedEnrollment (ee_time E) item i)), w1)
              else case safePreflight item i of
                None \<Rightarrow> (con_error 409 ''preflight_expired'', w1)
              | Some p \<Rightarrow>
                  if es_Action (ey_Spec item) \<noteq> ''Preflight'' \<or> enrollmentPhase item \<noteq> ''AwaitingApproval'' \<or> \<not> pf_CanJoin p
                     \<or> pf_ExpiresAt p \<le> ee_now E w1 \<or> \<not> enrollmentDigest (ey_PreflightDigest item)
                  then (con_error 409 ''preflight_expired'', w1)
                  else case enrollment_request E ''PATCH'' (enrollmentPath i)
                              (Some (PatchEnrollment (casEnrollment item [(''action'', PatchText ''Join''),
                                 (''approvedPreflightDigest'', PatchText (ey_PreflightDigest item))])))
                              (ee_enrollment E) w1 of
                    (Inl e, w2) \<Rightarrow> (con_fail e, w2)
                  | (Inr item', w2) \<Rightarrow>
                      (case verify_enrollment c item' i of
                         Inl e \<Rightarrow> con_fail e | Inr _ \<Rightarrow> (200, BJob (projectedEnrollment (ee_time E) item' i)), w2))"

definition enrollment_jobs :: "(string \<Rightarrow> int option) \<Rightarrow> NodeOnboardingConfig \<Rightarrow> enrollmentResource list \<Rightarrow> enrollmentJob list" where
  "enrollment_jobs parse c items = List.map_filter (\<lambda>item. let i = TrimPrefix (em_Name (ey_Metadata item)) ''enroll-''
     in if enrollmentID i \<and> verify_enrollment c item i = Inr () then Some (projectedEnrollment parse item i) else None) items"

text \<open>\<^verbatim>\<open>sort.Slice\<close> by decreasing creation time; the order of jobs of the same second is unspecified (\<open>tie\<close>).\<close>

definition newest_first :: "(enrollmentJob list \<Rightarrow> enrollmentJob list) \<Rightarrow> enrollmentJob list \<Rightarrow> enrollmentJob list" where
  "newest_first tie js = sort_key (\<lambda>j. - ej_CreatedAt j) (tie js)"

definition onboarding_verb :: "string \<Rightarrow> string option" where
  "onboarding_verb route =
     (if route \<in> {'''', ''/jobs''} then Some ''GET''
      else if route \<in> {''/scan'', ''/preflight'', ''/join''} then Some ''POST'' else None)"

definition onboarding_dispatch ::
  "console_codec \<Rightarrow> 'w enroll_env \<Rightarrow> (enrollmentJob list \<Rightarrow> enrollmentJob list) \<Rightarrow> NodeOnboardingConfig option \<Rightarrow> string \<Rightarrow> con_request
     \<Rightarrow> 'w \<Rightarrow> con_reply \<times> 'w" where
  "onboarding_dispatch D E tie onb route r w =
     (if route = ''/jobs'' \<and> jobQuery r = None then (con_error 400 ''invalid_job_id'', w)
      else if route \<noteq> ''/jobs'' \<and> hq_RawQuery r \<noteq> '''' then (con_error 400 ''invalid_query'', w)
      else case onb of
        None \<Rightarrow> (if route = '''' then (200, BOnboardingOff) else con_error 503 ''node_onboarding_not_configured'', w)
      | Some c \<Rightarrow>
          if route = ''''
          then (case enrollment_request E ''GET'' (enrollmentAPIPath @ ''/nodeenrollments?limit=100'') None (ee_enrollments E) w of
                  (Inl e, w1) \<Rightarrow> (con_fail e, w1)
                | (Inr (items, continue), w1) \<Rightarrow>
                    ((200, BOnboarding c (newest_first tie (enrollment_jobs (ee_time E) c items)) (continue \<noteq> '''')), w1))
          else if route = ''/jobs''
          then (let i = the (jobQuery r)
                in case get_enrollment E c i w of
                     (Inl e, w1) \<Rightarrow> (con_fail e, w1)
                   | (Inr item, w1) \<Rightarrow> ((200, BJob (projectedEnrollment (ee_time E) item i)), w1))
          else if route = ''/scan'' then submitScan D E c r w
          else if route = ''/preflight'' then submitPreflight D E c r w
          else submitJoin D E c r w)"

definition nodeOnboardingAPI ::
  "console_codec \<Rightarrow> 'w enroll_env \<Rightarrow> (enrollmentJob list \<Rightarrow> enrollmentJob list) \<Rightarrow> (string \<Rightarrow> string) \<Rightarrow> console_config \<Rightarrow> int
     \<Rightarrow> con_request \<Rightarrow> authState \<times> 'w \<Rightarrow> con_reply \<times> authState \<times> 'w" where
  "nodeOnboardingAPI D E tie sha cfg now r aw =
     (let route = TrimPrefix (hq_Path r) ''/fleet-admin/api/node-onboarding''
      in case onboarding_verb route of
           None \<Rightarrow> (con_error 404 ''not_found'', aw)
         | Some verb \<Rightarrow>
             (case authorizeNodeAPI sha cfg now r verb (fst aw) of
                (Some refusal, a1) \<Rightarrow> (refusal, a1, snd aw)
              | (None, a1) \<Rightarrow>
                  (case onboarding_dispatch D E tie (cs_Onboarding cfg) route r (snd aw) of (rep, w1) \<Rightarrow> (rep, a1, w1))))"

subsection \<open>Retirement\<close>

definition retirement_jobs ::
  "(string \<Rightarrow> string option) \<Rightarrow> (string \<Rightarrow> int option) \<Rightarrow> NodeOnboardingConfig \<Rightarrow> retirementResource list \<Rightarrow> enrollmentJob list" where
  "retirement_jobs ips parse c items = List.map_filter (\<lambda>v. let i = TrimPrefix (em_Name (ry_Metadata v)) ''retire-''
     in if enrollmentID i \<and> verifyRetirement ips c v i = Inr () then Some (projectedRetirement parse v i) else None) items"

definition retirement_job ::
  "(string \<Rightarrow> string option) \<Rightarrow> 'w enroll_env \<Rightarrow> NodeOnboardingConfig \<Rightarrow> int \<Rightarrow> string \<Rightarrow> retirementResource source_result \<times> 'w \<Rightarrow> con_reply \<times> 'w" where
  "retirement_job ips E c st i res =
     (case res of
        (Inl e, w1) \<Rightarrow> (con_fail e, w1)
      | (Inr v, w1) \<Rightarrow>
          (case verifyRetirement ips c v i of Inl e \<Rightarrow> con_fail e | Inr _ \<Rightarrow> (st, BJob (projectedRetirement (ee_time E) v i)), w1))"

definition confirmation_ok :: "(string \<Rightarrow> string option) \<Rightarrow> NodeOnboardingConfig \<Rightarrow> retirement_input \<Rightarrow> bool" where
  "confirmation_ok ips c inp \<longleftrightarrow> \<not> (xr_Region inp \<noteq> nc_Region c \<or> \<not> enrollmentLabel (xr_NodeName inp) \<or> has_dots (xr_NodeName inp)
     \<or> \<not> enrollmentUID (xr_NodeUID inp) \<or> \<not> enrollmentVersion (xr_ResourceVersion inp)
     \<or> xr_ConfirmedNodeName inp \<noteq> xr_NodeName inp \<or> ips (xr_ConfirmedIP inp) = None \<or> \<not> xr_PermanentRetirement inp)"

definition same_identity :: "retirement_input \<Rightarrow> retirementIdentity \<Rightarrow> bool" where
  "same_identity inp d \<longleftrightarrow> \<not> (ri_Name d \<noteq> xr_NodeName inp \<or> ri_UID d \<noteq> xr_NodeUID inp
     \<or> ri_ResourceVersion d \<noteq> xr_ResourceVersion inp
     \<or> xr_ConfirmedIP inp \<notin> set (ri_InternalIPs d @ ri_ExternalIPs d))"

definition retirement_spec_of :: "retirement_input \<Rightarrow> retirementIdentity \<Rightarrow> retirementSpec" where
  "retirement_spec_of inp d =
     \<lparr>rs_Region = xr_Region inp, rs_NodeName = ri_Name d, rs_NodeUID = ri_UID d, rs_InternalIPs = ri_InternalIPs d,
      rs_ExternalIPs = ri_ExternalIPs d, rs_ConfirmedNodeName = xr_ConfirmedNodeName inp, rs_ConfirmedIP = xr_ConfirmedIP inp,
      rs_PermanentRetirement = True\<rparr>"

definition submitRetirement ::
  "console_codec \<Rightarrow> (string \<Rightarrow> string option) \<Rightarrow> 'w enroll_env \<Rightarrow> NodeOnboardingConfig
     \<Rightarrow> (string \<Rightarrow> string \<Rightarrow> string \<Rightarrow> 'w \<Rightarrow> retirementCheck source_result \<times> 'w) \<Rightarrow> con_request \<Rightarrow> 'w \<Rightarrow> con_reply \<times> 'w" where
  "submitRetirement D ips E c check r w =
     (if hq_RawQuery r \<noteq> '''' then (con_error 400 ''invalid_query'', w)
      else case readJSON (ci_retirement D) (hq_Body r) of
        Inl e \<Rightarrow> (refuse_body e, w)
      | Inr inp \<Rightarrow>
          if \<not> confirmation_ok ips c inp then (con_error 400 ''invalid_retirement_confirmation'', w)
          else case check (xr_Region inp) (xr_NodeName inp) (nc_ClusterID c) w of
            (Inl e, w1) \<Rightarrow> (con_fail e, w1)
          | (Inr k, w1) \<Rightarrow>
              if \<not> rk_Eligible k then (con_error 409 (rk_Reason k), w1)
              else if \<not> same_identity inp (rk_Identity k) then (con_error 409 ''node_identity_changed'', w1)
              else case newEnrollmentID E w1 of
                (Inl e, w2) \<Rightarrow> (con_fail e, w2)
              | (Inr i, w2) \<Rightarrow> retirement_job ips E c 202 i
                  (enrollment_request E ''POST'' (enrollmentAPIPath @ ''/noderetirements'')
                     (Some (NewRetirement (''retire-'' @ i) (retirement_spec_of inp (rk_Identity k)))) (ee_retirement E) w2))"

definition checkRetirement ::
  "NodeOnboardingConfig \<Rightarrow> (string \<Rightarrow> string \<Rightarrow> string \<Rightarrow> 'w \<Rightarrow> retirementCheck source_result \<times> 'w) \<Rightarrow> con_request \<Rightarrow> 'w \<Rightarrow> con_reply \<times> 'w" where
  "checkRetirement c check r w =
     (case (map_of (hq_Query r) ''region'', map_of (hq_Query r) ''node'') of
        (Some [region], Some [node]) \<Rightarrow>
          if \<not> hq_QueryOK r \<or> length (hq_Query r) \<noteq> 2 \<or> region \<noteq> nc_Region c \<or> \<not> enrollmentLabel node \<or> has_dots node
          then (con_error 400 ''invalid_query'', w)
          else (case check (nc_Region c) node (nc_ClusterID c) w of (res, w1) \<Rightarrow> (con_backend BCheck res, w1))
      | _ \<Rightarrow> (con_error 400 ''invalid_query'', w))"

definition retirement_dispatch ::
  "console_codec \<Rightarrow> (string \<Rightarrow> string option) \<Rightarrow> 'w enroll_env \<Rightarrow> (enrollmentJob list \<Rightarrow> enrollmentJob list) \<Rightarrow> 'w backend
     \<Rightarrow> NodeOnboardingConfig option \<Rightarrow> string \<Rightarrow> string \<Rightarrow> con_request \<Rightarrow> 'w \<Rightarrow> con_reply \<times> 'w" where
  "retirement_dispatch D ips E tie be onb verb route r w =
     (case onb of
        None \<Rightarrow> (if verb = ''GET'' \<and> route = '''' then (200, BRetirementOff) else con_error 503 ''node_onboarding_not_configured'', w)
      | Some c \<Rightarrow>
          if route = ''/jobs''
          then (if hq_RawQuery r = ''''
                then (case enrollment_request E ''GET'' (enrollmentAPIPath @ ''/noderetirements?limit=100'') None (ee_retirements E) w of
                        (Inl e, w1) \<Rightarrow> (con_fail e, w1)
                      | (Inr (items, continue), w1) \<Rightarrow>
                          ((200, BJobs (newest_first tie (retirement_jobs ips (ee_time E) c items)) (continue \<noteq> '''')), w1))
                else case jobQuery r of
                  None \<Rightarrow> (con_error 400 ''invalid_job_id'', w)
                | Some i \<Rightarrow> retirement_job ips E c 200 i
                    (enrollment_request E ''GET'' (retirementPath i) None (ee_retirement E) w))
          else case be_CheckNodeRetirement be of
            None \<Rightarrow> (con_error 503 ''node_retirement_unavailable'', w)
          | Some check \<Rightarrow> if verb = ''GET'' then checkRetirement c check r w else submitRetirement D ips E c check r w)"

definition nodeRetirementAPI ::
  "console_codec \<Rightarrow> (string \<Rightarrow> string option) \<Rightarrow> 'w enroll_env \<Rightarrow> (enrollmentJob list \<Rightarrow> enrollmentJob list) \<Rightarrow> 'w backend
     \<Rightarrow> (string \<Rightarrow> string) \<Rightarrow> console_config \<Rightarrow> int \<Rightarrow> con_request \<Rightarrow> authState \<times> 'w \<Rightarrow> con_reply \<times> authState \<times> 'w" where
  "nodeRetirementAPI D ips E tie be sha cfg now r aw =
     (let route = TrimPrefix (hq_Path r) ''/fleet-admin/api/node-retirement'';
          verb = (if route = '''' \<and> hq_Method r = ''POST'' then ''POST'' else ''GET'')
      in if route \<noteq> '''' \<and> route \<noteq> ''/jobs'' then (con_error 404 ''not_found'', aw)
         else case authorizeNodeAPI sha cfg now r verb (fst aw) of
           (Some refusal, a1) \<Rightarrow> (refusal, a1, snd aw)
         | (None, a1) \<Rightarrow>
             (case retirement_dispatch D ips E tie be (cs_Onboarding cfg) verb route r (snd aw) of (rep, w1) \<Rightarrow> (rep, a1, w1)))"

end
