(* ===== verification/Console_Retirement.thy ===== *)
theory Console_Retirement
  imports Console_Onboarding
begin

text \<open>
  Reading the cluster and the fleet: \<^verbatim>\<open>upstream.request\<close>, \<^verbatim>\<open>upstream.get\<close> and \<^verbatim>\<open>readFleetSnapshot\<close> of
  \<^verbatim>\<open>internal/console/source.go\<close>, and \<^verbatim>\<open>CheckNodeRetirement\<close> of \<^verbatim>\<open>internal/console/retirement.go\<close>.
  The cluster, the files and the clock are an environment over a state \<open>'w\<close> (\<open>source_env\<close>) and so are the
  JSON decoders.
\<close>

subsection \<open>Reading\<close>

record src_request =
  sq_Method :: string
  sq_URL :: string
  sq_Body :: "string option"
  sq_Bearer :: string

datatype src_reply = SrcError | SrcReply int "string option"

record upstream_cfg =
  us_base :: string
  us_tokenFile :: string

text \<open>What \<^verbatim>\<open>Lstat\<close>, \<^verbatim>\<open>Open\<close> and reading give for the snapshot file; times in nanoseconds.\<close>

record snapshot_file =
  sf_Stat :: "(bool \<times> bool \<times> int \<times> int) option"
  sf_SameFile :: bool
  sf_Data :: "string option"

record node_doc =
  nd_Name :: string
  nd_UID :: string
  nd_ResourceVersion :: string
  nd_Labels :: "string gomap"
  nd_DeletionTimestamp :: string
  nd_Conditions :: "(string \<times> string) list"
  nd_Addresses :: "(string \<times> string) list"

record 'w source_env =
  so_ask :: "src_request \<Rightarrow> 'w \<Rightarrow> src_reply \<times> 'w"
  so_file :: "string \<Rightarrow> 'w \<Rightarrow> string option"
  so_snapshot :: "string \<Rightarrow> 'w \<Rightarrow> snapshot_file"
  so_now :: "'w \<Rightarrow> int"
  so_escape :: "string \<Rightarrow> string"
  so_stamp :: "int \<Rightarrow> string"
  so_object :: "string \<Rightarrow> (string \<times> json) list option"
  so_node :: "string \<Rightarrow> node_doc option"
  so_listed :: "string \<Rightarrow> (string \<times> string list) option"

text \<open>The items of a listing are the names of the nodes they run on; the first component is its continuation.\<close>

definition upstream_request ::
  "'w source_env \<Rightarrow> upstream_cfg \<Rightarrow> string \<Rightarrow> string \<Rightarrow> string option \<Rightarrow> int \<Rightarrow> 'w \<Rightarrow> string source_result \<times> 'w" where
  "upstream_request S u verb path body max_bytes w =
     (case so_file S (us_tokenFile u) w of
        None \<Rightarrow> (fail 502 ''upstream_credential_unavailable'', w)
      | Some token \<Rightarrow>
          if token = '''' \<or> int (length token) > 32768 then (fail 502 ''upstream_credential_unavailable'', w)
          else case so_ask S \<lparr>sq_Method = verb, sq_URL = us_base u @ path, sq_Body = body, sq_Bearer = trim_space token\<rparr> w of
            (SrcError, w1) \<Rightarrow> (fail 502 ''upstream_unavailable'', w1)
          | (SrcReply st data, w1) \<Rightarrow>
              (if st = 404 then fail 404 ''resource_not_found''
               else if st = 401 \<or> st = 403 then fail 502 ''upstream_access_denied''
               else if st < 200 \<or> st \<ge> 300 then fail 502 ''upstream_request_failed''
               else case data of
                 None \<Rightarrow> fail 502 ''upstream_response_limit''
               | Some d \<Rightarrow> if int (length d) > max_bytes then fail 502 ''upstream_response_limit'' else Inr d, w1))"

definition upstream_get ::
  "'w source_env \<Rightarrow> upstream_cfg \<Rightarrow> string \<Rightarrow> (string \<Rightarrow> 'a option) \<Rightarrow> 'w \<Rightarrow> 'a source_result \<times> 'w" where
  "upstream_get S u path decode w =
     (case upstream_request S u ''GET'' path None 8388608 w of
        (Inl e, w1) \<Rightarrow> (Inl e, w1)
      | (Inr b, w1) \<Rightarrow> (case decode b of None \<Rightarrow> fail 502 ''upstream_invalid_response'' | Some v \<Rightarrow> Inr v, w1))"

text \<open>The tuple is: regular file, writable by others, size, modification time.\<close>

definition readFleetSnapshot :: "'w source_env \<Rightarrow> string \<Rightarrow> 'w \<Rightarrow> (string \<times> json) list source_result" where
  "readFleetSnapshot S path w =
     (let f = so_snapshot S path w
      in case sf_Stat f of
           None \<Rightarrow> fail 502 ''fleet_snapshot_unavailable''
         | Some (regular, writable, bytes, mtime) \<Rightarrow>
             if \<not> regular \<or> writable \<or> bytes > 8388608 then fail 502 ''fleet_snapshot_unavailable''
             else if so_now S w - mtime > 20 * 1000000000 \<or> so_now S w - mtime < - 5 * 1000000000 then fail 502 ''fleet_snapshot_stale''
             else if \<not> sf_SameFile f then fail 502 ''fleet_snapshot_unavailable''
             else case sf_Data f of
               None \<Rightarrow> fail 502 ''fleet_snapshot_unavailable''
             | Some raw \<Rightarrow>
                 if int (length raw) > 8388608 then fail 502 ''fleet_snapshot_unavailable''
                 else case so_object S raw of
                   None \<Rightarrow> fail 502 ''fleet_snapshot_invalid''
                 | Some m \<Rightarrow>
                     if vfield m ''ok'' \<noteq> VBool True then fail 502 ''fleet_snapshot_invalid''
                     else Inr (mput ''sampled_at'' (VText (so_stamp S mtime)) m))"

subsection \<open>Is a node dead and empty?\<close>

record data_source =
  dt_Regions :: "(RegionConfig \<times> upstream_cfg) list"
  dt_FleetSnapshotFile :: string

definition no_identity :: retirementIdentity where
  "no_identity = \<lparr>ri_Name = '''', ri_UID = '''', ri_ResourceVersion = '''', ri_InternalIPs = [], ri_ExternalIPs = []\<rparr>"

definition check_result :: "string \<Rightarrow> retirementIdentity \<Rightarrow> bool \<Rightarrow> string \<Rightarrow> retirementCheck" where
  "check_result region d eligible_node reason =
     \<lparr>rk_Enabled = True, rk_Eligible = eligible_node, rk_Reason = reason, rk_Region = region, rk_Identity = d\<rparr>"

definition addresses_of :: "(string \<Rightarrow> string option) \<Rightarrow> string \<Rightarrow> node_doc \<Rightarrow> string list" where
  "addresses_of ips kind n = sort (remdups (map snd (filter (\<lambda>(t, a). t = kind \<and> canonical_ip ips a) (nd_Addresses n))))"

definition identity_of :: "(string \<Rightarrow> string option) \<Rightarrow> string \<Rightarrow> node_doc \<Rightarrow> retirementIdentity" where
  "identity_of ips name n =
     \<lparr>ri_Name = name, ri_UID = nd_UID n, ri_ResourceVersion = nd_ResourceVersion n,
      ri_InternalIPs = addresses_of ips ''InternalIP'' n, ri_ExternalIPs = addresses_of ips ''ExternalIP'' n\<rparr>"

definition label_text :: "string gomap \<Rightarrow> string \<Rightarrow> string" where
  "label_text m k = (case map_of m k of None \<Rightarrow> '''' | Some v \<Rightarrow> v)"

text \<open>Why the node itself may not be retired, as far as its own document tells.\<close>

definition node_objection :: "(string \<Rightarrow> string option) \<Rightarrow> string \<Rightarrow> string \<Rightarrow> node_doc \<Rightarrow> string option" where
  "node_objection ips name cluster n =
     (let d = identity_of ips name n; ready = map snd (filter (\<lambda>c. fst c = ''Ready'') (nd_Conditions n));
          last_ready = (if ready = [] then '''' else last ready)
      in if ri_InternalIPs d @ ri_ExternalIPs d = [] \<or> length (ri_InternalIPs d) > 8 \<or> length (ri_ExternalIPs d) > 8
         then Some ''node_identity_unavailable''
         else if map_of (nd_Labels n) ''node-role.kubernetes.io/control-plane'' \<noteq> None then Some ''control_node_protected''
         else if map_of (nd_Labels n) ''node-role.kubernetes.io/master'' \<noteq> None then Some ''control_node_protected''
         else if label_text (nd_Labels n) ''nakama-agones.io/game-node'' \<noteq> ''true''
              \<or> label_text (nd_Labels n) ''nakama-agones.io/role'' \<noteq> ''game''
              \<or> label_text (nd_Labels n) ''nakama-agones.io/cluster'' \<noteq> cluster then Some ''node_not_owned_worker''
         else if last_ready = ''True'' then Some ''node_still_ready''
         else if length ready \<noteq> 1 \<or> (last_ready \<noteq> ''False'' \<and> last_ready \<noteq> ''Unknown'') then Some ''node_readiness_unknown''
         else None)"

definition worker_terminal :: "string \<Rightarrow> bool" where
  "worker_terminal st \<longleftrightarrow> st = ''stopped'' \<or> st = ''lost'' \<or> st = ''failed''"

definition room_terminal :: "string \<Rightarrow> bool" where
  "room_terminal st \<longleftrightarrow> st = ''completed'' \<or> st = ''cancelled'' \<or> st = ''failed'' \<or> st = ''expired''"

text \<open>The identifiers of the workers on the node, or the objection.\<close>

fun retire_workers ::
  "(string \<Rightarrow> string option) \<Rightarrow> string list \<Rightarrow> string \<Rightarrow> string \<Rightarrow> string list \<Rightarrow> json list \<Rightarrow> string + string list" where
  "retire_workers ips addrs name region attached [] = Inr attached"
| "retire_workers ips addrs name region attached (x # xs) =
     (case x of
        VObj worker \<Rightarrow>
          (let st = textField worker ''state''; host = textField worker ''host''
           in if textField worker ''region'' \<noteq> region then retire_workers ips addrs name region attached xs
              else if host \<in> set addrs \<or> textField worker ''node'' = name
              then (if \<not> worker_terminal st then Inl ''node_has_processing_worker''
                    else retire_workers ips addrs name region (textField worker ''id'' # attached) xs)
              else if \<not> worker_terminal st \<and> ips host = None then Inl ''worker_location_unavailable''
              else retire_workers ips addrs name region attached xs)
      | _ \<Rightarrow> Inl ''fleet_snapshot_invalid'')"

fun retire_rooms :: "string list \<Rightarrow> json list \<Rightarrow> string option" where
  "retire_rooms attached [] = None"
| "retire_rooms attached (x # xs) =
     (case x of
        VObj room \<Rightarrow>
          if textField room ''worker_id'' \<notin> set attached then retire_rooms attached xs
          else if \<not> room_terminal (textField room ''state'') then Some ''node_has_active_allocations''
          else retire_rooms attached xs
      | _ \<Rightarrow> Some ''fleet_snapshot_invalid'')"

definition fleet_objection ::
  "(string \<Rightarrow> string option) \<Rightarrow> retirementIdentity \<Rightarrow> string \<Rightarrow> (string \<times> json) list \<Rightarrow> string option" where
  "fleet_objection ips d region fleet =
     (case (vfield fleet ''workers'', vfield fleet ''rooms'') of
        (VList workers, VList rooms) \<Rightarrow>
          (case retire_workers ips (ri_InternalIPs d @ ri_ExternalIPs d) (ri_Name d) region [] workers of
             Inl code \<Rightarrow> Some code
           | Inr attached \<Rightarrow> retire_rooms attached rooms)
      | _ \<Rightarrow> Some ''fleet_snapshot_invalid'')"

definition itemsPath :: "string \<Rightarrow> string \<Rightarrow> string" where
  "itemsPath ns resource = ''/api/v1/namespaces/'' @ ns @ ''/'' @ resource"

definition retirement_fleet ::
  "'w source_env \<Rightarrow> (string \<Rightarrow> string option) \<Rightarrow> data_source \<Rightarrow> string \<Rightarrow> retirementIdentity \<Rightarrow> 'w \<Rightarrow> retirementCheck source_result" where
  "retirement_fleet S ips ds region d w =
     (if dt_FleetSnapshotFile ds = '''' then Inr (check_result region d False ''fleet_snapshot_required'')
      else case readFleetSnapshot S (dt_FleetSnapshotFile ds) w of
        Inl e \<Rightarrow> Inl e
      | Inr fleet \<Rightarrow>
          Inr (case fleet_objection ips d region fleet of
                 Some code \<Rightarrow> check_result region d False code
               | None \<Rightarrow> check_result region d True ''eligible_permanent_retirement_requires_confirmation''))"

definition retirement_servers ::
  "'w source_env \<Rightarrow> (string \<Rightarrow> string option) \<Rightarrow> data_source \<Rightarrow> RegionConfig \<times> upstream_cfg \<Rightarrow> string \<Rightarrow> retirementIdentity \<Rightarrow> 'w
     \<Rightarrow> retirementCheck source_result \<times> 'w" where
  "retirement_servers S ips ds src region d w =
     (case upstream_get S (snd src) (''/apis/agones.dev/v1/namespaces/'' @ rc_Namespace (fst src) @ ''/gameservers?limit=1000'') (so_listed S) w of
        (Inl e, w1) \<Rightarrow> (Inl e, w1)
      | (Inr (continue, nodes), w1) \<Rightarrow>
          (if continue \<noteq> '''' then Inr (check_result region d False ''node_inventory_incomplete'')
           else if ri_Name d \<in> set nodes then Inr (check_result region d False ''node_has_gameservers'')
           else retirement_fleet S ips ds region d w1, w1))"

definition retirement_pods ::
  "'w source_env \<Rightarrow> (string \<Rightarrow> string option) \<Rightarrow> data_source \<Rightarrow> RegionConfig \<times> upstream_cfg \<Rightarrow> string \<Rightarrow> retirementIdentity \<Rightarrow> 'w
     \<Rightarrow> retirementCheck source_result \<times> 'w" where
  "retirement_pods S ips ds src region d w =
     (case upstream_get S (snd src) (itemsPath (rc_Namespace (fst src)) ''pods'' @ ''?fieldSelector=''
             @ so_escape S (''spec.nodeName='' @ ri_Name d) @ ''&limit=1000'') (so_listed S) w of
        (Inl e, w1) \<Rightarrow> (Inl e, w1)
      | (Inr (continue, nodes), w1) \<Rightarrow>
          if continue \<noteq> '''' then (Inr (check_result region d False ''node_inventory_incomplete''), w1)
          else if ri_Name d \<in> set nodes then (Inr (check_result region d False ''node_has_pods''), w1)
          else retirement_servers S ips ds src region d w1)"

definition CheckNodeRetirement ::
  "'w source_env \<Rightarrow> (string \<Rightarrow> string option) \<Rightarrow> data_source \<Rightarrow> string \<Rightarrow> string \<Rightarrow> string \<Rightarrow> 'w \<Rightarrow> retirementCheck source_result \<times> 'w" where
  "CheckNodeRetirement S ips ds region name cluster w =
     (case find (\<lambda>src. rc_Name (fst src) = region) (dt_Regions ds) of
        None \<Rightarrow> (fail 400 ''invalid_query'', w)
      | Some src \<Rightarrow>
          if \<not> enrollmentLabel name \<or> has_dots name then (fail 400 ''invalid_query'', w)
          else case upstream_get S (snd src) (''/api/v1/nodes/'' @ name) (so_node S) w of
            (Inl e, w1) \<Rightarrow> (Inl e, w1)
          | (Inr n, w1) \<Rightarrow>
              if nd_Name n \<noteq> name \<or> \<not> enrollmentUID (nd_UID n) \<or> \<not> enrollmentVersion (nd_ResourceVersion n) \<or> nd_DeletionTimestamp n \<noteq> ''''
              then (Inr (check_result region no_identity False ''node_identity_unavailable''), w1)
              else case node_objection ips name cluster n of
                Some code \<Rightarrow> (Inr (check_result region (identity_of ips name n) False code), w1)
              | None \<Rightarrow> retirement_pods S ips ds src region (identity_of ips name n) w1)"

end
