(* ===== verification/Console_Api.thy ===== *)
theory Console_Api
  imports Console_Retirement
begin

text \<open>
  The versioned read interface: \<^verbatim>\<open>internal/console/api_v1.go\<close> and \<^verbatim>\<open>internal/console/capacity.go\<close>. Decoded
  objects are association lists; \<open>size_of\<close> is the length of a value's JSON text.
\<close>

definition contains_text :: "string \<Rightarrow> string \<Rightarrow> bool" where
  "contains_text s p \<longleftrightarrow> list_ex (\<lambda>t. HasPrefix t p) (suffixes s)"

definition jint :: "int \<Rightarrow> json" where "jint n = VNum (Fin (of_int n))"

definition apiObject :: "(json \<Rightarrow> int) \<Rightarrow> json \<Rightarrow> (string \<times> json) list source_result" where
  "apiObject size_of v =
     (if size_of v > 8388608 then fail 502 ''upstream_invalid_response''
      else case v of VObj m \<Rightarrow> Inr m | _ \<Rightarrow> fail 502 ''upstream_invalid_response'')"

subsection \<open>Queries\<close>

definition validAPIQuery :: "string list \<Rightarrow> query \<Rightarrow> bool" where
  "validAPIQuery allowed q \<longleftrightarrow> list_all (\<lambda>(k, vs). k \<in> set allowed \<and>
     (case vs of [v] \<Rightarrow> \<not> int (length v) > 200 \<and> utf8_valid v \<and> \<not> list_ex (\<lambda>c. byte_in 0 31 c \<or> byte_in 127 127 c) v
      | _ \<Rightarrow> False)) q"

definition page_number :: "query \<Rightarrow> string \<Rightarrow> int \<Rightarrow> int option" where
  "page_number q k dflt =
     (let v = query_Get q k
      in if v = '''' then Some dflt
         else case Atoi v of None \<Rightarrow> None | Some n \<Rightarrow> if itoa n \<noteq> v then None else Some n)"

definition apiPagination :: "query \<Rightarrow> (int \<times> int) option" where
  "apiPagination q =
     (case (page_number q ''limit'' 50, page_number q ''offset'' 0) of
        (Some limit, Some offset) \<Rightarrow>
          if limit \<ge> 1 \<and> limit \<le> 200 \<and> offset \<ge> 0 \<and> offset \<le> 100000 then Some (limit, offset) else None
      | _ \<Rightarrow> None)"

definition allowed_params :: "string \<Rightarrow> string list" where
  "allowed_params resource =
     (if resource = ''overview'' then [''region'']
      else if resource = ''rooms'' then [''limit'', ''offset'', ''region'', ''state'', ''worker_id'', ''room_id'', ''user_id'']
      else if resource = ''instances'' then [''limit'', ''offset'', ''region'', ''state'', ''worker_id'', ''node'']
      else if resource = ''nodes'' then [''limit'', ''offset'', ''region'', ''name'', ''role'', ''ready'']
      else if resource = ''events'' then [''limit'', ''offset'', ''region'', ''namespace'', ''object_name'', ''type'', ''reason'']
      else [])"

subsection \<open>Projections\<close>

definition fields :: "(string \<times> json) list \<Rightarrow> string list \<Rightarrow> (string \<times> json) list" where
  "fields m names = List.map_filter (\<lambda>n. map_option (Pair n) (map_of m n)) names"

definition selectRegions :: "json list \<Rightarrow> string \<Rightarrow> (string \<times> json) list list \<times> bool" where
  "selectRegions regions filt =
     (let sel = filter (\<lambda>m. filt = '''' \<or> textField m ''name'' = filt) (objects (VList regions))
      in (sel, filt = '''' \<or> sel \<noteq> []))"

definition warning :: "string \<Rightarrow> string \<Rightarrow> apiWarning" where
  "warning src code = (src, if safeErrorCode code then code else ''upstream_unavailable'')"

definition is_true :: "(string \<times> json) list \<Rightarrow> string \<Rightarrow> bool" where
  "is_true m k \<longleftrightarrow> vfield m k = VBool True"

definition region_warnings :: "(string \<times> json) list \<Rightarrow> apiWarning list" where
  "region_warnings r =
     (if is_true r ''ok'' then [] else [warning (''region:'' @ textField r ''name'') (textField r ''error'')])
     @ (if is_true r ''metrics_ok'' then [] else [warning (''metrics:'' @ textField r ''name'') ''metrics_unavailable''])"

definition snapshotWarnings :: "(string \<times> json) list \<Rightarrow> (string \<times> json) list list \<Rightarrow> apiWarning list" where
  "snapshotWarnings fleet regions =
     (if is_true fleet ''ok'' then [] else [warning ''fleet'' (textField fleet ''error'')]) @ concat (map region_warnings regions)"

definition capacity_note :: string where
  "capacity_note = ''CPU request equals limit for new policies. Allocatable excludes node reservations; Agones sidecar and all other pod requests still consume capacity. This console does not claim complete cluster pod coverage.''"

definition short_pods :: "(string \<times> json) list \<Rightarrow> nat" where
  "short_pods r = length (filter (\<lambda>p. vfield p ''phase'' = VText ''Pending'' \<and> is_true p ''scheduling_capacity_shortage'')
     (objects (vfield r ''pods'')))"

definition capacity_node :: "float64 \<Rightarrow> (string \<times> json) list \<Rightarrow> (string \<times> json) list \<Rightarrow> json" where
  "capacity_node req r n =
     (let (alloc, ok) = number (vfield n ''cpu_allocatable_millicores''); capacity = fst (number (vfield n ''cpu_capacity_millicores''))
      in VObj [(''region'', vfield r ''name''), (''name'', vfield n ''name''), (''ready'', vfield n ''ready''),
               (''unschedulable'', vfield n ''unschedulable''), (''cpu_capacity_millicores'', VNum capacity),
               (''cpu_allocatable_millicores'', VNum alloc), (''cpu_reserved_millicores'', VNum (fsub capacity alloc)),
               (''desired_game_cpu_millicores'', VNum req),
               (''fits_before_sidecar_and_other_pods'', if ok \<and> req > Fin 0 then VBool (alloc > req) else VNull)])"

definition capacityProjection :: "(string \<times> json) list \<Rightarrow> (string \<times> json) list list \<Rightarrow> json" where
  "capacityProjection fleet regions =
     (let req = fst (number (vfield (mapObject (vfield fleet ''capacity_policy'')) ''cpu_request_millicores''));
          known = list_all (\<lambda>r. is_true r ''ok'') regions;
          shortages = sum_list (map short_pods regions)
      in VObj [(''known'', VBool known),
               (''nodes'', VList (concat (map (\<lambda>r. map (capacity_node req r) (filter (\<lambda>n. is_true n ''game_node'') (objects (vfield r ''nodes''))))
                  regions))),
               (''pending_resource_shortage_pods'', jint (int shortages)),
               (''physical_shortage_confirmed'', VBool (known \<and> shortages > 0)), (''scope'', VText ''configured_namespaces''),
               (''availability'', VText ''scheduler_decides''), (''note'', VText capacity_note)])"

definition in_region :: "string \<Rightarrow> (string \<times> json) list \<Rightarrow> bool" where
  "in_region filt m \<longleftrightarrow> filt = '''' \<or> textField m ''region'' = filt"

definition fleet_counts :: "(string \<times> json) list \<Rightarrow> string \<Rightarrow> json list" where
  "fleet_counts fleet filt =
     (if is_true fleet ''ok''
      then (let workers = filter (in_region filt) (objects (vfield fleet ''workers''));
                rooms = filter (in_region filt) (objects (vfield fleet ''rooms''));
                live = filter (\<lambda>m. \<not> room_terminal (textField m ''state'')) rooms
            in [jint (int (length workers)), jint (int (length (filter (\<lambda>m. \<not> worker_terminal (textField m ''state'')) workers))),
                jint (int (length rooms)), jint (int (length live)),
                jint (int (length (filter (\<lambda>p. is_true p ''connected'') (concat (map (\<lambda>m. objects (vfield m ''players'')) live)))))])
      else replicate 5 VNull)"

definition region_view :: "(string \<times> json) list \<Rightarrow> json" where
  "region_view r = VObj (fields r [''name'', ''ok'', ''metrics_ok'', ''error'', ''observed_namespaces'', ''pod_count_scope'']
     @ [(''nodes_sampled'', jint (int (length (objects (vfield r ''nodes''))))), (''pods_sampled'', jint (int (length (objects (vfield r ''pods''))))),
        (''events_sampled'', jint (int (length (objects (vfield r ''events'')))))])"

definition overviewProjection ::
  "(string \<times> json) list \<Rightarrow> (string \<times> json) list \<Rightarrow> (string \<times> json) list list \<Rightarrow> string \<Rightarrow> read_access \<Rightarrow> json" where
  "overviewProjection snapshot fleet regions filt mode =
     VObj [(''fleet'', VObj (fields fleet [''ok'', ''revision'', ''sampled_at'', ''max_processes'', ''rooms_per_process'',
               ''creation_blocked_reason'', ''error'', ''management_error'']
             @ (''can_manage'', VBool (mode = BySession \<and> is_true fleet ''can_manage''))
             # zip [''instances_total'', ''instances_active'', ''rooms_total'', ''rooms_active'', ''players_connected''] (fleet_counts fleet filt))),
           (''regions'', VList (map region_view regions)), (''capacity'', capacityProjection fleet regions),
           (''log_retention_days'', vfield snapshot ''log_retention_days''), (''drain_scope'', VText ''instance'')]"

subsection \<open>Rows\<close>

definition room_row :: "(string \<times> json) list \<Rightarrow> (string \<times> json) list" where
  "room_row m = fields m [''id'', ''allocation_id'', ''worker_id'', ''region'', ''state'', ''epoch'', ''created_at'', ''expires_at'', ''terminal_at'', ''error'']
     @ [(''players'', VList (map (\<lambda>p. VObj (fields p [''user_id'', ''seat'', ''connected'', ''ever_connected'', ''reconnect_until'']))
           (objects (vfield m ''players''))))]"

definition timingMetricNames :: "string list" where
  "timingMetricNames = [''client_presentation_to_ready_ms'', ''client_presentation_to_settlement_ms'', ''server_first_ack_to_ready_ms'',
     ''server_first_ack_to_settlement_ms'', ''server_last_ack_to_ready_ms'', ''server_last_ack_to_settlement_ms'',
     ''simulation_queue_ms'', ''simulation_work_ms'']"

definition timing_field :: "(string \<times> json) list \<Rightarrow> string \<Rightarrow> (string \<times> json) option" where
  "timing_field metrics k = map_option (\<lambda>raw. (k, case raw of
       VObj window \<Rightarrow> VObj (fields window [''window_seconds'', ''count'', ''p50'', ''p95'', ''p99'', ''max'', ''last_sample_age_seconds''])
     | _ \<Rightarrow> VNull)) (map_of metrics k)"

definition project_metrics :: "(string \<times> json) list \<Rightarrow> json" where
  "project_metrics metrics = VObj (fields metrics [''simulation_pending'', ''simulation_active'', ''simulation_oldest_seconds'', ''memory_bytes'',
       ''frame_p99_ms'', ''audit_pending'', ''audit_active'', ''pending_results'', ''simulation_workers'', ''audit_workers'']
     @ List.map_filter (timing_field metrics) timingMetricNames)"

definition add_pod :: "(string \<times> json) list \<Rightarrow> (string \<times> json) list \<Rightarrow> (string \<times> json) list" where
  "add_pod pod row = mput ''pod_status'' (VObj (fields pod [''name'', ''namespace'', ''node'', ''phase'', ''ready'', ''restarts'', ''reason'',
       ''containers'', ''container_details'', ''cpu_millicores'', ''memory_bytes'', ''scheduling_capacity_shortage'']))
     (mput ''namespace'' (vfield pod ''namespace'') (mput ''node'' (vfield pod ''node'') row))"

definition instance_row :: "(string \<times> json) list list \<Rightarrow> (string \<times> json) list \<Rightarrow> (string \<times> json) list" where
  "instance_row regions m =
     (let row = fields m [''id'', ''pod'', ''region'', ''build_hash'', ''state'', ''host'', ''port'', ''max_rooms'', ''occupied_rooms'', ''player_count'',
                  ''ready'', ''draining'', ''created_at'', ''last_heartbeat'', ''metrics'', ''error''];
          row1 = (case vfield m ''metrics'' of VObj metrics \<Rightarrow> mput ''metrics'' (project_metrics metrics) row | _ \<Rightarrow> row);
          mine = filter (\<lambda>pod. textField pod ''worker_id'' = textField m ''id'')
            (concat (map (\<lambda>r. objects (vfield r ''pods'')) (filter (\<lambda>r. textField r ''name'' = textField m ''region'') regions)))
      in fold add_pod mine (mput ''pod_status'' VNull row1))"

definition cluster_row :: "string \<Rightarrow> (string \<times> json) list \<Rightarrow> (string \<times> json) list \<Rightarrow> (string \<times> json) list" where
  "cluster_row resource r m = mput ''region'' (vfield r ''name'') (fields m
     (if resource = ''nodes''
      then [''name'', ''ready'', ''internal_ips'', ''external_ips'', ''operator_public_ip'', ''ready_status'', ''ready_last_transition_at'',
            ''unschedulable'', ''role'', ''cpu_capacity_millicores'', ''memory_capacity_bytes'', ''cpu_allocatable_millicores'',
            ''memory_allocatable_bytes'', ''cpu_millicores'', ''memory_bytes'']
      else [''namespace'', ''object_name'', ''type'', ''reason'', ''message'', ''time'']))"

definition projectRows ::
  "string \<Rightarrow> (string \<times> json) list \<Rightarrow> (string \<times> json) list list \<Rightarrow> (string \<times> json) list list" where
  "projectRows resource fleet regions =
     (if resource = ''rooms'' then map room_row (objects (vfield fleet ''rooms''))
      else if resource = ''instances'' then map (instance_row regions) (objects (vfield fleet ''workers''))
      else concat (map (\<lambda>r. map (cluster_row resource r) (objects (vfield r resource))) regions))"

definition match_param :: "string \<Rightarrow> (string \<times> json) list \<Rightarrow> string \<Rightarrow> string \<Rightarrow> bool" where
  "match_param resource row k v =
     (if v = '''' \<or> k = ''limit'' \<or> k = ''offset'' then True
      else if k = ''ready'' then is_true row ''ready'' = (v = ''true'')
      else if k = ''user_id'' then list_ex (\<lambda>p. textField p ''user_id'' = v) (objects (vfield row ''players''))
      else textField row (if k = ''room_id'' \<or> (k = ''worker_id'' \<and> resource = ''instances'') then ''id'' else k) = v)"

definition matchRow :: "string \<Rightarrow> (string \<times> json) list \<Rightarrow> query \<Rightarrow> bool" where
  "matchRow resource row q \<longleftrightarrow> list_all (\<lambda>(k, vs). match_param resource row k (hd vs)) q"

definition rowSortKey :: "string \<Rightarrow> (string \<times> json) list \<Rightarrow> string" where
  "rowSortKey resource row =
     (let t = (\<lambda>k. textField row k)
      in if resource = ''rooms'' then t ''region'' @ ''/'' @ t ''id'' @ ''/'' @ t ''allocation_id''
         else if resource = ''instances'' then t ''region'' @ ''/'' @ t ''id''
         else if resource = ''nodes'' then t ''region'' @ ''/'' @ t ''name''
         else t ''region'' @ ''/'' @ t ''time'' @ ''/'' @ t ''namespace'' @ ''/'' @ t ''object_name'' @ ''/'' @ t ''reason'')"

definition filtered_rows ::
  "string \<Rightarrow> (string \<times> json) list \<Rightarrow> (string \<times> json) list list \<Rightarrow> query \<Rightarrow> (string \<times> json) list list" where
  "filtered_rows resource fleet regions q =
     sort_key (rowSortKey resource) (filter (\<lambda>row. matchRow resource row q) (projectRows resource fleet regions))"

definition paginate :: "int \<Rightarrow> int \<Rightarrow> 'a list \<Rightarrow> 'a list \<times> apiPage" where
  "paginate limit offset rows =
     (let total = int (length rows); from = min offset total; upto = min (from + limit) total
      in (take (nat (upto - from)) (drop (nat from) rows),
          \<lparr>pg_Offset = offset, pg_Limit = limit, pg_Returned = upto - from, pg_Total = total,
           pg_NextOffset = (if upto < total then Some upto else None)\<rparr>))"

subsection \<open>The handler\<close>

definition api_page ::
  "string \<Rightarrow> query \<Rightarrow> read_access \<Rightarrow> int \<Rightarrow> int \<Rightarrow> (string \<times> json) list \<Rightarrow> con_reply" where
  "api_page resource q mode limit offset snapshot =
     (case (vfield snapshot ''fleet'', vfield snapshot ''regions'') of
        (VObj fleet, VList regions) \<Rightarrow>
          (let (selected, known) = selectRegions regions (query_Get q ''region'');
               warnings = snapshotWarnings fleet selected;
               code = textField fleet ''error'';
               answer = \<lparr>ar_ObservedAt = textField snapshot ''observed_at'', ar_ReadOnly = (mode = ByToken), ar_Partial = (warnings \<noteq> []),
                         ar_Warnings = warnings, ar_Data = VNull, ar_Page = None\<rparr>
           in if \<not> known then con_error 400 ''unknown_region''
              else if resource = ''overview''
              then (200, BApi (answer\<lparr>ar_Data := overviewProjection snapshot fleet selected (query_Get q ''region'') mode\<rparr>))
              else if (resource = ''rooms'' \<or> resource = ''instances'') \<and> \<not> is_true fleet ''ok''
              then con_error 503 (if safeErrorCode code then code else ''fleet_snapshot_unavailable'')
              else case paginate limit offset (filtered_rows resource fleet selected q) of
                (rows, page) \<Rightarrow> (200, BApi (answer\<lparr>ar_Data := VList (map VObj rows), ar_Page := Some page\<rparr>)))
      | _ \<Rightarrow> con_error 502 ''upstream_invalid_response'')"

definition api_logs :: "(json \<Rightarrow> int) \<Rightarrow> read_access \<Rightarrow> json source_result \<Rightarrow> con_reply" where
  "api_logs size_of mode res =
     (case res of
        Inl e \<Rightarrow> con_fail e
      | Inr v \<Rightarrow>
          (case apiObject size_of v of
             Inl _ \<Rightarrow> con_error 502 ''upstream_invalid_response''
           | Inr data \<Rightarrow> (200, BApi \<lparr>ar_ObservedAt = textField data ''observed_at'', ar_ReadOnly = (mode = ByToken), ar_Partial = False,
               ar_Warnings = [], ar_Data = VObj (fields data [''source'', ''observed_at'', ''retention_days'', ''entries'', ''truncated'', ''next_before'']),
               ar_Page = None\<rparr>)))"

definition log_params :: "string list" where
  "log_params = [''region'', ''namespace'', ''pod'', ''container'', ''mode'', ''minutes'', ''limit'', ''search'', ''before'']"

definition api_resource ::
  "(json \<Rightarrow> int) \<Rightarrow> 'w backend \<Rightarrow> string \<Rightarrow> query \<Rightarrow> read_access \<Rightarrow> 'w \<Rightarrow> con_reply \<times> 'w" where
  "api_resource size_of be resource q mode w =
     (if resource = ''policy'' \<or> resource = ''alerts''
      then (if q \<noteq> [] then (con_error 400 ''invalid_query'', w)
            else if resource = ''policy''
            then (case be_Policy be of
                    None \<Rightarrow> (con_error 503 ''policy_unavailable'', w)
                  | Some get \<Rightarrow>
                      (case get w of (res, w1) \<Rightarrow>
                         (con_backend (\<lambda>p. BPolicy (if mode = ByToken then p\<lparr>pd_CanManage := False\<rparr> else p) (mode = ByToken)) res, w1)))
            else (case be_Alerts be of
                    None \<Rightarrow> (con_error 403 ''alerts_disabled'', w)
                  | Some get \<Rightarrow>
                      (case get w of (res, w1) \<Rightarrow>
                         (con_backend (\<lambda>(v, configurable). BAlerts v (mode = ByToken) (mode \<noteq> ByToken \<and> configurable)) res, w1))))
      else if resource = ''logs''
      then (if \<not> validAPIQuery log_params q then (con_error 400 ''invalid_query'', w)
            else case be_Logs be q w of (res, w1) \<Rightarrow> (api_logs size_of mode res, w1))
      else if \<not> validAPIQuery (allowed_params resource) q then (con_error 400 ''invalid_query'', w)
      else case apiPagination q of
        None \<Rightarrow> (con_error 400 ''invalid_query'', w)
      | Some (limit, offset) \<Rightarrow>
          if query_Get q ''ready'' \<notin> {'''', ''true'', ''false''} then (con_error 400 ''invalid_query'', w)
          else case be_Snapshot be w of
            (Inl e, w1) \<Rightarrow> (con_fail e, w1)
          | (Inr v, w1) \<Rightarrow>
              (case apiObject size_of v of
                 Inl _ \<Rightarrow> con_error 502 ''upstream_invalid_response''
               | Inr snapshot \<Rightarrow> api_page resource q mode limit offset snapshot, w1))"

definition versionedAPI ::
  "(json \<Rightarrow> int) \<Rightarrow> 'w backend \<Rightarrow> (string \<Rightarrow> string) \<Rightarrow> console_config \<Rightarrow> int \<Rightarrow> con_request \<Rightarrow> authState \<times> 'w
     \<Rightarrow> con_reply \<times> authState \<times> 'w" where
  "versionedAPI size_of be sha cfg now r aw =
     (let resource = TrimPrefix (hq_Path r) ''/fleet-admin/api/v1/''
      in if resource \<notin> {''overview'', ''rooms'', ''instances'', ''nodes'', ''events'', ''logs'', ''policy'', ''alerts''}
         then (con_error 404 ''not_found'', aw)
         else if hq_Method r \<noteq> ''GET'' then (con_error 405 ''method_not_allowed'', aw)
         else if \<not> hq_QueryOK r then (con_error 400 ''invalid_query'', aw)
         else if hasCredentialQuery (hq_Query r) then (con_error 400 ''credential_query_forbidden'', aw)
         else case read_auth sha cfg now r (fst aw) of
           (Inl e, a1) \<Rightarrow> (e, a1, snd aw)
         | (Inr mode, a1) \<Rightarrow> (case api_resource size_of be resource (hq_Query r) mode (snd aw) of (rep, w1) \<Rightarrow> (rep, a1, w1)))"

end
