(* ===== verification/Console_Server.thy ===== *)
theory Console_Server
  imports Console_Api
begin

text \<open>
  The console's HTTP server: \<^verbatim>\<open>ServeHTTP\<close>, \<^verbatim>\<open>api\<close>, \<^verbatim>\<open>login\<close> and \<^verbatim>\<open>static\<close> of \<^verbatim>\<open>internal/console/http.go\<close>.
  What one request meets besides itself is \<open>moment\<close>: the clock readings, the random bytes, whether a login slot
  is free, the order of the map of sessions. The state is the authentication state and that of the backend.
\<close>

record moment =
  mo_Now :: int
  mo_Created :: int
  mo_Token :: "string option"
  mo_CSRF :: "string option"
  mo_LoginSlot :: bool
  mo_Range :: range_fn

text \<open>The embedded files: name, whether it is a regular file, its size, its content, its content type.\<close>

record asset =
  as_Regular :: bool
  as_Size :: int
  as_Data :: "string option"
  as_Type :: string

record 'w server_env =
  sv_Sha :: "string \<Rightarrow> string"
  sv_Kdf :: kdf_fn
  sv_Codec :: console_codec
  sv_Size :: "json \<Rightarrow> int"
  sv_Ips :: "string \<Rightarrow> string option"
  sv_Enroll :: "'w enroll_env"
  sv_Tie :: "enrollmentJob list \<Rightarrow> enrollmentJob list"
  sv_Backend :: "'w backend"
  sv_Files :: "asset gomap"

definition write_session :: "console_config \<Rightarrow> session \<Rightarrow> con_reply" where
  "write_session cfg s = (200, BSession (cs_Username cfg) (se_CSRF s) (session.se_ExpiresAt s))"

text \<open>Besides the reply, login and logout set a cookie.\<close>

definition login ::
  "'w server_env \<Rightarrow> console_config \<Rightarrow> moment \<Rightarrow> con_request \<Rightarrow> authState \<Rightarrow> con_reply \<times> cookie option \<times> authState" where
  "login V cfg mo r a =
     (case allowLogin (mo_Now mo) (hq_Remote r) a of
        (False, a1) \<Rightarrow> (con_error 429 ''login_rate_limited'', None, a1)
      | (True, a1) \<Rightarrow>
          (case readJSON (ci_login (sv_Codec V)) (hq_Body r) of
             Inl e \<Rightarrow> (refuse_body e, None, a1)
           | Inr (user, password) \<Rightarrow>
               if int (length user) > 64 \<or> int (length password) > maxPasswordBytes
               then (con_error 400 ''invalid_credentials_format'', None, a1)
               else if \<not> mo_LoginSlot mo then (con_error 429 ''login_busy'', None, a1)
               else if \<not> VerifyPassword (sv_Kdf V) password (cs_PasswordHash cfg) \<or> user \<noteq> cs_Username cfg
               then (con_error 401 ''invalid_credentials'', None, a1)
               else case createSession (sv_Sha V) (cs_Secure cfg) (mo_Range mo) (mo_Created mo) (mo_Token mo) (mo_CSRF mo) (hq_Cookies r) a1 of
                 Inl _ \<Rightarrow> (con_error 500 ''session_unavailable'', None, a1)
               | Inr (s, ck, a2) \<Rightarrow> (write_session cfg s, Some ck, a2)))"

subsection \<open>Authenticated operations\<close>

definition ok_body :: "unit \<Rightarrow> con_body" where "ok_body _ = BOk"

definition with_body :: "(string \<Rightarrow> 'a option) \<Rightarrow> con_request \<Rightarrow> ('a \<Rightarrow> 'w \<Rightarrow> con_reply \<times> 'w) \<Rightarrow> 'w \<Rightarrow> con_reply \<times> 'w" where
  "with_body decode r f w = (case readJSON decode (hq_Body r) of Inl e \<Rightarrow> (refuse_body e, w) | Inr v \<Rightarrow> f v w)"

definition run_backend :: "('a \<Rightarrow> con_body) \<Rightarrow> ('w \<Rightarrow> 'a source_result \<times> 'w) \<Rightarrow> 'w \<Rightarrow> con_reply \<times> 'w" where
  "run_backend f op w = (case op w of (res, w1) \<Rightarrow> (con_backend f res, w1))"

definition logs_query_ok :: "con_request \<Rightarrow> bool" where
  "logs_query_ok r \<longleftrightarrow> hq_QueryOK r \<and> length (hq_Query r) \<le> 12
     \<and> list_all (\<lambda>(k, vs). \<not> (int (length k) > 64 \<or> length vs \<noteq> 1 \<or> int (length (hd vs)) > 1024)) (hq_Query r)"

definition api_backend :: "'w server_env \<Rightarrow> console_config \<Rightarrow> string \<Rightarrow> con_request \<Rightarrow> 'w \<Rightarrow> con_reply \<times> 'w" where
  "api_backend V cfg op r w =
     (let be = sv_Backend V; D = sv_Codec V
      in if op = ''snapshot'' then run_backend BData (be_Snapshot be) w
         else if op = ''logs''
         then (if \<not> logs_query_ok r then (con_error 400 ''invalid_query'', w) else run_backend BData (be_Logs be (hq_Query r)) w)
         else if op = ''drain''
         then with_body (ci_worker D) r (\<lambda>worker. if \<not> validWorkerID worker then Pair (con_error 400 ''invalid_worker_id'')
                else run_backend ok_body (be_Drain be worker)) w
         else if op = ''policy''
         then (if Option.is_none (be_Policy be) then (con_error 503 ''policy_unavailable'', w)
               else with_body (ci_policy D) r (\<lambda>inp. run_backend (\<lambda>p. BPolicy p False) (be_UpdatePolicy be inp (cs_Username cfg))) w)
         else if op = ''alerts''
         then (if Option.is_none (be_Alerts be) then (con_error 403 ''alerts_disabled'', w)
               else with_body (ci_alerts D) r (\<lambda>inp. run_backend (\<lambda>(v, c). BAlerts v False c) (be_UpdateAlerts be inp (cs_Username cfg))) w)
         else with_body (ci_empty D) r (\<lambda>_. run_backend ok_body (be_RetryCreation be)) w)"

definition api_verb :: "string \<Rightarrow> string option" where
  "api_verb path =
     (if path \<in> {''/fleet-admin/api/session'', ''/fleet-admin/api/snapshot'', ''/fleet-admin/api/logs''} then Some ''GET''
      else if path \<in> {''/fleet-admin/api/login'', ''/fleet-admin/api/logout'', ''/fleet-admin/api/drain'', ''/fleet-admin/api/retry-creation'',
                ''/fleet-admin/api/policy'', ''/fleet-admin/api/alerts''} then Some ''POST''
      else None)"

definition api ::
  "'w server_env \<Rightarrow> console_config \<Rightarrow> moment \<Rightarrow> con_request \<Rightarrow> authState \<times> 'w \<Rightarrow> con_reply \<times> cookie option \<times> authState \<times> 'w" where
  "api V cfg mo r aw =
     (if hq_Authorization r \<noteq> [] then (con_error 403 ''api_token_scope'', None, aw)
      else if hasCredentialQuery (hq_Query r) then (con_error 400 ''credential_query_forbidden'', None, aw)
      else case api_verb (hq_Path r) of
        None \<Rightarrow> (con_error 404 ''not_found'', None, aw)
      | Some verb \<Rightarrow>
          if hq_Method r \<noteq> verb then (con_error 405 ''method_not_allowed'', None, aw)
          else if verb = ''POST'' \<and> \<not> validOrigin cfg r then (con_error 403 ''invalid_origin'', None, aw)
          else if hq_Path r = ''/fleet-admin/api/login''
          then (case login V cfg mo r (fst aw) of (rep, ck, a1) \<Rightarrow> (rep, ck, a1, snd aw))
          else case requestSession (sv_Sha V) (cs_Secure cfg) (mo_Now mo) (hq_Cookies r) (fst aw) of
            (None, a1) \<Rightarrow> (con_error 401 ''unauthenticated'', None, a1, snd aw)
          | (Some cur, a1) \<Rightarrow>
              if verb = ''POST'' \<and> \<not> validCSRF r (se_CSRF cur) then (con_error 403 ''invalid_csrf'', None, a1, snd aw)
              else if hq_Path r = ''/fleet-admin/api/session'' then (write_session cfg cur, None, a1, snd aw)
              else if hq_Path r = ''/fleet-admin/api/logout''
              then (case readJSON (ci_empty (sv_Codec V)) (hq_Body r) of
                      Inl e \<Rightarrow> (refuse_body e, None, a1, snd aw)
                    | Inr _ \<Rightarrow> (case deleteSession (sv_Sha V) (cs_Secure cfg) (hq_Cookies r) a1 of
                                  (ck, a2) \<Rightarrow> ((200, BOk), Some ck, a2, snd aw)))
              else case api_backend V cfg (TrimPrefix (hq_Path r) ''/fleet-admin/api/'') r (snd aw) of
                (rep, w1) \<Rightarrow> (rep, None, a1, w1))"

subsection \<open>Files\<close>

text \<open>\<^verbatim>\<open>fs.ValidPath\<close>: UTF-8, and the root or elements that are neither empty nor dots.\<close>

definition ValidPath :: "string \<Rightarrow> bool" where
  "ValidPath name \<longleftrightarrow> utf8_valid name
     \<and> (name = ''.'' \<or> list_all (\<lambda>e. e \<noteq> '''' \<and> e \<noteq> ''.'' \<and> e \<noteq> ''..'') (split_on (CHR ''/'') name))"

definition static :: "asset gomap \<Rightarrow> con_request \<Rightarrow> con_reply" where
  "static files r =
     (if \<not> HasPrefix (hq_Path r) ''/fleet-admin/'' then con_error 404 ''not_found''
      else if hq_Method r \<noteq> ''GET'' \<and> hq_Method r \<noteq> ''HEAD'' then con_error 405 ''method_not_allowed''
      else let rest = TrimPrefix (hq_Path r) ''/fleet-admin/''; name = (if rest = '''' then ''index.html'' else rest)
           in if \<not> ValidPath name \<or> list_ex (\<lambda>e. HasPrefix e ''.'') (split_on (CHR ''/'') name) then con_error 404 ''not_found''
              else case map_of files name of
                None \<Rightarrow> con_error 404 ''not_found''
              | Some f \<Rightarrow>
                  if \<not> as_Regular f \<or> as_Size f > 8388608 then con_error 404 ''not_found''
                  else case as_Data f of
                    None \<Rightarrow> con_error 404 ''not_found''
                  | Some d \<Rightarrow> (200, BFile (if as_Type f = '''' then ''application/octet-stream'' else as_Type f)
                                (if hq_Method r = ''HEAD'' then '''' else d)))"

subsection \<open>The server\<close>

definition Server_ServeHTTP ::
  "'w server_env \<Rightarrow> console_config \<Rightarrow> moment \<Rightarrow> con_request \<Rightarrow> authState \<times> 'w \<Rightarrow> con_reply \<times> cookie option \<times> authState \<times> 'w" where
  "Server_ServeHTTP V cfg mo r aw =
     (if hq_Host r \<noteq> cs_Host cfg then (con_error 421 ''invalid_host'', None, aw)
      else if int (length (hq_RawQuery r)) > 2048 then (con_error 414 ''query_too_large'', None, aw)
      else if hq_RawPath r \<noteq> '''' \<or> hq_EscapedPath r \<noteq> hq_Path r \<or> contains_text (hq_Path r) ''//'' \<or> contains_text (hq_Path r) [CHR 0x5C]
      then (con_error 404 ''not_found'', None, aw)
      else if hq_Path r = ''/fleet-admin''
      then (if hq_Method r \<noteq> ''GET'' \<and> hq_Method r \<noteq> ''HEAD'' then (con_error 405 ''method_not_allowed'', None, aw)
            else ((308, BRedirect ''/fleet-admin/''), None, aw))
      else if HasPrefix (hq_Path r) ''/fleet-admin/api/node-retirement''
      then (case nodeRetirementAPI (sv_Codec V) (sv_Ips V) (sv_Enroll V) (sv_Tie V) (sv_Backend V) (sv_Sha V) cfg (mo_Now mo) r aw of
              (rep, aw1) \<Rightarrow> (rep, None, aw1))
      else if HasPrefix (hq_Path r) ''/fleet-admin/api/node-onboarding''
      then (case nodeOnboardingAPI (sv_Codec V) (sv_Enroll V) (sv_Tie V) (sv_Sha V) cfg (mo_Now mo) r aw of (rep, aw1) \<Rightarrow> (rep, None, aw1))
      else if HasPrefix (hq_Path r) ''/fleet-admin/api/v1/''
      then (case versionedAPI (sv_Size V) (sv_Backend V) (sv_Sha V) cfg (mo_Now mo) r aw of (rep, aw1) \<Rightarrow> (rep, None, aw1))
      else if HasPrefix (hq_Path r) ''/fleet-admin/api/'' then api V cfg mo r aw
      else (static (sv_Files V) r, None, aw))"

end
