(* ===== verification/Console_Server_Laws.thy ===== *)
theory Console_Server_Laws
  imports Console_Server
begin

text \<open>
  What the console's server does to the outside. Its backend and its cluster are wrapped so that every call
  which could change something is recorded; a locale states what a policy on calls must allow and carries it
  through every handler, and its interpretations give the theorems: writes only for a logged-in operator, and only
  in the forms the onboarding protocol has.
\<close>

subsection \<open>Recorded calls\<close>

datatype call =
    DrainCall string
  | RetryCall
  | PolicyCall PolicyInput string
  | AlertsCall AlertUpdate string
  | ClusterCall en_request

definition is_write :: "call \<Rightarrow> bool" where
  "is_write c = (case c of ClusterCall q \<Rightarrow> nq_Method q \<noteq> ''GET'' | _ \<Rightarrow> True)"

definition noted :: "call \<Rightarrow> ('w \<Rightarrow> 'a \<times> 'w) \<Rightarrow> call list \<times> 'w \<Rightarrow> 'a \<times> call list \<times> 'w" where
  "noted c op s = (case op (snd s) of (x, w) \<Rightarrow> (x, fst s @ [c], w))"

definition silent :: "('w \<Rightarrow> 'a \<times> 'w) \<Rightarrow> call list \<times> 'w \<Rightarrow> 'a \<times> call list \<times> 'w" where
  "silent op s = (case op (snd s) of (x, w) \<Rightarrow> (x, fst s, w))"

definition noted_backend :: "'w backend \<Rightarrow> (call list \<times> 'w) backend" where
  "noted_backend be =
     \<lparr>be_Snapshot = silent (be_Snapshot be), be_Logs = (\<lambda>q. silent (be_Logs be q)),
      be_Drain = (\<lambda>i. noted (DrainCall i) (be_Drain be i)), be_RetryCreation = noted RetryCall (be_RetryCreation be),
      be_Policy = map_option silent (be_Policy be), be_UpdatePolicy = (\<lambda>p u. noted (PolicyCall p u) (be_UpdatePolicy be p u)),
      be_Alerts = map_option silent (be_Alerts be), be_UpdateAlerts = (\<lambda>p u. noted (AlertsCall p u) (be_UpdateAlerts be p u)),
      be_CheckNodeRetirement = map_option (\<lambda>f a b c. silent (f a b c)) (be_CheckNodeRetirement be)\<rparr>"

definition noted_enroll :: "'w enroll_env \<Rightarrow> (call list \<times> 'w) enroll_env" where
  "noted_enroll E =
     \<lparr>ee_ask = (\<lambda>q. noted (ClusterCall q) (ee_ask E q)), ee_token = (\<lambda>s. ee_token E (snd s)), ee_now = (\<lambda>s. ee_now E (snd s)),
      ee_rand = silent (ee_rand E), ee_done = silent (ee_done E), ee_time = ee_time E, ee_claims = ee_claims E,
      ee_enrollment = ee_enrollment E, ee_enrollments = ee_enrollments E, ee_meta = ee_meta E, ee_retirement = ee_retirement E,
      ee_retirements = ee_retirements E\<rparr>"

definition noted_server :: "'w server_env \<Rightarrow> (call list \<times> 'w) server_env" where
  "noted_server V =
     \<lparr>sv_Sha = sv_Sha V, sv_Kdf = sv_Kdf V, sv_Codec = sv_Codec V, sv_Size = sv_Size V, sv_Ips = sv_Ips V,
      sv_Enroll = noted_enroll (sv_Enroll V), sv_Tie = sv_Tie V, sv_Backend = noted_backend (sv_Backend V), sv_Files = sv_Files V\<rparr>"

lemma noted_simps [simp]:
  "fst (snd (noted c op s)) = fst s @ [c]" "fst (snd (silent op s)) = fst s"
  by (simp_all add: noted_def silent_def split: prod.splits)

lemma noted_enroll_simps [simp]:
  "ee_ask (noted_enroll E) q = noted (ClusterCall q) (ee_ask E q)" "ee_rand (noted_enroll E) = silent (ee_rand E)"
  "ee_done (noted_enroll E) = silent (ee_done E)" "ee_time (noted_enroll E) = ee_time E"
  "ee_claims (noted_enroll E) = ee_claims E" "ee_enrollment (noted_enroll E) = ee_enrollment E"
  by (simp_all add: noted_enroll_def)

lemma noted_state [dest]:
  "noted c op s = (x, s') \<Longrightarrow> fst s' = fst s @ [c]" "silent op s = (x, s') \<Longrightarrow> fst s' = fst s"
  by (auto simp: noted_def silent_def split: prod.splits)

subsection \<open>The forms of a write to the cluster\<close>

definition scanned :: "NodeOnboardingConfig \<Rightarrow> preflight_input \<Rightarrow> enrollmentResource \<Rightarrow> bool" where
  "scanned c inp item \<longleftrightarrow> preflight_input_ok inp \<and> verify_enrollment c item (xp_ID inp) = Inr () \<and> es_Action (ey_Spec item) = ''Scan''
     \<and> enrollmentPhase item = ''AwaitingPreflight''
     \<and> (\<exists>scan. safeScan item (xp_ID inp) = Some scan \<and> xp_Fingerprint inp \<in> snd ` set (sn_Fingerprints scan))"

definition approved :: "NodeOnboardingConfig \<Rightarrow> string \<Rightarrow> enrollmentResource \<Rightarrow> bool" where
  "approved c i item \<longleftrightarrow> enrollmentID i \<and> verify_enrollment c item i = Inr () \<and> es_Action (ey_Spec item) = ''Preflight''
     \<and> enrollmentPhase item = ''AwaitingApproval'' \<and> enrollmentDigest (ey_PreflightDigest item)
     \<and> (\<exists>p. safePreflight item i = Some p \<and> pf_CanJoin p)"

definition scan_spec :: "NodeOnboardingConfig \<Rightarrow> enrollmentSpec \<Rightarrow> bool" where
  "scan_spec c s \<longleftrightarrow> es_Region s = nc_Region c \<and> validEnrollmentHost (es_Host s) \<and> 1 \<le> es_Port s \<and> es_Port s \<le> 65535
     \<and> es_Action s = ''Scan'' \<and> es_HostFingerprint s = '''' \<and> es_CredentialSecretRef s = None \<and> es_ApprovedPreflightDigest s = ''''"

definition retirement_spec :: "NodeOnboardingConfig \<Rightarrow> retirementSpec \<Rightarrow> bool" where
  "retirement_spec c s \<longleftrightarrow> rs_Region s = nc_Region c \<and> enrollmentLabel (rs_NodeName s) \<and> enrollmentUID (rs_NodeUID s)
     \<and> rs_ConfirmedNodeName s = rs_NodeName s \<and> rs_ConfirmedIP s \<in> set (rs_InternalIPs s @ rs_ExternalIPs s) \<and> rs_PermanentRetirement s"

definition write_form :: "NodeOnboardingConfig \<Rightarrow> en_request \<Rightarrow> bool" where
  "write_form c q \<longleftrightarrow>
     (nq_Method q = ''POST'' \<and> nq_Path q = enrollmentAPIPath @ ''/nodeenrollments''
        \<and> (\<exists>i s. nq_Value q = Some (NewEnrollment (''enroll-'' @ i) s) \<and> scan_spec c s))
     \<or> (nq_Method q = ''POST'' \<and> nq_Path q = enrollmentSecretPath
        \<and> (\<exists>inp item. nq_Value q = Some (NewSecret (ssh_secret_of inp item)) \<and> scanned c inp item))
     \<or> (nq_Method q = ''PATCH'' \<and> (\<exists>inp item uid. nq_Path q = enrollmentPath (xp_ID inp) \<and> enrollmentUID uid
        \<and> nq_Value q = Some (PatchEnrollment (preflight_patch inp item uid)) \<and> scanned c inp item))
     \<or> (nq_Method q = ''PATCH'' \<and> (\<exists>i item. nq_Path q = enrollmentPath i \<and> approved c i item
        \<and> nq_Value q = Some (PatchEnrollment (casEnrollment item
             [(''action'', PatchText ''Join''), (''approvedPreflightDigest'', PatchText (ey_PreflightDigest item))]))))
     \<or> (nq_Method q = ''DELETE'' \<and> (\<exists>i uid. nq_Path q = enrollmentSecretPath @ ''/ssh-'' @ i \<and> enrollmentID i \<and> enrollmentUID uid
        \<and> nq_Value q = Some (DeleteUID uid)))
     \<or> (nq_Method q = ''POST'' \<and> nq_Path q = enrollmentAPIPath @ ''/noderetirements''
        \<and> (\<exists>i s. nq_Value q = Some (NewRetirement (''retire-'' @ i) s) \<and> retirement_spec c s))"

subsection \<open>Policies on calls\<close>

locale call_policy =
  fixes P :: "call \<Rightarrow> bool"
  assumes cluster_read: "nq_Method q = ''GET'' \<Longrightarrow> permittedEnrollmentRequest (nq_Method q) (nq_Path q) \<Longrightarrow> P (ClusterCall q)"
begin

lemma request_calls:
  assumes "enrollment_request (noted_enroll E) verb path val decode s = (x, s')" "list_all P (fst s)"
    and "\<And>token. permittedEnrollmentRequest verb path \<Longrightarrow>
      P (ClusterCall \<lparr>nq_Method = verb, nq_Path = path, nq_Value = val, nq_Bearer = token\<rparr>)"
  shows "list_all P (fst s')"
  using assms by (auto simp: enrollment_request_def split: if_splits sum.splits prod.splits en_reply.splits option.splits)

lemma get_calls:
  assumes "enrollment_request (noted_enroll E) ''GET'' path val decode s = (x, s')" "list_all P (fst s)"
  shows "list_all P (fst s')"
  using assms by (rule request_calls) (simp add: cluster_read)

lemma get_enrollment_calls:
  assumes "get_enrollment (noted_enroll E) c i s = (x, s')" "list_all P (fst s)"
  shows "list_all P (fst s')"
  using assms by (auto simp: get_enrollment_def split: prod.splits sum.splits dest: get_calls)

lemma wait_calls:
  assumes "wait (noted_enroll E) c n r i phase s = (x, s')" "list_all P (fst s)"
  shows "list_all P (fst s')"
  using assms
proof (induction n arbitrary: r s)
  case (Suc n)
  show ?case
  proof (cases "enrollmentPhase r = phase \<or> enrollmentPhase r \<in> {''Failed'', ''NeedsReview'', ''Expired''}")
    case False
    obtain d s1 where d: "silent (ee_done E) s = (d, s1)" by (meson surj_pair)
    then have s1: "list_all P (fst s1)" using Suc.prems(2) by auto
    obtain y s2 where g: "get_enrollment (noted_enroll E) c i s1 = (y, s2)" by (meson surj_pair)
    then have s2: "list_all P (fst s2)" using get_enrollment_calls s1 by blast
    show ?thesis using Suc.prems(1) Suc.IH False d g s1 s2 by (auto split: bool.splits sum.splits)
  qed (use Suc.prems in auto)
qed simp

lemma verified_calls:
  assumes "verified_action (noted_enroll E) c item i phase action s = (x, s')" "list_all P (fst s)"
  shows "list_all P (fst s')"
  using assms by (auto simp: verified_action_def split: prod.splits sum.splits dest: wait_calls)

lemma new_id_calls:
  assumes "newEnrollmentID (noted_enroll E) s = (x, s')"
  shows "fst s' = fst s"
  using assms by (auto simp: newEnrollmentID_def split: prod.splits option.splits)

end

lemma get_enrollment_verified:
  "get_enrollment E c i s = (Inr item, s') \<Longrightarrow> verify_enrollment c item i = Inr ()"
  by (auto simp: get_enrollment_def split: prod.splits sum.splits)

locale write_policy = call_policy +
  fixes c :: NodeOnboardingConfig
  assumes cluster_write: "write_form c q \<Longrightarrow> permittedEnrollmentRequest (nq_Method q) (nq_Path q) \<Longrightarrow> P (ClusterCall q)"
begin

lemma scan_calls:
  assumes "submitScan D (noted_enroll E) c r s = (x, s')" "list_all P (fst s)"
  shows "list_all P (fst s')"
proof (cases "readJSON (ci_scan D) (hq_Body r)")
  case (Inl e)
  then show ?thesis using assms by (auto simp: submitScan_def)
next
  case (Inr inp)
  let ?port = "if xs_Port inp = 0 then 22 else xs_Port inp"
  show ?thesis
  proof (cases "xs_Region inp = nc_Region c \<and> validEnrollmentHost (xs_Host inp) \<and> 1 \<le> ?port \<and> ?port \<le> 65535")
    case True
    have ok: "P (ClusterCall \<lparr>nq_Method = ''POST'', nq_Path = enrollmentAPIPath @ ''/nodeenrollments'',
        nq_Value = Some (NewEnrollment (''enroll-'' @ i) \<lparr>es_Region = xs_Region inp, es_Host = xs_Host inp, es_Port = ?port,
          es_Action = ''Scan'', es_HostFingerprint = '''', es_CredentialSecretRef = None, es_ApprovedPreflightDigest = ''''\<rparr>),
        nq_Bearer = token\<rparr>)"
      if "permittedEnrollmentRequest ''POST'' (enrollmentAPIPath @ ''/nodeenrollments'')" for i token
      using that True by (intro cluster_write) (auto simp: write_form_def scan_spec_def)
    obtain y s1 where i: "newEnrollmentID (noted_enroll E) s = (y, s1)" by (meson surj_pair)
    then have s1: "list_all P (fst s1)" using new_id_calls assms(2) by metis
    show ?thesis
    proof (cases y)
      case id: (Inr i)
      obtain z s2 where q: "enrollment_request (noted_enroll E) ''POST'' (enrollmentAPIPath @ ''/nodeenrollments'')
          (Some (NewEnrollment (''enroll-'' @ i) \<lparr>es_Region = xs_Region inp, es_Host = xs_Host inp, es_Port = ?port,
             es_Action = ''Scan'', es_HostFingerprint = '''', es_CredentialSecretRef = None, es_ApprovedPreflightDigest = ''''\<rparr>))
          (ee_enrollment E) s1 = (z, s2)" by (meson surj_pair)
      then have "list_all P (fst s2)" using request_calls [OF _ s1 ok] by blast
      then show ?thesis
        using assms(1) Inr True i id q by (auto simp: submitScan_def Let_def split: sum.splits dest: verified_calls)
    qed (use assms(1) Inr True i s1 in \<open>auto simp: submitScan_def Let_def\<close>)
  qed (use assms Inr in \<open>auto simp: submitScan_def Let_def split: if_splits\<close>)
qed

lemma patch_preflight_calls:
  assumes "patch_preflight (noted_enroll E) c inp item uid s = (x, s')" "list_all P (fst s)"
    and "scanned c inp item" "enrollmentUID uid"
  shows "list_all P (fst s')"
proof -
  have patch: "P (ClusterCall \<lparr>nq_Method = ''PATCH'', nq_Path = enrollmentPath (xp_ID inp),
      nq_Value = Some (PatchEnrollment (preflight_patch inp item uid)), nq_Bearer = token\<rparr>)"
    if "permittedEnrollmentRequest ''PATCH'' (enrollmentPath (xp_ID inp))" for token
    using that assms(3,4) by (intro cluster_write) (auto simp: write_form_def)
  have delete: "P (ClusterCall \<lparr>nq_Method = ''DELETE'', nq_Path = enrollmentSecretPath @ ''/ssh-'' @ xp_ID inp,
      nq_Value = Some (DeleteUID uid), nq_Bearer = token\<rparr>)"
    if "permittedEnrollmentRequest ''DELETE'' (enrollmentSecretPath @ ''/ssh-'' @ xp_ID inp)" for token
    using that assms(3,4) by (intro cluster_write) (auto simp: write_form_def scanned_def preflight_input_ok_def)
  obtain z s1 where q: "enrollment_request (noted_enroll E) ''PATCH'' (enrollmentPath (xp_ID inp))
      (Some (PatchEnrollment (preflight_patch inp item uid))) (ee_enrollment E) s = (z, s1)" by (meson surj_pair)
  then have s1: "list_all P (fst s1)" using request_calls [OF _ assms(2) patch] by blast
  obtain z' s2 where "enrollment_request (noted_enroll E) ''DELETE'' (enrollmentSecretPath @ ''/ssh-'' @ xp_ID inp)
      (Some (DeleteUID uid)) (\<lambda>_. Some ()) s1 = (z', s2)" by (meson surj_pair)
  moreover from this have "list_all P (fst s2)" using request_calls [OF _ s1 delete] by blast
  ultimately show ?thesis
    using assms(1) q s1 by (auto simp: patch_preflight_def split: sum.splits if_splits dest: verified_calls)
qed

lemma preflight_calls:
  assumes "submitPreflight D (noted_enroll E) c r s = (x, s')" "list_all P (fst s)"
  shows "list_all P (fst s')"
proof (cases "readJSON (ci_preflight D) (hq_Body r)")
  case (Inl e)
  then show ?thesis using assms by (auto simp: submitPreflight_def)
next
  case (Inr inp)
  obtain y s1 where g: "get_enrollment (noted_enroll E) c (xp_ID inp) s = (y, s1)" by (meson surj_pair)
  then have s1: "list_all P (fst s1)" using get_enrollment_calls assms(2) by blast
  show ?thesis
  proof (cases "\<exists>item. y = Inr item \<and> scanned c inp item")
    case True
    then obtain item where item: "y = Inr item" "scanned c inp item" by blast
    have secret: "P (ClusterCall \<lparr>nq_Method = ''POST'', nq_Path = enrollmentSecretPath,
        nq_Value = Some (NewSecret (ssh_secret_of inp item)), nq_Bearer = token\<rparr>)"
      if "permittedEnrollmentRequest ''POST'' enrollmentSecretPath" for token
      using that item(2) by (intro cluster_write) (auto simp: write_form_def)
    obtain z s2 where q: "enrollment_request (noted_enroll E) ''POST'' enrollmentSecretPath
        (Some (NewSecret (ssh_secret_of inp item))) (ee_meta (noted_enroll E)) s1 = (z, s2)" by (meson surj_pair)
    then have s2: "list_all P (fst s2)" using request_calls [OF _ s1 secret] by blast
    show ?thesis
      using assms Inr g s1 s2 item q
      by (auto simp: submitPreflight_def split: if_splits option.splits sum.splits dest: patch_preflight_calls)
  next
    case False
    have "scanned c inp item" if "y = Inr item" "preflight_input_ok inp" "es_Action (ey_Spec item) = ''Scan''"
      "enrollmentPhase item = ''AwaitingPreflight''" "safeScan item (xp_ID inp) = Some scan"
      "xp_Fingerprint inp \<in> snd ` set (sn_Fingerprints scan)" for item scan
      using that g get_enrollment_verified by (auto simp: scanned_def)
    then show ?thesis
      using assms Inr g s1 False by (auto simp: submitPreflight_def split: if_splits option.splits sum.splits)
  qed
qed

lemma join_calls:
  assumes "submitJoin D (noted_enroll E) c r s = (x, s')" "list_all P (fst s)"
  shows "list_all P (fst s')"
proof (cases "readJSON (ci_join D) (hq_Body r)")
  case (Inl e)
  then show ?thesis using assms by (auto simp: submitJoin_def)
next
  case (Inr i)
  obtain y s1 where g: "get_enrollment (noted_enroll E) c i s = (y, s1)" by (meson surj_pair)
  then have s1: "list_all P (fst s1)" using get_enrollment_calls assms(2) by blast
  show ?thesis
  proof (cases "\<exists>item. y = Inr item \<and> approved c i item")
    case True
    then obtain item where item: "y = Inr item" "approved c i item" by blast
    let ?patch = "casEnrollment item [(''action'', PatchText ''Join''), (''approvedPreflightDigest'', PatchText (ey_PreflightDigest item))]"
    have patch: "P (ClusterCall \<lparr>nq_Method = ''PATCH'', nq_Path = enrollmentPath i,
        nq_Value = Some (PatchEnrollment ?patch), nq_Bearer = token\<rparr>)"
      if "permittedEnrollmentRequest ''PATCH'' (enrollmentPath i)" for token
      using that item(2) by (intro cluster_write) (auto simp: write_form_def)
    obtain z s2 where q: "enrollment_request (noted_enroll E) ''PATCH'' (enrollmentPath i)
        (Some (PatchEnrollment ?patch)) (ee_enrollment E) s1 = (z, s2)" by (meson surj_pair)
    then have s2: "list_all P (fst s2)" using request_calls [OF _ s1 patch] by blast
    show ?thesis
      using assms Inr g s1 s2 item q by (auto simp: submitJoin_def split: if_splits option.splits sum.splits)
  next
    case False
    have "approved c i item" if "y = Inr item" "enrollmentID i" "es_Action (ey_Spec item) = ''Preflight''"
      "enrollmentPhase item = ''AwaitingApproval''" "safePreflight item i = Some p" "pf_CanJoin p"
      "enrollmentDigest (ey_PreflightDigest item)" for item p
      using that g get_enrollment_verified by (auto simp: approved_def)
    then show ?thesis
      using assms Inr g s1 False by (auto simp: submitJoin_def split: if_splits option.splits sum.splits)
  qed
qed

end

context write_policy
begin

lemma retirement_calls:
  assumes "submitRetirement D ips (noted_enroll E) c check r s = (x, s')" "list_all P (fst s)"
    and "\<And>a b d s y s'. check a b d s = (y, s') \<Longrightarrow> fst s' = fst s"
  shows "list_all P (fst s')"
proof (cases "hq_RawQuery r = '''' \<and> (\<exists>inp. readJSON (ci_retirement D) (hq_Body r) = Inr inp \<and> confirmation_ok ips c inp)")
  case True
  then obtain inp where inp: "readJSON (ci_retirement D) (hq_Body r) = Inr inp" "confirmation_ok ips c inp" by blast
  obtain y s1 where k: "check (xr_Region inp) (xr_NodeName inp) (nc_ClusterID c) s = (y, s1)" by (meson surj_pair)
  then have s1: "list_all P (fst s1)" using assms(2,3) by metis
  show ?thesis
  proof (cases "\<exists>v. y = Inr v \<and> rk_Eligible v \<and> same_identity inp (rk_Identity v)")
    case True
    then obtain v where v: "y = Inr v" "rk_Eligible v" "same_identity inp (rk_Identity v)" by blast
    obtain j s2 where i: "newEnrollmentID (noted_enroll E) s1 = (j, s2)" by (meson surj_pair)
    then have s2: "list_all P (fst s2)" using new_id_calls s1 by metis
    have post: "P (ClusterCall \<lparr>nq_Method = ''POST'', nq_Path = enrollmentAPIPath @ ''/noderetirements'',
        nq_Value = Some (NewRetirement (''retire-'' @ i) (retirement_spec_of inp (rk_Identity v))), nq_Bearer = token\<rparr>)"
      if "permittedEnrollmentRequest ''POST'' (enrollmentAPIPath @ ''/noderetirements'')" for i token
      using that v(3) inp(2)
      by (intro cluster_write) (auto simp: write_form_def retirement_spec_def retirement_spec_of_def same_identity_def confirmation_ok_def)
    show ?thesis
    proof (cases j)
      case (Inr i')
      obtain z s3 where q: "enrollment_request (noted_enroll E) ''POST'' (enrollmentAPIPath @ ''/noderetirements'')
          (Some (NewRetirement (''retire-'' @ i') (retirement_spec_of inp (rk_Identity v)))) (ee_retirement (noted_enroll E)) s2 = (z, s3)"
        by (meson surj_pair)
      then have "list_all P (fst s3)" using request_calls [OF _ s2 post] by blast
      then show ?thesis
        using assms(1) inp True k v i Inr q \<open>hq_RawQuery r = '''' \<and> _\<close>
        by (auto simp: submitRetirement_def retirement_job_def split: sum.splits)
    qed (use assms(1) inp k v i s2 \<open>hq_RawQuery r = '''' \<and> _\<close> in \<open>auto simp: submitRetirement_def\<close>)
  qed (use assms(1) inp k s1 \<open>hq_RawQuery r = '''' \<and> _\<close> in \<open>auto simp: submitRetirement_def split: sum.splits if_splits\<close>)
qed (use assms(1,2) in \<open>auto simp: submitRetirement_def split: sum.splits if_splits\<close>)

end

context call_policy
begin

lemma onboarding_reads:
  assumes "onboarding_dispatch D (noted_enroll E) tie onb route r s = (x, s')" "list_all P (fst s)" "onboarding_verb route = Some ''GET''"
  shows "list_all P (fst s')"
  using assms
  by (auto simp: onboarding_dispatch_def onboarding_verb_def Let_def split: if_splits option.splits sum.splits prod.splits
      dest: get_calls get_enrollment_calls)

lemma check_reads:
  assumes "checkRetirement c check r s = (x, s')" "list_all P (fst s)"
    and "\<And>a b d s y s'. check a b d s = (y, s') \<Longrightarrow> fst s' = fst s"
  shows "list_all P (fst s')"
proof -
  have "fst s' = fst s"
    using assms(1)
    by (auto simp: checkRetirement_def split: if_splits option.splits list.splits prod.splits dest!: assms(3))
  then show ?thesis using assms(2) by simp
qed

lemma job_reads:
  assumes "retirement_job ips E' c st i (res, s) = (x, s')"
  shows "s' = s"
  using assms by (auto simp: retirement_job_def split: sum.splits)

lemma noted_check:
  "be_CheckNodeRetirement (noted_backend be) = Some check \<Longrightarrow> check a b d s = (y, s') \<Longrightarrow> fst s' = fst s"
  by (auto simp: noted_backend_def)

lemma retirement_reads:
  assumes "retirement_dispatch D ips (noted_enroll E) tie (noted_backend be) onb verb route r s = (x, s')" "list_all P (fst s)"
    and "verb = ''GET'' \<or> route = ''/jobs''"
  shows "list_all P (fst s')"
proof (cases onb)
  case None
  then show ?thesis using assms by (auto simp: retirement_dispatch_def split: if_splits)
next
  case (Some c)
  show ?thesis
  proof (cases "route = ''/jobs''")
    case True
    show ?thesis
    proof (cases "hq_RawQuery r = ''''")
      case True
      then show ?thesis
        using assms(1,2) Some \<open>route = ''/jobs''\<close>
        by (auto simp: retirement_dispatch_def split: sum.splits prod.splits dest: get_calls)
    next
      case False
      show ?thesis
      proof (cases "jobQuery r")
        case (Some i)
        obtain y s1 where q: "enrollment_request (noted_enroll E) ''GET'' (retirementPath i) None (ee_retirement (noted_enroll E)) s = (y, s1)"
          by (meson surj_pair)
        then have "list_all P (fst s1)" using assms(2) by (rule get_calls)
        then show ?thesis
          using assms(1) \<open>onb = Some c\<close> \<open>route = ''/jobs''\<close> False Some q
          by (auto simp: retirement_dispatch_def dest!: job_reads)
      qed (use assms(1,2) \<open>onb = Some c\<close> \<open>route = ''/jobs''\<close> False in \<open>auto simp: retirement_dispatch_def\<close>)
    qed
  next
    case False
    then show ?thesis
      using assms Some check_reads [OF _ assms(2) noted_check]
      by (auto simp: retirement_dispatch_def split: option.splits)
  qed
qed

lemma api_resource_reads:
  assumes "api_resource size_of (noted_backend be) resource q mode s = (x, s')" "list_all P (fst s)"
  shows "list_all P (fst s')"
proof -
  have "fst s' = fst s"
    using assms(1)
    by (auto simp: api_resource_def noted_backend_def split: if_splits option.splits prod.splits sum.splits)
  then show ?thesis using assms(2) by simp
qed

end

subsection \<open>The whole server\<close>

text \<open>The request comes from a logged-in operator's browser: the right host and method, the own origin, a live session and its token.\<close>

definition operator :: "'w server_env \<Rightarrow> console_config \<Rightarrow> int \<Rightarrow> con_request \<Rightarrow> authState \<Rightarrow> bool" where
  "operator V cfg now r a \<longleftrightarrow> hq_Host r = cs_Host cfg \<and> hq_Method r = ''POST'' \<and> hq_Authorization r = [] \<and> validOrigin cfg r
     \<and> (\<exists>cur. fst (requestSession (sv_Sha V) (cs_Secure cfg) now (hq_Cookies r) a) = Some cur \<and> validCSRF r (se_CSRF cur))"

lemma authorized_operator:
  assumes "authorizeNodeAPI sha cfg now r ''POST'' a = (None, a1)"
  shows "hq_Method r = ''POST'' \<and> hq_Authorization r = [] \<and> validOrigin cfg r
    \<and> (\<exists>cur. fst (requestSession sha (cs_Secure cfg) now (hq_Cookies r) a) = Some cur \<and> validCSRF r (se_CSRF cur))"
  using assms by (auto simp: authorizeNodeAPI_def split: if_splits prod.splits option.splits)

lemma noted_server_simps [simp]:
  "sv_Sha (noted_server V) = sv_Sha V" "sv_Codec (noted_server V) = sv_Codec V" "sv_Size (noted_server V) = sv_Size V"
  "sv_Ips (noted_server V) = sv_Ips V" "sv_Enroll (noted_server V) = noted_enroll (sv_Enroll V)" "sv_Tie (noted_server V) = sv_Tie V"
  "sv_Backend (noted_server V) = noted_backend (sv_Backend V)" "sv_Files (noted_server V) = sv_Files V"
  by (simp_all add: noted_server_def)

text \<open>
  The policy: a write needs an operator, a policy or alert change carries the operator's name, and a write to the
  cluster has one of the forms of the protocol, for the configured region.
\<close>

definition call_ok :: "'w server_env \<Rightarrow> console_config \<Rightarrow> int \<Rightarrow> con_request \<Rightarrow> authState \<Rightarrow> call \<Rightarrow> bool" where
  "call_ok V cfg now r a c \<longleftrightarrow> (is_write c \<longrightarrow> operator V cfg now r a)
     \<and> (case c of
          ClusterCall q \<Rightarrow> permittedEnrollmentRequest (nq_Method q) (nq_Path q)
            \<and> (nq_Method q = ''GET'' \<or> (\<exists>nc. cs_Onboarding cfg = Some nc \<and> write_form nc q))
        | PolicyCall p actor \<Rightarrow> actor = cs_Username cfg
        | AlertsCall p actor \<Rightarrow> actor = cs_Username cfg
        | DrainCall worker \<Rightarrow> validWorkerID worker
        | RetryCall \<Rightarrow> True)"

lemma call_policy_ok: "call_policy (call_ok V cfg now r a)"
  by unfold_locales (simp add: call_ok_def is_write_def)

interpretation served: call_policy "call_ok V cfg now r a" for V cfg now r a
  by (rule call_policy_ok)

lemma write_policy_ok:
  "operator V cfg now r a \<Longrightarrow> cs_Onboarding cfg = Some nc \<Longrightarrow> write_policy (call_ok V cfg now r a) nc"
  by unfold_locales (auto simp: call_ok_def)

lemma onboarding_served:
  assumes "nodeOnboardingAPI D (noted_enroll E) tie (sv_Sha V) cfg now r (a, s) = (rep, a', s')"
    and "list_all (call_ok V cfg now r a) (fst s)" "hq_Host r = cs_Host cfg"
  shows "list_all (call_ok V cfg now r a) (fst s')"
proof -
  let ?route = "TrimPrefix (hq_Path r) ''/fleet-admin/api/node-onboarding''"
  show ?thesis
  proof (cases "\<exists>verb. onboarding_verb ?route = Some verb \<and> fst (authorizeNodeAPI (sv_Sha V) cfg now r verb a) = None")
    case True
    then obtain verb a1 where verb: "onboarding_verb ?route = Some verb" "authorizeNodeAPI (sv_Sha V) cfg now r verb a = (None, a1)"
      by (metis prod.collapse)
    obtain rep' s1 where d: "onboarding_dispatch D (noted_enroll E) tie (cs_Onboarding cfg) ?route r s = (rep', s1)" by (meson surj_pair)
    have s': "s' = s1" using assms(1) verb d by (simp add: nodeOnboardingAPI_def)
    show ?thesis
    proof (cases "verb = ''GET''")
      case True
      then show ?thesis using served.onboarding_reads [OF d assms(2)] verb s' by simp
    next
      case False
      then have post: "verb = ''POST''" "?route \<in> {''/scan'', ''/preflight'', ''/join''}"
        using verb(1) by (auto simp: onboarding_verb_def split: if_splits)
      then have op: "operator V cfg now r a" using authorized_operator verb(2) assms(3) by (simp add: operator_def)
      have "list_all (call_ok V cfg now r a) (fst s1)" if nc: "cs_Onboarding cfg = Some nc" for nc
        using d post(2) nc assms(2) write_policy_ok [OF op nc]
        by (auto simp: onboarding_dispatch_def split: if_splits
            dest: write_policy.scan_calls write_policy.preflight_calls write_policy.join_calls)
      moreover have "s1 = s" if "cs_Onboarding cfg = None"
        using d post(2) that by (auto simp: onboarding_dispatch_def split: if_splits)
      ultimately show ?thesis using s' assms(2) by (cases "cs_Onboarding cfg") auto
    qed
  next
    case False
    then have "s' = s"
      using assms(1) by (auto simp: nodeOnboardingAPI_def Let_def split: option.splits prod.splits)
    then show ?thesis using assms(2) by simp
  qed
qed

lemma retirement_served:
  assumes "nodeRetirementAPI D ips (noted_enroll E) tie (noted_backend be) (sv_Sha V) cfg now r (a, s) = (rep, a', s')"
    and "list_all (call_ok V cfg now r a) (fst s)" "hq_Host r = cs_Host cfg"
  shows "list_all (call_ok V cfg now r a) (fst s')"
proof -
  let ?route = "TrimPrefix (hq_Path r) ''/fleet-admin/api/node-retirement''"
  let ?verb = "if ?route = '''' \<and> hq_Method r = ''POST'' then ''POST'' else ''GET''"
  show ?thesis
  proof (cases "(?route = '''' \<or> ?route = ''/jobs'') \<and> fst (authorizeNodeAPI (sv_Sha V) cfg now r ?verb a) = None")
    case True
    then obtain a1 where auth: "authorizeNodeAPI (sv_Sha V) cfg now r ?verb a = (None, a1)" by (metis prod.collapse)
    obtain rep' s1 where d: "retirement_dispatch D ips (noted_enroll E) tie (noted_backend be) (cs_Onboarding cfg) ?verb ?route r s = (rep', s1)"
      by (meson surj_pair)
    have s': "s' = s1" using assms(1) True auth d by (auto simp: nodeRetirementAPI_def Let_def split: if_splits)
    show ?thesis
    proof (cases "?verb = ''POST''")
      case False
      then have "?verb = ''GET''" by (simp split: if_splits)
      then show ?thesis using served.retirement_reads [OF d assms(2)] s' by blast
    next
      case True
      then have op: "operator V cfg now r a" using authorized_operator auth assms(3) by (simp add: operator_def split: if_splits)
      have route: "?route = ''''" using True by (simp split: if_splits)
      have "list_all (call_ok V cfg now r a) (fst s1)" if nc: "cs_Onboarding cfg = Some nc" for nc
      proof (cases "be_CheckNodeRetirement (noted_backend be)")
        case (Some check)
        then have "submitRetirement D ips (noted_enroll E) nc check r s = (rep', s1)"
          using d True route nc by (simp add: retirement_dispatch_def)
        then show ?thesis
          using write_policy.retirement_calls [OF write_policy_ok [OF op nc] _ assms(2)] served.noted_check [OF Some] by blast
      qed (use d True route nc assms(2) in \<open>auto simp: retirement_dispatch_def\<close>)
      moreover have "s1 = s" if "cs_Onboarding cfg = None" using d that by (auto simp: retirement_dispatch_def split: if_splits)
      ultimately show ?thesis using s' assms(2) by (cases "cs_Onboarding cfg") auto
    qed
  next
    case False
    then have "s' = s"
      using assms(1) by (auto simp: nodeRetirementAPI_def Let_def split: if_splits option.splits prod.splits)
    then show ?thesis using assms(2) by simp
  qed
qed

lemma versioned_served:
  assumes "versionedAPI size_of (noted_backend be) sha cfg now r (a, s) = (rep, a', s')" "list_all (call_ok V cfg now r a) (fst s)"
  shows "list_all (call_ok V cfg now r a) (fst s')"
  using assms
  by (auto simp: versionedAPI_def Let_def split: if_splits prod.splits sum.splits dest: served.api_resource_reads)

lemma backend_calls:
  assumes "api_backend (noted_server V) cfg op r s = (rep, s')"
  shows "fst s' = fst s \<or> (\<exists>c. fst s' = fst s @ [c] \<and> op \<noteq> ''snapshot'' \<and> op \<noteq> ''logs''
    \<and> (case c of ClusterCall q \<Rightarrow> False | PolicyCall p actor \<Rightarrow> actor = cs_Username cfg | AlertsCall p actor \<Rightarrow> actor = cs_Username cfg
         | DrainCall worker \<Rightarrow> validWorkerID worker | RetryCall \<Rightarrow> True))"
  using assms
  by (auto simp: api_backend_def run_backend_def with_body_def noted_backend_def Let_def Option.is_none_def
      split: if_splits prod.splits sum.splits)

lemma api_served:
  assumes "api (noted_server V) cfg mo r (a, s) = (rep, ck, a', s')" "list_all (call_ok V cfg (mo_Now mo) r a) (fst s)"
    and "hq_Host r = cs_Host cfg"
  shows "list_all (call_ok V cfg (mo_Now mo) r a) (fst s')"
proof (cases "fst s' = fst s")
  case True
  then show ?thesis using assms(2) by simp
next
  case False
  let ?op = "TrimPrefix (hq_Path r) ''/fleet-admin/api/''"
  obtain cur a1 rep' where sess: "requestSession (sv_Sha V) (cs_Secure cfg) (mo_Now mo) (hq_Cookies r) a = (Some cur, a1)"
    and verb: "api_verb (hq_Path r) = Some (hq_Method r)" and auth: "hq_Authorization r = []"
    and orig: "hq_Method r = ''POST'' \<Longrightarrow> validOrigin cfg r" and csrf: "hq_Method r = ''POST'' \<Longrightarrow> validCSRF r (se_CSRF cur)"
    and b: "api_backend (noted_server V) cfg ?op r s = (rep', s')"
    using assms(1) False by (auto simp: api_def split: if_splits option.splits prod.splits sum.splits)
  obtain c where c: "fst s' = fst s @ [c]" "?op \<noteq> ''snapshot''" "?op \<noteq> ''logs''"
    "case c of ClusterCall q \<Rightarrow> False | PolicyCall p actor \<Rightarrow> actor = cs_Username cfg | AlertsCall p actor \<Rightarrow> actor = cs_Username cfg
         | DrainCall worker \<Rightarrow> validWorkerID worker | RetryCall \<Rightarrow> True"
    using backend_calls [OF b] False by blast
  have "hq_Path r \<noteq> ''/fleet-admin/api/session''"
    using assms(1) False by (auto simp: api_def split: if_splits option.splits prod.splits sum.splits)
  with verb c(2,3) have "hq_Method r = ''POST''"
    by (auto simp: api_verb_def TrimPrefix_def HasPrefix_def split: if_splits)
  then have "operator V cfg (mo_Now mo) r a"
    using sess auth orig csrf assms(3) by (auto simp: operator_def)
  then have "call_ok V cfg (mo_Now mo) r a c" using c(4) by (auto simp: call_ok_def split: call.splits)
  then show ?thesis using c(1) assms(2) by simp
qed

lemma server_calls:
  assumes "Server_ServeHTTP (noted_server V) cfg mo r (a, s) = (rep, ck, a', s')" "list_all (call_ok V cfg (mo_Now mo) r a) (fst s)"
  shows "list_all (call_ok V cfg (mo_Now mo) r a) (fst s')"
proof (cases "hq_Host r = cs_Host cfg")
  case True
  show ?thesis
    using assms True
    by (auto simp: Server_ServeHTTP_def split: if_splits prod.splits
        dest: api_served versioned_served onboarding_served retirement_served)
qed (use assms in \<open>auto simp: Server_ServeHTTP_def\<close>)

subsection \<open>Retirement\<close>

definition on_node :: "string list \<Rightarrow> string \<Rightarrow> (string \<times> json) list \<Rightarrow> bool" where
  "on_node addrs name m \<longleftrightarrow> textField m ''host'' \<in> set addrs \<or> textField m ''node'' = name"

text \<open>Every worker of the region is over, or known to run elsewhere; every room of a worker on the node is over.\<close>

definition fleet_idle ::
  "(string \<Rightarrow> string option) \<Rightarrow> string list \<Rightarrow> string \<Rightarrow> string \<Rightarrow> json list \<Rightarrow> json list \<Rightarrow> bool" where
  "fleet_idle ips addrs name region workers rooms \<longleftrightarrow>
     (\<forall>x\<in>set workers. \<exists>m. x = VObj m \<and> (textField m ''region'' = region \<longrightarrow> worker_terminal (textField m ''state'')
        \<or> (\<not> on_node addrs name m \<and> ips (textField m ''host'') \<noteq> None)))
     \<and> (\<forall>x\<in>set rooms. \<exists>room. x = VObj room \<and> ((\<exists>m. VObj m \<in> set workers \<and> textField m ''region'' = region \<and> on_node addrs name m
           \<and> textField m ''id'' = textField room ''worker_id'') \<longrightarrow> room_terminal (textField room ''state'')))"

lemma retire_workers_ok:
  "retire_workers ips addrs name region attached xs = Inr attached' \<Longrightarrow>
     (\<forall>x\<in>set xs. \<exists>m. x = VObj m \<and> (textField m ''region'' = region \<longrightarrow> worker_terminal (textField m ''state'')
        \<or> (\<not> on_node addrs name m \<and> ips (textField m ''host'') \<noteq> None)))
     \<and> set attached' = set attached \<union> {textField m ''id'' | m. VObj m \<in> set xs \<and> textField m ''region'' = region \<and> on_node addrs name m}"
proof (induction xs arbitrary: attached)
  case (Cons x xs)
  show ?case
  proof (cases x)
    case (VObj m)
    show ?thesis
    proof (cases "textField m ''region'' = region \<and> on_node addrs name m")
      case True
      then have t: "worker_terminal (textField m ''state'')"
        and r: "retire_workers ips addrs name region (textField m ''id'' # attached) xs = Inr attached'"
        using Cons.prems VObj by (auto simp: on_node_def Let_def split: if_splits)
      from Cons.IH [OF r] t True VObj show ?thesis by auto
    next
      case False
      then have r: "retire_workers ips addrs name region attached xs = Inr attached'"
        and t: "textField m ''region'' = region \<longrightarrow> worker_terminal (textField m ''state'') \<or> ips (textField m ''host'') \<noteq> None"
        using Cons.prems VObj by (auto simp: on_node_def Let_def split: if_splits)
      from Cons.IH [OF r] t False VObj show ?thesis by auto
    qed
  qed (use Cons.prems in auto)
qed simp

lemma retire_rooms_ok:
  "retire_rooms attached xs = None \<Longrightarrow>
     \<forall>x\<in>set xs. \<exists>room. x = VObj room \<and> (textField room ''worker_id'' \<in> set attached \<longrightarrow> room_terminal (textField room ''state''))"
  by (induction xs) (auto split: json.splits if_splits)

lemma fleet_objection_None:
  assumes "fleet_objection ips d region fleet = None"
  shows "\<exists>workers rooms. vfield fleet ''workers'' = VList workers \<and> vfield fleet ''rooms'' = VList rooms
    \<and> fleet_idle ips (ri_InternalIPs d @ ri_ExternalIPs d) (ri_Name d) region workers rooms"
proof -
  let ?addrs = "ri_InternalIPs d @ ri_ExternalIPs d"
  obtain workers rooms attached where v: "vfield fleet ''workers'' = VList workers" "vfield fleet ''rooms'' = VList rooms"
    and w: "retire_workers ips ?addrs (ri_Name d) region [] workers = Inr attached" and r: "retire_rooms attached rooms = None"
    using assms by (auto simp: fleet_objection_def split: json.splits sum.splits)
  have "fleet_idle ips ?addrs (ri_Name d) region workers rooms"
    unfolding fleet_idle_def using retire_workers_ok [OF w] retire_rooms_ok [OF r] by fastforce
  then show ?thesis using v by blast
qed

definition node_unready :: "node_doc \<Rightarrow> bool" where
  "node_unready n \<longleftrightarrow> (\<exists>st. filter (\<lambda>c. fst c = ''Ready'') (nd_Conditions n) = [(''Ready'', st)] \<and> st \<in> {''False'', ''Unknown''})"

definition owned_node :: "string \<Rightarrow> string \<Rightarrow> node_doc \<Rightarrow> bool" where
  "owned_node name cluster n \<longleftrightarrow> nd_Name n = name \<and> nd_DeletionTimestamp n = ''''
     \<and> map_of (nd_Labels n) ''node-role.kubernetes.io/control-plane'' = None \<and> map_of (nd_Labels n) ''node-role.kubernetes.io/master'' = None
     \<and> map_of (nd_Labels n) ''nakama-agones.io/game-node'' = Some ''true'' \<and> map_of (nd_Labels n) ''nakama-agones.io/role'' = Some ''game''
     \<and> label_text (nd_Labels n) ''nakama-agones.io/cluster'' = cluster"

lemma label_text_Some: "label_text m k = v \<Longrightarrow> v \<noteq> '''' \<Longrightarrow> map_of m k = Some v"
  by (auto simp: label_text_def split: option.splits)

lemma node_objection_None:
  assumes "node_objection ips name cluster n = None" "nd_Name n = name" "nd_DeletionTimestamp n = ''''"
  shows "owned_node name cluster n \<and> node_unready n"
proof
  show "owned_node name cluster n"
    using assms by (auto simp: node_objection_def owned_node_def Let_def split: if_splits intro: label_text_Some)
  let ?rs = "filter (\<lambda>c. fst c = ''Ready'') (nd_Conditions n)"
  have "length ?rs = 1" "snd (last ?rs) \<in> {''False'', ''Unknown''}"
    using assms(1) by (auto simp: node_objection_def Let_def last_map split: if_splits)
  then obtain c where c: "?rs = [c]" "snd c \<in> {''False'', ''Unknown''}" by (auto simp: length_Suc_conv)
  then have "c \<in> set ?rs" by simp
  then have "fst c = ''Ready''" unfolding set_filter by simp
  then have "c = (''Ready'', snd c)" by (cases c) simp
  then show "node_unready n" unfolding node_unready_def using c by metis
qed

text \<open>
  What the check establishes: the node is an owned game node, not a control node, and not ready; a complete list of the
  pods of the namespace names none on it, a complete list of the game servers neither; and by a fleet snapshot of the
  last twenty seconds the fleet has nothing on it.
\<close>

definition dead_and_empty ::
  "'w source_env \<Rightarrow> (string \<Rightarrow> string option) \<Rightarrow> data_source \<Rightarrow> string \<Rightarrow> string \<Rightarrow> string \<Rightarrow> retirementIdentity \<Rightarrow> 'w \<Rightarrow> bool" where
  "dead_and_empty S ips ds region name cluster d w \<longleftrightarrow>
     (\<exists>src n w1 pods w2 servers w3 fleet workers rooms.
        src \<in> set (dt_Regions ds) \<and> rc_Name (fst src) = region
        \<and> upstream_get S (snd src) (''/api/v1/nodes/'' @ name) (so_node S) w = (Inr n, w1)
        \<and> owned_node name cluster n \<and> node_unready n \<and> d = identity_of ips name n
        \<and> upstream_get S (snd src) (itemsPath (rc_Namespace (fst src)) ''pods'' @ ''?fieldSelector='' @ so_escape S (''spec.nodeName='' @ name)
             @ ''&limit=1000'') (so_listed S) w1 = (Inr ('''', pods), w2) \<and> name \<notin> set pods
        \<and> upstream_get S (snd src) (''/apis/agones.dev/v1/namespaces/'' @ rc_Namespace (fst src) @ ''/gameservers?limit=1000'')
             (so_listed S) w2 = (Inr ('''', servers), w3) \<and> name \<notin> set servers
        \<and> readFleetSnapshot S (dt_FleetSnapshotFile ds) w3 = Inr fleet
        \<and> vfield fleet ''workers'' = VList workers \<and> vfield fleet ''rooms'' = VList rooms
        \<and> fleet_idle ips (ri_InternalIPs d @ ri_ExternalIPs d) name region workers rooms)"

lemma check_result_eligible [simp]:
  "rk_Eligible (check_result region d b code) = b" "rk_Identity (check_result region d b code) = d"
  by (simp_all add: check_result_def)

lemma retirement_fleet_eligible:
  assumes "retirement_fleet S ips ds region d w = Inr k" "rk_Eligible k"
  shows "rk_Identity k = d \<and> (\<exists>fleet workers rooms. readFleetSnapshot S (dt_FleetSnapshotFile ds) w = Inr fleet
    \<and> vfield fleet ''workers'' = VList workers \<and> vfield fleet ''rooms'' = VList rooms
    \<and> fleet_idle ips (ri_InternalIPs d @ ri_ExternalIPs d) (ri_Name d) region workers rooms)"
  using assms by (auto simp: retirement_fleet_def split: if_splits sum.splits option.splits dest!: fleet_objection_None)

lemma check_eligible:
  assumes "CheckNodeRetirement S ips ds region name cluster w = (Inr k, w')" "rk_Eligible k"
  shows "dead_and_empty S ips ds region name cluster (rk_Identity k) w"
proof -
  obtain src where src: "find (\<lambda>src. rc_Name (fst src) = region) (dt_Regions ds) = Some src"
    using assms(1) by (auto simp: CheckNodeRetirement_def fail_def split: option.splits)
  then have src': "src \<in> set (dt_Regions ds)" "rc_Name (fst src) = region" by (auto simp: find_Some_iff)
  obtain n w1 where n: "upstream_get S (snd src) (''/api/v1/nodes/'' @ name) (so_node S) w = (Inr n, w1)"
    and nm: "nd_Name n = name" "nd_DeletionTimestamp n = ''''" and obj: "node_objection ips name cluster n = None"
    and p: "retirement_pods S ips ds src region (identity_of ips name n) w1 = (Inr k, w')"
    using assms src by (auto simp: CheckNodeRetirement_def fail_def split: if_splits prod.splits sum.splits option.splits)
  let ?d = "identity_of ips name n"
  have d: "ri_Name ?d = name" by (simp add: identity_of_def)
  obtain pods w2 where pods: "upstream_get S (snd src) (itemsPath (rc_Namespace (fst src)) ''pods'' @ ''?fieldSelector=''
      @ so_escape S (''spec.nodeName='' @ name) @ ''&limit=1000'') (so_listed S) w1 = (Inr ('''', pods), w2)" "name \<notin> set pods"
    and g: "retirement_servers S ips ds src region ?d w2 = (Inr k, w')"
    using p assms(2) d by (auto simp: retirement_pods_def split: if_splits prod.splits sum.splits)
  obtain servers w3 where servers: "upstream_get S (snd src) (''/apis/agones.dev/v1/namespaces/'' @ rc_Namespace (fst src)
      @ ''/gameservers?limit=1000'') (so_listed S) w2 = (Inr ('''', servers), w3)" "name \<notin> set servers"
    and f: "retirement_fleet S ips ds region ?d w3 = Inr k"
    using g assms(2) d by (auto simp: retirement_servers_def split: if_splits prod.splits sum.splits)
  show ?thesis
    using retirement_fleet_eligible [OF f assms(2)] node_objection_None [OF obj nm] src' n pods servers d
    unfolding dead_and_empty_def by metis
qed

lemma retirement_posted:
  assumes "submitRetirement D ips (noted_enroll E) c (\<lambda>a b d. silent (CheckNodeRetirement S ips ds a b d)) r ([], w) = (rep, calls, w')"
    and "calls \<noteq> []"
  shows "\<exists>inp d. readJSON (ci_retirement D) (hq_Body r) = Inr inp \<and> confirmation_ok ips c inp
    \<and> same_identity inp d \<and> dead_and_empty S ips ds (xr_Region inp) (xr_NodeName inp) (nc_ClusterID c) d w"
proof -
  let ?check = "\<lambda>a b d. silent (CheckNodeRetirement S ips ds a b d)"
  obtain inp where inp: "readJSON (ci_retirement D) (hq_Body r) = Inr inp" "confirmation_ok ips c inp"
    using assms by (auto simp: submitRetirement_def split: if_splits sum.splits)
  obtain y w1 where y: "CheckNodeRetirement S ips ds (xr_Region inp) (xr_NodeName inp) (nc_ClusterID c) w = (y, w1)"
    by (meson surj_pair)
  have s: "?check (xr_Region inp) (xr_NodeName inp) (nc_ClusterID c) ([], w) = (y, ([], w1))" by (simp add: silent_def y)
  obtain k where k: "y = Inr k" "rk_Eligible k" "same_identity inp (rk_Identity k)"
    using assms inp s by (auto simp: submitRetirement_def split: if_splits sum.splits)
  have "dead_and_empty S ips ds (xr_Region inp) (xr_NodeName inp) (nc_ClusterID c) (rk_Identity k) w"
    using check_eligible [OF y [unfolded k(1)] k(2)] .
  then show ?thesis using inp k(3) by blast
qed

end
