(* ===== verification/Console_Transparent.thy ===== *)
theory Console_Transparent
  imports Console_Server_Laws
begin

text \<open>
  Recording is transparent: a server whose backend and cluster are wrapped to record calls answers as the one without
  the wrappers and leaves the same state behind. So the theorems on recorded calls are about the server itself.
\<close>

definition unnoted :: "'a \<times> call list \<times> 'w \<Rightarrow> 'a \<times> 'w" where
  "unnoted = apsnd snd"

lemma unnoted_Pair [simp]: "unnoted (x, s) = (x, snd s)"
  by (simp add: unnoted_def)

lemma unnoted_wrapped [simp]: "unnoted (noted c op s) = op (snd s)" "unnoted (silent op s) = op (snd s)"
  by (simp_all add: noted_def silent_def split: prod.splits)

lemma unnoted_bind:
  assumes "unnoted p = q" "\<And>x s. unnoted (k x s) = k' x (snd s)"
  shows "unnoted (case p of (x, s) \<Rightarrow> k x s) = (case q of (x, w) \<Rightarrow> k' x w)"
  using assms by (cases p) auto

lemma unnoted_if: "unnoted x = x' \<Longrightarrow> unnoted y = y' \<Longrightarrow> unnoted (if b then x else y) = (if b then x' else y')"
  by simp

lemma unnoted_sum:
  "(\<And>e. unnoted (f e) = f' e) \<Longrightarrow> (\<And>v. unnoted (g v) = g' v) \<Longrightarrow> unnoted (case z of Inl e \<Rightarrow> f e | Inr v \<Rightarrow> g v) = (case z of Inl e \<Rightarrow> f' e | Inr v \<Rightarrow> g' v)"
  by (simp split: sum.splits)

lemma unnoted_option:
  "unnoted f = f' \<Longrightarrow> (\<And>v. unnoted (g v) = g' v) \<Longrightarrow> unnoted (case z of None \<Rightarrow> f | Some v \<Rightarrow> g v) = (case z of None \<Rightarrow> f' | Some v \<Rightarrow> g' v)"
  by (simp split: option.splits)

lemma unnoted_bool:
  "unnoted f = f' \<Longrightarrow> unnoted g = g' \<Longrightarrow> unnoted (case z of True \<Rightarrow> f | False \<Rightarrow> g) = (case z of True \<Rightarrow> f' | False \<Rightarrow> g')"
  by (simp split: bool.splits)

lemma unnoted_pair: "(\<And>x y. unnoted (f x y) = f' x y) \<Longrightarrow> unnoted (case v of (x, y) \<Rightarrow> f x y) = (case v of (x, y) \<Rightarrow> f' x y)"
  by (simp split: prod.splits)

lemmas unnoted_intros = unnoted_bind unnoted_pair unnoted_if unnoted_sum unnoted_option unnoted_bool

lemma request_unnoted [simp]:
  "unnoted (enrollment_request (noted_enroll E) verb path val decode s) = enrollment_request E verb path val decode (snd s)"
  by (simp add: enrollment_request_def noted_enroll_def noted_def split: prod.splits en_reply.splits sum.splits option.splits)

lemma get_enrollment_unnoted [simp]: "unnoted (get_enrollment (noted_enroll E) c i s) = get_enrollment E c i (snd s)"
  unfolding get_enrollment_def noted_enroll_simps
  by (intro unnoted_intros) simp_all

lemma wait_unnoted [simp]: "unnoted (wait (noted_enroll E) c n r i phase s) = wait E c n r i phase (snd s)"
proof (induction n arbitrary: r s)
  case (Suc n)
  then show ?case by (auto intro!: unnoted_intros)
qed simp

lemma verified_unnoted [simp]: "unnoted (verified_action (noted_enroll E) c item i phase action s) = verified_action E c item i phase action (snd s)"
  by (auto simp: verified_action_def intro!: unnoted_bind split: sum.splits)

lemma new_id_unnoted [simp]: "unnoted (newEnrollmentID (noted_enroll E) s) = newEnrollmentID E (snd s)"
  by (auto simp: newEnrollmentID_def intro!: unnoted_bind split: option.splits)

lemma scan_unnoted [simp]: "unnoted (submitScan D (noted_enroll E) c r s) = submitScan D E c r (snd s)"
  by (auto simp: submitScan_def Let_def intro!: unnoted_bind split: sum.splits)

lemma patch_unnoted [simp]: "unnoted (patch_preflight (noted_enroll E) c inp item uid s) = patch_preflight E c inp item uid (snd s)"
proof -
  have d: "snd (snd (enrollment_request (noted_enroll E) verb path val decode s)) = snd (enrollment_request E verb path val decode (snd s))"
    for verb path val and decode :: "string \<Rightarrow> unit option" and s
    using request_unnoted [of E verb path val decode s] by (auto simp: unnoted_def dest: arg_cong [of _ _ snd])
  show ?thesis by (auto simp: patch_preflight_def d intro!: unnoted_bind split: sum.splits)
qed

lemma preflight_unnoted [simp]: "unnoted (submitPreflight D (noted_enroll E) c r s) = submitPreflight D E c r (snd s)"
proof -
  have e: "ee_now (noted_enroll E) s = ee_now E (snd s)" "ee_meta (noted_enroll E) = ee_meta E" for s by (simp_all add: noted_enroll_def)
  show ?thesis by (auto simp: submitPreflight_def e intro!: unnoted_bind split: sum.splits option.splits)
qed

lemma join_unnoted [simp]: "unnoted (submitJoin D (noted_enroll E) c r s) = submitJoin D E c r (snd s)"
proof -
  have e: "ee_now (noted_enroll E) s = ee_now E (snd s)" for s by (simp add: noted_enroll_def)
  show ?thesis by (auto simp: submitJoin_def e intro!: unnoted_bind split: sum.splits option.splits)
qed

lemma onboarding_unnoted [simp]:
  "unnoted (onboarding_dispatch D (noted_enroll E) tie onb route r s) = onboarding_dispatch D E tie onb route r (snd s)"
proof -
  have e: "ee_enrollments (noted_enroll E) = ee_enrollments E" by (simp add: noted_enroll_def)
  show ?thesis unfolding onboarding_dispatch_def Let_def e
    by (intro unnoted_intros) (simp_all split: prod.splits)
qed

lemma retirement_job_unnoted [simp]: "unnoted (retirement_job ips (noted_enroll E) c st i res) = retirement_job ips E c st i (unnoted res)"
  by (cases res) (auto simp: retirement_job_def split: sum.splits)

lemma retirement_post_unnoted:
  assumes "\<And>a b d s. unnoted (check' a b d s) = check a b d (snd s)"
  shows "unnoted (submitRetirement D ips (noted_enroll E) c check' r s) = submitRetirement D ips E c check r (snd s)"
proof -
  have e: "ee_retirement (noted_enroll E) = ee_retirement E" by (simp add: noted_enroll_def)
  show ?thesis by (auto simp: submitRetirement_def e assms intro!: unnoted_bind split: sum.splits)
qed

lemma check_unnoted:
  assumes "\<And>a b d s. unnoted (check' a b d s) = check a b d (snd s)"
  shows "unnoted (checkRetirement c check' r s) = checkRetirement c check r (snd s)"
  by (auto simp: checkRetirement_def assms intro!: unnoted_bind split: option.splits list.splits)

lemma retirement_unnoted [simp]:
  "unnoted (retirement_dispatch D ips (noted_enroll E) tie (noted_backend be) onb verb route r s)
     = retirement_dispatch D ips E tie be onb verb route r (snd s)"
proof -
  have e: "ee_retirement (noted_enroll E) = ee_retirement E" "ee_retirements (noted_enroll E) = ee_retirements E"
    "be_CheckNodeRetirement (noted_backend be) = map_option (\<lambda>f a b c. silent (f a b c)) (be_CheckNodeRetirement be)"
    by (simp_all add: noted_enroll_def noted_backend_def)
  show ?thesis
    by (auto simp: retirement_dispatch_def e intro!: unnoted_bind retirement_post_unnoted check_unnoted split: sum.splits option.splits)
qed

lemma resource_unnoted [simp]:
  "unnoted (api_resource size_of (noted_backend be) resource q mode s) = api_resource size_of be resource q mode (snd s)"
  proof -
  have e: "be_Policy (noted_backend be) = map_option silent (be_Policy be)" "be_Alerts (noted_backend be) = map_option silent (be_Alerts be)"
    "be_Logs (noted_backend be) x = silent (be_Logs be x)" "be_Snapshot (noted_backend be) = silent (be_Snapshot be)" for x
    by (simp_all add: noted_backend_def)
  show ?thesis unfolding api_resource_def e case_map_option o_def
    by (intro unnoted_intros) (simp_all split: prod.splits)
qed

lemma run_backend_unnoted: "(\<And>s. unnoted (op' s) = op (snd s)) \<Longrightarrow> unnoted (run_backend f op' s) = run_backend f op (snd s)"
  unfolding run_backend_def by (intro unnoted_bind) simp_all

lemma with_body_unnoted: "(\<And>v s. unnoted (f' v s) = f v (snd s)) \<Longrightarrow> unnoted (with_body decode r f' s) = with_body decode r f (snd s)"
  by (auto simp: with_body_def split: sum.splits)

lemma backend_unnoted [simp]: "unnoted (api_backend (noted_server V) cfg op r s) = api_backend V cfg op r (snd s)"
proof -
  have e: "be_Policy (noted_backend be) = map_option silent (be_Policy be)" "be_Alerts (noted_backend be) = map_option silent (be_Alerts be)"
    "be_Logs (noted_backend be) x = silent (be_Logs be x)" "be_Snapshot (noted_backend be) = silent (be_Snapshot be)"
    "be_Drain (noted_backend be) i = noted (DrainCall i) (be_Drain be i)" "be_RetryCreation (noted_backend be) = noted RetryCall (be_RetryCreation be)"
    "be_UpdatePolicy (noted_backend be) p u = noted (PolicyCall p u) (be_UpdatePolicy be p u)"
    "be_UpdateAlerts (noted_backend be) v u = noted (AlertsCall v u) (be_UpdateAlerts be v u)" for be :: "'a backend" and x i p u v
    by (simp_all add: noted_backend_def)
  show ?thesis unfolding api_backend_def Let_def noted_server_simps e is_none_map_option
    by (intro unnoted_intros run_backend_unnoted with_body_unnoted) (simp_all add: run_backend_unnoted)
qed

lemma api_unnoted:
  "api V cfg mo r (a, snd s) = (case api (noted_server V) cfg mo r (a, s) of (rep, ck, a', s') \<Rightarrow> (rep, ck, a', snd s'))"
proof -
  have b: "api_backend V cfg op r (snd s) = unnoted (api_backend (noted_server V) cfg op r s)" for op by simp
  have l: "login (noted_server V) cfg mo r a = login V cfg mo r a" for a
  proof -
    have "sv_Kdf (noted_server V) = sv_Kdf V" by (simp add: noted_server_def)
    then show ?thesis unfolding login_def noted_server_simps by (simp only:)
  qed
  show ?thesis
    by (simp add: api_def b l unnoted_def split: option.split prod.split sum.split)
qed

lemma server_unnoted:
  "Server_ServeHTTP V cfg mo r (a, snd s) = (case Server_ServeHTTP (noted_server V) cfg mo r (a, s) of (rep, ck, a', s') \<Rightarrow> (rep, ck, a', snd s'))"
proof -
  have o: "onboarding_dispatch D E tie onb route r (snd s) = unnoted (onboarding_dispatch D (noted_enroll E) tie onb route r s)"
    for D E tie onb route by simp
  have t: "retirement_dispatch D ips E tie be onb verb route r (snd s)
      = unnoted (retirement_dispatch D ips (noted_enroll E) tie (noted_backend be) onb verb route r s)"
    for D ips E tie be onb verb route by simp
  have v: "api_resource f be resource q mode (snd s) = unnoted (api_resource f (noted_backend be) resource q mode s)" for f be resource q mode by simp
  have onb: "nodeOnboardingAPI D E tie sha cfg now r (a, snd s) = (case nodeOnboardingAPI D (noted_enroll E) tie sha cfg now r (a, s) of
      (rep, a', s') \<Rightarrow> (rep, a', snd s'))" for D E tie sha now
    by (simp add: nodeOnboardingAPI_def Let_def o unnoted_def split: option.split prod.split)
  have ret: "nodeRetirementAPI D ips E tie be sha cfg now r (a, snd s)
      = (case nodeRetirementAPI D ips (noted_enroll E) tie (noted_backend be) sha cfg now r (a, s) of (rep, a', s') \<Rightarrow> (rep, a', snd s'))"
    for D ips E tie be sha now
    unfolding nodeRetirementAPI_def Let_def t unnoted_def fst_conv snd_conv
    by (cases "authorizeNodeAPI sha cfg now r (if TrimPrefix (hq_Path r) ''/fleet-admin/api/node-retirement'' = '''' \<and> hq_Method r = ''POST''
          then ''POST'' else ''GET'') a")
      (simp only: split: if_split, simp split: option.split prod.split)
  have ver: "versionedAPI f be sha cfg now r (a, snd s)
      = (case versionedAPI f (noted_backend be) sha cfg now r (a, s) of (rep, a', s') \<Rightarrow> (rep, a', snd s'))" for f be sha now
  proof -
    obtain m a1 where m: "read_auth sha cfg now r a = (m, a1)" by (meson surj_pair)
    show ?thesis
    proof (cases m)
      case (Inr mode)
      obtain rep s1 where p: "api_resource f (noted_backend be) (TrimPrefix (hq_Path r) ''/fleet-admin/api/v1/'') (hq_Query r) mode s = (rep, s1)"
        by (meson surj_pair)
      show ?thesis unfolding versionedAPI_def Let_def v unnoted_def fst_conv snd_conv m Inr prod.case sum.case p apsnd_conv by simp
    qed (simp add: versionedAPI_def Let_def m)
  qed
  show ?thesis
    by (simp add: Server_ServeHTTP_def onb ret ver api_unnoted split: prod.split)
qed

end
