(* ===== verification/Console_Safety.thy ===== *)
theory Console_Safety
  imports Console_Transparent Console_Auth_Laws
begin

text \<open>
  Properties of the console's server as a whole: who can make it write, what it can write to the cluster, which nodes it
  retires, and the pages of its listings.
\<close>

subsection \<open>What a retirement posts\<close>

lemma retirement_post:
  assumes "submitRetirement D ips (noted_enroll E) c (\<lambda>a b d. silent (CheckNodeRetirement S ips ds a b d)) r ([], w) = (rep, calls, w')"
    and "readJSON (ci_retirement D) (hq_Body r) = Inr inp" "call \<in> set calls"
  shows "\<exists>i d token. call = ClusterCall \<lparr>nq_Method = ''POST'', nq_Path = enrollmentAPIPath @ ''/noderetirements'',
        nq_Value = Some (NewRetirement (''retire-'' @ i) (retirement_spec_of inp d)), nq_Bearer = token\<rparr>
     \<and> confirmation_ok ips c inp \<and> same_identity inp d
     \<and> dead_and_empty S ips ds (xr_Region inp) (xr_NodeName inp) (nc_ClusterID c) d w"
proof -
  let ?check = "\<lambda>a b d. silent (CheckNodeRetirement S ips ds a b d)"
  have ok: "confirmation_ok ips c inp" "hq_RawQuery r = ''''" using assms by (auto simp: submitRetirement_def split: if_splits)
  obtain y w1 where y: "CheckNodeRetirement S ips ds (xr_Region inp) (xr_NodeName inp) (nc_ClusterID c) w = (y, w1)"
    by (meson surj_pair)
  have s: "?check (xr_Region inp) (xr_NodeName inp) (nc_ClusterID c) ([], w) = (y, ([], w1))" by (simp add: silent_def y)
  obtain k where k: "y = Inr k" "rk_Eligible k" "same_identity inp (rk_Identity k)"
    using assms ok s by (auto simp: submitRetirement_def split: if_splits sum.splits)
  obtain j w2 where j: "ee_rand E w1 = (j, w2)" by (meson surj_pair)
  obtain b where b: "j = Some b" using assms ok s k j by (cases j) (auto simp: submitRetirement_def newEnrollmentID_def silent_def fail_def)
  have "retirement_job ips (noted_enroll E) c 202 (hex_encode b)
      (enrollment_request (noted_enroll E) ''POST'' (enrollmentAPIPath @ ''/noderetirements'')
         (Some (NewRetirement (''retire-'' @ hex_encode b) (retirement_spec_of inp (rk_Identity k)))) (ee_retirement (noted_enroll E)) ([], w2))
      = (rep, calls, w')"
    using assms ok s k j b by (simp add: submitRetirement_def newEnrollmentID_def silent_def)
  then obtain token where "call = ClusterCall \<lparr>nq_Method = ''POST'', nq_Path = enrollmentAPIPath @ ''/noderetirements'',
        nq_Value = Some (NewRetirement (''retire-'' @ hex_encode b) (retirement_spec_of inp (rk_Identity k))), nq_Bearer = token\<rparr>"
    using assms(3) by (auto simp: retirement_job_def enrollment_request_def noted_def split: if_splits sum.splits prod.splits en_reply.splits option.splits)
  moreover have "dead_and_empty S ips ds (xr_Region inp) (xr_NodeName inp) (nc_ClusterID c) (rk_Identity k) w"
    using check_eligible [OF y [unfolded k(1)] k(2)] .
  ultimately show ?thesis using ok k(3) by blast
qed

subsection \<open>Pages\<close>

text \<open>A client that follows the next offsets, starting at \<open>offset\<close>; \<open>None\<close> when \<open>n\<close> requests are not enough.\<close>

fun follow :: "nat \<Rightarrow> int \<Rightarrow> int \<Rightarrow> 'a list \<Rightarrow> 'a list option" where
  "follow 0 limit offset rows = None"
| "follow (Suc n) limit offset rows =
     (case paginate limit offset rows of
        (page, p) \<Rightarrow> (case pg_NextOffset p of
           None \<Rightarrow> Some page
         | Some next \<Rightarrow> map_option (\<lambda>rest. page @ rest) (follow n limit next rows)))"

lemma follow_drop:
  assumes "1 \<le> limit" "0 \<le> offset" "length rows - nat offset \<le> n * nat limit" "0 < n"
  shows "follow n limit offset rows = Some (drop (nat offset) rows)"
  using assms(2,3,4)
proof (induction n arbitrary: offset)
  case (Suc n)
  show ?case
  proof (cases "offset + limit < int (length rows)")
    case True
    then have off: "min offset (int (length rows)) = offset" "min (offset + limit) (int (length rows)) = offset + limit"
      using assms(1) by auto
    have n: "nat (offset + limit) = nat limit + nat offset" using assms(1) Suc.prems(1) by (simp add: nat_add_distrib)
    have gt: "0 < n" using Suc.prems True assms(1) by (cases n) auto
    have "length rows - nat (offset + limit) \<le> n * nat limit" using Suc.prems(2) unfolding n mult_Suc by linarith
    with Suc.IH [of "offset + limit"] gt assms(1) Suc.prems(1)
    have "follow n limit (offset + limit) rows = Some (drop (nat limit) (drop (nat offset) rows))"
      by (simp add: n drop_drop add.commute [of limit])
    then show ?thesis
      using True append_take_drop_id [of "nat limit" "drop (nat offset) rows"] by (simp add: paginate_def off Let_def)
  next
    case False
    then have "\<not> min (min offset (int (length rows)) + limit) (int (length rows)) < int (length rows)"
      using assms(1) by (simp add: min_def)
    moreover have "take (nat (min (min offset (int (length rows)) + limit) (int (length rows)) - min offset (int (length rows))))
        (drop (nat (min offset (int (length rows)))) rows) = drop (nat offset) rows"
      using False assms(1) Suc.prems(1) by (cases "offset \<le> int (length rows)") (auto simp: min_def)
    ultimately show ?thesis by (simp add: paginate_def Let_def)
  qed
qed simp

subsection \<open>Properties\<close>

text \<open>
  C31. A request is answered, and changes the state, as the run that records its calls says; and every call of it that
  could change something - draining a worker, retrying creation, a change of policy or alerts, a write to the cluster -
  is made for a request that came to the configured host, by POST, without an Authorization header, from the console's
  own origin, with a live session and that session's token; a change of policy or alerts carries the configured user
  name and a drained worker has a valid identifier. This holds whatever the backend, the cluster and the sessions are.
\<close>

theorem writes_need_operator:
  assumes "Server_ServeHTTP (noted_server V) cfg mo r (a, [], w) = (rep, ck, a', calls, w')"
  shows "Server_ServeHTTP V cfg mo r (a, w) = (rep, ck, a', w')
    \<and> (\<forall>c \<in> set calls. is_write c \<longrightarrow> operator V cfg (mo_Now mo) r a
         \<and> (case c of PolicyCall p actor \<Rightarrow> actor = cs_Username cfg | AlertsCall p actor \<Rightarrow> actor = cs_Username cfg
              | DrainCall worker \<Rightarrow> validWorkerID worker | _ \<Rightarrow> True))"
proof
  show "Server_ServeHTTP V cfg mo r (a, w) = (rep, ck, a', w')" using server_unnoted [of V cfg mo r a "([], w)"] assms by simp
  show "\<forall>c \<in> set calls. is_write c \<longrightarrow> operator V cfg (mo_Now mo) r a
      \<and> (case c of PolicyCall p actor \<Rightarrow> actor = cs_Username cfg | AlertsCall p actor \<Rightarrow> actor = cs_Username cfg
           | DrainCall worker \<Rightarrow> validWorkerID worker | _ \<Rightarrow> True)"
    using server_calls [OF assms] by (auto simp: list_all_iff call_ok_def split: call.splits)
qed


text \<open>
  C33. A retirement is posted only for the node the operator confirmed by name, UID, resource version and address, and
  only when the cluster and the fleet said, in this request, that the node is an owned game node, is not ready, runs no
  pod of the namespace and no game server, and that the fleet has no live worker and no live room on it.
\<close>

theorem retires_only_dead_and_empty:
  assumes "submitRetirement D ips (noted_enroll E) c (\<lambda>x y z. silent (CheckNodeRetirement S ips ds x y z)) r ([], w) = (rep, calls, w')"
    and "readJSON (ci_retirement D) (hq_Body r) = Inr inp" "call \<in> set calls"
  shows "\<exists>i d token. call = ClusterCall \<lparr>nq_Method = ''POST'', nq_Path = enrollmentAPIPath @ ''/noderetirements'',
        nq_Value = Some (NewRetirement (''retire-'' @ i) (retirement_spec_of inp d)), nq_Bearer = token\<rparr>
     \<and> confirmation_ok ips c inp \<and> same_identity inp d
     \<and> dead_and_empty S ips ds (xr_Region inp) (xr_NodeName inp) (nc_ClusterID c) d w"
  using retirement_post [OF assms] .


subsection \<open>Witnesses\<close>

definition ex_server_region :: NodeOnboardingConfig where
  "ex_server_region = \<lparr>nc_Region = ''eu'', nc_ClusterID = ''c1'', nc_APIURL = ''https://k'', nc_CAFile = ''/ca'', nc_TokenFile = ''/token'',
     nc_GamePortMin = 7000, nc_GamePortMax = 8000\<rparr>"

definition ex_server_cfg :: console_config where
  "ex_server_cfg = \<lparr>cs_Username = ''admin'', cs_PasswordHash = '''', cs_ReadAPITokenHash = '''', cs_Host = ''console.test'',
     cs_Origin = ''https://console.test'', cs_Secure = True, cs_Onboarding = Some ex_server_region\<rparr>"

definition ex_retire_input :: retirement_input where
  "ex_retire_input = \<lparr>xr_Region = ''eu'', xr_NodeName = ''node-1'', xr_NodeUID = ''u1'', xr_ResourceVersion = ''7'', xr_ConfirmedNodeName = ''node-1'',
     xr_ConfirmedIP = ''10.0.0.1'', xr_PermanentRetirement = True\<rparr>"

definition ex_codec :: console_codec where
  "ex_codec = \<lparr>ci_login = (\<lambda>_. None), ci_empty = (\<lambda>_. Some ()), ci_worker = (\<lambda>_. Some ''w-1''), ci_policy = (\<lambda>_. None),
     ci_alerts = (\<lambda>_. None), ci_scan = (\<lambda>_. Some \<lparr>xs_Region = ''eu'', xs_Host = ''8.8.8.8'', xs_Port = 0\<rparr>), ci_preflight = (\<lambda>_. None),
     ci_join = (\<lambda>_. None), ci_retirement = (\<lambda>_. Some ex_retire_input)\<rparr>"

definition ex_enroll :: "unit enroll_env" where
  "ex_enroll = \<lparr>ee_ask = (\<lambda>q w. (EnError, w)), ee_token = (\<lambda>_. Some (''a.'' @ b64_encode ex_raw @ ''.c'')), ee_now = (\<lambda>_. 1000),
     ee_rand = (\<lambda>w. (Some (take 16 ex_raw), w)), ee_done = (\<lambda>w. (False, w)), ee_time = (\<lambda>_. None),
     ee_claims = (\<lambda>_. Some \<lparr>tc_Subject = enrollmentSubject, tc_Issued = 900, tc_Expires = 2000, tc_NotBefore = 900\<rparr>),
     ee_enrollment = (\<lambda>_. None), ee_enrollments = (\<lambda>_. None), ee_meta = (\<lambda>_. None), ee_retirement = (\<lambda>_. None), ee_retirements = (\<lambda>_. None)\<rparr>"

definition ex_backend :: "unit backend" where
  "ex_backend = \<lparr>be_Snapshot = Pair (fail 502 ''down''), be_Logs = (\<lambda>q. Pair (fail 502 ''down'')), be_Drain = (\<lambda>i. Pair (Inr ())),
     be_RetryCreation = Pair (Inr ()), be_Policy = None, be_UpdatePolicy = (\<lambda>p u. Pair (fail 502 ''down'')), be_Alerts = None,
     be_UpdateAlerts = (\<lambda>p u. Pair (fail 502 ''down'')), be_CheckNodeRetirement = None\<rparr>"

definition ex_server :: "unit server_env" where
  "ex_server = \<lparr>sv_Sha = ex_sha, sv_Kdf = ex_kdf, sv_Codec = ex_codec, sv_Size = (\<lambda>_. 0), sv_Ips = Some, sv_Enroll = ex_enroll,
     sv_Tie = (\<lambda>js. js), sv_Backend = ex_backend, sv_Files = []\<rparr>"

definition ex_moment :: moment where
  "ex_moment = \<lparr>mo_Now = 60, mo_Created = 60, mo_Token = None, mo_CSRF = None, mo_LoginSlot = True, mo_Range = (\<lambda>_ ks. ks)\<rparr>"

definition ex_post :: "string \<Rightarrow> con_request" where
  "ex_post path = \<lparr>hq_Host = ''console.test'', hq_Method = ''POST'', con_request.hq_Path = path, hq_RawPath = '''', hq_EscapedPath = path,
     hq_RawQuery = '''', hq_Query = [], hq_QueryOK = True, hq_ContentLength = 2, hq_Authorization = [], hq_Origin = [''https://console.test''],
     hq_SecFetchSite = '''', hq_CSRF = [b64_encode ex_raw], hq_Cookies = ex_cookies, hq_Remote = None,
     hq_Body = \<lparr>jb_ContentType = Some ''application/json'', jb_Data = Body ''{}''\<rparr>\<rparr>"

definition ex_sessions :: authState where
  "ex_sessions = snd (auth_run ex_sha True (\<lambda>_ ks. ks) [(50, Create [] (Some ex_raw) (Some ex_raw))] new_auth)"

definition ex_served :: "string \<Rightarrow> call list" where
  "ex_served path = fst (snd (snd (snd (Server_ServeHTTP (noted_server ex_server) ex_server_cfg ex_moment (ex_post path) (ex_sessions, [], ())))))"

lemma ex_served_run:
  obtains rep ck a' w' where "Server_ServeHTTP (noted_server ex_server) ex_server_cfg ex_moment (ex_post path) (ex_sessions, [], ())
    = (rep, ck, a', ex_served path, w')"
  unfolding ex_served_def by (metis prod.collapse)

lemma ex_fields:
  "sv_Sha ex_server = ex_sha" "sv_Codec ex_server = ex_codec" "sv_Enroll ex_server = ex_enroll" "sv_Tie ex_server = (\<lambda>js. js)" "mo_Now ex_moment = 60"
  by (simp_all add: ex_server_def ex_moment_def)

lemma ex_scan_served:
  "ex_served ''/fleet-admin/api/node-onboarding/scan''
     = fst (snd (submitScan ex_codec (noted_enroll ex_enroll) ex_server_region (ex_post ''/fleet-admin/api/node-onboarding/scan'') ([], ())))"
proof -
  let ?path = "''/fleet-admin/api/node-onboarding/scan''"
  have auth: "authorizeNodeAPI ex_sha ex_server_cfg 60 (ex_post ?path) ''POST'' ex_sessions = (None, ex_sessions)" by code_simp
  have path: "\<not> contains_text ?path ''//''" "\<not> contains_text ?path [CHR 0x5C]" "\<not> HasPrefix ?path ''/fleet-admin/api/node-retirement''"
    "HasPrefix ?path ''/fleet-admin/api/node-onboarding''" "TrimPrefix ?path ''/fleet-admin/api/node-onboarding'' = ''/scan''"
    by code_simp+
  have req: "hq_Host (ex_post ?path) = cs_Host ex_server_cfg" "\<not> int (length (hq_RawQuery (ex_post ?path))) > 2048" "hq_RawPath (ex_post ?path) = ''''"
    "hq_EscapedPath (ex_post ?path) = ?path" "con_request.hq_Path (ex_post ?path) = ?path" "?path \<noteq> ''/fleet-admin''"
    by (simp_all add: ex_post_def ex_server_cfg_def)
  have "Server_ServeHTTP (noted_server ex_server) ex_server_cfg ex_moment (ex_post ?path) (ex_sessions, [], ())
    = (case nodeOnboardingAPI ex_codec (noted_enroll ex_enroll) (\<lambda>js. js) ex_sha ex_server_cfg 60 (ex_post ?path) (ex_sessions, [], ()) of
         (rep, aw1) \<Rightarrow> (rep, None, aw1))"
    by (simp only: Server_ServeHTTP_def noted_server_simps ex_fields req path if_True if_False not_False_eq_True simp_thms)
  moreover have "nodeOnboardingAPI ex_codec (noted_enroll ex_enroll) (\<lambda>js. js) ex_sha ex_server_cfg 60 (ex_post ?path) (ex_sessions, [], ())
    = (case submitScan ex_codec (noted_enroll ex_enroll) ex_server_region (ex_post ?path) ([], ()) of (rep, w1) \<Rightarrow> (rep, ex_sessions, w1))"
  proof -
    have "con_request.hq_Path (ex_post ?path) = ?path" "hq_RawQuery (ex_post ?path) = ''''" "cs_Onboarding ex_server_cfg = Some ex_server_region"
      by (simp_all add: ex_post_def ex_server_cfg_def)
    then show ?thesis
      by (simp add: nodeOnboardingAPI_def path auth onboarding_verb_def onboarding_dispatch_def del: One_nat_def)
  qed
  ultimately show ?thesis by (simp add: ex_served_def split: prod.splits)
qed

lemma ex_scan_post:
  "list_ex (\<lambda>c. case c of ClusterCall q \<Rightarrow> nq_Method q = ''POST'' | _ \<Rightarrow> False) (ex_served ''/fleet-admin/api/node-onboarding/scan'')"
  unfolding ex_scan_served by code_simp
theorem writes_need_operator_witness:
  "ex_served ''/fleet-admin/api/drain'' = [DrainCall ''w-1''] \<and> operator ex_server ex_server_cfg 60 (ex_post ''/fleet-admin/api/drain'') ex_sessions"
proof -
  have c: "ex_served ''/fleet-admin/api/drain'' = [DrainCall ''w-1'']" by code_simp
  obtain rep ck a' w' where run: "Server_ServeHTTP (noted_server ex_server) ex_server_cfg ex_moment (ex_post ''/fleet-admin/api/drain'')
      (ex_sessions, [], ()) = (rep, ck, a', ex_served ''/fleet-admin/api/drain'', w')" by (rule ex_served_run)
  from writes_need_operator [OF run] c show ?thesis by (simp add: is_write_def ex_moment_def)
qed


definition ex_source :: "unit source_env" where
  "ex_source = \<lparr>so_ask = (\<lambda>q w. (SrcReply 200 (Some ''x''), w)), so_file = (\<lambda>_ _. Some ''token''),
     so_snapshot = (\<lambda>_ _. \<lparr>sf_Stat = Some (True, False, 10, 0), sf_SameFile = True, sf_Data = Some ''{}''\<rparr>), so_now = (\<lambda>_. 5),
     so_escape = (\<lambda>s. s), so_stamp = (\<lambda>_. ''''),
     so_object = (\<lambda>_. Some [(''ok'', VBool True), (''workers'', VList []), (''rooms'', VList [])]),
     so_node = (\<lambda>_. Some \<lparr>nd_Name = ''node-1'', nd_UID = ''u1'', nd_ResourceVersion = ''7'',
       nd_Labels = [(''nakama-agones.io/game-node'', ''true''), (''nakama-agones.io/role'', ''game''), (''nakama-agones.io/cluster'', ''c1'')],
       nd_DeletionTimestamp = '''', nd_Conditions = [(''Ready'', ''Unknown'')], nd_Addresses = [(''InternalIP'', ''10.0.0.1'')]\<rparr>),
     so_listed = (\<lambda>_. Some ('''', []))\<rparr>"

definition ex_data :: data_source where
  "ex_data = \<lparr>dt_Regions = [(\<lparr>rc_Name = ''eu'', rc_APIURL = ''https://k'', rc_CAFile = ''/ca'', rc_TokenFile = ''/t'', rc_Namespace = ''game'',
         rc_SystemNamespace = ''system'', rc_LogNamespace = ''logs'', rc_LogService = ''loki''\<rparr>,
       \<lparr>us_base = ''https://k'', us_tokenFile = ''/t''\<rparr>)], dt_FleetSnapshotFile = ''/fleet.json''\<rparr>"

definition ex_retired :: "call list" where
  "ex_retired = fst (snd (submitRetirement ex_codec Some (noted_enroll ex_enroll) ex_server_region
     (\<lambda>x y z. silent (CheckNodeRetirement ex_source Some ex_data x y z)) (ex_post ''/fleet-admin/api/node-retirement'') ([], ())))"

theorem retires_only_dead_and_empty_witness:
  "\<exists>d. dead_and_empty ex_source Some ex_data ''eu'' ''node-1'' ''c1'' d () \<and> same_identity ex_retire_input d"
proof -
  have "list_ex (\<lambda>_. True) ex_retired" by code_simp
  then obtain c where c: "c \<in> set ex_retired" by (auto simp: list_ex_iff)
  have inp: "readJSON (ci_retirement ex_codec) (hq_Body (ex_post ''/fleet-admin/api/node-retirement'')) = Inr ex_retire_input" by code_simp
  obtain rep w' where run: "submitRetirement ex_codec Some (noted_enroll ex_enroll) ex_server_region
      (\<lambda>x y z. silent (CheckNodeRetirement ex_source Some ex_data x y z)) (ex_post ''/fleet-admin/api/node-retirement'') ([], ())
      = (rep, ex_retired, w')" unfolding ex_retired_def by (metis prod.collapse)
  from retires_only_dead_and_empty [OF run inp c] show ?thesis by (auto simp: ex_retire_input_def ex_server_region_def)
qed


end
