(* ===== verification/Console_Logs.thy ===== *)
theory Console_Logs
  imports Console_Api
begin

text \<open>
  Log queries: \<^verbatim>\<open>DataSource.Logs\<close> of \<^verbatim>\<open>internal/console/source.go\<close>, for the logs of a running container and
  for those kept by Loki. \<open>view_env\<close> adds to the environment of the readers the decoders of the documents, the
  formats of times with nanoseconds, \<^verbatim>\<open>strings.ToLower\<close>, \<^verbatim>\<open>strconv.Quote\<close>, and the order that sorting gives to
  entries of the same time.
\<close>

record condition_doc =
  cd_Reason :: string
  cd_Message :: string
  cd_Type :: string
  cd_Status :: string
  cd_LastTransitionTime :: string

record containerResources =
  cr_Requests :: "string gomap"
  cr_Limits :: "string gomap"

text \<open>Of a container's status: its restarts and, when it waits, the reason.\<close>

record containerStatus =
  ct_RestartCount :: int
  ct_Waiting :: "string option"

record podObject =
  po_Name :: string
  po_Namespace :: string
  po_Labels :: "string gomap"
  po_NodeName :: string
  po_Containers :: "(string \<times> containerResources) list"
  po_InitContainers :: "(string \<times> containerResources) list"
  po_Phase :: string
  po_Reason :: string
  po_Conditions :: "condition_doc list"
  po_ContainerStatuses :: "containerStatus list"
  po_InitContainerStatuses :: "containerStatus list"

record logEntry =
  le_Timestamp :: string
  le_Text :: string
  le_Namespace :: string
  le_Pod :: string
  le_Container :: string

text \<open>What Loki answers: status, result type, and the values of every stream.\<close>

type_synonym loki_doc = "string \<times> string \<times> string list list list"

record 'w log_env =
  lg_source :: "'w source_env"
  lg_pod :: "string \<Rightarrow> podObject option"
  lg_loki :: "string \<Rightarrow> loki_doc option"
  lg_nano :: "int \<Rightarrow> string"
  lg_parse_nano :: "string \<Rightarrow> int option"
  lg_lower :: "string \<Rightarrow> string"
  lg_quote :: "string \<Rightarrow> string"
  lg_tie :: "logEntry list \<Rightarrow> logEntry list"

subsection \<open>The query\<close>

record log_query =
  lq_Region :: "RegionConfig \<times> upstream_cfg"
  lq_Namespace :: string
  lq_Pod :: string
  lq_Container :: string
  lq_Live :: bool
  lq_Minutes :: int
  lq_Limit :: int
  lq_Search :: string
  lq_Before :: string

definition or_else :: "string \<Rightarrow> string \<Rightarrow> string" where
  "or_else v d = (if v = '''' then d else v)"

definition number_param :: "query \<Rightarrow> string \<Rightarrow> int \<Rightarrow> int option" where
  "number_param q k d = (if query_Get q k = '''' then Some d else Atoi (query_Get q k))"

definition game_pod :: "string \<Rightarrow> bool" where
  "game_pod p \<longleftrightarrow> HasPrefix p ''nag-'' \<and> workerName (TrimPrefix p ''nag-'')"

definition log_target_ok :: "log_query \<Rightarrow> string \<Rightarrow> bool" where
  "log_target_ok l m \<longleftrightarrow> (lq_Namespace l = rc_Namespace (fst (lq_Region l)) \<or> lq_Namespace l = rc_SystemNamespace (fst (lq_Region l)))
     \<and> \<not> (\<not> dnsName (lq_Pod l) \<or> has_dots (lq_Pod l) \<or> \<not> dnsName (lq_Container l) \<or> has_dots (lq_Container l)
          \<or> int (length (lq_Container l)) > 63 \<or> (m \<noteq> ''live'' \<and> m \<noteq> ''history''))
     \<and> \<not> (lq_Namespace l = rc_Namespace (fst (lq_Region l)) \<and> \<not> game_pod (lq_Pod l))"

definition log_bounds_ok :: "int \<Rightarrow> log_query \<Rightarrow> bool" where
  "log_bounds_ok days l \<longleftrightarrow>
     \<not> (lq_Minutes l < 1 \<or> lq_Minutes l > days * 24 * 60 \<or> lq_Limit l < 1 \<or> lq_Limit l > 1000
        \<or> int (length (lq_Search l)) > 200 \<or> CHR 0x00 \<in> set (lq_Search l))
     \<and> \<not> (lq_Live l \<and> (lq_Minutes l > 1440 \<or> lq_Before l \<noteq> ''''))"

text \<open>\<open>None\<close> is \<^verbatim>\<open>badQuery\<close>.\<close>

definition parse_log_query :: "int \<Rightarrow> (RegionConfig \<times> upstream_cfg) list \<Rightarrow> query \<Rightarrow> log_query option" where
  "parse_log_query days regions q =
     (if \<not> list_all (\<lambda>(k, vs). k \<in> set log_params \<and> length vs = 1) q then None
      else case find (\<lambda>r. rc_Name (fst r) = query_Get q ''region'') regions of
        None \<Rightarrow> None
      | Some r \<Rightarrow>
          (case (number_param q ''minutes'' 60, number_param q ''limit'' 500) of
             (Some minutes, Some limit) \<Rightarrow>
               (let m = or_else (query_Get q ''mode'') ''live'';
                    l = \<lparr>lq_Region = r, lq_Namespace = or_else (query_Get q ''namespace'') (rc_Namespace (fst r)), lq_Pod = query_Get q ''pod'',
                         lq_Container = or_else (query_Get q ''container'') ''game'', lq_Live = (m = ''live''), lq_Minutes = minutes,
                         lq_Limit = limit, lq_Search = query_Get q ''search'', lq_Before = query_Get q ''before''\<rparr>
                in if log_target_ok l m \<and> log_bounds_ok days l then Some l else None)
           | _ \<Rightarrow> None))"

subsection \<open>Running containers\<close>

text \<open>\<^verbatim>\<open>url.Values.Encode\<close> of one value for each key.\<close>

definition encode_values :: "(string \<Rightarrow> string) \<Rightarrow> (string \<times> string) list \<Rightarrow> string" where
  "encode_values esc kvs =
     (case map (\<lambda>(k, v). esc k @ ''='' @ esc v) (sort_key fst kvs) of [] \<Rightarrow> '''' | x # xs \<Rightarrow> concat (x # map (\<lambda>y. ''&'' @ y) xs))"

text \<open>\<^verbatim>\<open>strings.Cut\<close> at a space: no time when there is none.\<close>

definition cut_line :: "string \<Rightarrow> string \<times> string" where
  "cut_line line =
     (if CHR '' '' \<in> set line
      then (takeWhile (\<lambda>c. c \<noteq> CHR '' '') line, tl (dropWhile (\<lambda>c. c \<noteq> CHR '' '') line)) else ('''', line))"

definition live_entry :: "'w log_env \<Rightarrow> log_query \<Rightarrow> string \<Rightarrow> logEntry option" where
  "live_entry G l line =
     (if line = '''' then None
      else let (ts, raw) = cut_line line; txt = safeText raw
           in if lq_Search l \<noteq> '''' \<and> \<not> contains_text (lg_lower G txt) (lg_lower G (lq_Search l)) then None
              else Some \<lparr>le_Timestamp = ts, le_Text = txt, le_Namespace = lq_Namespace l, le_Pod = lq_Pod l, le_Container = lq_Container l\<rparr>)"

definition pod_path :: "log_query \<Rightarrow> string" where
  "pod_path l = itemsPath (lq_Namespace l) ''pods'' @ ''/'' @ lq_Pod l"

definition live_params :: "log_query \<Rightarrow> (string \<times> string) list" where
  "live_params l = [(''container'', lq_Container l), (''timestamps'', ''true''), (''sinceSeconds'', itoa (lq_Minutes l * 60)),
     (''tailLines'', itoa (lq_Limit l)), (''limitBytes'', ''1048576'')]"

definition live_logs :: "'w log_env \<Rightarrow> log_query \<Rightarrow> 'w \<Rightarrow> (logEntry list \<times> bool) source_result \<times> 'w" where
  "live_logs G l w =
     (case upstream_get (lg_source G) (snd (lq_Region l)) (pod_path l) (lg_pod G) w of
        (Inl e, w1) \<Rightarrow> (Inl e, w1)
      | (Inr p, w1) \<Rightarrow>
          if lq_Namespace l = rc_Namespace (fst (lq_Region l)) \<and> label_text (po_Labels p) ''app.kubernetes.io/managed-by'' \<noteq> ''nakama-agones''
          then (fail 404 ''resource_not_found'', w1)
          else if lq_Container l \<notin> fst ` set (po_Containers p @ po_InitContainers p) then (fail 400 ''invalid_query'', w1)
          else case upstream_request (lg_source G) (snd (lq_Region l)) ''GET''
                      (pod_path l @ ''/log?'' @ encode_values (so_escape (lg_source G)) (live_params l)) None 1048576 w1 of
            (Inl e, w2) \<Rightarrow> (Inl e, w2)
          | (Inr raw, w2) \<Rightarrow>
              (let ls = split_on (CHR 0x0A) (TrimSuffix raw [CHR 0x0A])
               in (Inr (List.map_filter (live_entry G l) ls, int (length ls) \<ge> lq_Limit l \<or> int (length raw) \<ge> 1048576), w2)))"

subsection \<open>Loki\<close>

definition log_selector :: "'w log_env \<Rightarrow> log_query \<Rightarrow> string" where
  "log_selector G l = ''{cluster='' @ lg_quote G (rc_Name (fst (lq_Region l))) @ '',namespace='' @ lg_quote G (lq_Namespace l)
     @ '',pod='' @ lg_quote G (lq_Pod l) @ '',container='' @ lg_quote G (lq_Container l) @ ''}''
     @ (if lq_Search l = '''' then '''' else '' |= '' @ lg_quote G (lq_Search l))"

text \<open>Times are nanoseconds. The end of the range, \<open>None\<close> for a bad query.\<close>

definition range_end :: "'w log_env \<Rightarrow> log_query \<Rightarrow> int \<Rightarrow> int \<Rightarrow> int option" where
  "range_end G l start now =
     (if lq_Before l = '''' then Some now
      else case lg_parse_nano G (lq_Before l) of
        None \<Rightarrow> None
      | Some b \<Rightarrow> if \<not> b > start \<or> b > now then None else Some (b - 1))"

definition loki_entry :: "'w log_env \<Rightarrow> log_query \<Rightarrow> string list \<Rightarrow> logEntry option" where
  "loki_entry G l v =
     (case v of
        [t, line] \<Rightarrow> (case Atoi t of
            None \<Rightarrow> None
          | Some ns \<Rightarrow> Some \<lparr>le_Timestamp = lg_nano G ns, le_Text = safeText line, le_Namespace = lq_Namespace l, le_Pod = lq_Pod l,
              le_Container = lq_Container l\<rparr>)
      | _ \<Rightarrow> None)"

text \<open>The zero time of Go, which a failed parse leaves.\<close>

definition zero_time :: int where "zero_time = - 62135596800000000000"

definition entry_time :: "'w log_env \<Rightarrow> logEntry \<Rightarrow> int" where
  "entry_time G e = (case lg_parse_nano G (le_Timestamp e) of None \<Rightarrow> zero_time | Some t \<Rightarrow> t)"

definition loki_path :: "'w log_env \<Rightarrow> log_query \<Rightarrow> int \<Rightarrow> int \<Rightarrow> string" where
  "loki_path G l start finish = itemsPath (rc_LogNamespace (fst (lq_Region l))) ''services'' @ ''/http:'' @ rc_LogService (fst (lq_Region l))
     @ '':http/proxy/loki/api/v1/query_range?''
     @ encode_values (so_escape (lg_source G)) [(''query'', log_selector G l), (''start'', itoa start), (''end'', itoa finish),
         (''limit'', itoa (lq_Limit l)), (''direction'', ''backward'')]"

definition loki_entries :: "'w log_env \<Rightarrow> log_query \<Rightarrow> string list list list \<Rightarrow> logEntry list" where
  "loki_entries G l streams = sort_key (entry_time G) (lg_tie G (concat (map (List.map_filter (loki_entry G l)) streams)))"

definition last_entries :: "int \<Rightarrow> logEntry list \<Rightarrow> logEntry list" where
  "last_entries n es = (if int (length es) > n then drop (length es - nat n) es else es)"

definition history_logs :: "'w log_env \<Rightarrow> log_query \<Rightarrow> 'w \<Rightarrow> (logEntry list \<times> bool \<times> string) source_result \<times> 'w" where
  "history_logs G l w =
     (let now = so_now (lg_source G) w; start = now - lq_Minutes l * 60000000000
      in case range_end G l start now of
           None \<Rightarrow> (fail 400 ''invalid_query'', w)
         | Some finish \<Rightarrow>
             (case upstream_get (lg_source G) (snd (lq_Region l)) (loki_path G l start finish) (lg_loki G) w of
                (Inl e, w1) \<Rightarrow> (Inl e, w1)
              | (Inr (st, kind, streams), w1) \<Rightarrow>
                  if st \<noteq> ''success'' \<or> kind \<noteq> ''streams'' then (fail 502 ''upstream_invalid_response'', w1)
                  else (let es = loki_entries G l streams; truncated = int (length es) \<ge> lq_Limit l; kept = last_entries (lq_Limit l) es
                        in (Inr (kept, truncated, if truncated \<and> kept \<noteq> [] then le_Timestamp (hd kept) else ''''), w1))))"

subsection \<open>The operation\<close>

definition entry_json :: "logEntry \<Rightarrow> json" where
  "entry_json e = VObj [(''timestamp'', VText (le_Timestamp e)), (''text'', VText (le_Text e)), (''namespace'', VText (le_Namespace e)),
     (''pod'', VText (le_Pod e)), (''container'', VText (le_Container e))]"

definition logs_json :: "'w log_env \<Rightarrow> int \<Rightarrow> string \<Rightarrow> logEntry list \<Rightarrow> bool \<Rightarrow> string \<Rightarrow> 'w \<Rightarrow> json" where
  "logs_json G days src es truncated next_before w =
     VObj [(''next_before'', VText next_before), (''source'', VText src), (''observed_at'', VText (so_stamp (lg_source G) (so_now (lg_source G) w))),
       (''retention_days'', jint days), (''entries'', VList (map entry_json es)), (''truncated'', VBool truncated)]"

definition Logs :: "'w log_env \<Rightarrow> int \<Rightarrow> (RegionConfig \<times> upstream_cfg) list \<Rightarrow> query \<Rightarrow> 'w \<Rightarrow> json source_result \<times> 'w" where
  "Logs G days regions q w =
     (case parse_log_query days regions q of
        None \<Rightarrow> (fail 400 ''invalid_query'', w)
      | Some l \<Rightarrow>
          if lq_Live l
          then (case live_logs G l w of
                  (Inl e, w1) \<Rightarrow> (Inl e, w1)
                | (Inr (es, truncated), w1) \<Rightarrow> (Inr (logs_json G days ''kubernetes'' es truncated '''' w1), w1))
          else (case history_logs G l w of
                  (Inl e, w1) \<Rightarrow> (Inl e, w1)
                | (Inr (es, truncated, next_before), w1) \<Rightarrow> (Inr (logs_json G days ''loki'' es truncated next_before w1), w1)))"

end
