(* ===== verification/Console_Snapshot.thy ===== *)
theory Console_Snapshot
  imports Console_Logs
begin

text \<open>
  The data source of the console: \<^verbatim>\<open>NewDataSource\<close>, \<^verbatim>\<open>newUpstream\<close>, \<^verbatim>\<open>Snapshot\<close>, \<^verbatim>\<open>projectFleet\<close> and the
  observation of a region in \<^verbatim>\<open>internal/console/source.go\<close>. A snapshot is the JSON the code's maps are encoded to. Reads
  that the code runs concurrently are taken one after the other.
\<close>

subsection \<open>Settings\<close>

record SourceConfig =
  sg_OperationsFile :: string
  sg_ControlSocket :: string
  sg_FleetSnapshotFile :: string
  sg_AllowManagement :: bool
  sg_FleetURL :: string
  sg_FleetTokenFile :: string
  sg_Regions :: "RegionConfig list"
  sg_MaxProcesses :: int
  sg_RoomsPerProcess :: int
  sg_LogRetentionDays :: int

text \<open>\<open>ca\<close>: \<open>None\<close> when the file cannot be read, else whether it holds certificates.\<close>

definition newUpstream ::
  "net_env \<Rightarrow> (string \<Rightarrow> bool option) \<Rightarrow> string \<Rightarrow> string \<Rightarrow> string \<Rightarrow> bool \<Rightarrow> upstream_cfg result" where
  "newUpstream net ca raw ca_file token_file local_http =
     (case url_Parse net raw of
        None \<Rightarrow> Inl (Errorf ''invalid upstream configuration'')
      | Some u \<Rightarrow>
          if u_Host u = '''' \<or> u_HasUser u \<or> u_RawQuery u \<noteq> '''' \<or> u_Fragment u \<noteq> '''' \<or> (u_Path u \<noteq> '''' \<and> u_Path u \<noteq> ''/'')
             \<or> token_file = ''''
          then Inl (Errorf ''invalid upstream configuration'')
          else if u_Scheme u \<noteq> ''https'' \<and> \<not> (local_http \<and> u_Scheme u = ''http'' \<and> ip_loopback net (u_Hostname u) = Some True)
          then Inl (Errorf ''upstream TLS or loopback required'')
          else if ca_file \<noteq> '''' \<and> ca ca_file = None then Inl (Errorf ''cannot read upstream CA'')
          else if ca_file \<noteq> '''' \<and> ca ca_file = Some False then Inl (Errorf ''invalid upstream CA'')
          else Inr \<lparr>us_base = trim_slashes raw, us_tokenFile = token_file\<rparr>)"

definition region_defaults :: "RegionConfig \<Rightarrow> RegionConfig" where
  "region_defaults r = r\<lparr>rc_Namespace := or_else (rc_Namespace r) ''agones-games'',
     rc_SystemNamespace := or_else (rc_SystemNamespace r) ''agones-system'',
     rc_LogNamespace := or_else (rc_LogNamespace r) ''agones-observability'', rc_LogService := or_else (rc_LogService r) ''fleet-loki''\<rparr>"

definition region_names_ok :: "RegionConfig \<Rightarrow> bool" where
  "region_names_ok r \<longleftrightarrow> list_all (\<lambda>v. dnsName v \<and> \<not> has_dots v)
     [rc_Name r, rc_Namespace r, rc_SystemNamespace r, rc_LogNamespace r, rc_LogService r]"

fun open_regions ::
  "net_env \<Rightarrow> (string \<Rightarrow> bool option) \<Rightarrow> string list \<Rightarrow> RegionConfig list \<Rightarrow> (RegionConfig \<times> upstream_cfg) list result" where
  "open_regions net ca seen [] = Inr []"
| "open_regions net ca seen (r0 # rs) =
     (let r = region_defaults r0
      in if \<not> region_names_ok r then Inl (Errorf ''invalid region configuration'')
         else if rc_Name r \<in> set seen then Inl (Errorf ''duplicate region'')
         else case newUpstream net ca (rc_APIURL r) (rc_CAFile r) (rc_TokenFile r) False of
           Inl e \<Rightarrow> Inl e
         | Inr u \<Rightarrow> (case open_regions net ca (rc_Name r # seen) rs of Inl e \<Rightarrow> Inl e | Inr us \<Rightarrow> Inr ((r, u) # us)))"

record fleet_source =
  fs_Config :: SourceConfig
  fs_Fleet :: "upstream_cfg option"
  fs_Control :: bool
  fs_Regions :: "(RegionConfig \<times> upstream_cfg) list"
  fs_Operations :: bool

definition NewDataSource :: "net_env \<Rightarrow> (string \<Rightarrow> bool option) \<Rightarrow> (string \<Rightarrow> unit result) \<Rightarrow> SourceConfig \<Rightarrow> fleet_source result" where
  "NewDataSource net ca open_ops cfg0 =
     (let cfg = (if sg_LogRetentionDays cfg0 = 0 then cfg0\<lparr>sg_LogRetentionDays := 7\<rparr> else cfg0)
      in if sg_LogRetentionDays cfg < 1 \<or> sg_LogRetentionDays cfg > 30 \<or> length (sg_Regions cfg) = 0 \<or> int (length (sg_Regions cfg)) > 16
         then Inl (Errorf ''invalid source configuration'')
         else case (if sg_FleetSnapshotFile cfg \<noteq> ''''
                    then (if \<not> IsAbs (sg_FleetSnapshotFile cfg) \<or> sg_FleetURL cfg \<noteq> '''' \<or> sg_FleetTokenFile cfg \<noteq> ''''
                          then Inl (Errorf ''snapshot source must be exclusive'') else Inr None)
                    else (case newUpstream net ca (sg_FleetURL cfg) '''' (sg_FleetTokenFile cfg) True of Inl e \<Rightarrow> Inl e | Inr u \<Rightarrow> Inr (Some u))) of
           Inl e \<Rightarrow> Inl e
         | Inr fleet \<Rightarrow>
             if sg_AllowManagement cfg \<and> sg_ControlSocket cfg = '''' then Inl (Errorf ''management requires the restricted control socket'')
             else if sg_ControlSocket cfg \<noteq> '''' \<and> sg_FleetSnapshotFile cfg = ''''
             then Inl (Errorf ''control socket requires a credential-free snapshot source'')
             else if sg_ControlSocket cfg \<noteq> '''' \<and> \<not> validSocketPath (sg_ControlSocket cfg) then Inl (Errorf ''invalid control socket path'')
             else case open_regions net ca [] (sg_Regions cfg) of
               Inl e \<Rightarrow> Inl e
             | Inr regions \<Rightarrow>
                 (case (if sg_OperationsFile cfg = '''' then Inr () else open_ops (sg_OperationsFile cfg)) of
                    Inl e \<Rightarrow> Inl e
                  | Inr _ \<Rightarrow> Inr \<lparr>fs_Config = cfg, fs_Fleet = fleet, fs_Control = (sg_ControlSocket cfg \<noteq> ''''), fs_Regions = regions,
                      fs_Operations = (sg_OperationsFile cfg \<noteq> '''')\<rparr>))"

subsection \<open>The fleet\<close>

fun alloc_state_text :: "AllocState \<Rightarrow> string" where
  "alloc_state_text AWaiting = ''waiting''"
| "alloc_state_text APreparing = ''preparing''"
| "alloc_state_text APrepared = ''prepared''"
| "alloc_state_text AAssigned = ''assigned''"
| "alloc_state_text AActive = ''active''"
| "alloc_state_text ACancelling = ''cancelling''"
| "alloc_state_text ACompleted = ''completed''"
| "alloc_state_text ACancelled = ''cancelled''"
| "alloc_state_text AExpired = ''expired''"
| "alloc_state_text AFailed = ''failed''"

definition policy_json :: "CapacityPolicy option \<Rightarrow> json" where
  "policy_json p =
     (case p of
        None \<Rightarrow> VNull
      | Some c \<Rightarrow> VObj [(''revision'', jint (p_Revision c)), (''rooms_per_instance'', jint (p_RoomsPerInstance c)),
          (''cpu_request_millicores'', jint (p_CPURequestMillicores c)), (''cpu_limit_millicores'', jint (p_CPULimitMillicores c)),
          (''updated_at'', jint (p_UpdatedAt c)), (''updated_by'', VText (p_UpdatedBy c))])"

definition float_or_null :: "float64 option \<Rightarrow> json" where
  "float_or_null x = (case x of None \<Rightarrow> VNull | Some v \<Rightarrow> VNum v)"

definition window_json :: "LatencyWindow \<Rightarrow> json" where
  "window_json l = VObj [(''window_seconds'', jint (lw_WindowSeconds l)), (''count'', jint (lw_Count l)), (''p50'', float_or_null (lw_P50 l)),
     (''p95'', float_or_null (lw_P95 l)), (''p99'', float_or_null (lw_P99 l)), (''max'', float_or_null (lw_Max l)),
     (''last_sample_age_seconds'', float_or_null (lw_LastSampleAgeSeconds l))]"

definition present :: "string \<Rightarrow> ('a \<Rightarrow> json) \<Rightarrow> 'a option \<Rightarrow> (string \<times> json) list" where
  "present k f x = (case x of None \<Rightarrow> [] | Some v \<Rightarrow> [(k, f v)])"

definition metrics_json :: "Metrics \<Rightarrow> json" where
  "metrics_json m = VObj (present ''server_last_ack_to_ready_ms'' window_json (me_ServerLastACKToReadyMS m)
     @ present ''server_last_ack_to_settlement_ms'' window_json (me_ServerLastACKToSettlementMS m)
     @ present ''simulation_workers'' jint (me_SimulationWorkers m) @ present ''audit_workers'' jint (me_AuditWorkers m)
     @ present ''client_presentation_to_ready_ms'' window_json (me_ClientPresentationToReadyMS m)
     @ present ''client_presentation_to_settlement_ms'' window_json (me_ClientPresentationToSettlementMS m)
     @ present ''server_first_ack_to_ready_ms'' window_json (me_ServerFirstACKToReadyMS m)
     @ present ''server_first_ack_to_settlement_ms'' window_json (me_ServerFirstACKToSettlementMS m)
     @ present ''simulation_queue_ms'' window_json (me_SimulationQueueMS m) @ present ''simulation_work_ms'' window_json (me_SimulationWorkMS m)
     @ [(''simulation_pending'', jint (me_SimulationPending m)), (''simulation_active'', jint (me_SimulationActive m)),
        (''simulation_oldest_seconds'', VNum (me_SimulationOldestSeconds m)), (''frame_p99_ms'', VNum (me_FrameP99MS m)),
        (''memory_bytes'', jint (me_MemoryBytes m)), (''audit_pending'', jint (me_AuditPending m)), (''audit_active'', jint (me_AuditActive m)),
        (''pending_results'', jint (me_PendingResults m))])"

definition worker_json :: "FleetState \<Rightarrow> Worker \<Rightarrow> json" where
  "worker_json s w = VObj [(''id'', VText (w_ID w)), (''pod'', VText (if workerName (w_ID w) then ''nag-'' @ w_ID w else '''')),
     (''region'', VText (w_Region w)), (''build_hash'', VText (w_BuildHash w)), (''state'', VText (worker_state_text (w_State w))),
     (''host'', VText (w_Host w)), (''port'', jint (w_Port w)), (''max_rooms'', jint (w_MaxRooms w)), (''occupied_rooms'', jint (Occupied s (w_ID w))),
     (''player_count'', jint (w_PlayerCount w)), (''ready'', VBool (w_Ready w)), (''draining'', VBool (w_Draining w)),
     (''created_at'', jint (w_CreatedAt w)), (''last_heartbeat'', jint (w_LastHeartbeat w)),
     (''metrics'', if w_LastHeartbeat w > 0 then metrics_json (w_Metrics w) else VNull), (''error'', VText (safeText (w_Error w)))]"

definition seated_player :: "Session \<Rightarrow> json" where
  "seated_player p = VObj [(''user_id'', VText (se_UserID p)), (''seat'', jint (se_Seat p)), (''connected'', VBool (se_Connected p)),
     (''ever_connected'', VBool (se_EverConnected p)), (''reconnect_until'', jint (se_ReconnectUntil p))]"

definition waiting_player :: "nat \<Rightarrow> string \<Rightarrow> json" where
  "waiting_player i u = VObj [(''user_id'', VText u), (''seat'', jint (int i)), (''connected'', VBool False), (''ever_connected'', VBool False),
     (''reconnect_until'', jint 0)]"

definition players_json :: "Allocation \<Rightarrow> json list" where
  "players_json a = map seated_player (a_Sessions a)
     @ map (\<lambda>(i, u). waiting_player i u) (filter (\<lambda>(i, u). u \<notin> se_UserID ` set (a_Sessions a)) (enumerate 0 (a_UserIDs a)))"

definition room_json :: "FleetState \<Rightarrow> Allocation \<Rightarrow> json" where
  "room_json s a = VObj [(''id'', VText (a_RoomID a)), (''allocation_id'', VText (a_ID a)), (''worker_id'', VText (a_WorkerID a)),
     (''region'', VText (case map_of (s_Workers s) (a_WorkerID a) of None \<Rightarrow> '''' | Some w \<Rightarrow> w_Region w)),
     (''state'', VText (alloc_state_text (a_State a))), (''epoch'', jint (a_Epoch a)), (''created_at'', jint (a_CreatedAt a)),
     (''expires_at'', jint (a_ExpiresAt a)), (''terminal_at'', jint (a_TerminalAt a)), (''players'', VList (players_json a)),
     (''error'', VText (safeText (a_Error a)))]"

text \<open>\<open>tie\<close> is the order in which the loop over the map and the sort leave allocations of the same age.\<close>

definition projectFleet ::
  "(Allocation list \<Rightarrow> Allocation list) \<Rightarrow> FleetState \<Rightarrow> (string \<times> json) list \<Rightarrow> (string \<times> json) list" where
  "projectFleet tie s f =
     mput ''rooms'' (VList (map (room_json s) (sort_key (\<lambda>a. - a_CreatedAt a) (tie (map snd (s_Allocations s))))))
      (mput ''workers'' (VList (map (\<lambda>(k, w). worker_json s w) (sort_key fst (s_Workers s))))
        (mput ''creation_blocked_reason'' (VText (safeText (s_CreationBlockedReason s)))
          (mput ''capacity_policy'' (policy_json (s_CapacityPolicy s))
            (mput ''revision'' (jint (s_Revision s)) (mput ''ok'' (VBool True) f)))))"

subsection \<open>Quantities\<close>

text \<open>Products and conversions of binary64; out of the range of \<^verbatim>\<open>int64\<close> the conversion gives its least value, as on amd64.\<close>

fun fmul :: "float64 \<Rightarrow> float64 \<Rightarrow> float64" where
  "fmul (Fin x) (Fin y) = f64 (x * y)"
| "fmul NaN _ = NaN"
| "fmul _ NaN = NaN"
| "fmul x y = (if x = Fin 0 \<or> y = Fin 0 then NaN else if (x > Fin 0) = (y > Fin 0) then PosInf else NegInf)"

fun to_int64 :: "float64 \<Rightarrow> int" where
  "to_int64 (Fin q) = (let n = (if q < 0 then - \<lfloor>- q\<rfloor> else \<lfloor>q\<rfloor>) in if n < - (2 ^ 63) \<or> n \<ge> 2 ^ 63 then - (2 ^ 63) else n)"
| "to_int64 _ = - (2 ^ 63)"

definition units :: "(string \<times> rat) list" where
  "units = [(''Ki'', 2 ^ 10), (''Mi'', 2 ^ 20), (''Gi'', 2 ^ 30), (''Ti'', 2 ^ 40), (''Pi'', 2 ^ 50), (''Ei'', 2 ^ 60), (''n'', 1 / 10 ^ 9),
     (''u'', 1 / 10 ^ 6), (''m'', 1 / 10 ^ 3), (''k'', 10 ^ 3), (''K'', 10 ^ 3), (''M'', 10 ^ 6), (''G'', 10 ^ 9), (''T'', 10 ^ 12), (''P'', 10 ^ 15),
     (''E'', 10 ^ 18)]"

text \<open>\<^verbatim>\<open>ParseFloat\<close> on decimal literals; the special spellings and values beyond the range count as 0 here.\<close>

definition quantity :: "string \<Rightarrow> float64" where
  "quantity s =
     (let (t, m) = (case find (\<lambda>(u, _). HasSuffix s u) units of None \<Rightarrow> (s, 1) | Some (u, m) \<Rightarrow> (TrimSuffix s u, m))
      in case ParseFloat t of
           None \<Rightarrow> Fin 0
         | Some (neg, n, d) \<Rightarrow>
             (case f64 (of_int n / of_int d) of
                Fin f \<Rightarrow> if neg \<and> f \<noteq> 0 then Fin 0 else fmul (Fin f) (f64 m)
              | _ \<Rightarrow> Fin 0))"

definition addUsage :: "string gomap \<Rightarrow> (string \<times> json) list \<Rightarrow> (string \<times> json) list" where
  "addUsage u m =
     (let m1 = (case map_of u ''cpu'' of None \<Rightarrow> m | Some c \<Rightarrow> mput ''cpu_millicores'' (VNum (fmul (quantity c) (Fin 1000))) m)
      in case map_of u ''memory'' of None \<Rightarrow> m1 | Some b \<Rightarrow> mput ''memory_bytes'' (jint (to_int64 (quantity b))) m1)"

text \<open>\<^verbatim>\<open>strconv.FormatFloat\<close> with the format f and a number of digits, for values that are not negative.\<close>

definition format_float :: "nat \<Rightarrow> float64 \<Rightarrow> string" where
  "format_float digits x =
     (case x of
        Fin q \<Rightarrow>
          (let (n, d) = quotient_of q; r = round_half_even (n * 10 ^ digits) d; whole = itoa (r div 10 ^ digits);
               part = itoa (r mod 10 ^ digits)
           in if digits = 0 then whole else whole @ ''.'' @ replicate (digits - length part) (CHR ''0'') @ part)
      | PosInf \<Rightarrow> ''+Inf'' | NegInf \<Rightarrow> ''-Inf'' | NaN \<Rightarrow> ''NaN'')"

subsection \<open>A region\<close>

record nodeObject =
  no_Name :: string
  no_Labels :: "string gomap"
  no_Annotations :: "string gomap"
  no_Unschedulable :: bool
  no_Capacity :: "string gomap"
  no_Allocatable :: "string gomap"
  no_Addresses :: "(string \<times> string) list"
  no_Conditions :: "condition_doc list"

record resourceMetric =
  rm_Timestamp :: string
  rm_Window :: string
  rm_Name :: string
  rm_Usage :: "string gomap"
  rm_Containers :: "(string \<times> string gomap) list"

record eventObject =
  ev_Namespace :: string
  ev_Type :: string
  ev_Reason :: string
  ev_Message :: string
  ev_LastTimestamp :: string
  ev_EventTime :: string
  ev_ObjectName :: string

definition isReady :: "condition_doc list \<Rightarrow> bool" where
  "isReady cs \<longleftrightarrow> list_ex (\<lambda>c. cd_Type c = ''Ready'' \<and> cd_Status c = ''True'') cs"

definition nodeIPs :: "(string \<Rightarrow> string option) \<Rightarrow> (string \<times> string) list \<Rightarrow> string \<Rightarrow> string list" where
  "nodeIPs ips addrs kind = sort (remdups (map snd (filter (\<lambda>(t, a). t = kind \<and> ips a \<noteq> None) addrs)))"

definition nodeReadiness :: "condition_doc list \<Rightarrow> string \<times> string" where
  "nodeReadiness cs =
     (case find (\<lambda>c. cd_Type c = ''Ready'') cs of
        None \<Rightarrow> (''Unknown'', '''')
      | Some c \<Rightarrow> (if cd_Status c = ''True'' \<or> cd_Status c = ''False'' then cd_Status c else ''Unknown'', cd_LastTransitionTime c))"

text \<open>The last metric of a name counts.\<close>

definition usage_of :: "(string \<times> 'a) list \<Rightarrow> string \<Rightarrow> 'a option" where
  "usage_of xs k = map_of (rev xs) k"

definition container_json :: "resourceMetric option \<Rightarrow> string \<Rightarrow> string \<times> containerResources \<Rightarrow> json" where
  "container_json metric kind c =
     (let u = (case metric of None \<Rightarrow> [] | Some m \<Rightarrow> (case usage_of (rm_Containers m) (fst c) of None \<Rightarrow> [] | Some u \<Rightarrow> u));
          row = addUsage u [(''name'', VText (fst c)), (''kind'', VText kind)];
          timed = (case metric of
                     Some m \<Rightarrow> if u \<noteq> [] then mput ''metrics_window'' (VText (rm_Window m)) (mput ''metrics_timestamp'' (VText (rm_Timestamp m)) row) else row
                   | None \<Rightarrow> row)
      in VObj (mput ''limits'' (VObj (addUsage (cr_Limits (snd c)) [])) (mput ''requests'' (VObj (addUsage (cr_Requests (snd c)) [])) timed)))"

definition projectContainers :: "podObject \<Rightarrow> resourceMetric option \<Rightarrow> json list" where
  "projectContainers p metric = map (container_json metric ''app'') (po_Containers p) @ map (container_json metric ''init'') (po_InitContainers p)"

definition node_json :: "(string \<Rightarrow> string option) \<Rightarrow> (string \<times> string gomap) list \<Rightarrow> nodeObject \<Rightarrow> json" where
  "node_json ips usage n =
     (let base = [(''name'', VText (no_Name n)), (''ready'', VBool (isReady (no_Conditions n))), (''unschedulable'', VBool (no_Unschedulable n)),
            (''role'', VText (label_text (no_Labels n) ''nakama-agones.io/role'')),
            (''game_node'', VBool (label_text (no_Labels n) ''nakama-agones.io/game-node'' = ''true'')),
            (''cpu_capacity_millicores'', VNum (fmul (quantity (label_text (no_Capacity n) ''cpu'')) (Fin 1000))),
            (''memory_capacity_bytes'', jint (to_int64 (quantity (label_text (no_Capacity n) ''memory'')))),
            (''cpu_allocatable_millicores'', VNum (fmul (quantity (label_text (no_Allocatable n) ''cpu'')) (Fin 1000))),
            (''memory_allocatable_bytes'', jint (to_int64 (quantity (label_text (no_Allocatable n) ''memory'')))),
            (''internal_ips'', VList (map VText (nodeIPs ips (no_Addresses n) ''InternalIP''))),
            (''external_ips'', VList (map VText (nodeIPs ips (no_Addresses n) ''ExternalIP'')))];
          addr = label_text (no_Annotations n) ''nakama-agones.io/operator-public-ip'';
          m1 = (if ips addr \<noteq> None then mput ''operator_public_ip'' (VText addr) base else base);
          (status, since) = nodeReadiness (no_Conditions n);
          m2 = mput ''ready_last_transition_at'' (VText since) (mput ''ready_status'' (VText status) m1)
      in VObj (addUsage (case usage_of usage (no_Name n) of None \<Rightarrow> [] | Some u \<Rightarrow> u) m2))"

definition pod_usage :: "resourceMetric \<Rightarrow> string gomap" where
  "pod_usage m =
     (let total = (\<lambda>k. fold (\<lambda>(_, u) x. fadd x (quantity (label_text u k))) (rm_Containers m) (Fin 0))
      in [(''cpu'', format_float 9 (total ''cpu'')), (''memory'', format_float 0 (total ''memory''))])"

definition restarts_of :: "podObject \<Rightarrow> int" where
  "restarts_of p = sum_list (map ct_RestartCount (po_ContainerStatuses p @ po_InitContainerStatuses p))"

definition reason_of :: "podObject \<Rightarrow> string" where
  "reason_of p = fold (\<lambda>c r. case ct_Waiting c of None \<Rightarrow> r | Some v \<Rightarrow> v) (po_ContainerStatuses p @ po_InitContainerStatuses p) (po_Reason p)"

definition shortage :: "podObject \<Rightarrow> (string \<times> json) list \<Rightarrow> (string \<times> json) list" where
  "shortage p m = fold (\<lambda>c m. if cd_Type c = ''PodScheduled'' \<and> cd_Status c = ''False'' \<and> cd_Reason c = ''Unschedulable''
       then mput ''scheduling_capacity_shortage'' (VBool (contains_text (lower_text (cd_Message c)) ''insufficient cpu''
              \<or> contains_text (lower_text (cd_Message c)) ''insufficient memory'')) m else m) (po_Conditions p) m"

definition pod_json :: "resourceMetric list \<Rightarrow> podObject \<Rightarrow> json" where
  "pod_json metrics p =
     (let detailed = usage_of (map (\<lambda>m. (rm_Name m, m)) metrics) (po_Name p)
      in VObj (addUsage (case detailed of None \<Rightarrow> [] | Some m \<Rightarrow> pod_usage m)
           (shortage p
              [(''name'', VText (po_Name p)), (''namespace'', VText (po_Namespace p)), (''node'', VText (po_NodeName p)), (''phase'', VText (po_Phase p)),
               (''worker_id'', VText (label_text (po_Labels p) ''nakama-agones.io/worker'')), (''ready'', VBool (isReady (po_Conditions p))),
               (''restarts'', jint (restarts_of p)), (''reason'', VText (safeText (reason_of p))),
               (''containers'', VList (map (VText \<circ> fst) (po_Containers p @ po_InitContainers p))),
               (''container_details'', VList (projectContainers p detailed))])))"

definition event_time :: "eventObject \<Rightarrow> string" where
  "event_time e = or_else (ev_LastTimestamp e) (ev_EventTime e)"

definition event_json :: "eventObject \<Rightarrow> json" where
  "event_json e = VObj [(''namespace'', VText (ev_Namespace e)), (''object_name'', VText (ev_ObjectName e)), (''type'', VText (ev_Type e)),
     (''reason'', VText (ev_Reason e)), (''message'', VText (safeText (ev_Message e))), (''time'', VText (event_time e))]"

text \<open>The decoders and the orders of equal keys; \<open>vw_state\<close> decodes the status over a new state, whose maps are never nil.\<close>

record 'w view_env =
  vw_source :: "'w source_env"
  vw_ips :: "string \<Rightarrow> string option"
  vw_nodes :: "string \<Rightarrow> nodeObject list option"
  vw_metrics :: "string \<Rightarrow> resourceMetric list option"
  vw_pods :: "string \<Rightarrow> podObject list option"
  vw_events :: "string \<Rightarrow> eventObject list option"
  vw_state :: "string \<Rightarrow> FleetState option"
  vw_event_tie :: "eventObject list \<Rightarrow> eventObject list"
  vw_room_tie :: "Allocation list \<Rightarrow> Allocation list"

text \<open>A failed read leaves nothing (a document of a wrong shape is not decoded in part); its error is kept.\<close>

definition read_items ::
  "'w view_env \<Rightarrow> upstream_cfg \<Rightarrow> string \<Rightarrow> (string \<Rightarrow> 'a list option) \<Rightarrow> 'w \<Rightarrow> ('a list \<times> string option) \<times> 'w" where
  "read_items X u path decode w =
     (case upstream_get (vw_source X) u path decode w of
        (Inl e, w1) \<Rightarrow> (([], Some (er_code e)), w1)
      | (Inr xs, w1) \<Rightarrow> ((xs, None), w1))"

definition read_namespace ::
  "'w view_env \<Rightarrow> upstream_cfg \<Rightarrow> string \<Rightarrow> 'w \<Rightarrow> ((podObject list \<times> string option) \<times> (resourceMetric list \<times> string option) \<times> (eventObject list \<times> string option)) \<times> 'w" where
  "read_namespace X u ns w =
     (case read_items X u (itemsPath ns ''pods'') (vw_pods X) w of
        (p, w1) \<Rightarrow> (case read_items X u (''/apis/metrics.k8s.io/v1beta1/namespaces/'' @ ns @ ''/pods'') (vw_metrics X) w1 of
           (m, w2) \<Rightarrow> (case read_items X u (itemsPath ns ''events'' @ ''?limit=200'') (vw_events X) w2 of
              (e, w3) \<Rightarrow> ((p, m, e), w3))))"

definition region_status :: "(bool \<times> string option) list \<Rightarrow> (string \<times> json) list \<Rightarrow> (string \<times> json) list" where
  "region_status errs out = fold (\<lambda>(metric, err) m. case err of
       None \<Rightarrow> m
     | Some code \<Rightarrow> mput ''error'' (VText code) (mput (if metric then ''metrics_ok'' else ''ok'') (VBool False) m)) errs out"

definition newest_events :: "(eventObject list \<Rightarrow> eventObject list) \<Rightarrow> eventObject list \<Rightarrow> eventObject list" where
  "newest_events tie es = take 100 (rev (sort_key event_time (tie es)))"

definition managed_pod :: "podObject \<Rightarrow> bool" where
  "managed_pod p \<longleftrightarrow> label_text (po_Labels p) ''app.kubernetes.io/managed-by'' = ''nakama-agones''"

definition region_snapshot :: "'w view_env \<Rightarrow> RegionConfig \<times> upstream_cfg \<Rightarrow> 'w \<Rightarrow> json \<times> 'w" where
  "region_snapshot X r w =
     (case read_items X (snd r) ''/api/v1/nodes'' (vw_nodes X) w of
        (n, w1) \<Rightarrow> (case read_items X (snd r) ''/apis/metrics.k8s.io/v1beta1/nodes'' (vw_metrics X) w1 of
           (nm, w2) \<Rightarrow> (case read_namespace X (snd r) (rc_Namespace (fst r)) w2 of
              ((p0, m0, e0), w3) \<Rightarrow> (case read_namespace X (snd r) (rc_SystemNamespace (fst r)) w3 of
                 ((p1, m1, e1), w4) \<Rightarrow>
                   (VObj (mput ''events'' (VList (map event_json (newest_events (vw_event_tie X) (fst e0 @ fst e1))))
                      (mput ''pods'' (VList (map (pod_json (fst m0)) (filter managed_pod (fst p0)) @ map (pod_json (fst m1)) (fst p1)))
                        (mput ''pod_count_scope'' (VText ''configured_namespaces'')
                          (mput ''observed_namespaces'' (VList [VText (rc_Namespace (fst r)), VText (rc_SystemNamespace (fst r))])
                            (mput ''nodes'' (VList (map (node_json (vw_ips X) (map (\<lambda>m. (rm_Name m, rm_Usage m)) (fst nm))) (fst n)))
                              (region_status [(False, snd n), (True, snd nm), (False, snd p0), (True, snd m0), (False, snd e0),
                                   (False, snd p1), (True, snd m1), (False, snd e1)]
                                 [(''name'', VText (rc_Name (fst r))), (''ok'', VBool True), (''metrics_ok'', VBool True), (''nodes'', VList []),
                                  (''pods'', VList []), (''events'', VList [])])))))), w4)))))"

fun region_snapshots :: "'w view_env \<Rightarrow> (RegionConfig \<times> upstream_cfg) list \<Rightarrow> 'w \<Rightarrow> json list \<times> 'w" where
  "region_snapshots X [] w = ([], w)"
| "region_snapshots X (r # rs) w =
     (case region_snapshot X r w of (v, w1) \<Rightarrow> (case region_snapshots X rs w1 of (vs, w2) \<Rightarrow> (v # vs, w2)))"

subsection \<open>The snapshot\<close>

definition empty_fleet :: "SourceConfig \<Rightarrow> (string \<times> json) list" where
  "empty_fleet cfg = [(''ok'', VBool False), (''workers'', VList []), (''rooms'', VList []), (''max_processes'', jint (sg_MaxProcesses cfg)),
     (''rooms_per_process'', jint (sg_RoomsPerProcess cfg))]"

definition read_fleet :: "'w view_env \<Rightarrow> fleet_source \<Rightarrow> 'w \<Rightarrow> (string \<times> json) list \<times> 'w" where
  "read_fleet X d w =
     (let f = empty_fleet (fs_Config d); path = sg_FleetSnapshotFile (fs_Config d)
      in if path \<noteq> ''''
         then (case readFleetSnapshot (vw_source X) path w of
                 Inl e \<Rightarrow> mput ''error'' (VText (er_code e)) f
               | Inr m \<Rightarrow> mput ''can_manage'' (VBool False) (fold (\<lambda>(k, v). mput k v) m f), w)
         else case fs_Fleet d of
           None \<Rightarrow> (f, w)
         | Some u \<Rightarrow>
             (case upstream_get (vw_source X) u ''/agones/fleet/v1/admin/status'' (vw_state X) w of
                (Inl e, w1) \<Rightarrow> (mput ''error'' (VText (er_code e)) f, w1)
              | (Inr s, w1) \<Rightarrow> (projectFleet (vw_room_tie X) s f, w1)))"

text \<open>
  \<open>caps\<close> asks the broker, \<open>alerts\<close> is the view of the alerts. The cache is the last snapshot and its time; it is used for
  three seconds. Times are nanoseconds.
\<close>

definition Snapshot ::
  "'w view_env \<Rightarrow> fleet_source \<Rightarrow> ('w \<Rightarrow> unit source_result \<times> 'w) \<Rightarrow> ('w \<Rightarrow> json) \<Rightarrow> (json \<times> int) option \<times> 'w
     \<Rightarrow> json \<times> (json \<times> int) option \<times> 'w" where
  "Snapshot X d caps alerts cw =
     (let cfg = fs_Config d; now = so_now (vw_source X) (snd cw);
          fresh = (\<lambda>w.
            let (management, w0) = (if sg_AllowManagement cfg \<and> fs_Control d then caps w else (Inr (), w));
                (fleet, w1) = read_fleet X d w0;
                (regions, w2) = region_snapshots X (fs_Regions d) w1;
                can = (is_true fleet ''ok'' \<and> sg_AllowManagement cfg \<and> fs_Control d \<and> \<not> isl management);
                fleet1 = mput ''can_manage'' (VBool can) fleet;
                fleet2 = (case management of Inl e \<Rightarrow> mput ''management_error'' (VText (er_code e)) fleet1 | Inr _ \<Rightarrow> fleet1);
                out = VObj ([(''observed_at'', VText (so_stamp (vw_source X) (so_now (vw_source X) w2))), (''fleet'', VObj fleet2),
                        (''regions'', VList regions), (''log_retention_days'', jint (sg_LogRetentionDays cfg))]
                        @ (if fs_Operations d then [(''alerts'', alerts w2)] else [])
                        @ [(''capacity'', capacityProjection fleet2 (map mapObject regions))])
            in (out, Some (out, so_now (vw_source X) w2), w2))
      in case fst cw of
           Some (v, since) \<Rightarrow> if now - since < 3000000000 then (v, cw) else fresh (snd cw)
         | None \<Rightarrow> fresh (snd cw))"

end
