(* ===== verification/Console_Redact_Laws.thy ===== *)
theory Console_Redact_Laws
  imports Console_Redact
begin

text \<open>
  The matcher of \<open>Console_Redact\<close> decides the language of the expression, and what redaction lets through holds no
  credential: neither the text itself nor a text that was cut.
\<close>

subsection \<open>The language of an expression\<close>

inductive matches :: "rx \<Rightarrow> string \<Rightarrow> bool" where
  matches_Empty: "matches Empty []"
| matches_Ch: "P c \<Longrightarrow> matches (Ch P) [c]"
| matches_Cat: "matches a m \<Longrightarrow> matches b k \<Longrightarrow> matches (Cat a b) (m @ k)"
| matches_Left: "matches a m \<Longrightarrow> matches (Or a b) m"
| matches_Right: "matches b m \<Longrightarrow> matches (Or a b) m"
| matches_Done: "matches (Many a) []"
| matches_More: "matches a m \<Longrightarrow> m \<noteq> [] \<Longrightarrow> matches (Many a) k \<Longrightarrow> matches (Many a) (m @ k)"

inductive_cases matches_OrE: "matches (Or a b) m"

lemma rests_matches: "t \<in> set (rests n r s) \<Longrightarrow> \<exists>m. s = m @ t \<and> matches r m"
proof (induction n r s arbitrary: t rule: rests.induct)
  case (1 n s)
  then show ?case by (auto intro: matches.intros)
next
  case (3 n P c s)
  then show ?case by (auto split: if_splits intro!: exI [of _ "[c]"] matches_Ch)
next
  case (4 n a b s)
  then obtain x where x: "x \<in> set (rests n a s)" "t \<in> set (rests n b x)" by auto
  from 4(1) [OF x(1)] 4(2) [OF x] show ?case using matches_Cat by fastforce
next
  case (5 n a b s)
  then show ?case by simp (metis matches_Left matches_Right)
next
  case (6 a s)
  then show ?case by (auto intro: matches_Done)
next
  case (7 n a s)
  show ?case
  proof (cases "t = s")
    case True
    then show ?thesis using matches_Done by auto
  next
    case False
    then obtain x where x: "x \<in> set (rests (Suc n) a s)" "t \<in> set (rests n (Many a) x)" using 7(3) by auto
    obtain m k where m: "s = m @ x" "matches a m" and k: "x = k @ t" "matches (Many a) k" using 7(1) [OF x(1)] 7(2) [OF x] by blast
    then have "matches (Many a) (m @ k)" by (cases "m = []") (auto intro: matches_More)
    then show ?thesis using m k by auto
  qed
qed auto

lemma matches_rests: "matches r m \<Longrightarrow> length m \<le> n \<Longrightarrow> t \<in> set (rests n r (m @ t))"
proof (induction r m arbitrary: n t rule: matches.induct)
  case (matches_Cat a m b k)
  from matches_Cat.IH(1) [of n "k @ t"] matches_Cat.IH(2) [of n t] matches_Cat.prems show ?case by auto
next
  case (matches_Done a)
  then show ?case by (cases n) auto
next
  case (matches_More a m k)
  then obtain i where i: "n = Suc i" "length k \<le> i" by (cases n) (auto simp: Suc_le_eq neq_Nil_conv)
  from matches_More.IH(1) [of n "k @ t"] matches_More.IH(2) [OF i(2), of t] matches_More.prems i(1) show ?case by auto
qed auto

lemma MatchString_iff: "MatchString r s \<longleftrightarrow> (\<exists>u m v. s = u @ m @ v \<and> matches r m)"
proof
  assume "MatchString r s"
  then obtain u t where "s = u @ t" "rests (length t) r t \<noteq> []" by (auto simp: MatchString_def list_ex_iff suffix_def)
  moreover then obtain v where "v \<in> set (rests (length t) r t)" by (cases "rests (length t) r t") auto
  ultimately show "\<exists>u m v. s = u @ m @ v \<and> matches r m" using rests_matches by blast
next
  assume "\<exists>u m v. s = u @ m @ v \<and> matches r m"
  then obtain u m v where s: "s = u @ m @ v" "matches r m" by blast
  then have "v \<in> set (rests (length (m @ v)) r (m @ v))" by (simp add: matches_rests)
  then have "rests (length (m @ v)) r (m @ v) \<noteq> []" by auto
  moreover have "m @ v \<in> set (suffixes s)" using s by (simp add: suffix_def)
  ultimately show "MatchString r s" unfolding MatchString_def list_ex_iff by blast
qed

subsection \<open>Characters of the words\<close>

fun uses :: "char \<Rightarrow> rx \<Rightarrow> bool" where
  "uses c Empty = False"
| "uses c (Ch P) = P c"
| "uses c (Cat a b) = (uses c a \<or> uses c b)"
| "uses c (Or a b) = (uses c a \<or> uses c b)"
| "uses c (Many a) = uses c a"

fun nullable :: "rx \<Rightarrow> bool" where
  "nullable Empty = True"
| "nullable (Ch P) = False"
| "nullable (Cat a b) = (nullable a \<and> nullable b)"
| "nullable (Or a b) = (nullable a \<or> nullable b)"
| "nullable (Many a) = True"

fun ends :: "char \<Rightarrow> rx \<Rightarrow> bool" where
  "ends c Empty = False"
| "ends c (Ch P) = P c"
| "ends c (Cat a b) = (ends c b \<or> nullable b \<and> ends c a)"
| "ends c (Or a b) = (ends c a \<or> ends c b)"
| "ends c (Many a) = ends c a"

fun branches :: "rx \<Rightarrow> rx list" where
  "branches (Or a b) = branches a @ branches b"
| "branches r = [r]"

lemma matches_uses: "matches r m \<Longrightarrow> c \<in> set m \<Longrightarrow> uses c r"
  by (induction r m rule: matches.induct) auto

lemma matches_nullable: "matches r m \<Longrightarrow> m = [] \<Longrightarrow> nullable r"
  by (induction r m rule: matches.induct) auto

lemma matches_ends: "matches r m \<Longrightarrow> m \<noteq> [] \<Longrightarrow> ends (last m) r"
proof (induction r m rule: matches.induct)
  case (matches_Cat a m b k)
  then show ?case by (cases "k = []") (auto dest: matches_nullable)
next
  case (matches_More a m k)
  then show ?case by (cases "k = []") auto
qed auto

lemma matches_branches: "matches r m \<Longrightarrow> \<exists>b \<in> set (branches r). matches b m"
  by (induction r) (auto elim!: matches_OrE)

lemma credential_branches:
  "list_all (\<lambda>b. \<not> uses (CHR '' '') b \<or> \<not> uses (CHR ''['') b) (branches credentialRegexp)"
  by code_simp

lemma credential_ends: "\<not> ends (CHR '' '') credentialRegexp"
  by code_simp

subsection \<open>Cutting\<close>

lemma credential_crossing:
  assumes "matches credentialRegexp (a @ CHR '' '' # b)" "prefix b ''[truncated]''"
  shows False
proof (cases b)
  case Nil
  then show False using matches_ends [OF assms(1)] credential_ends by simp
next
  case (Cons c b')
  then have "c = CHR ''[''" using assms(2) by (simp add: prefix_def)
  then have "CHR '' '' \<in> set (a @ CHR '' '' # b)" "CHR ''['' \<in> set (a @ CHR '' '' # b)" using Cons by auto
  then show False
    using matches_branches [OF assms(1)] matches_uses credential_branches unfolding list_all_iff by blast
qed

lemma credentialLine_mono: "credentialLine p \<Longrightarrow> credentialLine (p @ x)"
  unfolding credentialLine_def MatchString_iff by (metis append.assoc)

lemma truncated_marker: "\<not> credentialLine '' [truncated]''"
  by code_simp

lemma credentialLine_truncated:
  assumes "credentialLine (p @ '' [truncated]'')"
  shows "credentialLine p"
proof -
  obtain u m v where m: "p @ '' [truncated]'' = u @ m @ v" "matches credentialRegexp m"
    using assms by (auto simp: credentialLine_def MatchString_iff)
  consider (left) x where "p = (u @ m) @ x" | (right) x where "u = p @ x" "'' [truncated]'' = x @ m @ v"
    | (cross) a k where "p = u @ a" "m = a @ k" "k \<noteq> []" "prefix k '' [truncated]''"
    using m(1) by (auto simp: append_eq_append_conv2 prefix_def) blast
  then show ?thesis
  proof cases
    case left
    then show ?thesis using m(2) by (auto simp: credentialLine_def MatchString_iff)
  next
    case right
    then have "credentialLine '' [truncated]''" using m(2) by (auto simp: credentialLine_def MatchString_iff)
    then show ?thesis using truncated_marker by simp
  next
    case cross
    then obtain b where "k = CHR '' '' # b" "prefix b ''[truncated]''" by (cases k) (auto simp: prefix_def)
    then show ?thesis using credential_crossing m(2) cross(2) by blast
  qed
qed

lemma redacted_marker: "\<not> credentialLine ''[REDACTED: sensitive log line]''"
  by code_simp

lemma safeText_clean: "\<not> credentialLine (safeText s)"
proof -
  have cut: "\<not> credentialLine (take 16384 s)" if "\<not> credentialLine s"
    using credentialLine_mono [of "take 16384 s" "drop 16384 s"] that by auto
  show ?thesis
  proof (cases "credentialLine s")
    case True
    then show ?thesis unfolding safeText_def by (simp only: if_True redacted_marker not_False_eq_True)
  next
    case False
    then have "\<not> credentialLine (take 16384 s @ '' [truncated]'')" using cut credentialLine_truncated by blast
    then show ?thesis unfolding safeText_def using False by (simp only: if_False split: if_split) simp
  qed
qed

lemma smallSafe_clean: "\<not> credentialLine (smallSafe s)"
proof -
  have "\<not> credentialLine (take 512 (safeText s))"
    using credentialLine_mono [of "take 512 (safeText s)" "drop 512 (safeText s)"] safeText_clean [of s] by auto
  then show ?thesis using safeText_clean by (simp add: smallSafe_def Let_def)
qed

lemma safeText_length: "length (safeText s) \<le> 16396"
  by (simp add: safeText_def)

end
