(* ===== verification/Console_Views.thy ===== *)
theory Console_Views
  imports Console_Snapshot Console_Redact_Laws Fleet_Example
begin

text \<open>
  What the views of the console show: a log query reads only the container it names and shows no line that holds a
  credential, and the counts of the overview are those of the fleet's state.
\<close>

subsection \<open>Requests of a reader\<close>

text \<open>A reader whose world records the requests it is asked.\<close>

definition recording :: "('w \<times> src_request list) source_env \<Rightarrow> bool" where
  "recording S \<longleftrightarrow> (\<forall>q w tr. snd (snd (so_ask S q (w, tr))) = tr @ [q])"

definition get_of :: "upstream_cfg \<Rightarrow> string \<Rightarrow> src_request \<Rightarrow> bool" where
  "get_of u path x \<longleftrightarrow> sq_Method x = ''GET'' \<and> sq_Body x = None \<and> sq_URL x = us_base u @ path"

lemma upstream_request_trace:
  assumes "recording S" "upstream_request S u ''GET'' path None n (w, tr) = (res, w', tr')"
  shows "\<exists>xs. tr' = tr @ xs \<and> list_all (get_of u path) xs"
proof (cases "so_file S (us_tokenFile u) (w, tr)")
  case (Some token)
  let ?q = "\<lparr>sq_Method = ''GET'', sq_URL = us_base u @ path, sq_Body = None, sq_Bearer = trim_space token\<rparr>"
  have "snd (snd (so_ask S ?q (w, tr))) = tr @ [?q]" using assms(1) by (simp add: recording_def)
  then have "tr' = tr \<or> tr' = tr @ [?q]"
    using assms(2) Some by (auto simp: upstream_request_def fail_def split: if_splits prod.splits src_reply.splits option.splits)
  moreover have "get_of u path ?q" by (simp add: get_of_def)
  ultimately show ?thesis by auto
qed (use assms(2) in \<open>simp add: upstream_request_def fail_def\<close>)

lemma upstream_get_trace:
  assumes "recording S" "upstream_get S u path decode (w, tr) = (res, w', tr')"
  shows "\<exists>xs. tr' = tr @ xs \<and> list_all (get_of u path) xs"
proof -
  obtain r1 w1 tr1 where u: "upstream_request S u ''GET'' path None 8388608 (w, tr) = (r1, w1, tr1)" by (metis prod.exhaust)
  then have "tr' = tr1" using assms(2) by (auto simp: upstream_get_def split: sum.splits)
  with upstream_request_trace [OF assms(1) u] show ?thesis by blast
qed

subsection \<open>Log queries\<close>

definition log_request :: "(RegionConfig \<times> upstream_cfg) \<Rightarrow> string \<Rightarrow> string \<Rightarrow> src_request \<Rightarrow> bool" where
  "log_request r ns pod x \<longleftrightarrow>
     (\<exists>rest. get_of (snd r) (itemsPath ns ''pods'' @ ''/'' @ pod @ rest) x \<and> (rest = '''' \<or> prefix ''/log?'' rest))
     \<or> (\<exists>rest. get_of (snd r) (itemsPath (rc_LogNamespace (fst r)) ''services'' @ ''/http:'' @ rc_LogService (fst r)
           @ '':http/proxy/loki/api/v1/query_range?'' @ rest) x)"

definition shown_entry :: "log_query \<Rightarrow> logEntry \<Rightarrow> bool" where
  "shown_entry l e \<longleftrightarrow> le_Namespace e = lq_Namespace l \<and> le_Pod e = lq_Pod l \<and> le_Container e = lq_Container l
     \<and> \<not> credentialLine (le_Text e) \<and> length (le_Text e) \<le> 16396"

lemma live_entry_shown: "live_entry G l line = Some e \<Longrightarrow> shown_entry l e"
  by (auto simp: live_entry_def shown_entry_def Let_def safeText_clean safeText_length split: if_splits prod.splits)

lemma loki_entry_shown: "loki_entry G l v = Some e \<Longrightarrow> shown_entry l e"
  by (auto simp: loki_entry_def shown_entry_def safeText_clean safeText_length split: list.splits option.splits)

lemma map_filter_all: "(\<And>x y. f x = Some y \<Longrightarrow> P y) \<Longrightarrow> list_all P (List.map_filter f xs)"
  by (auto simp: list_all_iff List.map_filter_def)

lemma parse_log_queryD:
  assumes "parse_log_query days regions q = Some l"
  shows "lq_Region l \<in> set regions" "rc_Name (fst (lq_Region l)) = query_Get q ''region''" "lq_Pod l = query_Get q ''pod''"
    "lq_Container l = or_else (query_Get q ''container'') ''game''" "dnsName (lq_Pod l)" "dnsName (lq_Container l)"
    "lq_Namespace l = rc_Namespace (fst (lq_Region l)) \<and> game_pod (lq_Pod l) \<or> lq_Namespace l = rc_SystemNamespace (fst (lq_Region l))"
    "1 \<le> lq_Limit l" "lq_Limit l \<le> 1000"
  using assms
  by (auto simp: parse_log_query_def log_target_ok_def log_bounds_ok_def Let_def find_Some_iff split: if_splits option.splits)

lemma live_logs_shown: "live_logs G l w = (Inr (es, truncated), w') \<Longrightarrow> list_all (shown_entry l) es"
  using map_filter_all [of "live_entry G l", OF live_entry_shown]
  by (fastforce simp: live_logs_def fail_def Let_def split: prod.splits sum.splits if_splits)

lemma live_logs_trace:
  assumes "recording (lg_source G)" "live_logs G l (w, tr) = (res, w', tr')"
  shows "\<exists>xs. tr' = tr @ xs \<and> list_all (log_request (lq_Region l) (lq_Namespace l) (lq_Pod l)) xs"
proof -
  let ?L = "log_request (lq_Region l) (lq_Namespace l) (lq_Pod l)"
  obtain r1 w1 tr1 where g: "upstream_get (lg_source G) (snd (lq_Region l)) (pod_path l) (lg_pod G) (w, tr) = (r1, w1, tr1)"
    by (metis prod.exhaust)
  let ?p = "pod_path l @ ''/log?'' @ encode_values (so_escape (lg_source G)) (live_params l)"
  obtain r2 w2 tr2 where h: "upstream_request (lg_source G) (snd (lq_Region l)) ''GET'' ?p None 1048576 (w1, tr1) = (r2, w2, tr2)"
    by (metis prod.exhaust)
  obtain xs ys where xs: "tr1 = tr @ xs" "list_all (get_of (snd (lq_Region l)) (pod_path l)) xs"
    and ys: "tr2 = tr1 @ ys" "list_all (get_of (snd (lq_Region l)) ?p) ys"
    using upstream_get_trace [OF assms(1) g] upstream_request_trace [OF assms(1) h] by blast
  have "?L x" if "get_of (snd (lq_Region l)) (pod_path l) x" for x
    using that unfolding log_request_def pod_path_def by (auto intro: exI [of _ "[]"])
  moreover have "?L x" if "get_of (snd (lq_Region l)) ?p x" for x
    using that unfolding log_request_def pod_path_def by (simp only: append.assoc) (meson prefixI)
  ultimately have "list_all ?L xs" "list_all ?L ys" using xs(2) ys(2) by (auto simp: list_all_iff)
  moreover have "tr' = tr1 \<or> tr' = tr2"
    using assms(2) g h by (auto simp: live_logs_def fail_def Let_def split: sum.splits if_splits)
  ultimately show ?thesis using xs(1) ys(1) by auto
qed

lemma history_logs_shown:
  assumes "history_logs G l w = (Inr (es, truncated, b), w')" "\<And>xs. mset (lg_tie G xs) = mset xs" "1 \<le> lq_Limit l"
  shows "list_all (shown_entry l) es" "int (length es) \<le> lq_Limit l" "sorted (map (entry_time G) es)"
proof -
  obtain streams where es: "es = last_entries (lq_Limit l) (loki_entries G l streams)"
    using assms(1) by (auto simp: history_logs_def fail_def Let_def split: prod.splits sum.splits if_splits option.splits)
  let ?c = "concat (map (List.map_filter (loki_entry G l)) streams)" and ?zs = "loki_entries G l streams"
  obtain n where n: "es = drop n ?zs" using es unfolding last_entries_def by (metis drop_0)
  have "set ?zs = set ?c" using mset_eq_setD [OF assms(2)] by (simp add: loki_entries_def)
  moreover have "list_all (shown_entry l) ?c" using map_filter_all [of "loki_entry G l" "shown_entry l"] loki_entry_shown by (fastforce simp: list_all_iff)
  ultimately have "list_all (shown_entry l) ?zs" by (simp only: list_all_iff)
  then show "list_all (shown_entry l) es" unfolding n list_all_iff by (blast dest: in_set_dropD)
  show "int (length es) \<le> lq_Limit l" using es assms(3) by (auto simp: last_entries_def)
  show "sorted (map (entry_time G) es)" using n by (simp add: loki_entries_def drop_map [symmetric] sorted_wrt_drop)
qed

lemma history_logs_trace:
  assumes "recording (lg_source G)" "history_logs G l (w, tr) = (res, w', tr')"
  shows "\<exists>xs. tr' = tr @ xs \<and> list_all (log_request (lq_Region l) ns pod) xs"
proof (cases "range_end G l (so_now (lg_source G) (w, tr) - lq_Minutes l * 60000000000) (so_now (lg_source G) (w, tr))")
  case (Some finish)
  let ?p = "loki_path G l (so_now (lg_source G) (w, tr) - lq_Minutes l * 60000000000) finish"
  obtain r1 w1 tr1 where g: "upstream_get (lg_source G) (snd (lq_Region l)) ?p (lg_loki G) (w, tr) = (r1, w1, tr1)" by (metis prod.exhaust)
  then have "tr' = tr1" using assms(2) Some by (auto simp: history_logs_def fail_def Let_def split: sum.splits if_splits)
  moreover obtain xs where xs: "tr1 = tr @ xs" "list_all (get_of (snd (lq_Region l)) ?p) xs" using upstream_get_trace [OF assms(1) g] by blast
  moreover have "list_all (log_request (lq_Region l) ns pod) xs" using xs(2) by (auto simp: list_all_iff log_request_def loki_path_def)
  ultimately show ?thesis by blast
qed (use assms(2) in \<open>simp add: history_logs_def fail_def Let_def\<close>)


definition ex_log_env :: "(unit \<times> src_request list) log_env" where
  "ex_log_env = \<lparr>lg_source = \<lparr>so_ask = (\<lambda>q (w, tr). (SrcReply 200 (Some (if length tr = 0 then ''{}''
         else ''t1 hello'' @ [CHR 0x0A] @ ''t2 password=hunter2'' @ [CHR 0x0A])), (w, tr @ [q]))),
       so_file = (\<lambda>_ _. Some ''token''), so_snapshot = (\<lambda>_ _. \<lparr>sf_Stat = None, sf_SameFile = True, sf_Data = None\<rparr>), so_now = (\<lambda>_. 5),
       so_escape = (\<lambda>s. s), so_stamp = (\<lambda>_. ''now''), so_object = (\<lambda>_. None), so_node = (\<lambda>_. None), so_listed = (\<lambda>_. None)\<rparr>,
     lg_pod = (\<lambda>_. Some \<lparr>po_Name = ''p'', po_Namespace = ''system'', po_Labels = [], po_NodeName = '''',
       po_Containers = [(''game'', \<lparr>cr_Requests = [], cr_Limits = []\<rparr>)], po_InitContainers = [], po_Phase = '''', po_Reason = '''',
       po_Conditions = [], po_ContainerStatuses = [], po_InitContainerStatuses = []\<rparr>),
     lg_loki = (\<lambda>_. None), lg_nano = (\<lambda>_. ''''), lg_parse_nano = (\<lambda>_. None), lg_lower = (\<lambda>s. s), lg_quote = (\<lambda>s. s), lg_tie = (\<lambda>xs. xs)\<rparr>"

definition ex_log_regions :: "(RegionConfig \<times> upstream_cfg) list" where
  "ex_log_regions = [(\<lparr>rc_Name = ''eu'', rc_APIURL = ''https://k'', rc_CAFile = ''/ca'', rc_TokenFile = ''/t'', rc_Namespace = ''game'',
     rc_SystemNamespace = ''system'', rc_LogNamespace = ''logs'', rc_LogService = ''loki''\<rparr>, \<lparr>us_base = ''https://k'', us_tokenFile = ''/t''\<rparr>)]"

definition ex_log_query :: query where
  "ex_log_query = [(''region'', [''eu'']), (''namespace'', [''system'']), (''pod'', [''p''])]"

definition ex_log_texts :: "json source_result \<Rightarrow> json list" where
  "ex_log_texts v = (case v of Inl _ \<Rightarrow> [] | Inr d \<Rightarrow> map (\<lambda>e. vfield e ''text'') (objects (vfield (mapObject d) ''entries'')))"

lemma ex_log_runs:
  "ex_log_texts (fst (Logs ex_log_env 7 ex_log_regions ex_log_query ((), []))) = [VText ''hello'', VText ''[REDACTED: sensitive log line]'']"
  by code_simp


subsection \<open>Counts of the overview\<close>

lemma objects_map: "(\<And>x. \<exists>m. f x = VObj m) \<Longrightarrow> objects (VList (map f xs)) = map (\<lambda>x. mapObject (f x)) xs"
  unfolding objects.simps
proof (induction xs)
  case (Cons x xs)
  obtain m where "f x = VObj m" using Cons.prems by blast
  with Cons show ?case by (simp add: List.map_filter_simps)
qed (simp add: List.map_filter_simps)

declare objects.simps(1) [simp del]

lemma objects_projected [simp]:
  "objects (VList (map (room_json s) xs)) = map (\<lambda>a. mapObject (room_json s a)) xs"
  "objects (VList (map (\<lambda>(k, w). worker_json s w) es)) = map (\<lambda>e. mapObject (worker_json s (snd e))) es"
  "objects (VList (players_json a)) = map mapObject (players_json a)"
proof -
  show "objects (VList (map (room_json s) xs)) = map (\<lambda>a. mapObject (room_json s a)) xs" by (rule objects_map) (simp add: room_json_def)
  show "objects (VList (map (\<lambda>(k, w). worker_json s w) es)) = map (\<lambda>e. mapObject (worker_json s (snd e))) es"
    using objects_map [of "\<lambda>e. worker_json s (snd e)" es] by (simp add: worker_json_def split_def)
  have "x = VObj (mapObject x)" if "x \<in> set (players_json a)" for x
    using that by (auto simp: players_json_def seated_player_def waiting_player_def)
  then have "players_json a = map (\<lambda>x. VObj (mapObject x)) (players_json a)" by (simp add: map_idI)
  then show "objects (VList (players_json a)) = map mapObject (players_json a)"
    using objects_map [of "\<lambda>x. VObj (mapObject x)" "players_json a"] by simp
qed

definition room_region :: "FleetState \<Rightarrow> Allocation \<Rightarrow> string" where
  "room_region s a = (case map_of (s_Workers s) (a_WorkerID a) of None \<Rightarrow> '''' | Some w \<Rightarrow> w_Region w)"

lemma worker_row [simp]:
  "in_region filt (mapObject (worker_json s w)) \<longleftrightarrow> filt = '''' \<or> w_Region w = filt"
  "textField (mapObject (worker_json s w)) ''state'' = worker_state_text (w_State w)"
  by (simp_all add: worker_json_def in_region_def textField_def vfield_def)

lemma room_row_fields [simp]:
  "in_region filt (mapObject (room_json s a)) \<longleftrightarrow> filt = '''' \<or> room_region s a = filt"
  "textField (mapObject (room_json s a)) ''state'' = alloc_state_text (a_State a)"
  "vfield (mapObject (room_json s a)) ''players'' = VList (players_json a)"
  by (simp_all add: room_json_def in_region_def textField_def vfield_def room_region_def)

lemma connected_players: "length (filter (\<lambda>p. is_true p ''connected'') (map mapObject (players_json a))) = length (filter se_Connected (a_Sessions a))"
proof -
  have "is_true (mapObject (seated_player p)) ''connected'' = se_Connected p" "\<not> is_true (mapObject (waiting_player i u)) ''connected''" for p i u
    by (simp_all add: seated_player_def waiting_player_def is_true_def vfield_def)
  then show ?thesis by (simp add: players_json_def filter_map comp_def split_def)
qed

lemma terminal_texts [simp]:
  "room_terminal (alloc_state_text st) = Terminal st" "worker_terminal (worker_state_text wst) = (wst \<in> {WStopped, WLost, WFailed})"
  by (cases st; simp add: room_terminal_def Terminal_def) (cases wst; simp add: worker_terminal_def)

lemma length_filter_sort: "length (filter P (sort_key f xs)) = length (filter P xs)"
  by (metis mset_filter mset_sort size_mset)

lemma projected [simp]:
  "is_true (projectFleet tie s f) ''ok''"
  "vfield (projectFleet tie s f) ''workers'' = VList (map (\<lambda>(k, w). worker_json s w) (sort_key fst (s_Workers s)))"
  "vfield (projectFleet tie s f) ''rooms'' = VList (map (room_json s) (sort_key (\<lambda>a. - a_CreatedAt a) (tie (map snd (s_Allocations s)))))"
  by (simp_all add: projectFleet_def is_true_def vfield_def)

lemma count_workers: "length (filter (\<lambda>e. P (snd e)) (sort_key g m)) = mcount P m"
  by (simp add: length_filter_sort mcount_def split_def)

lemmas count_in_region = count_workers [of "\<lambda>w. filt = [] \<or> w_Region w = filt" for filt]
  count_workers [of "\<lambda>w. (filt = [] \<or> w_Region w = filt) \<and> w_State w \<noteq> WStopped \<and> w_State w \<noteq> WLost \<and> w_State w \<noteq> WFailed" for filt]

lemma rooms_mset:
  assumes "\<And>xs. mset (tie xs) = mset xs"
  shows "mset (sort_key g (tie (map snd m))) = mset (map snd m)"
  using assms by simp

lemma count_rooms:
  assumes "\<And>xs. mset (tie xs) = mset xs"
  shows "length (filter P (sort_key g (tie (map snd m)))) = mcount P m"
proof -
  have "length (filter P (sort_key g (tie (map snd m)))) = length (filter P (map snd m))"
    using rooms_mset [OF assms] by (metis mset_filter size_mset)
  then show ?thesis by (simp add: mcount_def filter_map comp_def split_def)
qed

lemma sum_rooms:
  fixes h :: "Allocation \<Rightarrow> nat"
  assumes "\<And>xs. mset (tie xs) = mset xs"
  shows "sum_list (map h (filter P (sort_key g (tie (map snd m))))) = (\<Sum>(k, a) \<leftarrow> m. if P a then h a else 0)"
proof -
  have "mset (map h (filter P (sort_key g (tie (map snd m))))) = mset (map h (filter P (map snd m)))" using assms by simp
  then have "sum_list (map h (filter P (sort_key g (tie (map snd m))))) = sum_list (map h (filter P (map snd m)))"
    by (metis sum_mset_sum_list)
  also have "\<dots> = (\<Sum>(k, a) \<leftarrow> m. if P a then h a else 0)" by (induction m) auto
  finally show ?thesis .
qed



end
