(* ===== verification/Console_Alerts_Laws.thy ===== *)
theory Console_Alerts_Laws
  imports Console_Alerts
begin

text \<open>
  What alerting promises: the stored state stays bounded and encodable, an alert fires only after a
  sustained breach, and notifications respect their limits.
\<close>

subsection \<open>Samples\<close>

definition sample_ok :: "alertSample \<Rightarrow> bool" where
  "sample_ok s \<longleftrightarrow> (sm_Breached s \<longrightarrow> sm_Known s) \<and> (sm_Known s \<longrightarrow> finite_float (sm_Value s) \<and> finite_float (sm_Threshold s))"

lemma number_finite: "number v = (x, True) \<Longrightarrow> finite_float x"
  by (cases v) auto

lemma breach_ok:
  "(sm_Known s \<longrightarrow> finite_float (sm_Value s) \<and> finite_float (sm_Threshold s)) \<Longrightarrow> sample_ok (breach s)"
  by (simp add: sample_ok_def breach_def)

lemma worker_samples_ok:
  "finite_float (ac_WaitP95MS cfg) \<Longrightarrow> finite_float (ac_FrameP99MS cfg) \<Longrightarrow> s \<in> set (worker_samples cfg now w) \<Longrightarrow> sample_ok s"
  by (auto simp: worker_samples_def window_sample_def frame_sample_def worker_sample_def Let_def
      intro!: breach_ok split: prod.splits if_splits dest: number_finite)

lemma capacity_sample_ok: "s \<in> set (capacity_sample r) \<Longrightarrow> sample_ok s"
  by (auto simp: capacity_sample_def Let_def intro!: breach_ok split: if_splits)

lemma fold_mput_ran:
  "(\<And>x. x \<in> set xs \<Longrightarrow> P x) \<Longrightarrow> (\<And>k v. map_of m k = Some v \<Longrightarrow> P v) \<Longrightarrow>
   map_of (fold (\<lambda>s m. mput (f s) s m) xs m) k = Some v \<Longrightarrow> P v"
proof (induction xs arbitrary: m)
  case (Cons x xs)
  show ?case by (rule Cons.IH[of "mput (f x) x m"]) (use Cons.prems in \<open>auto split: if_splits\<close>)
qed auto

lemma fold_mput_wf: "mwf m \<Longrightarrow> mwf (fold (\<lambda>s m. mput (f s) s m) xs m)"
  by (induction xs arbitrary: m) auto

lemma alertSamples_ok:
  assumes "AlertConfig_valid cfg" "map_of (alertSamples snapshot cfg now) k = Some s"
  shows "sample_ok s"
proof -
  let ?fleet = "mapObject (vfield snapshot ''fleet'')"
  let ?ws = "if vfield ?fleet ''ok'' = VBool True
    then concat (map (worker_samples cfg now) (objects (vfield ?fleet ''workers''))) else []"
  let ?rs = "concat (map capacity_sample (objects (vfield snapshot ''regions'')))"
  have fin: "finite_float (ac_WaitP95MS cfg)" "finite_float (ac_FrameP99MS cfg)"
    using assms(1) by (simp_all add: AlertConfig_valid_def)
  have ok: "sample_ok x" if "x \<in> set (?ws @ ?rs)" for x
  proof -
    from that consider w where "x \<in> set (worker_samples cfg now w)" | r where "x \<in> set (capacity_sample r)"
      by (auto split: if_splits)
    then show ?thesis by cases (rule worker_samples_ok[OF fin], assumption, rule capacity_sample_ok)
  qed
  have m: "map_of (fold (\<lambda>s m. mput (sm_Key s) s m) (?ws @ ?rs) []) k = Some s"
    using assms(2) by (simp only: alertSamples_def Let_def)
  show ?thesis by (rule fold_mput_ran[OF _ _ m], erule ok, simp)
qed

lemma alertSamples_wf: "mwf (alertSamples snapshot cfg now)"
  by (simp only: alertSamples_def Let_def) (rule fold_mput_wf, simp)

subsection \<open>One evaluation\<close>

definition cond_of :: "alertCondition gomap \<Rightarrow> string \<Rightarrow> alertSample \<Rightarrow> alertCondition" where
  "cond_of m key s = (case map_of m key of None \<Rightarrow> new_condition key s | Some a \<Rightarrow> a)"

text \<open>The condition after its sample, up to the time of the last attempt.\<close>

definition next_cond :: "AlertConfig \<Rightarrow> int \<Rightarrow> alertSample \<Rightarrow> alertCondition \<Rightarrow> alertCondition" where
  "next_cond cfg now s a = (if sm_Known s then fst (observe cfg now s a) else lose_sight a)"

definition attempted :: "int \<Rightarrow> alertCondition \<Rightarrow> alertCondition \<Rightarrow> bool" where
  "attempted now a a' \<longleftrightarrow> a' = a \<or> a' = a\<lparr>al_LastAttemptAt := now\<rparr>"

lemma attemptedD:
  assumes "attempted now a a'"
  shows "al_Firing a' = al_Firing a" "al_Since a' = al_Since a" "al_LastObservedAt a' = al_LastObservedAt a"
    "al_Value a' = al_Value a" "al_Threshold a' = al_Threshold a" "al_Key a' = al_Key a"
    "al_RecoveryPending a' = al_RecoveryPending a" "al_LastNotifiedAt a' = al_LastNotifiedAt a"
    "al_State a' = al_State a"
  using assms by (auto simp: attempted_def)

lemma evaluate_sample_at:
  assumes "map_of samples key = Some s"
  shows "\<exists>a'. map_of (el_Active (evaluate_sample cfg now samples key e)) key = Some a'
    \<and> attempted now (next_cond cfg now s (cond_of (el_Active e) key s)) a'"
  using assms unfolding evaluate_sample_def cond_of_def[symmetric] next_cond_def attempted_def
  by (auto simp: Let_def split: prod.splits option.splits)

lemma evaluate_sample_other: "k \<noteq> key \<Longrightarrow> map_of (el_Active (evaluate_sample cfg now samples key e)) k = map_of (el_Active e) k"
  by (auto simp: evaluate_sample_def Let_def split: option.splits prod.splits)

lemma evaluate_fold_other:
  "k \<notin> set keys \<Longrightarrow> map_of (el_Active (fold (evaluate_sample cfg now samples) keys e)) k = map_of (el_Active e) k"
  by (induction keys arbitrary: e) (auto simp: evaluate_sample_other)

lemma evaluate_fold_at:
  assumes "distinct keys" "k \<in> set keys" "map_of samples k = Some s"
  shows "\<exists>a'. map_of (el_Active (fold (evaluate_sample cfg now samples) keys e)) k = Some a'
    \<and> attempted now (next_cond cfg now s (cond_of (el_Active e) k s)) a'"
  using assms
proof (induction keys arbitrary: e)
  case (Cons key keys)
  show ?case
  proof (cases "k = key")
    case True
    with Cons.prems evaluate_sample_at[OF Cons.prems(3), of cfg now e] show ?thesis
      by (simp add: evaluate_fold_other)
  next
    case False
    then have "cond_of (el_Active (evaluate_sample cfg now samples key e)) k s = cond_of (el_Active e) k s"
      by (simp add: cond_of_def evaluate_sample_other)
    with Cons.IH[of "evaluate_sample cfg now samples key e"] Cons.prems False show ?thesis by simp
  qed
qed simp

lemma mkeys_mark_missing [simp]: "mkeys (mark_missing samples m) = mkeys m"
  by (auto simp: mark_missing_def mkeys_def)

lemma map_of_mark_missing:
  "map_of (mark_missing samples m) k = map_option (\<lambda>a. if map_of samples k = None then lose_sight a else a) (map_of m k)"
  by (induction m) (auto simp: mark_missing_def)

lemma mwf_evaluate_sample: "mwf (el_Active e) \<Longrightarrow> mwf (el_Active (evaluate_sample cfg now samples key e))"
  by (auto simp: evaluate_sample_def Let_def split: option.splits prod.splits)

lemma mwf_evaluate_fold: "mwf (el_Active e) \<Longrightarrow> mwf (el_Active (fold (evaluate_sample cfg now samples) keys e))"
  by (induction keys arbitrary: e) (auto simp: mwf_evaluate_sample)

text \<open>The conditions after an evaluation, one by one.\<close>

definition evaluated :: "int \<Rightarrow> alertSample gomap \<Rightarrow> operationsState \<Rightarrow> evaluation" where
  "evaluated now samples s = fold (evaluate_sample (op_Config s) now samples) (sort (mkeys samples))
     \<lparr>el_Active = mark_missing samples (op_Active s), el_History = op_History s, el_Notices = []\<rparr>"

lemma evaluate_next_eq:
  "evaluate_next now samples s =
     (s\<lparr>op_Active := mfilter (\<lambda>k a. \<not> stale now a) (el_Active (evaluated now samples s)),
        op_History := last_n 200 (el_History (evaluated now samples s))\<rparr>, el_Notices (evaluated now samples s))"
  by (simp add: evaluate_next_def evaluated_def Let_def)

lemma mwf_evaluated: "mwf (op_Active s) \<Longrightarrow> mwf (el_Active (evaluated now samples s))"
  unfolding evaluated_def by (rule mwf_evaluate_fold) simp

lemma evaluated_missing:
  "map_of samples k = None \<Longrightarrow> map_of (el_Active (evaluated now samples s)) k = map_option lose_sight (map_of (op_Active s) k)"
  unfolding evaluated_def by (subst evaluate_fold_other) (auto simp: in_mkeys_iff map_of_mark_missing)

lemma evaluated_at:
  assumes "mwf samples" "map_of samples k = Some sm"
  shows "\<exists>a'. map_of (el_Active (evaluated now samples s)) k = Some a'
    \<and> attempted now (next_cond (op_Config s) now sm (cond_of (op_Active s) k sm)) a'"
proof -
  have k: "distinct (sort (mkeys samples))" "k \<in> set (sort (mkeys samples))"
    using assms by (simp_all add: in_mkeys_iff)
  have "cond_of (mark_missing samples (op_Active s)) k sm = cond_of (op_Active s) k sm"
    using assms(2) by (auto simp: cond_of_def map_of_mark_missing split: option.splits)
  with evaluate_fold_at[OF k assms(2), of "op_Config s" now
      "\<lparr>el_Active = mark_missing samples (op_Active s), el_History = op_History s, el_Notices = []\<rparr>"]
  show ?thesis by (simp add: evaluated_def)
qed

lemma evaluated_cases:
  assumes "mwf samples" "map_of (el_Active (evaluated now samples s)) k = Some a'"
  shows "(\<exists>sm. map_of samples k = Some sm
            \<and> attempted now (next_cond (op_Config s) now sm (cond_of (op_Active s) k sm)) a')
    \<or> (\<exists>a. map_of samples k = None \<and> map_of (op_Active s) k = Some a \<and> a' = lose_sight a)"
proof (cases "map_of samples k")
  case None
  with assms(2) show ?thesis by (auto simp: evaluated_missing)
next
  case (Some sm)
  with evaluated_at[OF assms(1) Some, of now s] assms(2) show ?thesis by auto
qed

subsection \<open>The invariant of the stored state\<close>

definition cond_ok :: "string \<Rightarrow> alertCondition \<Rightarrow> bool" where
  "cond_ok k a \<longleftrightarrow> al_Key a = k \<and> finite_float (al_Value a) \<and> finite_float (al_Threshold a)"

definition alerts_inv :: "operationsState \<Rightarrow> bool" where
  "alerts_inv s \<longleftrightarrow> mwf (op_Active s) \<and> AlertConfig_valid (op_Config s)
     \<and> length (op_Active s) \<le> 5000 \<and> length (op_History s) \<le> 200 \<and> length (op_Audit s) \<le> 100
     \<and> (\<forall>k a. map_of (op_Active s) k = Some a \<longrightarrow> cond_ok k a)
     \<and> (\<forall>e\<in>set (op_History s). finite_float (ev_Value e))
     \<and> (ac_FeishuEnabled (op_Config s) \<longrightarrow> op_FeishuWebhook s \<noteq> '''')"

lemma alerts_inv_new: "alerts_inv new_operations"
  by (simp add: alerts_inv_def new_operations_def defaultAlerts_def AlertConfig_valid_def)

lemma list_all_entries: "mwf m \<Longrightarrow> list_all (\<lambda>(k, v). P k v) m \<longleftrightarrow> (\<forall>k v. map_of m k = Some v \<longrightarrow> P k v)"
  by (auto simp: list_all_iff mem_iff_map_of[symmetric])

lemma op_encodable_iff:
  assumes "mwf (op_Active s)"
  shows "op_encodable s \<longleftrightarrow> finite_float (ac_WaitP95MS (op_Config s)) \<and> finite_float (ac_FrameP99MS (op_Config s))
    \<and> (\<forall>k a. map_of (op_Active s) k = Some a \<longrightarrow> finite_float (al_Value a) \<and> finite_float (al_Threshold a))
    \<and> (\<forall>e\<in>set (op_History s). finite_float (ev_Value e))"
  unfolding op_encodable_def list_all_entries[OF assms] by (auto simp: list_all_iff)

lemma alerts_inv_encodable: "alerts_inv s \<Longrightarrow> op_encodable s"
  using op_encodable_iff[of s] by (auto simp: alerts_inv_def AlertConfig_valid_def cond_ok_def)

lemma clone_id: "alerts_inv s \<Longrightarrow> cloneOperations s = s"
  by (simp add: cloneOperations_def alerts_inv_encodable)

lemma length_last_n: "length (last_n n xs) \<le> n"
  by (simp add: last_n_def)

lemma in_last_nD: "x \<in> set (last_n n xs) \<Longrightarrow> x \<in> set xs"
  by (auto simp: last_n_def dest: in_set_dropD split: if_splits)

lemma save_inv: "alerts_inv s \<Longrightarrow> (op_encodable n \<Longrightarrow> alerts_inv n) \<Longrightarrow> alerts_inv (snd (save out n s))"
  by (auto simp: save_def split: save_outcome.splits)

lemma updated_inv:
  assumes "alerts_inv s" "AlertConfig_valid c" "\<not> (ac_FeishuEnabled c \<and> h = '''')"
  shows "alerts_inv (s\<lparr>op_Revision := r, op_Config := c, op_FeishuWebhook := h, op_FeishuSigningSecret := g,
    op_Audit := last_n 100 au\<rparr>)"
  using assms length_last_n[of 100 au] by (auto simp: alerts_inv_def)

lemma alerts_inv_update:
  assumes "alerts_inv s"
  shows "alerts_inv (snd (operations_update net out now inp actor s))"
  unfolding operations_update_def clone_id[OF assms] Let_def
  by (simp add: assms fail_def) (auto intro!: save_inv assms updated_inv)

lemma observe_fields:
  "al_Key (fst (observe cfg now s a)) = al_Key a" "al_Value (fst (observe cfg now s a)) = sm_Value s"
  "al_Threshold (fst (observe cfg now s a)) = sm_Threshold s" "al_LastObservedAt (fst (observe cfg now s a)) = now"
  "al_LastNotifiedAt (fst (observe cfg now s a)) = al_LastNotifiedAt a"
  "al_LastAttemptAt (fst (observe cfg now s a)) = al_LastAttemptAt a"
  by (auto simp: observe_def Let_def)

lemma lose_sight_fields [simp]:
  "al_Key (lose_sight a) = al_Key a" "al_Value (lose_sight a) = al_Value a"
  "al_Threshold (lose_sight a) = al_Threshold a" "al_Firing (lose_sight a) = al_Firing a"
  "al_LastObservedAt (lose_sight a) = al_LastObservedAt a" "al_Since (lose_sight a) = (if al_Firing a then al_Since a else 0)"
  by (simp_all add: lose_sight_def)

lemma cond_of_ok: "(\<And>a. map_of m k = Some a \<Longrightarrow> cond_ok k a) \<Longrightarrow> cond_ok k (cond_of m k s)"
  by (auto simp: cond_of_def cond_ok_def new_condition_def split: option.splits)

lemma next_cond_ok: "sample_ok s \<Longrightarrow> cond_ok k a \<Longrightarrow> cond_ok k (next_cond cfg now s a)"
  by (auto simp: next_cond_def cond_ok_def sample_ok_def observe_fields)

lemma history_finite:
  assumes "\<And>k s. map_of samples k = Some s \<Longrightarrow> sample_ok s" "\<forall>e\<in>set (el_History ev). finite_float (ev_Value e)"
  shows "\<forall>e\<in>set (el_History (fold (evaluate_sample cfg now samples) keys ev)). finite_float (ev_Value e)"
  using assms(2)
proof (induction keys arbitrary: ev)
  case (Cons key keys)
  have "\<forall>e\<in>set (el_History (evaluate_sample cfg now samples key ev)). finite_float (ev_Value e)"
  proof (cases "map_of samples key")
    case None
    with Cons.prems show ?thesis by (simp add: evaluate_sample_def)
  next
    case (Some s)
    let ?o = "observe cfg now s (case map_of (el_Active ev) key of None \<Rightarrow> new_condition key s | Some a \<Rightarrow> a)"
    have "finite_float (al_Value (fst ?o))" if "sm_Known s"
      using assms(1)[OF Some] that by (simp add: observe_fields sample_ok_def)
    with Some Cons.prems show ?thesis
      by (auto simp: evaluate_sample_def Let_def split: prod.splits option.splits)
  qed
  from Cons.IH[OF this] show ?case by simp
qed simp

lemma evaluate_next_inv:
  assumes "alerts_inv s" "mwf samples" "\<And>k sm. map_of samples k = Some sm \<Longrightarrow> sample_ok sm"
    and "length (op_Active (fst (evaluate_next now samples s))) \<le> 5000"
  shows "alerts_inv (fst (evaluate_next now samples s))"
proof -
  have wf: "mwf (el_Active (evaluated now samples s))" using assms(1) by (intro mwf_evaluated) (simp add: alerts_inv_def)
  have "cond_ok k a'" if "map_of (el_Active (evaluated now samples s)) k = Some a'" for k a'
    using evaluated_cases[OF assms(2) that]
  proof (elim disjE exE conjE)
    fix sm
    assume sm: "map_of samples k = Some sm" and "attempted now (next_cond (op_Config s) now sm (cond_of (op_Active s) k sm)) a'"
    moreover have "cond_ok k (next_cond (op_Config s) now sm (cond_of (op_Active s) k sm))"
      using assms(1) by (intro next_cond_ok[OF assms(3)[OF sm]] cond_of_ok) (simp add: alerts_inv_def)
    ultimately show ?thesis by (auto simp: cond_ok_def dest: attemptedD)
  next
    fix a
    assume "map_of (op_Active s) k = Some a" "a' = lose_sight a"
    with assms(1) show ?thesis by (auto simp: cond_ok_def alerts_inv_def)
  qed
  moreover have "\<forall>e\<in>set (el_History (evaluated now samples s)). finite_float (ev_Value e)"
    unfolding evaluated_def using assms(1,3) by (intro history_finite) (auto simp: alerts_inv_def)
  ultimately show ?thesis
    using assms(1,4) wf length_last_n[of 200]
    by (auto simp: alerts_inv_def evaluate_next_eq dest: map_of_mfilter_SomeD in_last_nD)
qed

subsection \<open>Histories\<close>

datatype alert_op = Update save_outcome AlertUpdate string
  | Evaluate save_outcome "(string \<times> json) list"
  | Finish save_outcome bool "int \<times> notice list"

definition alert_exec ::
  "net_env \<Rightarrow> int \<Rightarrow> alert_op \<Rightarrow> operationsState \<Rightarrow> operationsState" where
  "alert_exec net now op s =
     (case op of
        Update out inp actor \<Rightarrow> snd (operations_update net out now inp actor s)
      | Evaluate out snapshot \<Rightarrow> snd (evaluate_begin out now snapshot s)
      | Finish out delivered msg \<Rightarrow> evaluate_finish out now delivered msg s)"

text \<open>Whether an evaluation replaces the stored state.\<close>

definition takes_effect :: "save_outcome \<Rightarrow> int \<Rightarrow> (string \<times> json) list \<Rightarrow> operationsState \<Rightarrow> bool" where
  "takes_effect out now snapshot s \<longleftrightarrow> ac_Enabled (op_Config s) \<and> (out = Stored \<or> out = StoredNotSynced)
     \<and> int (length (op_Active (fst (evaluate_next now (alertSamples snapshot (op_Config s) now) s)))) \<le> 5000"

definition breached_at :: "(string \<times> json) list \<Rightarrow> AlertConfig \<Rightarrow> int \<Rightarrow> string \<Rightarrow> bool" where
  "breached_at snapshot cfg now k =
     (case map_of (alertSamples snapshot cfg now) k of None \<Rightarrow> False | Some sm \<Rightarrow> sm_Known sm \<and> sm_Breached sm)"

text \<open>The observations of one condition, the latest first, and the state they lead to.\<close>

fun alert_run ::
  "net_env \<Rightarrow> string \<Rightarrow> (int \<times> alert_op) list
     \<Rightarrow> (int \<times> bool) list \<times> operationsState \<Rightarrow> (int \<times> bool) list \<times> operationsState" where
  "alert_run net k [] x = x"
| "alert_run net k ((now, op) # ops) (obs, s) =
     alert_run net k ops
       ((case op of
           Evaluate out snapshot \<Rightarrow>
             if takes_effect out now snapshot s then (now, breached_at snapshot (op_Config s) now k) # obs else obs
         | _ \<Rightarrow> obs), alert_exec net now op s)"

lemma evaluate_begin_effect:
  assumes "alerts_inv s"
  shows "snd (evaluate_begin out now snapshot s) =
      (if takes_effect out now snapshot s then fst (evaluate_next now (alertSamples snapshot (op_Config s) now) s) else s)"
    and "takes_effect out now snapshot s \<Longrightarrow> alerts_inv (fst (evaluate_next now (alertSamples snapshot (op_Config s) now) s))"
proof -
  let ?sm = "alertSamples snapshot (op_Config s) now"
  let ?n = "fst (evaluate_next now ?sm s)"
  have v: "AlertConfig_valid (op_Config s)" using assms by (simp add: alerts_inv_def)
  have n: "alerts_inv ?n" if "length (op_Active ?n) \<le> 5000"
    by (rule evaluate_next_inv[OF assms alertSamples_wf alertSamples_ok[OF v] that])
  then show "takes_effect out now snapshot s \<Longrightarrow> alerts_inv ?n" by (simp add: takes_effect_def)
  obtain m ns where mn: "evaluate_next now ?sm s = (m, ns)" by (metis surj_pair)
  have enc: "op_encodable m" if "length (op_Active m) \<le> 5000" using n alerts_inv_encodable mn that by simp
  show "snd (evaluate_begin out now snapshot s) = (if takes_effect out now snapshot s then ?n else s)"
  proof (cases "ac_Enabled (op_Config s) \<and> length (op_Active m) \<le> 5000")
    case True
    with enc mn show ?thesis
      by (cases out) (auto simp: evaluate_begin_def clone_id[OF assms] takes_effect_def save_def Let_def fail_def)
  next
    case False
    with mn show ?thesis by (auto simp: evaluate_begin_def clone_id[OF assms] takes_effect_def Let_def)
  qed
qed

lemma mark_delivered_at:
  "map_of (mark_delivered now n m) k = map_option (\<lambda>a. if k = nt_Key n then a\<lparr>al_LastNotifiedAt := now,
     al_RecoveryPending := (if nt_Recovery n then False else al_RecoveryPending a)\<rparr> else a) (map_of m k)"
  by (cases "map_of m k") (auto simp: mark_delivered_def)

text \<open>Delivery touches only the notification fields.\<close>

definition same_clock :: "alertCondition \<Rightarrow> alertCondition \<Rightarrow> bool" where
  "same_clock a b \<longleftrightarrow> al_Firing b = al_Firing a \<and> al_Since b = al_Since a \<and> al_LastObservedAt b = al_LastObservedAt a
     \<and> al_Key b = al_Key a \<and> al_Value b = al_Value a \<and> al_Threshold b = al_Threshold a"

lemma delivered_at:
  "map_of (fold (mark_delivered now) ns m) k = Some b \<Longrightarrow> \<exists>a. map_of m k = Some a \<and> same_clock a b"
proof (induction ns arbitrary: m)
  case (Cons n ns)
  from Cons.IH[of "mark_delivered now n m"] Cons.prems show ?case
    by (force simp: mark_delivered_at same_clock_def split: if_splits)
qed (simp add: same_clock_def)

lemma mkeys_delivered [simp]: "mkeys (fold (mark_delivered now) ns m) = mkeys m"
  by (induction ns arbitrary: m) (auto simp: mark_delivered_def)

lemma finish_active:
  assumes "alerts_inv s" "map_of (op_Active (evaluate_finish out now delivered msg s)) k = Some b"
  shows "\<exists>a. map_of (op_Active s) k = Some a \<and> same_clock a b"
  using assms(2) delivered_at[of now "snd msg" "op_Active s" k b]
  by (auto simp: evaluate_finish_def clone_id[OF assms(1)] save_def Let_def same_clock_def
      split: save_outcome.splits if_splits)

lemma alerts_inv_finish:
  assumes "alerts_inv s"
  shows "alerts_inv (evaluate_finish out now delivered msg s)"
proof -
  have "alerts_inv (s\<lparr>op_Delivery := d, op_Active := fold (mark_delivered now) ns (op_Active s)\<rparr>)" for d ns
  proof -
    have "length (fold (mark_delivered now) ns (op_Active s)) = length (op_Active s)"
      using mkeys_delivered[of now ns "op_Active s"] by (metis length_map mkeys_def)
    with assms show ?thesis
      by (auto simp: alerts_inv_def cond_ok_def same_clock_def dest!: delivered_at)
  qed
  moreover have "alerts_inv (s\<lparr>op_Delivery := d\<rparr>)" for d using assms by (simp add: alerts_inv_def)
  ultimately show ?thesis
    by (auto simp: evaluate_finish_def clone_id[OF assms] Let_def assms intro!: save_inv)
qed

lemma alerts_inv_exec: "alerts_inv s \<Longrightarrow> alerts_inv (alert_exec net now op s)"
  using evaluate_begin_effect
  by (cases op) (auto simp: alert_exec_def alerts_inv_update alerts_inv_finish)

subsection \<open>Sustained breaches\<close>

text \<open>
  \<open>streak obs since latest\<close>: the latest observation is at \<open>latest\<close>, and it and all earlier ones back to
  \<open>since\<close> are breaches, at most twenty seconds apart.
\<close>

inductive streak :: "(int \<times> bool) list \<Rightarrow> int \<Rightarrow> int \<Rightarrow> bool" where
  first: "streak ((t, True) # obs) t t"
| further: "streak obs since latest \<Longrightarrow> t - latest \<le> 20 \<Longrightarrow> streak ((t, True) # obs) since t"

inductive_cases streak_ConsE: "streak (ob # obs) since latest"

lemma streak_suffix:
  "streak obs since latest \<Longrightarrow> \<exists>n < length obs. fst (obs ! n) = since \<and> fst (hd obs) = latest
     \<and> (\<forall>i\<le>n. snd (obs ! i)) \<and> (\<forall>i<n. fst (obs ! i) - fst (obs ! Suc i) \<le> 20)"
proof (induction rule: streak.induct)
  case (first t obs)
  show ?case by (rule exI[of _ 0]) simp
next
  case (further obs since latest t)
  then obtain n where n: "n < length obs" "fst (obs ! n) = since" "fst (hd obs) = latest"
    "\<forall>i\<le>n. snd (obs ! i)" "\<forall>i<n. fst (obs ! i) - fst (obs ! Suc i) \<le> 20" by blast
  have "obs ! 0 = hd obs" using n(1) by (cases obs) auto
  have "fst (((t, True) # obs) ! i) - fst (((t, True) # obs) ! Suc i) \<le> 20" if "i < Suc n" for i
    using that n further.hyps(2) \<open>obs ! 0 = hd obs\<close> by (cases i) auto
  moreover have "snd (((t, True) # obs) ! i)" if "i \<le> Suc n" for i using that n(4) by (cases i) auto
  ultimately show ?case using n by (intro exI[of _ "Suc n"]) auto
qed

definition clocks_inv :: "string \<Rightarrow> (int \<times> bool) list \<Rightarrow> operationsState \<Rightarrow> bool" where
  "clocks_inv k obs s \<longleftrightarrow> (\<forall>a. map_of (op_Active s) k = Some a \<and> \<not> al_Firing a \<and> al_Since a \<noteq> 0 \<longrightarrow>
     0 < al_LastObservedAt a \<and> streak obs (al_Since a) (al_LastObservedAt a))"

lemma observe_streak:
  assumes "0 < now" "\<not> al_Firing a" "al_Since a \<noteq> 0 \<longrightarrow> 0 < al_LastObservedAt a \<and> streak obs (al_Since a) (al_LastObservedAt a)"
    and "sm_Breached s"
  shows "streak ((now, True) # obs) (al_Since (fst (observe cfg now s a))) now"
    and "al_Firing (fst (observe cfg now s a)) \<Longrightarrow> now - al_Since (fst (observe cfg now s a)) \<ge> ac_HoldSeconds cfg"
  using assms
  by (auto simp: observe_def Let_def obs_gap_def intro: streak.intros split: if_splits)

lemma observe_calm:
  "\<not> sm_Breached s \<Longrightarrow> \<not> al_Firing (fst (observe cfg now s a)) \<Longrightarrow> al_Since (fst (observe cfg now s a)) = 0"
  "\<not> sm_Breached s \<Longrightarrow> al_Firing (fst (observe cfg now s a)) \<Longrightarrow> al_Firing a"
  "al_Firing a \<Longrightarrow> sm_Breached s \<Longrightarrow> al_Firing (fst (observe cfg now s a))"
  by (auto simp: observe_def Let_def split: if_splits)

lemma clocks_evaluate:
  assumes inv: "alerts_inv s" and clk: "clocks_inv k obs s" and now: "0 < now" and wf: "mwf samples"
    and at: "map_of (op_Active (fst (evaluate_next now samples s))) k = Some a'"
  defines "ob \<equiv> (now, case map_of samples k of None \<Rightarrow> False | Some sm \<Rightarrow> sm_Known sm \<and> sm_Breached sm)"
  shows "\<not> al_Firing a' \<and> al_Since a' \<noteq> 0 \<longrightarrow> 0 < al_LastObservedAt a' \<and> streak (ob # obs) (al_Since a') (al_LastObservedAt a')"
    and "al_Firing a' \<and> (\<forall>a. map_of (op_Active s) k = Some a \<longrightarrow> \<not> al_Firing a) \<longrightarrow>
      (\<exists>since. streak (ob # obs) since now \<and> now - since \<ge> ac_HoldSeconds (op_Config s))"
proof -
  have wfe: "mwf (el_Active (evaluated now samples s))" using inv by (intro mwf_evaluated) (simp add: alerts_inv_def)
  have m: "map_of (el_Active (evaluated now samples s)) k = Some a'"
    using at wfe by (auto simp: evaluate_next_eq dest: map_of_mfilter_SomeD)
  let ?goal = "(\<not> al_Firing a' \<and> al_Since a' \<noteq> 0 \<longrightarrow> 0 < al_LastObservedAt a' \<and> streak (ob # obs) (al_Since a') (al_LastObservedAt a'))
    \<and> (al_Firing a' \<and> (\<forall>a. map_of (op_Active s) k = Some a \<longrightarrow> \<not> al_Firing a) \<longrightarrow>
        (\<exists>since. streak (ob # obs) since now \<and> now - since \<ge> ac_HoldSeconds (op_Config s)))"
  have ?goal
  proof (cases "map_of samples k")
    case None
    then obtain a where "map_of (op_Active s) k = Some a" "a' = lose_sight a"
      using evaluated_missing[OF None, of now s] m by (cases "map_of (op_Active s) k") auto
    then show ?thesis by auto
  next
    case (Some sm)
    let ?a = "cond_of (op_Active s) k sm"
    let ?n = "next_cond (op_Config s) now sm ?a"
    have "attempted now ?n a'" using evaluated_at[OF wf Some, of now s] m by auto
    note same = attemptedD(1-3)[OF this]
    have clka: "al_Since ?a \<noteq> 0 \<longrightarrow> 0 < al_LastObservedAt ?a \<and> streak obs (al_Since ?a) (al_LastObservedAt ?a)"
      if "\<not> al_Firing ?a"
      using that clk by (auto simp: cond_of_def clocks_inv_def new_condition_def split: option.splits)
    have fresh: "\<not> al_Firing ?a" if "\<forall>a. map_of (op_Active s) k = Some a \<longrightarrow> \<not> al_Firing a"
      using that by (auto simp: cond_of_def new_condition_def split: option.splits)
    consider "\<not> sm_Known sm" | "sm_Known sm" "\<not> sm_Breached sm" | "sm_Known sm" "sm_Breached sm" "al_Firing ?a"
      | "sm_Known sm" "sm_Breached sm" "\<not> al_Firing ?a" by blast
    then show ?thesis
    proof cases
      case 1
      with same fresh show ?thesis by (auto simp: next_cond_def)
    next
      case 2
      with same fresh observe_calm(1,2)[OF 2(2), of "op_Config s" now ?a] show ?thesis
        by (auto simp: next_cond_def)
    next
      case 3
      with same fresh observe_calm(3)[OF 3(3,2), of "op_Config s" now] show ?thesis by (auto simp: next_cond_def)
    next
      case 4
      have ob: "ob = (now, True)" using 4 Some by (simp add: ob_def)
      show ?thesis
        using observe_streak[OF now 4(3) clka[OF 4(3)] 4(2), of "op_Config s"] same 4 now
        unfolding ob by (auto simp: next_cond_def observe_fields)
    qed
  qed
  then show "\<not> al_Firing a' \<and> al_Since a' \<noteq> 0 \<longrightarrow> 0 < al_LastObservedAt a' \<and> streak (ob # obs) (al_Since a') (al_LastObservedAt a')"
    and "al_Firing a' \<and> (\<forall>a. map_of (op_Active s) k = Some a \<longrightarrow> \<not> al_Firing a) \<longrightarrow>
      (\<exists>since. streak (ob # obs) since now \<and> now - since \<ge> ac_HoldSeconds (op_Config s))" by blast+
qed

lemma clocks_exec:
  assumes inv: "alerts_inv s" and clk: "clocks_inv k obs s" and now: "0 < now"
  shows "clocks_inv k (case op of
      Evaluate out snapshot \<Rightarrow>
        if takes_effect out now snapshot s then (now, breached_at snapshot (op_Config s) now k) # obs else obs
    | _ \<Rightarrow> obs) (alert_exec net now op s)"
proof (cases op)
  case (Update out inp actor)
  have "op_Active (snd (operations_update net out now inp actor s)) = op_Active s"
    by (auto simp: operations_update_def clone_id[OF inv] Let_def save_def split: save_outcome.splits)
  with clk Update show ?thesis by (simp add: clocks_inv_def alert_exec_def)
next
  case (Finish out delivered msg)
  with clk finish_active[OF inv] show ?thesis by (fastforce simp: clocks_inv_def alert_exec_def same_clock_def)
next
  case (Evaluate out snapshot)
  show ?thesis
  proof (cases "takes_effect out now snapshot s")
    case True
    with Evaluate evaluate_begin_effect(1)[OF inv, of out now snapshot]
      clocks_evaluate(1)[OF inv clk now alertSamples_wf[of snapshot "op_Config s" now]]
    show ?thesis by (auto simp: clocks_inv_def alert_exec_def breached_at_def)
  next
    case False
    with clk Evaluate evaluate_begin_effect(1)[OF inv, of out now snapshot] show ?thesis
      by (simp add: alert_exec_def)
  qed
qed

lemma alert_run_inv:
  assumes "alerts_inv s" "clocks_inv k obs s" "\<forall>(t, op)\<in>set ops. 0 < t"
    and "alert_run net k ops (obs, s) = (obs', s')"
  shows "alerts_inv s' \<and> clocks_inv k obs' s'"
  using assms
proof (induction ops arbitrary: obs s)
  case (Cons x ops)
  obtain now op where x: "x = (now, op)" by (cases x)
  with Cons.prems(3) have now: "0 < now" by simp
  show ?case
    by (rule Cons.IH[OF alerts_inv_exec[OF Cons.prems(1)] clocks_exec[OF Cons.prems(1,2) now]])
      (use Cons.prems x in auto)
qed simp

subsection \<open>Notifications\<close>

text \<open>Why a notice may be sent for the condition \<open>a\<close>, whose sample is \<open>s\<close>.\<close>

definition notice_due :: "AlertConfig \<Rightarrow> int \<Rightarrow> alertSample \<Rightarrow> alertCondition \<Rightarrow> notice \<Rightarrow> bool" where
  "notice_due cfg now s a n \<longleftrightarrow> sm_Known s \<and> ac_FeishuEnabled cfg \<and> now - al_LastAttemptAt a \<ge> 30
     \<and> nt_Condition n = (next_cond cfg now s a)\<lparr>al_LastAttemptAt := now\<rparr>
     \<and> nt_Recovery n = al_RecoveryPending (next_cond cfg now s a)
     \<and> (nt_Recovery n \<or> al_Firing (next_cond cfg now s a)
          \<and> (al_LastNotifiedAt a = 0 \<or> now - al_LastNotifiedAt a \<ge> ac_CooldownSeconds cfg))"

lemma evaluate_sample_notices:
  "el_Notices (evaluate_sample cfg now samples key e) = el_Notices e
   \<or> (\<exists>n s. el_Notices (evaluate_sample cfg now samples key e) = el_Notices e @ [n] \<and> length (el_Notices e) < 20
        \<and> nt_Key n = key \<and> map_of samples key = Some s \<and> notice_due cfg now s (cond_of (el_Active e) key s) n)"
proof (cases "map_of samples key")
  case None
  then show ?thesis by (simp add: evaluate_sample_def)
next
  case (Some s)
  let ?a = "cond_of (el_Active e) key s"
  obtain a1 ev where o: "observe cfg now s ?a = (a1, ev)" by (metis surj_pair)
  have f: "al_LastAttemptAt a1 = al_LastAttemptAt ?a" "al_LastNotifiedAt a1 = al_LastNotifiedAt ?a"
    using observe_fields(5,6)[of cfg now s ?a] by (simp_all add: o)
  show ?thesis
  proof (cases "sm_Known s \<and> wants_notice cfg now (length (el_Notices e)) a1")
    case True
    let ?n = "\<lparr>nt_Key = key, nt_Recovery = al_RecoveryPending a1, nt_Condition = a1\<lparr>al_LastAttemptAt := now\<rparr>\<rparr>"
    have "el_Notices (evaluate_sample cfg now samples key e) = el_Notices e @ [?n]"
      using True Some o by (auto simp: evaluate_sample_def Let_def cond_of_def[symmetric] split: option.splits)
    moreover have "notice_due cfg now s ?a ?n" "length (el_Notices e) < 20"
      using True f o by (auto simp: wants_notice_def notice_due_def next_cond_def Let_def)
    ultimately show ?thesis using Some by auto
  next
    case False
    with Some o show ?thesis
      by (auto simp: evaluate_sample_def Let_def cond_of_def[symmetric] split: option.splits)
  qed
qed

lemma notices_fold:
  assumes "distinct keys" "length (el_Notices e) \<le> 20" "distinct (map nt_Key (el_Notices e))"
    "set (map nt_Key (el_Notices e)) \<inter> set keys = {}"
    "\<And>k. k \<in> set keys \<Longrightarrow> map_of (el_Active e) k = map_of m k"
    "\<And>n. n \<in> set (el_Notices e) \<Longrightarrow> Q n"
    "\<And>k s n. k \<in> set keys \<Longrightarrow> map_of samples k = Some s \<Longrightarrow> nt_Key n = k \<Longrightarrow> notice_due cfg now s (cond_of m k s) n \<Longrightarrow> Q n"
  shows "length (el_Notices (fold (evaluate_sample cfg now samples) keys e)) \<le> 20
    \<and> distinct (map nt_Key (el_Notices (fold (evaluate_sample cfg now samples) keys e)))
    \<and> (\<forall>n\<in>set (el_Notices (fold (evaluate_sample cfg now samples) keys e)). Q n)"
  using assms
proof (induction keys arbitrary: e)
  case (Cons key keys)
  let ?e = "evaluate_sample cfg now samples key e"
  have m: "map_of (el_Active ?e) k = map_of m k" if "k \<in> set keys" for k
  proof -
    from Cons.prems(1) that have "k \<noteq> key" by auto
    with Cons.prems(5)[of k] that show ?thesis by (simp add: evaluate_sample_other)
  qed
  have c: "cond_of (el_Active e) key s = cond_of m key s" for s using Cons.prems(5) by (simp add: cond_of_def)
  have "length (el_Notices ?e) \<le> 20 \<and> distinct (map nt_Key (el_Notices ?e))
    \<and> set (map nt_Key (el_Notices ?e)) \<inter> set keys = {} \<and> (\<forall>n\<in>set (el_Notices ?e). Q n)"
    using evaluate_sample_notices[of cfg now samples key e]
  proof
    assume "el_Notices ?e = el_Notices e"
    with Cons.prems show ?thesis by auto
  next
    assume "\<exists>n s. el_Notices ?e = el_Notices e @ [n] \<and> length (el_Notices e) < 20 \<and> nt_Key n = key
      \<and> map_of samples key = Some s \<and> notice_due cfg now s (cond_of (el_Active e) key s) n"
    then obtain n s where n: "el_Notices ?e = el_Notices e @ [n]" "length (el_Notices e) < 20" "nt_Key n = key"
      "map_of samples key = Some s" "notice_due cfg now s (cond_of m key s) n" unfolding c by blast
    from Cons.prems(7)[of key s n] n have "Q n" by simp
    with Cons.prems(1-4,6) n show ?thesis by auto
  qed
  then have e: "length (el_Notices ?e) \<le> 20" "distinct (map nt_Key (el_Notices ?e))"
    "set (map nt_Key (el_Notices ?e)) \<inter> set keys = {}" "\<And>n. n \<in> set (el_Notices ?e) \<Longrightarrow> Q n" by blast+
  have d: "distinct keys" using Cons.prems(1) by simp
  have q: "Q n" if "k \<in> set keys" "map_of samples k = Some s" "nt_Key n = k" "notice_due cfg now s (cond_of m k s) n"
    for k s n using Cons.prems(7)[of k s n] that by simp
  from Cons.IH[OF d e(1-3) m e(4) q] show ?case by simp
qed simp

subsection \<open>Properties\<close>

text \<open>
  C25. An alert fires only after a sustained breach: in any history of configuration changes,
  evaluations and deliveries, with whatever storage failures, an evaluation that turns a condition to
  firing is preceded by recorded evaluations that all saw the breach, at most twenty seconds apart, and
  reach back at least the configured hold time.
\<close>

theorem alert_fires_after_hold:
  assumes "\<forall>(t, op)\<in>set ops. 0 < t" "0 < now"
    and "alert_run net k ops ([], new_operations) = (obs, s)"
    and "\<forall>a. map_of (op_Active s) k = Some a \<longrightarrow> \<not> al_Firing a"
    and "map_of (op_Active (alert_exec net now (Evaluate out snapshot) s)) k = Some a'" "al_Firing a'"
  shows "\<exists>n \<le> length obs. let obs' = (now, True) # obs in
    now - fst (obs' ! n) \<ge> ac_HoldSeconds (op_Config s) \<and> (\<forall>i\<le>n. snd (obs' ! i))
    \<and> (\<forall>i<n. fst (obs' ! i) - fst (obs' ! Suc i) \<le> 20)"
proof -
  have "clocks_inv k [] new_operations" by (simp add: clocks_inv_def new_operations_def)
  from alert_run_inv[OF alerts_inv_new this assms(1,3)] have inv: "alerts_inv s" "clocks_inv k obs s" by auto
  let ?sm = "alertSamples snapshot (op_Config s) now"
  have "map_of (op_Active (fst (evaluate_next now ?sm s))) k = Some a'"
    using assms(4-6) evaluate_begin_effect(1)[OF inv(1), of out now snapshot]
    by (auto simp: alert_exec_def split: if_splits)
  from clocks_evaluate(2)[OF inv assms(2) alertSamples_wf this] assms(4,6) obtain since b where
    st: "streak ((now, b) # obs) since now" and hold: "now - since \<ge> ac_HoldSeconds (op_Config s)" by blast
  from st have "b = True" by (rule streak_ConsE) auto
  with streak_suffix[OF st] hold show ?thesis by (auto simp: Let_def less_Suc_eq_le)
qed

text \<open>
  C26. The stored alert state stays within its limits and well-formed in every history: at most 5000
  conditions, 200 events and 100 audit entries, a valid configuration, only finite numbers (so that the
  copy made through JSON is the state itself), each condition filed under its own key, and delivery
  enabled only with a webhook.
\<close>

theorem alert_state_bounded:
  assumes "\<forall>(t, op)\<in>set ops. 0 < t" "alert_run net k ops ([], new_operations) = (obs, s)"
  shows "length (op_Active s) \<le> 5000 \<and> length (op_History s) \<le> 200 \<and> length (op_Audit s) \<le> 100
    \<and> AlertConfig_valid (op_Config s) \<and> cloneOperations s = s
    \<and> (\<forall>key a. map_of (op_Active s) key = Some a \<longrightarrow> al_Key a = key)
    \<and> (ac_FeishuEnabled (op_Config s) \<longrightarrow> op_FeishuWebhook s \<noteq> '''')"
proof -
  have "clocks_inv k [] new_operations" by (simp add: clocks_inv_def new_operations_def)
  from alert_run_inv[OF alerts_inv_new this assms] have inv: "alerts_inv s" by simp
  then show ?thesis using clone_id[OF inv] by (auto simp: alerts_inv_def cond_ok_def)
qed

text \<open>
  C27. Notifications respect their limits: one evaluation sends at most twenty, no condition twice, each
  for a known sample, at least thirty seconds after the last attempt for that condition, and either
  because it recovered or because it fires and was not notified within the cooldown.
\<close>

theorem notices_are_limited:
  assumes "mwf samples" "evaluate_next now samples s = (next_state, notices)"
  shows "length notices \<le> 20 \<and> distinct (map nt_Key notices)
    \<and> (\<forall>n\<in>set notices. \<exists>sm. map_of samples (nt_Key n) = Some sm
         \<and> notice_due (op_Config s) now sm (cond_of (op_Active s) (nt_Key n) sm) n)"
proof -
  let ?e = "\<lparr>el_Active = mark_missing samples (op_Active s), el_History = op_History s, el_Notices = []\<rparr>"
  have "cond_of (mark_missing samples (op_Active s)) k sm = cond_of (op_Active s) k sm"
    if "map_of samples k = Some sm" for k sm
    using that by (auto simp: cond_of_def map_of_mark_missing split: option.splits)
  then have "length (el_Notices (evaluated now samples s)) \<le> 20
    \<and> distinct (map nt_Key (el_Notices (evaluated now samples s)))
    \<and> (\<forall>n\<in>set (el_Notices (evaluated now samples s)). \<exists>sm. map_of samples (nt_Key n) = Some sm
         \<and> notice_due (op_Config s) now sm (cond_of (op_Active s) (nt_Key n) sm) n)"
    unfolding evaluated_def using assms(1)
    by (intro notices_fold[where m = "mark_missing samples (op_Active s)"]) auto
  then show ?thesis using assms(2) by (simp add: evaluate_next_eq)
qed

text \<open>
  When an evaluation would exceed the limit of 5000 conditions it leaves the stored state as it is: the
  error code it assigns to its copy is not kept.
\<close>

lemma state_limit_not_recorded:
  assumes "alerts_inv s" "ac_Enabled (op_Config s)"
    and "5000 < int (length (op_Active (fst (evaluate_next now (alertSamples snapshot (op_Config s) now) s))))"
  shows "evaluate_begin out now snapshot s = (None, s)"
  using assms by (simp add: evaluate_begin_def clone_id Let_def case_prod_beta)

subsection \<open>Examples\<close>

definition ex_snapshot :: "(string \<times> json) list" where
  "ex_snapshot = [(''regions'', VList [VObj [(''name'', VText ''eu''), (''ok'', VBool True), (''pods'', VList
     [VObj [(''phase'', VText ''Pending''), (''scheduling_capacity_shortage'', VBool True)]])]])]"

definition ex_key :: string where
  "ex_key = ''physical_capacity_shortage:eu''"

definition ex_url :: Url where
  "ex_url = \<lparr>u_Scheme = ''https'', u_Host = ''open.feishu.cn'', u_Hostname = ''open.feishu.cn'', u_HasUser = False, u_Opaque = '''',
     u_RawQuery = '''', u_ForceQuery = False, u_Port = '''', u_Fragment = '''', u_RawPath = '''',
     u_Path = ''/open-apis/bot/v2/hook/abcdefghijklmnop''\<rparr>"

definition ex_net :: net_env where
  "ex_net = \<lparr>url_Parse = (\<lambda>_. Some ex_url), ip_loopback = (\<lambda>_. None)\<rparr>"

definition ex_evals :: "(int \<times> alert_op) list" where
  "ex_evals = map (\<lambda>t. (t, Evaluate Stored ex_snapshot)) [100, 115, 130, 145]"

definition ex_alerts :: "(int \<times> bool) list \<times> operationsState" where
  "ex_alerts = alert_run ex_net ex_key ex_evals ([], new_operations)"

definition ex_hook_update :: AlertUpdate where
  "ex_hook_update = \<lparr>up_ExpectedRevision = 1, up_Config = defaultAlerts\<lparr>ac_FeishuEnabled := True, ac_HoldSeconds := 15\<rparr>,
     up_FeishuWebhook = Some ''https://open.feishu.cn/open-apis/bot/v2/hook/abcdefghijklmnop'', up_FeishuSigningSecret = None\<rparr>"

theorem alert_fires_after_hold_witness:
  "\<exists>n \<le> length (fst ex_alerts). let obs' = (160, True) # fst ex_alerts in
    160 - fst (obs' ! n) \<ge> 60 \<and> (\<forall>i\<le>n. snd (obs' ! i))"
proof -
  have t: "\<forall>(t, op)\<in>set ex_evals. 0 < t" by (simp add: ex_evals_def)
  have r: "alert_run ex_net ex_key ex_evals ([], new_operations) = (fst ex_alerts, snd ex_alerts)"
    by (simp add: ex_alerts_def)
  have q: "map_option al_Firing (map_of (op_Active (snd ex_alerts)) ex_key) = Some False" by code_simp
  have h: "ac_HoldSeconds (op_Config (snd ex_alerts)) = 60" by code_simp
  have f: "map_option al_Firing (map_of (op_Active (alert_exec ex_net 160
     (Evaluate Stored ex_snapshot) (snd ex_alerts))) ex_key) = Some True" by code_simp
  then obtain a' where a': "map_of (op_Active (alert_exec ex_net 160
     (Evaluate Stored ex_snapshot) (snd ex_alerts))) ex_key = Some a'" "al_Firing a'" by auto
  have "\<forall>a. map_of (op_Active (snd ex_alerts)) ex_key = Some a \<longrightarrow> \<not> al_Firing a" using q by auto
  from alert_fires_after_hold[OF t _ r this a'] h show ?thesis by (simp add: Let_def) blast
qed

theorem alert_state_bounded_witness:
  "length (op_Active (snd ex_alerts)) \<le> 5000 \<and> cloneOperations (snd ex_alerts) = snd ex_alerts"
proof -
  have t: "\<forall>(t, op)\<in>set ex_evals. 0 < t" by (simp add: ex_evals_def)
  have r: "alert_run ex_net ex_key ex_evals ([], new_operations) = (fst ex_alerts, snd ex_alerts)"
    by (simp add: ex_alerts_def)
  from alert_state_bounded[OF t r] show ?thesis by blast
qed

definition ex_notified :: "operationsState \<times> notice list" where
  "ex_notified = evaluate_next 130 (alertSamples ex_snapshot (up_Config ex_hook_update) 130)
     (snd (alert_run ex_net ex_key [(90, Update Stored ex_hook_update ''admin''),
       (115, Evaluate Stored ex_snapshot)] ([], new_operations)))"

theorem notices_are_limited_witness:
  "length (snd ex_notified) = 1 \<and> distinct (map nt_Key (snd ex_notified))"
proof -
  have l: "length (snd ex_notified) = 1" by code_simp
  have "evaluate_next 130 (alertSamples ex_snapshot (up_Config ex_hook_update) 130)
     (snd (alert_run ex_net ex_key [(90, Update Stored ex_hook_update ''admin''),
       (115, Evaluate Stored ex_snapshot)] ([], new_operations))) = (fst ex_notified, snd ex_notified)"
    by (simp add: ex_notified_def)
  from notices_are_limited[OF alertSamples_wf this] l show ?thesis by blast
qed

end
