(* ===== verification/Console_Files.thy ===== *)
theory Console_Files
  imports Console_Snapshot Console_Alerts_Laws Fleet_Token
begin

text \<open>
  Private files of the console: \<^verbatim>\<open>fileops_unix.go\<close>, \<^verbatim>\<open>config.go\<close>, \<^verbatim>\<open>password.go\<close>, \<^verbatim>\<open>operations_file.go\<close>,
  the sockets and configuration of \<^verbatim>\<open>control.go\<close>, and the sender of \<^verbatim>\<open>feishu.go\<close>, all in \<^verbatim>\<open>internal/console\<close>.

  A file system maps paths to files. \<open>bad\<close> says which system calls of an operation fail, \<open>meddle\<close> is what other
  processes do to the file system before the operation looks at the published file again. Decoders stand for strict
  JSON decoding: unknown fields and trailing data refused.
\<close>

unbundle bit_operations_syntax

subsection \<open>Files\<close>

datatype file_kind = Regular | Directory | Socket | Symlink | Special

record file_info =
  fi_Kind :: file_kind
  fi_Perm :: nat
  fi_SetID :: bool
  fi_Ident :: "(int \<times> int \<times> int) option"
  fi_Size :: int
  fi_File :: nat

record file_node =
  fn_Info :: file_info
  fn_Data :: string

type_synonym fsys = "file_node gomap"

datatype syscall = SysOpen | SysStat | SysRead | SysCreate | SysChown | SysChmod | SysWrite | SysSync | SysClose | SysRename
  | SysOpenDir | SysSyncDir | SysRemove | SysListen

type_synonym opened = "(file_info option \<times> string option) option"

definition privateFile :: "file_info \<Rightarrow> bool" where
  "privateFile i \<longleftrightarrow> fi_Kind i = Regular \<and> fi_Perm i = 0x180 \<and> \<not> fi_SetID i"

definition os_SameFile :: "file_info \<Rightarrow> file_info \<Rightarrow> bool" where
  "os_SameFile a b \<longleftrightarrow> fi_File a = fi_File b"

text \<open>Opening without following links; what \<^verbatim>\<open>Stat\<close> and reading then give.\<close>

definition open_node :: "(syscall \<Rightarrow> bool) \<Rightarrow> fsys \<Rightarrow> string \<Rightarrow> opened" where
  "open_node bad fs path =
     (case map_of fs path of
        None \<Rightarrow> None
      | Some n \<Rightarrow>
          if fi_Kind (fn_Info n) = Symlink \<or> bad SysOpen then None
          else Some (if bad SysStat then None else Some (fn_Info n), if bad SysRead then None else Some (fn_Data n)))"

definition readPrivateFile :: "opened \<Rightarrow> int \<Rightarrow> int \<Rightarrow> (string \<times> file_info) result" where
  "readPrivateFile f max_bytes owner =
     (case f of
        None \<Rightarrow> Inl (Errorf ''private_file_unavailable'')
      | Some (None, _) \<Rightarrow> Inl (Errorf ''unsafe_private_file'')
      | Some (Some info, data) \<Rightarrow>
          if \<not> privateFile info \<or> fi_Size info > max_bytes then Inl (Errorf ''unsafe_private_file'')
          else case fi_Ident info of
            None \<Rightarrow> Inl (Errorf ''unsafe_private_file'')
          | Some (uid, gid, links) \<Rightarrow>
              if links \<noteq> 1 \<or> (owner \<ge> 0 \<and> uid \<noteq> owner) then Inl (Errorf ''unsafe_private_file'')
              else case data of
                None \<Rightarrow> Inl (Errorf ''private_file_size_limit'')
              | Some d \<Rightarrow> if int (length d) > max_bytes then Inl (Errorf ''private_file_size_limit'') else Inr (d, info))"

definition filepath_Dir :: "string \<Rightarrow> string" where
  "filepath_Dir path = filepath_Clean (rev (dropWhile (\<lambda>c. c \<noteq> CHR ''/'') (rev path)))"

text \<open>Writing a new private file beside the published one. The new file is its own, of the given identity.\<close>

definition temp_node :: "int \<Rightarrow> int \<Rightarrow> nat \<Rightarrow> string \<Rightarrow> file_node" where
  "temp_node uid gid inode data =
     \<lparr>fn_Info = \<lparr>fi_Kind = Regular, fi_Perm = 0x180, fi_SetID = False, fi_Ident = Some (uid, gid, 1), fi_Size = int (length data),
       fi_File = inode\<rparr>, fn_Data = data\<rparr>"

definition rename_node :: "string \<Rightarrow> string \<Rightarrow> fsys \<Rightarrow> fsys" where
  "rename_node name path fs = (case map_of fs name of None \<Rightarrow> fs | Some n \<Rightarrow> mput path n (mdel name fs))"

definition configSizeLimit :: int where "configSizeLimit = 65536"

text \<open>\<open>name\<close> and \<open>inode\<close> are those of the temporary file; it is removed on every return.\<close>

definition replacePrivateConfig ::
  "(syscall \<Rightarrow> bool) \<Rightarrow> (fsys \<Rightarrow> fsys) \<Rightarrow> string \<Rightarrow> nat \<Rightarrow> string \<Rightarrow> string \<Rightarrow> file_info \<Rightarrow> string \<Rightarrow> fsys \<Rightarrow> unit result \<times> fsys" where
  "replacePrivateConfig bad meddle name inode path before original replacement fs =
     (case fi_Ident original of
        None \<Rightarrow> (Inl (Errorf ''cannot preserve configuration ownership''), fs)
      | Some (uid, gid, links) \<Rightarrow>
          if bad SysCreate then (Inl (Errorf ''cannot create private configuration replacement''), fs)
          else if bad SysChown then (Inl (Errorf ''cannot preserve configuration ownership''), fs)
          else if bad SysChmod then (Inl (Errorf ''cannot preserve configuration permissions''), fs)
          else if bad SysWrite then (Inl (Errorf ''cannot write private configuration''), fs)
          else if bad SysSync then (Inl (Errorf ''cannot sync private configuration''), fs)
          else if bad SysClose then (Inl (Errorf ''cannot close private configuration''), fs)
          else let fs1 = mput name (temp_node uid gid inode replacement) (meddle fs)
               in case readPrivateFile (open_node bad fs1 path) configSizeLimit (- 1) of
                    Inl _ \<Rightarrow> (Inl (Errorf ''configuration changed during password update''), mdel name fs1)
                  | Inr (current, info) \<Rightarrow>
                      if \<not> os_SameFile original info \<or> current \<noteq> before
                      then (Inl (Errorf ''configuration changed during password update''), mdel name fs1)
                      else if bad SysRename then (Inl (Errorf ''cannot replace private configuration''), mdel name fs1)
                      else if bad SysOpenDir \<or> bad SysSyncDir
                      then (Inl (Errorf ''cannot sync configuration directory''), rename_node name path fs1)
                      else (Inr (), rename_node name path fs1))"

subsection \<open>The control socket\<close>

definition verifyControlDirectory :: "fsys \<Rightarrow> string \<Rightarrow> int \<Rightarrow> file_info result" where
  "verifyControlDirectory fs path owner =
     (case map_of fs (filepath_Dir path) of
        None \<Rightarrow> Inl (Errorf ''unsafe control socket directory'')
      | Some n \<Rightarrow>
          if fi_Kind (fn_Info n) \<noteq> Directory \<or> fi_Perm (fn_Info n) AND 0x17 \<noteq> 0 then Inl (Errorf ''unsafe control socket directory'')
          else case fi_Ident (fn_Info n) of
            None \<Rightarrow> Inl (Errorf ''unsafe control socket directory'')
          | Some (uid, _) \<Rightarrow> if uid \<noteq> owner then Inl (Errorf ''unsafe control socket directory'') else Inr (fn_Info n))"

definition verifyControlSocket :: "fsys \<Rightarrow> string \<Rightarrow> int \<Rightarrow> unit result" where
  "verifyControlSocket fs path owner =
     (case verifyControlDirectory fs path owner of
        Inl e \<Rightarrow> Inl e
      | Inr _ \<Rightarrow>
          (case map_of fs path of
             None \<Rightarrow> Inl (Errorf ''unsafe control socket'')
           | Some n \<Rightarrow>
               if fi_Kind (fn_Info n) \<noteq> Socket \<or> fi_Perm (fn_Info n) \<noteq> 0x1B0 then Inl (Errorf ''unsafe control socket'')
               else case fi_Ident (fn_Info n) of
                 None \<Rightarrow> Inl (Errorf ''unsafe control socket owner'')
               | Some (uid, _) \<Rightarrow> if uid \<noteq> owner then Inl (Errorf ''unsafe control socket owner'') else Inr ()))"

datatype dial_outcome = Connected | Refused | DialFailed

definition socket_node :: "int \<Rightarrow> int \<Rightarrow> nat \<Rightarrow> file_node" where
  "socket_node uid gid inode =
     \<lparr>fn_Info = \<lparr>fi_Kind = Socket, fi_Perm = 0x1B0, fi_SetID = False, fi_Ident = Some (uid, gid, 1), fi_Size = 0, fi_File = inode\<rparr>, fn_Data = ''''\<rparr>"

text \<open>A stale socket is removed only when it is the broker's own and refuses connections. Closing the listener unlinks it.\<close>

definition bind_socket :: "(syscall \<Rightarrow> bool) \<Rightarrow> nat \<Rightarrow> string \<Rightarrow> int \<Rightarrow> file_info \<Rightarrow> fsys \<Rightarrow> unit result \<times> fsys" where
  "bind_socket bad inode path owner directory fs =
     (if bad SysListen then (Inl (Errorf ''cannot listen on control socket''), fs)
      else if bad SysChown \<or> bad SysChmod then (Inl (Errorf ''cannot protect control socket''), fs)
      else (Inr (), mput path (socket_node owner (case fi_Ident directory of Some (_, gid, _) \<Rightarrow> gid | None \<Rightarrow> 0) inode) fs))"

definition listenControlSocket ::
  "(syscall \<Rightarrow> bool) \<Rightarrow> dial_outcome \<Rightarrow> int \<Rightarrow> nat \<Rightarrow> string \<Rightarrow> int \<Rightarrow> fsys \<Rightarrow> unit result \<times> fsys" where
  "listenControlSocket bad dial euid inode path owner fs =
     (if \<not> validSocketPath path \<or> euid \<noteq> owner then (Inl (Errorf ''invalid control socket identity''), fs)
      else case verifyControlDirectory fs path owner of
        Inl e \<Rightarrow> (Inl e, fs)
      | Inr directory \<Rightarrow>
          if bad SysStat then (Inl (Errorf ''cannot inspect control socket''), fs)
          else case map_of fs path of
            None \<Rightarrow> bind_socket bad inode path owner directory fs
          | Some _ \<Rightarrow>
              (case verifyControlSocket fs path owner of
                 Inl e \<Rightarrow> (Inl e, fs)
               | Inr _ \<Rightarrow>
                   if dial = Connected then (Inl (Errorf ''control socket already in use''), fs)
                   else if dial = DialFailed then (Inl (Errorf ''cannot verify stale control socket''), fs)
                   else if bad SysRemove then (Inl (Errorf ''cannot remove stale control socket''), fs)
                   else bind_socket bad inode path owner directory (mdel path fs)))"

definition LoadControlConfig :: "net_env \<Rightarrow> (string \<Rightarrow> ControlConfig option) \<Rightarrow> opened \<Rightarrow> ControlConfig result" where
  "LoadControlConfig net decode f =
     (case readPrivateFile f configSizeLimit 0 of
        Inl _ \<Rightarrow> Inl (Errorf ''invalid private control configuration'')
      | Inr (data, _) \<Rightarrow>
          (case decode data of
             None \<Rightarrow> Inl (Errorf ''invalid control configuration JSON'')
           | Some cfg \<Rightarrow> (case ControlConfig_validate net cfg of Inl e \<Rightarrow> Inl e | Inr _ \<Rightarrow> Inr cfg)))"

definition ListenControlSocket ::
  "net_env \<Rightarrow> (syscall \<Rightarrow> bool) \<Rightarrow> dial_outcome \<Rightarrow> int \<Rightarrow> nat \<Rightarrow> ControlConfig \<Rightarrow> fsys \<Rightarrow> unit result \<times> fsys" where
  "ListenControlSocket net bad dial euid inode cfg fs =
     (if euid \<noteq> 0 then (Inl (Errorf ''control broker must run as root''), fs)
      else case ControlConfig_validate net cfg of
        Inl e \<Rightarrow> (Inl e, fs)
      | Inr _ \<Rightarrow> listenControlSocket bad dial euid inode (cc_SocketPath cfg) 0 fs)"

subsection \<open>The configuration\<close>

record ConsoleConfig =
  cg_Username :: string
  cg_PasswordHash :: string
  cg_PublicURL :: string
  cg_Listen :: string
  cg_Source :: SourceConfig
  cg_ReadAPITokenHash :: string
  cg_NodeOnboarding :: "NodeOnboardingConfig option"

text \<open>\<^verbatim>\<open>net.SplitHostPort\<close>; \<open>None\<close> for an error.\<close>

fun index_of :: "char \<Rightarrow> string \<Rightarrow> nat option" where
  "index_of c [] = None"
| "index_of c (x # xs) = (if x = c then Some 0 else map_option Suc (index_of c xs))"

definition SplitHostPort :: "string \<Rightarrow> (string \<times> string) option" where
  "SplitHostPort s =
     (case index_of (CHR '':'') (rev s) of
        None \<Rightarrow> None
      | Some r \<Rightarrow>
          (let i = length s - 1 - r; port = drop (Suc i) s
           in if hd s = CHR ''[''
              then (case index_of (CHR '']'') s of
                      None \<Rightarrow> None
                    | Some e \<Rightarrow>
                        if Suc e \<noteq> i \<or> CHR ''['' \<in> set (drop 1 s) \<or> CHR '']'' \<in> set (drop (Suc e) s) then None
                        else Some (take (e - 1) (drop 1 s), port))
              else if CHR '':'' \<in> set (take i s) \<or> CHR ''['' \<in> set s \<or> CHR '']'' \<in> set s then None
              else Some (take i s, port)))"

definition Config_listen :: "ConsoleConfig \<Rightarrow> string" where
  "Config_listen cfg = (if cg_Listen cfg = '''' then ''127.0.0.1:7365'' else cg_Listen cfg)"

definition listen_ok :: "net_env \<Rightarrow> string \<Rightarrow> bool" where
  "listen_ok net addr =
     (case SplitHostPort addr of
        None \<Rightarrow> False
      | Some (host, port) \<Rightarrow> port_ok port \<and> loopbackHost net host)"

text \<open>The validated configuration, with its default filled in.\<close>

definition ConsoleConfig_validate :: "net_env \<Rightarrow> (string \<Rightarrow> string \<Rightarrow> bool) \<Rightarrow> ConsoleConfig \<Rightarrow> ConsoleConfig result" where
  "ConsoleConfig_validate net same cfg =
     (case (case cg_NodeOnboarding cfg of
              None \<Rightarrow> Inr ()
            | Some c \<Rightarrow> NodeOnboardingConfig_validate net same (sg_Regions (cg_Source cfg)) (sg_FleetTokenFile (cg_Source cfg)) c) of
        Inl e \<Rightarrow> Inl e
      | Inr _ \<Rightarrow>
          if cg_ReadAPITokenHash cfg \<noteq> '''' \<and> \<not> validReadAPITokenHash (cg_ReadAPITokenHash cfg)
          then Inl (Errorf ''invalid read-only API token hash'')
          else if \<not> validUsername (cg_Username cfg) then Inl (Errorf ''invalid administrator username'')
          else if parsePasswordHash (cg_PasswordHash cfg) = None then Inl (Errorf ''invalid administrator password hash'')
          else case publicEndpoint net (cg_PublicURL cfg) of
            Inl e \<Rightarrow> Inl e
          | Inr _ \<Rightarrow>
              if \<not> listen_ok net (Config_listen cfg) then Inl (Errorf ''listen must be a loopback address with an explicit port'')
              else Inr (cfg\<lparr>cg_Listen := Config_listen cfg\<rparr>))"

text \<open>What \<^verbatim>\<open>Lstat\<close> gave, and then the opened file.\<close>

definition LoadConfig ::
  "net_env \<Rightarrow> (string \<Rightarrow> string \<Rightarrow> bool) \<Rightarrow> (string \<Rightarrow> ConsoleConfig option) \<Rightarrow> file_info option \<Rightarrow> opened \<Rightarrow> ConsoleConfig result" where
  "LoadConfig net same decode lstat f =
     (case lstat of
        None \<Rightarrow> Inl (Errorf ''configuration must be a regular 0600 file'')
      | Some before \<Rightarrow>
          if \<not> privateFile before then Inl (Errorf ''configuration must be a regular 0600 file'')
          else case f of
            None \<Rightarrow> Inl (Errorf ''cannot open configuration'')
          | Some (st, data) \<Rightarrow>
              if (case st of None \<Rightarrow> True | Some after \<Rightarrow> \<not> privateFile after \<or> \<not> os_SameFile before after)
              then Inl (Errorf ''configuration file changed while opening'')
              else case data of
                None \<Rightarrow> Inl (Errorf ''cannot read configuration within size limit'')
              | Some d \<Rightarrow>
                  if int (length d) > configSizeLimit then Inl (Errorf ''cannot read configuration within size limit'')
                  else case decode d of
                    None \<Rightarrow> Inl (Errorf ''invalid configuration JSON'')
                  | Some cfg \<Rightarrow> ConsoleConfig_validate net same cfg)"

text \<open>The members of a JSON object with their values as written, and the printers.\<close>

record config_codec =
  kc_config :: "string \<Rightarrow> ConsoleConfig option"
  kc_members :: "string \<Rightarrow> string gomap option"
  kc_quote :: "string \<Rightarrow> string"
  kc_indent :: "string gomap \<Rightarrow> string option"

text \<open>\<open>first\<close> says which calls of the first read fail, \<open>bad\<close> which of those that follow; \<open>salt\<close> is the random salt.\<close>

definition SetPassword ::
  "(syscall \<Rightarrow> bool) \<Rightarrow> (syscall \<Rightarrow> bool) \<Rightarrow> (fsys \<Rightarrow> fsys) \<Rightarrow> string \<Rightarrow> nat \<Rightarrow> net_env \<Rightarrow> (string \<Rightarrow> string \<Rightarrow> bool) \<Rightarrow> config_codec
     \<Rightarrow> kdf_fn \<Rightarrow> string option \<Rightarrow> string \<Rightarrow> string \<Rightarrow> fsys \<Rightarrow> unit result \<times> fsys" where
  "SetPassword first bad meddle name inode net same K kdf salt path password fs =
     (case readPrivateFile (open_node first fs path) configSizeLimit (- 1) of
        Inl _ \<Rightarrow> (Inl (Errorf ''cannot read private configuration''), fs)
      | Inr (before, info) \<Rightarrow>
          (case kc_config K before of
             None \<Rightarrow> (Inl (Errorf ''invalid configuration JSON''), fs)
           | Some cfg \<Rightarrow>
               (case ConsoleConfig_validate net same cfg of
                  Inl e \<Rightarrow> (Inl e, fs)
                | Inr _ \<Rightarrow>
                    (case HashPassword kdf salt password of
                       Inl e \<Rightarrow> (Inl e, fs)
                     | Inr hashed \<Rightarrow>
                         (case kc_members K before of
                            None \<Rightarrow> (Inl (Errorf ''invalid configuration JSON''), fs)
                          | Some ms \<Rightarrow>
                              (case kc_indent K (mput ''password_hash'' (kc_quote K hashed) ms) of
                                 None \<Rightarrow> (Inl (Errorf ''cannot encode private configuration''), fs)
                               | Some after \<Rightarrow> replacePrivateConfig bad meddle name inode path before info (after @ [CHR 0x0A]) fs))))))"

subsection \<open>The operations file\<close>

definition operationsLimit :: int where "operationsLimit = 2097152"

record operations =
  oo_path :: string
  oo_state :: operationsState
  oo_hash :: string

text \<open>What \<^verbatim>\<open>openOperations\<close> requires of a decoded state; the schema is part of the decoder.\<close>

definition op_loadable :: "net_env \<Rightarrow> operationsState \<Rightarrow> bool" where
  "op_loadable net s \<longleftrightarrow> \<not> (op_Revision s < 1 \<or> \<not> AlertConfig_valid (op_Config s) \<or> \<not> validFeishuWebhook net (op_FeishuWebhook s)
     \<or> \<not> validFeishuSecret (op_FeishuSigningSecret s) \<or> int (length (op_Active s)) > 5000 \<or> int (length (op_History s)) > 200
     \<or> int (length (op_Audit s)) > 100)"

definition conditions_ok :: "operationsState \<Rightarrow> bool" where
  "conditions_ok s \<longleftrightarrow> list_all (\<lambda>(k, a). \<not> (al_Key a \<noteq> k \<or> int (length k) > 256 \<or> \<not> finite_float (al_Value a)
     \<or> \<not> finite_float (al_Threshold a))) (op_Active s)"

definition load_operations :: "net_env \<Rightarrow> (string \<Rightarrow> string) \<Rightarrow> (string \<Rightarrow> operationsState option) \<Rightarrow> int \<Rightarrow> string \<Rightarrow> opened \<Rightarrow> operations result" where
  "load_operations net sha decode euid path f =
     (case readPrivateFile f operationsLimit euid of
        Inl _ \<Rightarrow> Inl (Errorf ''invalid private operations file'')
      | Inr (raw, _) \<Rightarrow>
          (case decode raw of
             None \<Rightarrow> Inl (Errorf ''invalid operations configuration'')
           | Some s \<Rightarrow>
               if \<not> op_loadable net s then Inl (Errorf ''invalid operations configuration'')
               else if \<not> conditions_ok s then Inl (Errorf ''invalid operations state'')
               else if ac_FeishuEnabled (op_Config s) \<and> op_FeishuWebhook s = ''''
               then Inl (Errorf ''enabled Feishu delivery requires configuration'')
               else Inr \<lparr>oo_path = path, oo_state = s, oo_hash = sha raw\<rparr>))"

text \<open>The lock: \<open>None\<close> when it cannot be opened or examined, else its file and whether the lock was granted. A new file
  that could not be written is left empty.\<close>

definition lock_ok :: "int \<Rightarrow> file_info \<times> bool \<Rightarrow> bool" where
  "lock_ok euid l \<longleftrightarrow> privateFile (fst l) \<and> (case fi_Ident (fst l) of None \<Rightarrow> False | Some (uid, _, links) \<Rightarrow> links = 1 \<and> uid = euid) \<and> snd l"

definition openOperations ::
  "(syscall \<Rightarrow> bool) \<Rightarrow> net_env \<Rightarrow> (string \<Rightarrow> string) \<Rightarrow> (operationsState \<Rightarrow> string) \<Rightarrow> (string \<Rightarrow> operationsState option) \<Rightarrow> int
     \<Rightarrow> (file_info \<times> bool) option \<Rightarrow> nat \<Rightarrow> string \<Rightarrow> fsys \<Rightarrow> operations result \<times> fsys" where
  "openOperations bad net sha encode decode euid lock inode path fs =
     (if \<not> canonical_path path then (Inl (Errorf ''invalid operations file''), fs)
      else case map_of fs (filepath_Dir path) of
        None \<Rightarrow> (Inl (Errorf ''operations directory must be private 0700''), fs)
      | Some d \<Rightarrow>
          if fi_Kind (fn_Info d) \<noteq> Directory \<or> fi_Perm (fn_Info d) \<noteq> 0x1C0 then (Inl (Errorf ''operations directory must be private 0700''), fs)
          else if (case fi_Ident (fn_Info d) of None \<Rightarrow> True | Some (uid, _) \<Rightarrow> uid \<noteq> euid)
          then (Inl (Errorf ''operations directory owner differs''), fs)
          else case lock of
            None \<Rightarrow> (Inl (Errorf ''operations lock unavailable''), fs)
          | Some l \<Rightarrow>
              if \<not> lock_ok euid l then (Inl (Errorf ''operations already in use or unsafe''), fs)
              else if map_of fs path \<noteq> None then (load_operations net sha decode euid path (open_node bad fs path), fs)
              else if bad SysCreate then (Inl (Errorf ''cannot create operations file''), fs)
              else let fs1 = mput path (temp_node euid 0 inode (encode new_operations)) fs
                   in if bad SysWrite \<or> bad SysSync
                      then (Inl (Errorf ''cannot initialize operations file''), mput path (temp_node euid 0 inode '''') fs)
                      else (load_operations net sha decode euid path (open_node bad fs1 path), fs1))"

text \<open>\<^verbatim>\<open>save\<close>: publication by a rename, after a check that the file is still the one this process wrote.\<close>

definition save_file ::
  "(syscall \<Rightarrow> bool) \<Rightarrow> (fsys \<Rightarrow> fsys) \<Rightarrow> (string \<Rightarrow> string) \<Rightarrow> (operationsState \<Rightarrow> string) \<Rightarrow> int \<Rightarrow> int \<Rightarrow> string \<Rightarrow> nat
     \<Rightarrow> operationsState \<Rightarrow> operations \<times> fsys \<Rightarrow> unit source_result \<times> operations \<times> fsys" where
  "save_file bad meddle sha encode euid gid name inode next_state ofs =
     (let (o1, fs) = ofs; raw = encode next_state; stay = (\<lambda>st code. (fail st code, o1, fs))
      in if \<not> op_encodable next_state \<or> int (length raw) > operationsLimit then stay 503 ''alerts_storage_unavailable''
         else if oo_path o1 = '''' then (Inr (), o1\<lparr>oo_state := next_state\<rparr>, fs)
         else let fs0 = meddle fs
              in case readPrivateFile (open_node bad fs0 (oo_path o1)) operationsLimit euid of
                   Inl _ \<Rightarrow> (fail 409 ''alerts_file_changed'', o1, fs0)
                 | Inr (current, _) \<Rightarrow>
                     if sha current \<noteq> oo_hash o1 then (fail 409 ''alerts_file_changed'', o1, fs0)
                     else if bad SysCreate \<or> bad SysChmod \<or> bad SysWrite \<or> bad SysSync \<or> bad SysClose \<or> bad SysRename
                     then (fail 503 ''alerts_storage_unavailable'', o1, fs0)
                     else (if bad SysOpenDir \<or> bad SysSyncDir then fail 503 ''alerts_storage_unavailable'' else Inr (),
                           o1\<lparr>oo_state := next_state, oo_hash := sha raw\<rparr>,
                           mput (oo_path o1) (temp_node euid gid inode raw) fs0))"

subsection \<open>Delivery\<close>

definition feishuSignature :: "mac_fn \<Rightarrow> string \<Rightarrow> int \<Rightarrow> string" where
  "feishuSignature mac secret unix = std_padded (mac (itoa unix @ [CHR 0x0A] @ secret) '''')"

record feishu_message =
  fm_Text :: string
  fm_Signed :: "(string \<times> string) option"

text \<open>\<open>post\<close> sends the message to an address: \<open>None\<close> on an error, else the status and the body read, at most one byte over the limit.\<close>

definition feishuSender_Send ::
  "net_env \<Rightarrow> mac_fn \<Rightarrow> (string \<Rightarrow> feishu_message \<Rightarrow> (int \<times> string option) option) \<Rightarrow> (string \<Rightarrow> (int option \<times> int option) option)
     \<Rightarrow> string \<Rightarrow> string \<Rightarrow> string \<Rightarrow> int \<Rightarrow> bool" where
  "feishuSender_Send net mac post decode webhook secret txt now =
     (if webhook = '''' \<or> \<not> validFeishuWebhook net webhook \<or> \<not> validFeishuSecret secret \<or> int (length txt) > 12000 then False
      else case post webhook \<lparr>fm_Text = txt, fm_Signed = (if secret \<noteq> '''' then Some (itoa now, feishuSignature mac secret now) else None)\<rparr> of
        None \<Rightarrow> False
      | Some (st, body) \<Rightarrow>
          if st \<noteq> 200 then False
          else case body of
            None \<Rightarrow> False
          | Some raw \<Rightarrow>
              if int (length raw) > 65536 then False
              else case decode raw of
                None \<Rightarrow> False
              | Some (code, legacy) \<Rightarrow> code = Some 0 \<or> (code = None \<and> legacy = Some 0))"

end
