(* ===== verification/Console_Files_Laws.thy ===== *)
theory Console_Files_Laws
  imports Console_Files
begin

text \<open>
  The private files keep what was written: replacing the configuration is atomic and loses no concurrent change, saving
  the alerts implements the abstract outcomes of \<open>Console_Alerts\<close>, and what was saved can be opened again.
\<close>

subsection \<open>Keys of alert conditions\<close>

definition short_regions :: "(string \<times> json) list \<Rightarrow> bool" where
  "short_regions snapshot \<longleftrightarrow> list_all (\<lambda>r. length (textField r ''name'') \<le> 229) (objects (vfield snapshot ''regions''))"

definition short_op :: "alert_op \<Rightarrow> bool" where
  "short_op op = (case op of Evaluate out snapshot \<Rightarrow> short_regions snapshot | _ \<Rightarrow> True)"

lemma breach_key [simp]: "sm_Key (breach s) = sm_Key s"
  by (simp add: breach_def)

lemma worker_sample_key: "x \<in> set (worker_samples cfg now w) \<Longrightarrow> length (sm_Key x) \<le> 256"
  by (auto simp: worker_samples_def window_sample_def frame_sample_def worker_sample_def workerName_def Let_def split: prod.splits if_splits)

lemma capacity_sample_key: "x \<in> set (capacity_sample r) \<Longrightarrow> length (textField r ''name'') \<le> 229 \<Longrightarrow> length (sm_Key x) \<le> 256"
  by (auto simp: capacity_sample_def Let_def split: if_splits)

lemma fold_mput_keys:
  "map_of (fold (\<lambda>s m. mput (f s) s m) xs m) k = Some v \<Longrightarrow> k \<in> f ` set xs \<or> map_of m k \<noteq> None"
proof (induction xs arbitrary: m)
  case (Cons x xs)
  from Cons.IH [of "mput (f x) x m"] Cons.prems show ?case by (auto split: if_splits)
qed simp

lemma alertSamples_keys:
  assumes "short_regions snapshot" "map_of (alertSamples snapshot cfg now) k = Some s"
  shows "length k \<le> 256"
proof -
  let ?fleet = "mapObject (vfield snapshot ''fleet'')"
  obtain x where x: "k = sm_Key x" "(\<exists>w. x \<in> set (worker_samples cfg now w)) \<or> (\<exists>r \<in> set (objects (vfield snapshot ''regions'')). x \<in> set (capacity_sample r))"
    using fold_mput_keys [OF assms(2) [unfolded alertSamples_def Let_def]] by (auto split: if_splits)
  then show ?thesis using worker_sample_key capacity_sample_key assms(1) by (auto simp: short_regions_def list_all_iff)
qed

subsection \<open>A state that can be opened again\<close>

definition reopen_inv :: "net_env \<Rightarrow> operationsState \<Rightarrow> bool" where
  "reopen_inv net s \<longleftrightarrow> alerts_inv s \<and> op_Revision s \<ge> 1 \<and> validFeishuWebhook net (op_FeishuWebhook s)
     \<and> validFeishuSecret (op_FeishuSigningSecret s) \<and> (\<forall>k a. map_of (op_Active s) k = Some a \<longrightarrow> length k \<le> 256)"

lemma reopen_new: "reopen_inv net new_operations"
  by (simp add: reopen_inv_def alerts_inv_new) (simp add: new_operations_def validFeishuWebhook_def validFeishuSecret_def)

lemma reopen_save: "reopen_inv net s \<Longrightarrow> reopen_inv net n \<Longrightarrow> reopen_inv net (snd (save out n s))"
  by (auto simp: save_def split: save_outcome.splits)

lemma reopen_update:
  assumes "reopen_inv net s"
  shows "reopen_inv net (snd (operations_update net out now inp actor s))"
proof -
  have inv: "alerts_inv s" using assms by (simp add: reopen_inv_def)
  have "alerts_inv (snd (operations_update net out now inp actor s))" by (rule alerts_inv_update [OF inv])
  moreover have "op_Revision s' \<ge> 1 \<and> validFeishuWebhook net (op_FeishuWebhook s') \<and> validFeishuSecret (op_FeishuSigningSecret s')
      \<and> op_Active s' = op_Active s" if "s' = snd (operations_update net out now inp actor s)" for s'
    using assms that unfolding operations_update_def clone_id [OF inv] Let_def reopen_inv_def
    by (auto simp: fail_def save_def split: option.splits save_outcome.splits if_splits)
  ultimately show ?thesis using assms by (simp add: reopen_inv_def)
qed

lemma reopen_evaluate:
  assumes "reopen_inv net s" "short_regions snapshot"
  shows "reopen_inv net (snd (evaluate_begin out now snapshot s))"
proof (cases "takes_effect out now snapshot s")
  case True
  let ?sm = "alertSamples snapshot (op_Config s) now" and ?n = "fst (evaluate_next now (alertSamples snapshot (op_Config s) now) s)"
  have inv: "alerts_inv s" using assms by (simp add: reopen_inv_def)
  have "length k \<le> 256" if "map_of (op_Active ?n) k = Some a" for k a
  proof -
    have "map_of (mfilter (\<lambda>k a. \<not> stale now a) (el_Active (evaluated now ?sm s))) k = Some a" using that by (simp add: evaluate_next_eq)
    then have "map_of (el_Active (evaluated now ?sm s)) k = Some a"
      using map_of_mfilter_SomeD [OF mwf_evaluated] inv unfolding alerts_inv_def by blast
    from evaluated_cases [OF alertSamples_wf this] show ?thesis
      using alertSamples_keys [OF assms(2)] assms(1) by (auto simp: reopen_inv_def)
  qed
  moreover have "op_Revision ?n = op_Revision s" "op_FeishuWebhook ?n = op_FeishuWebhook s" "op_FeishuSigningSecret ?n = op_FeishuSigningSecret s"
    by (simp_all add: evaluate_next_eq)
  ultimately show ?thesis
    using evaluate_begin_effect [OF inv, of out now snapshot] True assms(1) by (auto simp: reopen_inv_def)
next
  case False
  then show ?thesis using assms(1) evaluate_begin_effect(1) [of s out now snapshot] by (simp add: reopen_inv_def)
qed

lemma fold_delivered_keys: "map_of (fold (mark_delivered now) ns m) k \<noteq> None \<longleftrightarrow> map_of m k \<noteq> None"
  by (induction ns arbitrary: m) (auto simp: mark_delivered_at)

lemma reopen_finish:
  assumes "reopen_inv net s"
  shows "reopen_inv net (evaluate_finish out now delivered msg s)"
proof -
  have inv: "alerts_inv s" using assms by (simp add: reopen_inv_def)
  have "alerts_inv (evaluate_finish out now delivered msg s)" by (rule alerts_inv_finish [OF inv])
  moreover have "op_Revision s' = op_Revision s \<and> op_FeishuWebhook s' = op_FeishuWebhook s \<and> op_FeishuSigningSecret s' = op_FeishuSigningSecret s
      \<and> (\<forall>k. map_of (op_Active s') k \<noteq> None \<longrightarrow> map_of (op_Active s) k \<noteq> None)" if "s' = evaluate_finish out now delivered msg s" for s'
    unfolding that evaluate_finish_def clone_id [OF inv] Let_def save_def
    by (auto simp: fold_delivered_keys [simplified] split: save_outcome.splits)
  ultimately show ?thesis using assms unfolding reopen_inv_def by (metis option.distinct(1) option.exhaust)
qed

lemma reopen_exec: "reopen_inv net s \<Longrightarrow> short_op op \<Longrightarrow> reopen_inv net (alert_exec net now op s)"
  by (cases op) (simp_all add: alert_exec_def short_op_def reopen_update reopen_evaluate reopen_finish)

lemma reopen_run:
  "reopen_inv net s \<Longrightarrow> \<forall>(t, op)\<in>set ops. short_op op \<Longrightarrow> alert_run net k ops (obs, s) = (obs', s') \<Longrightarrow> reopen_inv net s'"
proof (induction ops arbitrary: obs s)
  case (Cons x ops)
  obtain now op where x: "x = (now, op)" by (cases x)
  then have "reopen_inv net (alert_exec net now op s)" using Cons.prems(1,2) by (auto intro: reopen_exec)
  from Cons.IH [OF this] Cons.prems x show ?case by auto
qed simp

lemma reopen_loadable:
  assumes "reopen_inv net s"
  shows "op_loadable net s" "conditions_ok s" "\<not> (ac_FeishuEnabled (op_Config s) \<and> op_FeishuWebhook s = '''')"
proof -
  have wf: "mwf (op_Active s)" and a: "alerts_inv s" using assms by (simp_all add: reopen_inv_def alerts_inv_def)
  show "op_loadable net s" using assms by (auto simp: op_loadable_def reopen_inv_def alerts_inv_def)
  show "conditions_ok s" unfolding conditions_ok_def list_all_entries [OF wf] using assms by (auto simp: reopen_inv_def alerts_inv_def cond_ok_def)
  show "\<not> (ac_FeishuEnabled (op_Config s) \<and> op_FeishuWebhook s = '''')" using a by (auto simp: alerts_inv_def)
qed

subsection \<open>Reading and writing private files\<close>

definition plain_private :: "int \<Rightarrow> int \<Rightarrow> file_node \<Rightarrow> bool" where
  "plain_private euid limit n \<longleftrightarrow> privateFile (fn_Info n) \<and> (\<exists>gid. fi_Ident (fn_Info n) = Some (euid, gid, 1))
     \<and> fi_Size (fn_Info n) = int (length (fn_Data n)) \<and> int (length (fn_Data n)) \<le> limit"

lemma plain_temp: "int (length data) \<le> limit \<Longrightarrow> plain_private uid limit (temp_node uid gid inode data)"
  by (simp add: plain_private_def temp_node_def privateFile_def)

lemma read_plain:
  assumes "map_of fs path = Some n" "plain_private euid limit n" "\<not> bad SysOpen" "\<not> bad SysStat" "\<not> bad SysRead"
  shows "readPrivateFile (open_node bad fs path) limit euid = Inr (fn_Data n, fn_Info n)"
  using assms by (auto simp: readPrivateFile_def open_node_def plain_private_def privateFile_def)

lemma read_private_node:
  assumes "readPrivateFile (open_node bad fs path) limit owner = Inr (d, info)"
  shows "\<exists>n. map_of fs path = Some n \<and> fn_Data n = d \<and> fn_Info n = info \<and> privateFile info"
  using assms by (auto simp: readPrivateFile_def open_node_def split: option.splits if_splits)

text \<open>The save of the file implements one of the outcomes of the abstract save, and the published file is what it says.\<close>

lemma save_file_refines:
  assumes "save_file bad meddle sha encode euid gid name inode n (o1, fs) = (res, o2, fs')"
  shows "\<exists>out. save out n (oo_state o1) = (res, oo_state o2) \<and> oo_path o2 = oo_path o1
    \<and> (oo_path o1 \<noteq> '''' \<longrightarrow> oo_state o2 = oo_state o1 \<and> oo_hash o2 = oo_hash o1
       \<or> oo_state o2 = n \<and> oo_hash o2 = sha (encode n)
         \<and> (\<exists>f. map_of fs' (oo_path o1) = Some f \<and> fn_Data f = encode n \<and> plain_private euid operationsLimit f))"
proof (cases "op_encodable n \<and> int (length (encode n)) \<le> operationsLimit")
  case False
  then show ?thesis using assms
    by (intro exI [of _ "NotStored \<lparr>er_status = 503, er_code = ''alerts_storage_unavailable''\<rparr>"])
      (auto simp: save_file_def save_def Let_def fail_def)
next
  case enc: True
  show ?thesis
  proof (cases "oo_path o1 = ''''")
    case True
    then show ?thesis using assms enc by (intro exI [of _ Stored]) (auto simp: save_file_def save_def Let_def)
  next
    case path: False
    show ?thesis
    proof (cases "oo_state o2 = n \<and> fs' = mput (oo_path o1) (temp_node euid gid inode (encode n)) (meddle fs) \<and> oo_hash o2 = sha (encode n)
        \<and> oo_path o2 = oo_path o1 \<and> (res = Inr () \<or> res = fail 503 ''alerts_storage_unavailable'')")
      case True
      then show ?thesis
        using enc plain_temp [of "encode n" operationsLimit euid gid inode]
        by (intro exI [of _ "if res = Inr () then Stored else StoredNotSynced"]) (auto simp: save_def fail_def temp_node_def)
    next
      case False
      then have "\<exists>e. res = Inl e \<and> o2 = o1"
        using assms enc path by (auto simp: save_file_def Let_def fail_def split: sum.splits if_splits)
      then obtain e where "res = Inl e" "o2 = o1" by blast
      then show ?thesis using enc by (intro exI [of _ "NotStored e"]) (simp add: save_def)
    qed
  qed
qed

text \<open>Replacing the configuration: no change of others is lost, and no temporary file stays.\<close>

lemma replace_atomic:
  assumes "replacePrivateConfig bad meddle name inode path before original replacement fs = (res, fs')" "name \<noteq> path"
    and "map_of (meddle fs) name = None" "map_of fs name = None"
  shows "map_of fs' name = None"
    and "res = Inr () \<Longrightarrow> \<exists>n f. map_of (meddle fs) path = Some n \<and> fn_Data n = before \<and> os_SameFile original (fn_Info n)
      \<and> map_of fs' path = Some f \<and> fn_Data f = replacement \<and> privateFile (fn_Info f)"
    and "map_of fs' path = map_of fs path \<or> map_of fs' path = map_of (meddle fs) path
      \<or> (\<exists>n f. map_of (meddle fs) path = Some n \<and> fn_Data n = before \<and> map_of fs' path = Some f \<and> fn_Data f = replacement)"
proof -
  let ?fs1 = "\<lambda>uid gid. mput name (temp_node uid gid inode replacement) (meddle fs)"
  have c: "fs' = fs \<and> res \<noteq> Inr () \<or> (\<exists>uid gid. fs' = mdel name (?fs1 uid gid) \<and> res \<noteq> Inr ())
    \<or> (\<exists>uid gid info. fs' = rename_node name path (?fs1 uid gid)
        \<and> readPrivateFile (open_node bad (?fs1 uid gid) path) configSizeLimit (- 1) = Inr (before, info) \<and> os_SameFile original info)"
    (is "?same \<or> ?undone \<or> ?published")
  proof (cases "fi_Ident original")
    case None
    then show ?thesis using assms(1) by (auto simp: replacePrivateConfig_def)
  next
    case (Some x)
    obtain uid gid links where x: "x = (uid, gid, links)" by (metis prod.exhaust)
    let ?r = "readPrivateFile (open_node bad (?fs1 uid gid) path) configSizeLimit (- 1)"
    show ?thesis
    proof (cases "bad SysCreate \<or> bad SysChown \<or> bad SysChmod \<or> bad SysWrite \<or> bad SysSync \<or> bad SysClose")
      case True
      then have "?same" using assms(1) Some x by (auto simp: replacePrivateConfig_def split: if_splits)
      then show ?thesis ..
    next
      case ok: False
      show ?thesis
      proof (cases "\<exists>info. ?r = Inr (before, info) \<and> os_SameFile original info \<and> \<not> bad SysRename")
        case True
        then have "fs' = rename_node name path (?fs1 uid gid)"
          using assms(1) Some x ok by (auto simp: replacePrivateConfig_def Let_def split: if_splits)
        then have ?published using True by blast
        then show ?thesis by blast
      next
        case False
        then have "fs' = mdel name (?fs1 uid gid) \<and> res \<noteq> Inr ()"
          using assms(1) Some x ok by (auto simp: replacePrivateConfig_def Let_def split: sum.splits if_splits)
        then show ?thesis by blast
      qed
    qed
  qed
  have d: "\<exists>n. map_of (meddle fs) path = Some n \<and> fn_Data n = before \<and> fn_Info n = info"
    if "readPrivateFile (open_node bad (?fs1 uid gid) path) configSizeLimit (- 1) = Inr (before, info)" for uid gid info
    using read_private_node [OF that] assms(2) by auto
  have t: "map_of (rename_node name path (?fs1 uid gid)) = (map_of (meddle fs)) (path \<mapsto> temp_node uid gid inode replacement)" for uid gid
    using assms(2,3) by (auto simp: rename_node_def fun_eq_iff)
  show "map_of fs' name = None" using c by (elim disjE exE conjE) (use assms(2-4) t in auto)
  show "res = Inr () \<Longrightarrow> \<exists>n f. map_of (meddle fs) path = Some n \<and> fn_Data n = before \<and> os_SameFile original (fn_Info n)
      \<and> map_of fs' path = Some f \<and> fn_Data f = replacement \<and> privateFile (fn_Info f)"
    using c by (elim disjE exE conjE) (use d t in \<open>force simp: temp_node_def privateFile_def\<close>)+
  show "map_of fs' path = map_of fs path \<or> map_of fs' path = map_of (meddle fs) path
      \<or> (\<exists>n f. map_of (meddle fs) path = Some n \<and> fn_Data n = before \<and> map_of fs' path = Some f \<and> fn_Data f = replacement)"
    using c by (elim disjE exE conjE) (use assms(2) d t in \<open>force simp: temp_node_def\<close>)+
qed

text \<open>A socket the broker listens on is one the client accepts.\<close>

lemma listen_verified:
  assumes "listenControlSocket bad dial euid inode path owner fs = (Inr (), fs')" "filepath_Dir path \<noteq> path"
  shows "verifyControlSocket fs' path owner = Inr ()"
proof -
  obtain fs1 dir where f: "fs' = mput path (socket_node owner dir inode) fs1" "fs1 = fs \<or> fs1 = mdel path fs"
    "\<exists>i. verifyControlDirectory fs path owner = Inr i"
    using assms(1) by (auto simp: listenControlSocket_def bind_socket_def split: option.splits sum.splits if_splits)
  have "verifyControlDirectory fs' path owner = verifyControlDirectory fs path owner"
    using f(1,2) assms(2) by (auto simp: verifyControlDirectory_def)
  then show ?thesis using f(1,3) by (auto simp: verifyControlSocket_def socket_node_def)
qed

text \<open>
  C39: what was saved can be opened again. Let any history of updates, evaluations and deliveries lead to a state, in which
  no region observed has a name of more than 229 characters; when that state is saved successfully, whatever other
  processes did before, then opening the operations file later, in its private directory and with the lock granted,
  accepts it and yields exactly the state, path and digest this process holds.
\<close>
theorem saved_alerts_reopen:
  assumes codec: "decode (encode s) = Some s"
    and run: "alert_run net k ops ([], new_operations) = (obs, s)" "\<forall>(t, op)\<in>set ops. short_op op"
    and saved: "save_file bad meddle sha encode euid gid name inode s (o1, fs) = (Inr (), o2, fs')" "canonical_path (oo_path o1)"
    and directory: "map_of fs' (filepath_Dir (oo_path o1)) = Some d" "fi_Kind (fn_Info d) = Directory" "fi_Perm (fn_Info d) = 0x1C0"
      "fi_Ident (fn_Info d) = Some (euid, i)"
    and later: "lock_ok euid l" "\<not> bad' SysOpen" "\<not> bad' SysStat" "\<not> bad' SysRead"
  shows "openOperations bad' net sha encode decode euid (Some l) inode' (oo_path o1) fs' = (Inr o2, fs')"
proof -
  have path: "oo_path o1 \<noteq> ''''" using saved(2) by (auto simp: canonical_path_def IsAbs_def HasPrefix_def)
  obtain out where out: "save out s (oo_state o1) = (Inr (), oo_state o2)" "oo_path o2 = oo_path o1"
    using save_file_refines [OF saved(1)] by blast
  have enc: "op_encodable s" and st: "oo_state o2 = s" using out(1) by (auto simp: save_def fail_def split: if_splits save_outcome.splits)
  have "oo_hash o2 = sha (encode s) \<and> (\<exists>f. map_of fs' (oo_path o1) = Some f \<and> fn_Data f = encode s \<and> plain_private euid operationsLimit f)"
    using saved(1) path enc plain_temp [of "encode s" operationsLimit euid gid inode]
    by (auto simp: save_file_def Let_def fail_def temp_node_def split: sum.splits if_splits)
  then obtain f where f: "oo_hash o2 = sha (encode s)" "map_of fs' (oo_path o1) = Some f" "fn_Data f = encode s" "plain_private euid operationsLimit f"
    by blast
  have "reopen_inv net s" using reopen_run [OF reopen_new run(2,1)] .
  note ok = reopen_loadable [OF this] and rd = read_plain [where bad = bad', OF f(2,4) later(2-4)]
  have "load_operations net sha decode euid (oo_path o1) (open_node bad' fs' (oo_path o1)) = Inr o2"
    unfolding load_operations_def rd using ok codec f(1,3) st out(2) by simp
  then show ?thesis using saved(2) directory later(1) f(2) by (simp add: openOperations_def)
qed

text \<open>
  The bound on the names is needed: a region may be configured with a name of up to 253 characters, the condition of its
  capacity is then stored under a longer key than \<^verbatim>\<open>openOperations\<close> accepts, and the console no longer starts.
\<close>

definition one_region :: "string \<Rightarrow> (string \<times> json) list" where
  "one_region name = [(''regions'', VList [VObj [(''name'', VText name), (''ok'', VBool True)]])]"

lemma long_region_refused:
  assumes "dnsName name" "length name > 229"
  shows "\<not> conditions_ok (alert_exec net 100 (Evaluate Stored (one_region name)) new_operations)"
  using assms
  by (simp add: alert_exec_def evaluate_begin_def cloneOperations_def one_region_def alertSamples_def vfield_def textField_def capacity_sample_def
      new_operations_def defaultAlerts_def op_encodable_def evaluate_next_def mark_missing_def evaluate_sample_def breach_def
      new_condition_def observe_def obs_gap_def Let_def List.map_filter_simps save_def conditions_ok_def stale_def wants_notice_def last_n_def
      mfilter_def mput_def mkeys_def)

lemma long_name_valid: "dnsName (replicate 253 (CHR ''a'')) \<and> \<not> has_dots (replicate 253 (CHR ''a''))"
  by (auto simp: dnsName_def has_dots_def lower_alnum_def list_all_iff list_ex_iff dest: set_zip_leftD)

definition ex_dir :: file_node where
  "ex_dir = \<lparr>fn_Info = \<lparr>fi_Kind = Directory, fi_Perm = 0x1C0, fi_SetID = False, fi_Ident = Some (7, 7, 2), fi_Size = 0, fi_File = 1\<rparr>, fn_Data = ''''\<rparr>"

definition ex_disk :: fsys where
  "ex_disk = [(''/o'', ex_dir), (''/o/s'', temp_node 7 7 2 ''old'')]"

definition ex_ops :: operations where
  "ex_ops = \<lparr>oo_path = ''/o/s'', oo_state = new_operations, oo_hash = ''old''\<rparr>"

theorem saved_alerts_reopen_witness:
  "\<exists>o2 fs'. save_file (\<lambda>_. False) id id (\<lambda>_. ''new'') 7 7 ''/o/t'' 3 (snd ex_alerts) (ex_ops, ex_disk) = (Inr (), o2, fs')
    \<and> openOperations (\<lambda>_. False) ex_net id (\<lambda>_. ''new'') (\<lambda>_. Some (snd ex_alerts)) 7
        (Some (fn_Info (temp_node 7 7 4 ''''), True)) 5 ''/o/s'' fs' = (Inr o2, fs')"
proof -
  let ?s = "snd ex_alerts"
  have run: "alert_run ex_net ex_key ex_evals ([], new_operations) = (fst ex_alerts, ?s)" by (simp add: ex_alerts_def)
  have short: "\<forall>(t, op)\<in>set ex_evals. short_op op"
    by (simp add: ex_evals_def short_op_def short_regions_def ex_snapshot_def vfield_def textField_def List.map_filter_simps)
  have enc: "op_encodable ?s" by code_simp
  have rd: "readPrivateFile (open_node (\<lambda>_. False) ex_disk ''/o/s'') operationsLimit 7 = Inr (''old'', fn_Info (temp_node 7 7 2 ''old''))" by code_simp
  obtain o2 fs' where sv: "save_file (\<lambda>_. False) id id (\<lambda>_. ''new'') 7 7 ''/o/t'' 3 ?s (ex_ops, ex_disk) = (Inr (), o2, fs')"
      "fs' = mput ''/o/s'' (temp_node 7 7 3 ''new'') ex_disk"
    using enc rd by (simp add: save_file_def ex_ops_def operationsLimit_def Let_def)
  have dir: "filepath_Dir ''/o/s'' = ''/o''" "canonical_path ''/o/s''" by code_simp+
  have lock: "lock_ok 7 (fn_Info (temp_node 7 7 4 ''''), True)" by code_simp
  have "openOperations (\<lambda>_. False) ex_net id (\<lambda>_. ''new'') (\<lambda>_. Some ?s) 7 (Some (fn_Info (temp_node 7 7 4 ''''), True)) 5 (oo_path ex_ops) fs' = (Inr o2, fs')"
    by (rule saved_alerts_reopen [OF refl run short sv(1) _ _ _ _ _ lock, where d = ex_dir and i = "(7, 2)"])
      (simp_all add: sv(2) ex_ops_def dir ex_disk_def ex_dir_def)
  then show ?thesis using sv(1) by (auto simp: ex_ops_def)
qed

end
