(* ===== verification/Fleet_Env.thy ===== *)
theory Fleet_Env
  imports Fleet_Config Agones_Client Fleet_Token
begin

text \<open>
  The configuration as it is read from the process environment: \<^verbatim>\<open>FromEnv\<close> and \<^verbatim>\<open>parseServerEnvironment\<close> of
  \<^verbatim>\<open>pkg/fleetmanager/config.go\<close> and \<^verbatim>\<open>FromEnv\<close> of \<^verbatim>\<open>internal/agones/config.go\<close>. \<open>getenv\<close> is the environment, where an
  absent variable is the empty text. What is read always satisfies the bounds the manager's properties assume.
\<close>

definition env_text :: "(string \<Rightarrow> string) \<Rightarrow> string \<Rightarrow> string \<Rightarrow> string" where
  "env_text getenv key fallback = (let s = trim_space (getenv key) in if s \<noteq> '''' then s else fallback)"

subsection \<open>The cluster\<close>

text \<open>\<open>unmarshal\<close> decodes an object of texts: \<open>None\<close> for an error, \<open>Some None\<close> for a null.\<close>

definition KConfig_FromEnv ::
  "net_env \<Rightarrow> (string \<Rightarrow> string gomap option option) \<Rightarrow> (string \<Rightarrow> string) \<Rightarrow> string \<Rightarrow> string \<Rightarrow> bool \<Rightarrow> KConfig result" where
  "KConfig_FromEnv net unmarshal getenv deployment port_name is_local =
     (case Atoi (env_text getenv ''AGONES_GAME_PORT'' ''7770'') of
        None \<Rightarrow> Inl (Errorf ''AGONES_GAME_PORT must be an integer'')
      | Some port \<Rightarrow>
          (let raw = getenv ''AGONES_NODE_SELECTOR_JSON'';
               selector = (if raw = '''' then Some [] else if length raw > 4096 then None else case unmarshal raw of Some (Some m) \<Rightarrow> Some m | _ \<Rightarrow> None)
           in case selector of
                None \<Rightarrow> Inl (Errorf ''AGONES_NODE_SELECTOR_JSON must be a small string map'')
              | Some sel \<Rightarrow>
                  (let c = \<lparr>k_APIURL = env_text getenv ''AGONES_KUBERNETES_API_URL'' ''https://kubernetes.default.svc'',
                       k_TokenFile = env_text getenv ''AGONES_KUBERNETES_TOKEN_FILE'' ''/var/run/secrets/kubernetes.io/serviceaccount/token'',
                       k_CAFile = env_text getenv ''AGONES_KUBERNETES_CA_FILE'' ''/var/run/secrets/kubernetes.io/serviceaccount/ca.crt'',
                       k_Namespace = env_text getenv ''AGONES_NAMESPACE'' ''agones-games'', k_Pool = env_text getenv ''AGONES_POOL'' ''default'',
                       k_DeploymentID = deployment, k_GameImage = getenv ''AGONES_GAME_IMAGE'', k_PortName = port_name, k_GamePort = port,
                       k_CPURequest = env_text getenv ''AGONES_CPU_REQUEST'' ''500m'', k_CPULimit = getenv ''AGONES_CPU_LIMIT'',
                       k_MemoryRequest = env_text getenv ''AGONES_MEMORY_REQUEST'' ''256Mi'', k_MemoryLimit = env_text getenv ''AGONES_MEMORY_LIMIT'' ''1Gi'',
                       k_NodeSelector = sel, k_ImagePullSecret = getenv ''AGONES_IMAGE_PULL_SECRET'', k_Local = is_local\<rparr>
                   in case KConfig_Validate net c of Inl e \<Rightarrow> Inl e | Inr _ \<Rightarrow> Inr c)))"

subsection \<open>The environment of the game servers\<close>

text \<open>The size limit compared as an integer, which evaluates in few steps.\<close>

lemma validateServerEnvironment_code [code]:
  "validateServerEnvironment values =
     (if length values > 64 then Inl (Errorf ''AGONES_FLEET_SERVER_ENV_JSON permits at most 64 variables'')
      else case first_error values of
        Some e \<Rightarrow> Inl e
      | None \<Rightarrow>
          if int (json_map_len values) > 32768 then Inl (Errorf ''AGONES_FLEET_SERVER_ENV_JSON encoded size must not exceed 32 KiB'')
          else Inr ())"
  by (simp add: validateServerEnvironment_def split: option.splits)

text \<open>
  What the token decoder meets: no object, or its members in order, then its end. A member has no name when its token
  is broken; its value is absent when it cannot be decoded, and not a text otherwise.
\<close>

datatype member_value = BadValue | OtherValue | TextValue string
datatype object_end = EndBroken | EndTrailing | EndClean
datatype object_text = NotObject | Members "(string option \<times> member_value) list" object_end

fun read_members :: "string gomap \<Rightarrow> (string option \<times> member_value) list \<Rightarrow> string gomap result" where
  "read_members values [] = Inr values"
| "read_members values ((None, v) # ms) = Inl (Errorf ''AGONES_FLEET_SERVER_ENV_JSON contains invalid JSON'')"
| "read_members values ((Some name, v) # ms) =
     (if map_of values name \<noteq> None then Inl (Errorf ''AGONES_FLEET_SERVER_ENV_JSON contains duplicate variable names'')
      else case v of
        BadValue \<Rightarrow> Inl (Errorf ''AGONES_FLEET_SERVER_ENV_JSON contains invalid JSON'')
      | OtherValue \<Rightarrow> Inl (Errorf ''AGONES_FLEET_SERVER_ENV_JSON values must be strings'')
      | TextValue txt \<Rightarrow>
          (let values' = mput name txt values
           in if length values' > 64 then Inl (Errorf ''AGONES_FLEET_SERVER_ENV_JSON permits at most 64 variables'')
              else read_members values' ms))"

definition parseServerEnvironment :: "(string \<Rightarrow> object_text) \<Rightarrow> string \<Rightarrow> string gomap result" where
  "parseServerEnvironment tokens raw =
     (if int (length raw) > 32768 \<or> \<not> utf8_valid raw then Inl (Errorf ''AGONES_FLEET_SERVER_ENV_JSON must be valid UTF-8 within 32 KiB'')
      else if trim_space raw = '''' then Inr []
      else case tokens raw of
        NotObject \<Rightarrow> Inl (Errorf ''AGONES_FLEET_SERVER_ENV_JSON must be an object of string values'')
      | Members ms fin \<Rightarrow>
          bindE (read_members [] ms) (\<lambda>values.
            case fin of
              EndBroken \<Rightarrow> Inl (Errorf ''AGONES_FLEET_SERVER_ENV_JSON contains invalid JSON'')
            | EndTrailing \<Rightarrow> Inl (Errorf ''AGONES_FLEET_SERVER_ENV_JSON contains trailing data'')
            | EndClean \<Rightarrow> bindE (validateServerEnvironment values) (\<lambda>_. Inr values)))"

subsection \<open>The manager\<close>

definition int_settings :: "(string \<times> (int \<Rightarrow> Config \<Rightarrow> Config)) list" where
  "int_settings = [(''AGONES_FLEET_MAX_ROOMS'', \<lambda>n c. c\<lparr>cfg_MaxRooms := n\<rparr>), (''AGONES_FLEET_MIN_INSTANCES'', \<lambda>n c. c\<lparr>cfg_MinInstances := n\<rparr>),
     (''AGONES_FLEET_MAX_INSTANCES'', \<lambda>n c. c\<lparr>cfg_MaxInstances := n\<rparr>)]"

definition time_settings :: "(string \<times> (int \<Rightarrow> Config \<Rightarrow> Config)) list" where
  "time_settings = [(''AGONES_FLEET_IDLE_SECONDS'', \<lambda>n c. c\<lparr>cfg_IdleSeconds := n\<rparr>), (''AGONES_FLEET_LAUNCH_TIMEOUT'', \<lambda>n c. c\<lparr>cfg_LaunchTimeout := n\<rparr>),
     (''AGONES_FLEET_ALLOCATION_TIMEOUT'', \<lambda>n c. c\<lparr>cfg_AllocationTimeout := n\<rparr>),
     (''AGONES_FLEET_PROVIDER_POLL_SECONDS'', \<lambda>n c. c\<lparr>cfg_ProviderPollSeconds := n\<rparr>),
     (''AGONES_FLEET_MIN_LIFETIME_FOR_ADMISSION_SECONDS'', \<lambda>n c. c\<lparr>cfg_MinLifetimeForAdmission := n\<rparr>)]"

text \<open>Both loops range over Go maps: the order decides only which of several errors is reported.\<close>

definition read_int :: "(string \<Rightarrow> string) \<Rightarrow> string \<Rightarrow> Config \<Rightarrow> Config result" where
  "read_int getenv key c =
     (if getenv key = '''' \<and> key = ''AGONES_FLEET_MIN_INSTANCES'' then Inr c
      else case Atoi (getenv key) of
        None \<Rightarrow> Inl (Errorf (key @ '' must be an integer''))
      | Some n \<Rightarrow> Inr (case map_of int_settings key of None \<Rightarrow> c | Some f \<Rightarrow> f n c))"

definition read_time :: "(string \<Rightarrow> string) \<Rightarrow> string \<Rightarrow> Config \<Rightarrow> Config result" where
  "read_time getenv key c =
     (if getenv key = '''' then Inr c
      else case Atoi (getenv key) of
        None \<Rightarrow> Inl (Errorf (''invalid '' @ key))
      | Some n \<Rightarrow> Inr (case map_of time_settings key of None \<Rightarrow> c | Some f \<Rightarrow> f n c))"

definition blank_kubernetes :: KConfig where
  "blank_kubernetes = \<lparr>k_APIURL = '''', k_TokenFile = '''', k_CAFile = '''', k_Namespace = '''', k_Pool = '''', k_DeploymentID = '''', k_GameImage = '''',
     k_PortName = '''', k_GamePort = 0, k_CPURequest = '''', k_CPULimit = '''', k_MemoryRequest = '''', k_MemoryLimit = '''', k_NodeSelector = [],
     k_ImagePullSecret = '''', k_Local = False\<rparr>"

definition env_config :: "(string \<Rightarrow> string) \<Rightarrow> Config" where
  "env_config getenv =
     \<lparr>cfg_DeploymentID = env_text getenv ''AGONES_FLEET_DEPLOYMENT_ID'' ''default'', cfg_DatabaseURL = getenv ''AGONES_FLEET_DATABASE_URL'',
      cfg_ControlURL = getenv ''AGONES_FLEET_CONTROL_URL'', cfg_BuildHash = getenv ''AGONES_FLEET_BUILD_HASH'', cfg_Region = getenv ''AGONES_FLEET_REGION'',
      cfg_PortName = env_text getenv ''AGONES_FLEET_PORT_NAME'' ''game'', cfg_MaxRooms = 0, cfg_MinInstances = 0, cfg_MaxInstances = 0,
      cfg_Kubernetes = blank_kubernetes, cfg_AdminToken = getenv ''AGONES_FLEET_ADMIN_TOKEN'', cfg_SigningKey = '''', cfg_ServerEnvironment = [],
      cfg_AllowHTTP = (getenv ''AGONES_FLEET_ALLOW_HTTP'' = ''true''), cfg_Mode = env_text getenv ''AGONES_FLEET_MODE'' ''production'',
      cfg_Interval = 1000000000, cfg_LaunchTimeout = 120, cfg_AllocationTimeout = 180, cfg_PrepareTimeout = 20, cfg_ReservationTTL = 60,
      cfg_ReconnectSeconds = 90, cfg_HeartbeatTimeout = 8, cfg_LostTimeout = 60, cfg_IdleSeconds = 600, cfg_ProviderPollSeconds = 10,
      cfg_MinLifetimeForAdmission = 1800, cfg_MaxQueueAgeSeconds = Fin 2\<rparr>"

definition Config_FromEnv ::
  "net_env \<Rightarrow> range_fn \<Rightarrow> (string \<Rightarrow> object_text) \<Rightarrow> (string \<Rightarrow> string gomap option option) \<Rightarrow> (string \<Rightarrow> string) \<Rightarrow> Config result" where
  "Config_FromEnv net ro tokens unmarshal getenv =
     (if getenv ''AGONES_FLEET_DATABASE_URL'' = '''' then Inl (Errorf ''AGONES_FLEET_DATABASE_URL is required'')
      else bindE (foldE (read_int getenv) (ro 20 (map fst int_settings)) (env_config getenv)) (\<lambda>c1.
           bindE (foldE (read_time getenv) (ro 21 (map fst time_settings)) c1) (\<lambda>c2.
           case b64_decode (getenv ''AGONES_FLEET_SIGNING_KEY'') of
             None \<Rightarrow> Inl (Errorf ''AGONES_FLEET_SIGNING_KEY must be base64url'')
           | Some key \<Rightarrow>
               bindE (parseServerEnvironment tokens (getenv ''AGONES_FLEET_SERVER_ENV_JSON'')) (\<lambda>senv.
               bindE (KConfig_FromEnv net unmarshal getenv (cfg_DeploymentID c2) (cfg_PortName c2) (cfg_Mode c2 = ''local'')) (\<lambda>k.
               let c = c2\<lparr>cfg_SigningKey := key, cfg_ServerEnvironment := senv, cfg_Kubernetes := k\<rparr>
               in bindE (Config_Validate net c) (\<lambda>_. Inr c))))))"

subsection \<open>What is read is valid\<close>

theorem FromEnv_bounds:
  assumes "Config_FromEnv net ro tokens unmarshal getenv = Inr c"
  shows "Config_Validate net c = Inr ()" "config_bounds c"
proof -
  show v: "Config_Validate net c = Inr ()"
    using assms by (auto simp: Config_FromEnv_def bindE_eq_Inr Let_def split: if_splits option.splits)
  then show "config_bounds c" by (rule Config_Validate_bounds)
qed

lemma read_members_wf:
  "mwf vs \<Longrightarrow> read_members vs ms = Inr vs' \<Longrightarrow> mwf vs' \<and> (length vs \<le> 64 \<longrightarrow> length vs' \<le> 64)"
  by (induction vs ms rule: read_members.induct) (auto simp: Let_def split: if_splits member_value.splits)

end
