(* ===== verification/Fleet_Setup.thy ===== *)
theory Fleet_Setup
  imports Fleet_Env Fleet_Nakama Fleet_Http Fleet_Store Agones_Client Fleet_System
begin

text \<open>
  How a fleet manager comes up and goes down: \<^verbatim>\<open>New\<close>, \<^verbatim>\<open>Init\<close> and \<^verbatim>\<open>Run\<close> of \<^verbatim>\<open>pkg/fleetmanager/manager.go\<close>, \<^verbatim>\<open>Register\<close> and
  \<^verbatim>\<open>registerPlayerHooks\<close> of \<^verbatim>\<open>nakama.go\<close>, \<^verbatim>\<open>NewFromEnv\<close> and \<^verbatim>\<open>RegisterFromEnv\<close> of \<^verbatim>\<open>setup.go\<close>, and \<^verbatim>\<open>Profile\<close> of
  \<^verbatim>\<open>internal/agones/config.go\<close>. The Nakama server, the JSON encoder and the digests are parameters. The laws: opening a
  namespace is the step \<open>c_new\<close> of the system, the registered paths are those of the handler, the database is closed exactly
  when the start fails or the loop ends, and the loop gives up its lease.
\<close>

subsection \<open>The fingerprint of a configuration\<close>

datatype profile_value = PText string | PNum int | PMap "string gomap" | PList "profile_value list"

definition KConfig_Profile :: "KConfig \<Rightarrow> profile_value" where
  "KConfig_Profile c =
     PList [PText (k_Namespace c), PText (k_Pool c), PText (k_GameImage c), PNum (k_GamePort c), PText (k_PortName c), PText (k_CPURequest c),
            PText (k_CPULimit c), PText (k_MemoryRequest c), PText (k_MemoryLimit c), PMap (k_NodeSelector c), PText (k_ImagePullSecret c)]"

definition profile_parts :: "mac_fn \<Rightarrow> (profile_value \<Rightarrow> string) \<Rightarrow> Config \<Rightarrow> profile_value list" where
  "profile_parts mac marshal cfg =
     [PText (cfg_BuildHash cfg), PText (cfg_Region cfg), PNum (cfg_MaxRooms cfg), PText (cfg_PortName cfg), KConfig_Profile (cfg_Kubernetes cfg),
      PText (encoded (derive mac (cfg_SigningKey cfg) ''profile''))]
     @ (if cfg_ServerEnvironment cfg \<noteq> []
        then [PText (encoded (derive mac (cfg_SigningKey cfg) (''server-environment:'' @ marshal (PMap (cfg_ServerEnvironment cfg)))))]
        else [])"

definition fleet_profile :: "mac_fn \<Rightarrow> (profile_value \<Rightarrow> string) \<Rightarrow> (string \<Rightarrow> string) \<Rightarrow> Config \<Rightarrow> string" where
  "fleet_profile mac marshal sha256_hex cfg = sha256_hex (marshal (PList (profile_parts mac marshal cfg)))"

subsection \<open>The manager\<close>

text \<open>The callbacks are part of the transaction record \<open>txn\<close>; \<open>mg_Initialized\<close>: whether \<^verbatim>\<open>Init\<close> has installed its handler.\<close>

record Manager =
  mg_cfg :: Config
  mg_provider :: Client
  mg_owner :: string
  mg_Initialized :: bool
  mg_onStop :: bool

definition New ::
  "net_env \<Rightarrow> mac_fn \<Rightarrow> (profile_value \<Rightarrow> string) \<Rightarrow> (string \<Rightarrow> string) \<Rightarrow> string \<Rightarrow> pg_env \<Rightarrow> Config \<Rightarrow> Client option \<Rightarrow> Postgres option
     \<Rightarrow> Manager result \<times> Postgres option" where
  "New net mac marshal sha256_hex owner env cfg0 provider store =
     (case Config_Validate net cfg0 of
        Inl e \<Rightarrow> (Inl e, store)
      | Inr _ \<Rightarrow>
          (case (store, provider) of
             (Some p, Some cl) \<Rightarrow>
               (let cfg = Config_snapshot cfg0;
                    profile = fleet_profile mac marshal sha256_hex cfg
                in case Postgres_Update env (\<lambda>s. bindE (NewManager cfg profile s) (\<lambda>s'. Inr (s', ()))) p of
                     (Inl e, p') \<Rightarrow> (Inl e, Some p')
                   | (Inr _, p') \<Rightarrow>
                       (Inr \<lparr>mg_cfg = cfg, mg_provider = cl, mg_owner = owner, mg_Initialized = False, mg_onStop = False\<rparr>, Some p'))
           | _ \<Rightarrow> (Inl (Errorf ''store and provider are required''), store)))"

definition Init :: "Manager \<Rightarrow> Manager" where
  "Init m = m\<lparr>mg_Initialized := True\<rparr>"

text \<open>
  One round of \<^verbatim>\<open>Run\<close>: what the tick does to the store and its error, whether the context had ended when the error was
  looked at, and whether the wait that follows ends by the context.
\<close>

record run_round =
  rr_tick :: "Postgres \<Rightarrow> fleet_error option \<times> Postgres"
  rr_ended :: bool
  rr_stop :: bool

text \<open>The errors handed to \<open>onError\<close>, the store afterwards and whether \<open>onStop\<close> was called; \<open>None\<close> while the loop still runs.\<close>

fun Run :: "pg_env \<Rightarrow> Manager \<Rightarrow> run_round list \<Rightarrow> Postgres \<Rightarrow> (fleet_error list \<times> Postgres \<times> bool) option" where
  "Run env m [] p = None"
| "Run env m (r # rs) p =
     (let (err, p1) = rr_tick r p;
          errs = (case err of None \<Rightarrow> [] | Some e \<Rightarrow> if rr_ended r then [] else [e])
      in if rr_stop r
         then Some (errs, snd (Postgres_Update env (\<lambda>s. Inr (release_lease (mg_owner m) s, ())) p1), mg_onStop m)
         else map_option (\<lambda>(es, q). (errs @ es, q)) (Run env m rs p1))"

subsection \<open>Registration\<close>

datatype rpc_call = RpcAssignment bool | RpcCancel
datatype registration =
    RegFleetManager | RegHttp string | RegBeforeRt string | RegMatchmakerMatched | RegRpc string rpc_call | RegShutdown

definition http_paths :: "string list" where
  "http_paths = [''/agones/fleet/v1/agent/bootstrap'', ''/agones/fleet/v1/agent/heartbeat'', ''/agones/fleet/v1/admin/status'',
     ''/agones/fleet/v1/admin/drain'', ''/agones/fleet/v1/admin/allocate'', ''/agones/fleet/v1/admin/retry-creation'', ''/agones/fleet/v1/admin/policy'']"

text \<open>\<open>ini\<close> is the initializer of the server: the error it answers a registration with. The first error ends the sequence.\<close>

fun register_all :: "(registration \<Rightarrow> fleet_error option) \<Rightarrow> registration list \<Rightarrow> registration list \<times> fleet_error option" where
  "register_all ini [] = ([], None)"
| "register_all ini (r # rs) =
     (case ini r of
        Some e \<Rightarrow> ([], Some e)
      | None \<Rightarrow> (let (ds, e) = register_all ini rs in (r # ds, e)))"

definition registerPlayerHooks :: "(registration \<Rightarrow> fleet_error option) \<Rightarrow> registration list \<times> fleet_error option" where
  "registerPlayerHooks ini =
     register_all ini [RegBeforeRt ''MatchmakerAdd'', RegMatchmakerMatched, RegRpc ''agones_fleet_assignment_get_v1'' (RpcAssignment False),
       RegRpc ''agones_fleet_resume_v1'' (RpcAssignment True), RegRpc ''agones_fleet_assignment_cancel_v1'' RpcCancel]"

text \<open>What was registered, and the error; without one the loop is started.\<close>

definition Register :: "(registration \<Rightarrow> fleet_error option) \<Rightarrow> registration list \<times> fleet_error option" where
  "Register ini =
     (case register_all ini (RegFleetManager # map RegHttp http_paths) of
        (ds, Some e) \<Rightarrow> (ds, Some e)
      | (ds, None) \<Rightarrow>
          (case registerPlayerHooks ini of
             (hs, Some e) \<Rightarrow> (ds @ hs, Some e)
           | (hs, None) \<Rightarrow> (let (fs, e) = register_all ini [RegShutdown] in (ds @ hs @ fs, e))))"

subsection \<open>The start\<close>

text \<open>
  What the start finds: whether the driver opens, the insert of the namespace row succeeds, the tables, the file of the
  authorities and the answers of the database to the transaction of \<open>New\<close>.
\<close>

record start_env =
  se_open :: bool
  se_insert :: bool
  se_db :: "FleetState gomap"
  se_ca :: ca_file
  se_pg :: pg_env

definition NewFromEnv ::
  "net_env \<Rightarrow> range_fn \<Rightarrow> (string \<Rightarrow> object_text) \<Rightarrow> (string \<Rightarrow> string gomap option option) \<Rightarrow> mac_fn \<Rightarrow> (profile_value \<Rightarrow> string)
     \<Rightarrow> (string \<Rightarrow> string) \<Rightarrow> (string \<Rightarrow> string) \<Rightarrow> string \<Rightarrow> start_env \<Rightarrow> (string \<Rightarrow> string) \<Rightarrow> (Manager \<times> Postgres) result \<times> nat" where
  "NewFromEnv net ro tokens unmarshal mac marshal sha256_hex hash16 owner se getenv =
     (case Config_FromEnv net ro tokens unmarshal getenv of
        Inl e \<Rightarrow> (Inl e, 0)
      | Inr cfg \<Rightarrow>
          if \<not> se_open se then (Inl (StoreFailure ''open''), 0)
          else (case NewPostgres (se_insert se) (se_db se) (cfg_DeploymentID cfg) of
                  Inl e \<Rightarrow> (Inl e, 1)
                | Inr store \<Rightarrow>
                    (case NewClient net hash16 (se_ca se) (cfg_Kubernetes cfg) of
                       Inl e \<Rightarrow> (Inl e, 1)
                     | Inr cl \<Rightarrow>
                         (case New net mac marshal sha256_hex owner (se_pg se) cfg (Some cl) (Some store) of
                            (Inr m, Some store') \<Rightarrow> (Inr (m\<lparr>mg_onStop := True\<rparr>, store'), 0)
                          | (Inl e, _) \<Rightarrow> (Inl e, 1)
                          | (Inr m, None) \<Rightarrow> (Inl NilPanic, 1)))))"

definition RegisterFromEnv ::
  "(registration \<Rightarrow> fleet_error option) \<Rightarrow> (Manager \<times> Postgres) result \<times> nat \<Rightarrow> fleet_error option \<times> nat \<times> bool" where
  "RegisterFromEnv ini r =
     (case r of
        (Inl e, closes) \<Rightarrow> (Some e, closes, False)
      | (Inr _, closes) \<Rightarrow>
          (case Register ini of
             (_, Some e) \<Rightarrow> (Some e, closes + 1, False)
           | (_, None) \<Rightarrow> (None, closes, True)))"

subsection \<open>Laws\<close>

text \<open>The registrations made are those before the first refusal.\<close>

lemma register_all_takes:
  "register_all ini rs = (ds, e) \<Longrightarrow> ds = takeWhile (\<lambda>r. ini r = None) rs \<and> (e = None \<longleftrightarrow> (\<forall>r \<in> set rs. ini r = None))"
proof (induction rs arbitrary: ds e)
  case (Cons r rs)
  obtain ds' e' where s: "register_all ini rs = (ds', e')" by force
  show ?case
  proof (cases "ini r")
    case None
    then show ?thesis using Cons.IH [OF s] Cons.prems s by auto
  next
    case (Some x)
    then show ?thesis using Cons.prems by (simp add: eq_commute [of "[]"] eq_commute [of _ e])
  qed
qed simp

lemma Register_complete:
  assumes "Register ini = (ds, None)"
  shows "set ds = {RegFleetManager, RegBeforeRt ''MatchmakerAdd'', RegMatchmakerMatched, RegRpc ''agones_fleet_assignment_get_v1'' (RpcAssignment False),
      RegRpc ''agones_fleet_resume_v1'' (RpcAssignment True), RegRpc ''agones_fleet_assignment_cancel_v1'' RpcCancel, RegShutdown} \<union> RegHttp ` set http_paths"
  using assms
  by (auto simp: Register_def registerPlayerHooks_def http_paths_def split: option.splits prod.splits)

text \<open>The server exposes every path the handler knows; in local mode it knows every exposed path.\<close>

lemma registered_routes:
  "snd ` fst ` set (routes cfg) \<subseteq> set http_paths" "cfg_Mode cfg = ''local'' \<Longrightarrow> snd ` fst ` set (routes cfg) = set http_paths"
  by (auto simp: routes_def http_paths_def)

text \<open>A namespace that was opened carries the fingerprint and only workers of the build and region; opening is a step of the system.\<close>

lemma New_opens:
  assumes "New net mac marshal sha256_hex owner env cfg (Some cl) (Some p) = (Inr m, Some p')" "pg_good p"
  shows "mg_cfg m = cfg" "Config_Validate net cfg = Inr ()" "config_bounds cfg" "mg_owner m = owner"
    and "\<exists>s'. NewManager cfg (fleet_profile mac marshal sha256_hex cfg) (pg_committed p) = Inr s' \<and> pg_committed p' = bump s'"
proof -
  have v: "Config_Validate net cfg = Inr ()" using assms(1) by (auto simp: New_def split: sum.splits)
  then show "Config_Validate net cfg = Inr ()" "config_bounds cfg" by (auto intro: Config_Validate_bounds)
  show "mg_cfg m = cfg" "mg_owner m = owner" using assms(1) v by (auto simp: New_def Let_def split: prod.splits sum.splits)
  have "Postgres_Update env (\<lambda>s. bindE (NewManager cfg (fleet_profile mac marshal sha256_hex cfg) s) (\<lambda>s'. Inr (s', ()))) p = (Inr (), p')"
    using assms(1) v by (auto simp: New_def Let_def split: prod.splits sum.splits)
  from pg.success_commits [OF assms(2) this]
  show "\<exists>s'. NewManager cfg (fleet_profile mac marshal sha256_hex cfg) (pg_committed p) = Inr s' \<and> pg_committed p' = bump s'"
    by (auto simp: bindE_eq_Inr)
qed

lemma New_is_step:
  assumes "New net mac marshal sha256_hex owner env cfg (Some cl) (Some p) = (Inr m, Some p')" "pg_good p" "t_s (y_t y) = pg_committed p"
  shows "\<exists>y'. step cfg mac' cd parse_time rnd y y' \<and> t_s (y_t y') = pg_committed p'"
proof -
  obtain s' where s': "NewManager cfg (fleet_profile mac marshal sha256_hex cfg) (pg_committed p) = Inr s'" "pg_committed p' = bump s'"
    using New_opens(5) [OF assms(1,2)] by blast
  then have "client cfg mac' cd rnd (y_t y) ((y_t y)\<lparr>t_s := s'\<rparr>)" using assms(3) by (auto intro: c_new)
  then have "step cfg mac' cd parse_time rnd y (y\<lparr>y_t := commit ((y_t y)\<lparr>t_s := s'\<rparr>)\<rparr>)" by (rule s_client)
  then show ?thesis using s'(2) by (intro exI [of _ "y\<lparr>y_t := commit ((y_t y)\<lparr>t_s := s'\<rparr>)\<rparr>"]) (simp add: commit_def with_state_def)
qed

text \<open>A different fingerprint is refused and nothing is written.\<close>

lemma New_refuses_other:
  assumes "pg_good p" "s_Profile (pg_committed p) \<noteq> ''''" "s_Profile (pg_committed p) \<noteq> fleet_profile mac marshal sha256_hex cfg"
  shows "\<exists>e p'. New net mac marshal sha256_hex owner env cfg (Some cl) (Some p) = (Inl e, Some p') \<and> pg_committed p' = pg_committed p"
proof (cases "Config_Validate net cfg")
  case (Inr u)
  obtain r p' where u: "Postgres_Update env (\<lambda>s. bindE (NewManager cfg (fleet_profile mac marshal sha256_hex cfg) s) (\<lambda>s'. Inr (s', ()))) p = (r, p')"
    by force
  from pg.failure_keeps [OF assms(1) _ u] assms(2,3) obtain e where "r = Inl e" "pg_committed p' = pg_committed p"
    by (auto simp: NewManager_def)
  with u Inr show ?thesis by (auto simp: New_def Let_def)
qed (auto simp: New_def)

text \<open>A start that fails after the database was opened closes it once; one that succeeds leaves it to the loop.\<close>

lemma start_closes:
  assumes "RegisterFromEnv ini (NewFromEnv net ro tokens unmarshal mac marshal sha256_hex hash16 owner se getenv) = (e, closes, running)"
  shows "running \<longleftrightarrow> e = None" "running \<Longrightarrow> closes = 0" "closes \<le> 1"
    and "e \<noteq> None \<Longrightarrow> se_open se \<Longrightarrow> Config_FromEnv net ro tokens unmarshal getenv = Inr cfg \<Longrightarrow> closes = 1"
  using assms
  by (auto simp: RegisterFromEnv_def NewFromEnv_def split: sum.splits prod.splits option.splits if_splits)

lemma NewManager_workers:
  assumes "NewManager cfg profile s = Inr s'" "map_of (s_Workers s') k = Some w"
  shows "w_BuildHash w = cfg_BuildHash cfg" "w_Region w = cfg_Region cfg"
proof -
  obtain v where v: "map_of (s_Workers s) k = Some v" "w = upgrade_worker cfg v"
    using assms by (auto simp: NewManager_def split: if_splits)
  then have "(k, v) \<in> set (s_Workers s)" by (simp add: map_of_SomeD)
  then have "w_BuildHash v = cfg_BuildHash cfg" "w_Region v = cfg_Region cfg"
    using assms(1) by (auto simp: NewManager_def list_ex_iff split: if_splits)
  then show "w_BuildHash w = cfg_BuildHash cfg" "w_Region w = cfg_Region cfg" by (simp_all add: v(2) upgrade_worker_def)
qed

lemma NewFromEnv_opens:
  assumes "NewFromEnv net ro tokens unmarshal mac marshal sha256_hex hash16 owner se getenv = (Inr (m, p), closes)"
  shows "mg_onStop m" "config_bounds (mg_cfg m)" "s_Profile (pg_committed p) = fleet_profile mac marshal sha256_hex (mg_cfg m)"
    and "map_of (s_Workers (pg_committed p)) k = Some w \<Longrightarrow> w_BuildHash w = cfg_BuildHash (mg_cfg m) \<and> w_Region w = cfg_Region (mg_cfg m)"
proof -
  obtain cfg store cl m0 where c: "NewPostgres (se_insert se) (se_db se) (cfg_DeploymentID cfg) = Inr store"
      "New net mac marshal sha256_hex owner (se_pg se) cfg (Some cl) (Some store) = (Inr m0, Some p)" "m = m0\<lparr>mg_onStop := True\<rparr>"
    using assms by (auto simp: NewFromEnv_def split: sum.splits prod.splits option.splits if_splits)
  have g: "pg_good store" using NewPostgres_good [OF c(1)] by blast
  note o = New_opens [OF c(2) g]
  show "mg_onStop m" "config_bounds (mg_cfg m)" using c(3) o(1,3) by simp_all
  obtain s' where s': "NewManager cfg (fleet_profile mac marshal sha256_hex cfg) (pg_committed store) = Inr s'" "pg_committed p = bump s'"
    using o(5) by blast
  then show "s_Profile (pg_committed p) = fleet_profile mac marshal sha256_hex (mg_cfg m)"
    using o(1) c(3) by (auto simp: NewManager_def bump_def split: if_splits)
  show "w_BuildHash w = cfg_BuildHash (mg_cfg m) \<and> w_Region w = cfg_Region (mg_cfg m)" if "map_of (s_Workers (pg_committed p)) k = Some w"
    using NewManager_workers [OF s'(1), of k w] that s'(2) o(1) c(3) by (simp add: bump_def)
qed

text \<open>The loop returns exactly when a wait ends by the context; then it has tried to give up the lease, and the database is closed.\<close>

lemma Run_returns: "Run env m rs p \<noteq> None \<longleftrightarrow> (\<exists>r \<in> set rs. rr_stop r)"
proof (induction rs arbitrary: p)
  case (Cons r rs)
  obtain err p1 where "rr_tick r p = (err, p1)" by force
  then show ?case using Cons.IH [of p1] by (simp add: Let_def option.map_disc_iff del: not_None_eq)
qed simp

lemma Run_releases:
  "Run env m rs p = Some (errs, p', finished) \<Longrightarrow> finished = mg_onStop m
     \<and> (\<exists>q res. Postgres_Update env (\<lambda>s. Inr (release_lease (mg_owner m) s, ())) q = (res, p')
          \<and> (pg_good q \<and> res = Inr () \<longrightarrow> s_Leader (pg_committed p') \<noteq> mg_owner m \<or> s_LeaseUntil (pg_committed p') = 0))"
proof (induction rs arbitrary: p errs)
  case (Cons r rs)
  obtain err p1 where t: "rr_tick r p = (err, p1)" by force
  show ?case
  proof (cases "rr_stop r")
    case True
    obtain res q where u: "Postgres_Update env (\<lambda>s. Inr (release_lease (mg_owner m) s, ())) p1 = (res, q)" by force
    have "s_Leader (pg_committed q) \<noteq> mg_owner m \<or> s_LeaseUntil (pg_committed q) = 0" if "pg_good p1" "res = Inr ()"
      using pg.success_commits [OF that(1) u [unfolded that(2)]] by (auto simp: bump_def release_lease_def split: if_splits)
    then show ?thesis using Cons.prems t True u by (auto simp: Let_def)
  next
    case False
    then obtain es where "Run env m rs p1 = Some (es, p', finished)" using Cons.prems t by (auto simp: Let_def)
    then show ?thesis by (rule Cons.IH)
  qed
qed simp

subsection \<open>A start is all or nothing\<close>


text \<open>A concrete start, in local mode on an empty database, with a server that accepts or refuses the last registration.\<close>

definition up_net :: net_env where
  "up_net = \<lparr>url_Parse = (\<lambda>s. Some \<lparr>u_Scheme = ''https'', u_Host = ''h'', u_Hostname = ''h'', u_HasUser = False, u_Opaque = '''', u_RawQuery = '''',
     u_ForceQuery = False, u_Port = '''', u_Fragment = '''', u_RawPath = '''', u_Path = ''''\<rparr>), ip_loopback = (\<lambda>_. None)\<rparr>"

definition up_vars :: "(string \<times> string) list" where
  "up_vars = [(''AGONES_FLEET_DATABASE_URL'', ''db''), (''AGONES_FLEET_CONTROL_URL'', ''https://h''), (''AGONES_FLEET_BUILD_HASH'', ''b1''),
     (''AGONES_FLEET_REGION'', ''eu''), (''AGONES_FLEET_ADMIN_TOKEN'', replicate 32 (CHR ''a'')), (''AGONES_FLEET_SIGNING_KEY'', replicate 43 (CHR ''A'')),
     (''AGONES_FLEET_MODE'', ''local''), (''AGONES_GAME_IMAGE'', ''game:1''), (''AGONES_FLEET_MAX_ROOMS'', ''2''), (''AGONES_FLEET_MAX_INSTANCES'', ''3'')]"

definition up_env :: start_env where
  "up_env = \<lparr>se_open = True, se_insert = True, se_db = [], se_ca = CAPool,
     se_pg = \<lparr>pe_begin_ok = True, pe_select_ok = True, pe_decode_ok = True, pe_exec_ok = True, pe_commit = CommitOk, pe_size = (\<lambda>_. 0)\<rparr>\<rparr>"

definition up_start :: "(Manager \<times> Postgres) result \<times> nat" where
  "up_start = NewFromEnv up_net (\<lambda>_ ks. ks) (\<lambda>_. NotObject) (\<lambda>_. None) (\<lambda>k v. k) (\<lambda>_. ''profile'') id id ''A'' up_env
     (\<lambda>k. case map_of up_vars k of None \<Rightarrow> '''' | Some v \<Rightarrow> v)"

lemma fresh_opens:
  assumes "Config_FromEnv net ro tokens unmarshal getenv = Inr cfg"
  shows "\<exists>m p. NewFromEnv net ro tokens unmarshal mac marshal sha256_hex hash16 owner up_env getenv = (Inr (m, p), 0)"
proof -
  have v: "Config_Validate net cfg = Inr ()" by (rule FromEnv_bounds(1) [OF assms])
  have d: "cfg_DeploymentID cfg \<noteq> ''''" and k: "KConfig_Validate net (cfg_Kubernetes cfg) = Inr ()"
    using v by (auto simp: Config_Validate_def split: if_splits option.splits sum.splits)
  obtain p where p: "NewPostgres True [] (cfg_DeploymentID cfg) = Inr p" "pg_DB p = [(pg_Namespace p, NewState)]"
    using d by (simp add: NewPostgres_def mput_def)
  obtain cl where c: "NewClient net hash16 CAPool (cfg_Kubernetes cfg) = Inr cl" using k by (simp add: NewClient_def)
  have "\<exists>m p'. New net mac marshal sha256_hex owner (se_pg up_env) cfg (Some cl) (Some p) = (Inr m, Some p')"
    using p(2) by (simp add: New_def v Let_def Postgres_Update_def Postgres_View_def up_env_def NewManager_def NewState_def encodable_def mmap_def)
  then show ?thesis by (auto simp: NewFromEnv_def assms p(1) c up_env_def)
qed

lemma up_config: "\<not> isl (Config_FromEnv up_net (\<lambda>_ ks. ks) (\<lambda>_. NotObject) (\<lambda>_. None) (\<lambda>k. case map_of up_vars k of None \<Rightarrow> '''' | Some v \<Rightarrow> v))"
  by code_simp

lemma up_runs:
  "RegisterFromEnv (\<lambda>_. None) up_start = (None, 0, True)"
  "RegisterFromEnv (\<lambda>r. if r = RegShutdown then Some CtxDone else None) up_start = (Some CtxDone, 1, False)"
proof -
  obtain m p where u: "up_start = (Inr (m, p), 0)"
    using up_config fresh_opens unfolding up_start_def by (metis isl_def sum.collapse(2))
  show "RegisterFromEnv (\<lambda>_. None) up_start = (None, 0, True)"
    "RegisterFromEnv (\<lambda>r. if r = RegShutdown then Some CtxDone else None) up_start = (Some CtxDone, 1, False)"
    by (simp_all add: u RegisterFromEnv_def Register_def registerPlayerHooks_def http_paths_def)
qed


end
