(* ===== verification/Console_Start.thy ===== *)
theory Console_Start
  imports Console_Files Console_Server
begin

text \<open>
  How the console is put together: \<^verbatim>\<open>NewServer\<close> of \<^verbatim>\<open>http.go\<close>, \<^verbatim>\<open>newEnrollmentClient\<close>, the whole of
  \<^verbatim>\<open>operations.evaluate\<close> with its delivery and the observer of \<^verbatim>\<open>operations_loop.go\<close>, the alerts of the
  data source, and the start of \<^verbatim>\<open>cmd/fleet-console\<close>: configuration, data source, server.
\<close>

subsection \<open>Alerts\<close>

text \<open>The values are not negative: only known samples give notices.\<close>

definition notice_line :: "notice \<Rightarrow> string" where
  "notice_line n =
     (let a = nt_Condition n
      in (if nt_Recovery n then ''recovered'' else ''firing'') @ '' '' @ al_Kind a @ '' region='' @ al_Region a @ '' worker='' @ al_WorkerID a
         @ '' value='' @ format_float 1 (al_Value a) @ '' threshold='' @ format_float 1 (al_Threshold a) @ '' source='' @ al_Source a)"

definition notice_text :: "notice list \<Rightarrow> string" where
  "notice_text ns = ''Nakama Agones alerts'' @ concat (map (\<lambda>n. [CHR 0x0A] @ notice_line n) ns)"

text \<open>
  One evaluation: the state is saved and the lock released before the notice is sent; \<open>meanwhile\<close> is what other
  operations do to the state in that time.
\<close>

definition operations_evaluate ::
  "save_outcome \<Rightarrow> save_outcome \<Rightarrow> (operationsState \<Rightarrow> operationsState) \<Rightarrow> (string \<Rightarrow> string \<Rightarrow> string \<Rightarrow> int \<Rightarrow> bool) \<Rightarrow> int
     \<Rightarrow> (string \<times> json) list \<Rightarrow> operationsState \<Rightarrow> operationsState" where
  "operations_evaluate out out' meanwhile send now snapshot s =
     (case evaluate_begin out now snapshot s of
        (None, s1) \<Rightarrow> s1
      | (Some (revision, ns), s1) \<Rightarrow>
          evaluate_finish out' now (send (op_FeishuWebhook s1) (op_FeishuSigningSecret s1) (notice_text ns) now) (revision, ns) (meanwhile s1))"

text \<open>
  What one round of the observer meets: the snapshot, the time, whether the two saves succeed, what others do to the state
  while a notice is delivered, the delivery, and whether the wait that follows ends by the context.
\<close>

record observation =
  ov_snapshot :: "json source_result"
  ov_now :: int
  ov_save :: save_outcome
  ov_resave :: save_outcome
  ov_meanwhile :: "operationsState \<Rightarrow> operationsState"
  ov_send :: "string \<Rightarrow> string \<Rightarrow> string \<Rightarrow> int \<Rightarrow> bool"
  ov_stop :: bool

text \<open>\<open>size_of\<close> is the encoded size of a snapshot.\<close>

definition observe_round :: "(json \<Rightarrow> int) \<Rightarrow> observation \<Rightarrow> operationsState \<Rightarrow> operationsState" where
  "observe_round size_of v s =
     (case ov_snapshot v of
        Inl _ \<Rightarrow> s
      | Inr x \<Rightarrow>
          (case apiObject size_of x of
             Inl _ \<Rightarrow> s
           | Inr snapshot \<Rightarrow> operations_evaluate (ov_save v) (ov_resave v) (ov_meanwhile v) (ov_send v) (ov_now v) snapshot s))"

text \<open>The loop of \<^verbatim>\<open>StartOperations\<close>: the state, and whether it has ended; between rounds others change the state too.\<close>

fun observe_loop :: "(json \<Rightarrow> int) \<Rightarrow> (observation \<times> (operationsState \<Rightarrow> operationsState)) list \<Rightarrow> operationsState \<Rightarrow> operationsState \<times> bool" where
  "observe_loop size_of [] s = (s, False)"
| "observe_loop size_of ((v, others) # vs) s =
     (let s1 = observe_round size_of v s in if ov_stop v then (s1, True) else observe_loop size_of vs (others s1))"

text \<open>The observer of a data source: its operations, whether a loop was started, and whether the file is still open.\<close>

record observer =
  ob_operations :: "operationsState option"
  ob_started :: bool
  ob_file_open :: bool

definition StartOperations :: "observer \<Rightarrow> observer \<times> bool" where
  "StartOperations d = (if ob_operations d = None \<or> ob_started d then (d, False) else (d\<lparr>ob_started := True\<rparr>, True))"

text \<open>Closing waits for the loop that was started, then closes the file.\<close>

definition DataSource_Close :: "observer \<Rightarrow> observer" where
  "DataSource_Close d = (if ob_operations d \<noteq> None then d\<lparr>ob_file_open := False\<rparr> else d)"

text \<open>An answer about alerts: whether they can be configured, and the view; the answer without operations has no audit.\<close>

definition disabled_view :: alerts_view where
  "disabled_view = \<lparr>vw_revision = 0, vw_config = defaultAlerts\<lparr>ac_Enabled := False\<rparr>, vw_feishu_configured = False, vw_signing_configured = False,
     vw_active = [], vw_history = [], vw_delivery = \<lparr>de_LastSuccessAt = 0, de_LastErrorCode = ''''\<rparr>, vw_audit = []\<rparr>"

definition DataSource_Alerts :: "operationsState option \<Rightarrow> bool \<times> alerts_view" where
  "DataSource_Alerts o1 = (case o1 of None \<Rightarrow> (False, disabled_view) | Some s \<Rightarrow> (True, operations_view s))"

definition DataSource_UpdateAlerts ::
  "net_env \<Rightarrow> save_outcome \<Rightarrow> int \<Rightarrow> AlertUpdate \<Rightarrow> string \<Rightarrow> operationsState option
     \<Rightarrow> (bool \<times> alerts_view) source_result \<times> operationsState option" where
  "DataSource_UpdateAlerts net out now inp actor o1 =
     (case o1 of
        None \<Rightarrow> (fail 403 ''alerts_disabled'', None)
      | Some s \<Rightarrow>
          (case operations_update net out now inp actor s of
             (Inl e, s1) \<Rightarrow> (Inl e, Some s1)
           | (Inr _, s1) \<Rightarrow> (Inr (True, operations_view s1), Some s1)))"

subsection \<open>The server\<close>

text \<open>\<open>ca_info\<close> and \<open>ca_good\<close>: the file of the certificates, and whether it holds any.\<close>

definition newEnrollmentClient :: "file_info option \<Rightarrow> bool \<Rightarrow> NodeOnboardingConfig \<Rightarrow> NodeOnboardingConfig result" where
  "newEnrollmentClient ca_info ca_good c =
     (case ca_info of
        None \<Rightarrow> Inl (Errorf ''node onboarding CA is unavailable or writable by others'')
      | Some i \<Rightarrow>
          if fi_Kind i \<noteq> Regular \<or> fi_Perm i AND 0x12 \<noteq> 0 \<or> fi_Size i > 1048576
          then Inl (Errorf ''node onboarding CA is unavailable or writable by others'')
          else if \<not> ca_good then Inl (Errorf ''invalid node onboarding CA'')
          else Inr c)"

definition NewServer ::
  "net_env \<Rightarrow> (string \<Rightarrow> string \<Rightarrow> bool) \<Rightarrow> file_info option \<Rightarrow> bool \<Rightarrow> asset gomap \<Rightarrow> ConsoleConfig \<Rightarrow> console_config result" where
  "NewServer net same ca_info ca_good files cfg0 =
     bindE (ConsoleConfig_validate net same cfg0) (\<lambda>cfg.
       if (case map_of files ''index.html'' of None \<Rightarrow> True | Some f \<Rightarrow> \<not> as_Regular f) then Inl (Errorf ''console index asset is missing'')
       else bindE (publicEndpoint net (cg_PublicURL cfg)) (\<lambda>u.
            bindE (case cg_NodeOnboarding cfg of
                     None \<Rightarrow> Inr None
                   | Some c \<Rightarrow> (case newEnrollmentClient ca_info ca_good c of Inl e \<Rightarrow> Inl e | Inr d \<Rightarrow> Inr (Some d))) (\<lambda>onb.
            Inr \<lparr>cs_Username = cg_Username cfg, cs_PasswordHash = cg_PasswordHash cfg, cs_ReadAPITokenHash = cg_ReadAPITokenHash cfg,
                 cs_Host = u_Host u, cs_Origin = u_Scheme u @ ''://'' @ u_Host u, cs_Secure = (u_Scheme u = ''https''), cs_Onboarding = onb\<rparr>)))"

text \<open>The goroutine that drops expired sessions, at one tick.\<close>

definition expireSessions :: "int \<Rightarrow> authState \<Rightarrow> authState" where
  "expireSessions now a = pruneLocked now a"

subsection \<open>The start\<close>

text \<open>The password given on standard input: whether it is a terminal, and what is read.\<close>

definition readPasswordStdin :: "bool option \<Rightarrow> string option \<Rightarrow> string result" where
  "readPasswordStdin terminal data =
     (if terminal \<noteq> Some False then Inl (Errorf ''supply the password through stdin, not command arguments'')
      else case data of
        None \<Rightarrow> Inl (Errorf ''cannot read password within size limit'')
      | Some d \<Rightarrow>
          if int (length d) > 1026 then Inl (Errorf ''cannot read password within size limit'')
          else let p = TrimSuffix (TrimSuffix d [CHR 0x0A]) [CHR 0x0D]
               in if CHR 0x0D \<in> set p \<or> CHR 0x0A \<in> set p then Inl (Errorf ''password input must contain a single line'') else Inr p)"

definition serve_setup ::
  "net_env \<Rightarrow> (string \<Rightarrow> string \<Rightarrow> bool) \<Rightarrow> (string \<Rightarrow> ConsoleConfig option) \<Rightarrow> file_info option \<Rightarrow> opened \<Rightarrow> (string \<Rightarrow> bool option)
     \<Rightarrow> (string \<Rightarrow> unit result) \<Rightarrow> file_info option \<Rightarrow> bool \<Rightarrow> asset gomap \<Rightarrow> (string \<times> fleet_source \<times> console_config) result" where
  "serve_setup net same decode lstat f ca open_ops ca_info ca_good files =
     bindE (LoadConfig net same decode lstat f) (\<lambda>cfg.
     case NewDataSource net ca open_ops (cg_Source cfg) of
       Inl _ \<Rightarrow> Inl (Errorf ''invalid backend source configuration'')
     | Inr d \<Rightarrow> bindE (NewServer net same ca_info ca_good files cfg) (\<lambda>server. Inr (cg_Listen cfg, d, server)))"

subsection \<open>Laws\<close>

text \<open>An evaluation is a history of at most two operations of \<open>Console_Alerts_Laws\<close>, with those of others between them.\<close>

lemma operations_evaluate_ops:
  "\<exists>delivered msg. operations_evaluate out out' meanwhile send now snapshot s = alert_exec net now (Evaluate out snapshot) s
   \<or> operations_evaluate out out' meanwhile send now snapshot s
       = alert_exec net now (Finish out' delivered msg) (meanwhile (alert_exec net now (Evaluate out snapshot) s))"
proof (cases "evaluate_begin out now snapshot s" rule: prod.exhaust)
  case (Pair x s1)
  then show ?thesis by (cases x) (auto simp: operations_evaluate_def alert_exec_def)
qed

text \<open>The loop keeps the invariant of the alerts, whatever it meets, as long as the operations of others do; at most one loop is started.\<close>

lemma observe_round_inv:
  assumes "alerts_inv s" "\<And>s. alerts_inv s \<Longrightarrow> alerts_inv (ov_meanwhile v s)"
  shows "alerts_inv (observe_round size_of v s)"
proof -
  have "alerts_inv (operations_evaluate (ov_save v) (ov_resave v) (ov_meanwhile v) (ov_send v) (ov_now v) snapshot s)" for snapshot
    using operations_evaluate_ops [of "ov_save v" "ov_resave v" "ov_meanwhile v" "ov_send v" "ov_now v" snapshot s] assms alerts_inv_exec by metis
  then show ?thesis using assms(1) by (simp add: observe_round_def split: sum.splits)
qed

lemma observe_loop_inv:
  assumes "alerts_inv s" "\<And>v others s. (v, others) \<in> set vs \<Longrightarrow> alerts_inv s \<Longrightarrow> alerts_inv (ov_meanwhile v s) \<and> alerts_inv (others s)"
  shows "alerts_inv (fst (observe_loop size_of vs s))"
  using assms
proof (induction size_of vs s rule: observe_loop.induct)
  case (2 size_of v others vs s)
  have "alerts_inv (observe_round size_of v s)" using 2(2,3) by (intro observe_round_inv) auto
  moreover have "alerts_inv (others (observe_round size_of v s))" using 2(3) calculation by auto
  ultimately show ?case using 2 by (auto simp: Let_def)
qed simp

lemma StartOperations_once: "StartOperations d = (d', b) \<Longrightarrow> StartOperations d' = (d', False)"
  by (auto simp: StartOperations_def split: if_splits)

lemma UpdateAlerts_keeps:
  assumes "DataSource_UpdateAlerts net out now inp actor (Some s) = (r, Some s1)" "alerts_inv s"
  shows "alerts_inv s1"
  using assms alerts_inv_exec [OF assms(2), of net now "Update out inp actor"]
  by (auto simp: DataSource_UpdateAlerts_def alert_exec_def split: prod.splits sum.splits)

lemma validated_again:
  assumes "ConsoleConfig_validate net same c0 = Inr c"
  shows "ConsoleConfig_validate net same c = Inr c" "c = c0\<lparr>cg_Listen := Config_listen c0\<rparr>" "listen_ok net (cg_Listen c)"
proof -
  show e: "c = c0\<lparr>cg_Listen := Config_listen c0\<rparr>"
    using assms by (auto simp: ConsoleConfig_validate_def split: sum.splits if_splits option.splits)
  have l: "Config_listen c = Config_listen c0" by (simp add: e Config_listen_def)
  then show "ConsoleConfig_validate net same c = Inr c"
    using assms by (auto simp: e ConsoleConfig_validate_def split: sum.splits if_splits option.splits)
  show "listen_ok net (cg_Listen c)"
    using assms by (auto simp: e ConsoleConfig_validate_def split: sum.splits if_splits option.splits)
qed

text \<open>A console that starts listens on a loopback address only, and trusts cookies of its own HTTPS or loopback origin.\<close>

lemma serve_is_local:
  assumes "serve_setup net same decode lstat f ca open_ops ca_info ca_good files = Inr (addr, d, server)"
  shows "\<exists>host port. SplitHostPort addr = Some (host, port) \<and> loopbackHost net host \<and> port_ok port"
    and "\<exists>u :: Url. cs_Host server = u_Host u \<and> cs_Secure server = (u_Scheme u = ''https'') \<and> cs_Origin server = u_Scheme u @ ''://'' @ u_Host u
      \<and> (u_Scheme u = ''https'' \<or> u_Scheme u = ''http'' \<and> loopbackHost net (u_Hostname u))"
proof -
  obtain cfg where l: "LoadConfig net same decode lstat f = Inr cfg" using assms by (auto simp: serve_setup_def bindE_eq_Inr)
  then have c: "addr = cg_Listen cfg" "NewServer net same ca_info ca_good files cfg = Inr server"
    using assms by (auto simp: serve_setup_def bindE_eq_Inr split: sum.splits)
  obtain c0 where c0: "ConsoleConfig_validate net same c0 = Inr cfg"
    using l by (auto simp: LoadConfig_def split: option.splits if_splits prod.splits)
  from validated_again(3) [OF c0] show "\<exists>host port. SplitHostPort addr = Some (host, port) \<and> loopbackHost net host \<and> port_ok port"
    using c(1) by (auto simp: listen_ok_def split: option.splits)
  obtain u where u: "publicEndpoint net (cg_PublicURL cfg) = Inr u" "cs_Host server = u_Host u" "cs_Secure server = (u_Scheme u = ''https'')"
      "cs_Origin server = u_Scheme u @ ''://'' @ u_Host u"
    using c(2) validated_again(1) [OF c0] by (auto simp: NewServer_def bindE_eq_Inr split: if_splits)
  have "u_Scheme u = ''https'' \<or> u_Scheme u = ''http'' \<and> loopbackHost net (u_Hostname u)"
    using u(1) by (auto simp: publicEndpoint_def split: option.splits if_splits)
  with u(2-4) show "\<exists>u :: Url. cs_Host server = u_Host u \<and> cs_Secure server = (u_Scheme u = ''https'') \<and> cs_Origin server = u_Scheme u @ ''://'' @ u_Host u
      \<and> (u_Scheme u = ''https'' \<or> u_Scheme u = ''http'' \<and> loopbackHost net (u_Hostname u))" by blast
qed

end
