(* ===== verification/Console_Commands.thy ===== *)
theory Console_Commands
  imports Console_Start
begin

text \<open>
  The command lines of the two console programs: \<^verbatim>\<open>run\<close> of \<^verbatim>\<open>cmd/fleet-console/main.go\<close> with its subcommands and \<^verbatim>\<open>run\<close> of
  \<^verbatim>\<open>cmd/fleet-console-control/main.go\<close>, with the parsing of their only flag, \<^verbatim>\<open>NewControlServer\<close> of \<^verbatim>\<open>control.go\<close> and the end
  of a served program. A program that is refused leaves the files as they are; the broker serves only as root, on a
  protected socket and with a validated configuration.
\<close>

subsection \<open>Flags\<close>

text \<open>
  \<^verbatim>\<open>FlagSet.Parse\<close> for a set with the one text flag \<open>config\<close>: the value of the flag and the arguments left, or an error.
  The name ends at the first equals sign after its first character.
\<close>

definition flag_name :: "string \<Rightarrow> string" where
  "flag_name s = hd s # takeWhile (\<lambda>c. c \<noteq> CHR ''='') (tl s)"

definition flag_value :: "string \<Rightarrow> string option" where
  "flag_value s = (case dropWhile (\<lambda>c. c \<noteq> CHR ''='') (tl s) of [] \<Rightarrow> None | _ # v \<Rightarrow> Some v)"

definition strip_dashes :: "string \<Rightarrow> string" where
  "strip_dashes s = (if s ! 1 = CHR ''-'' then drop 2 s else drop 1 s)"

fun parse_flags :: "string \<Rightarrow> string list \<Rightarrow> (string \<times> string list) option" where
  "parse_flags v [] = Some (v, [])"
| "parse_flags v (s # rest) =
     (if length s < 2 \<or> hd s \<noteq> CHR ''-'' then Some (v, s # rest)
      else if s = ''--'' then Some (v, rest)
      else let name = strip_dashes s
           in if name = '''' \<or> hd name = CHR ''-'' \<or> hd name = CHR ''='' then None
              else if flag_name name \<noteq> ''config'' then None
              else case flag_value name of
                Some x \<Rightarrow> parse_flags x rest
              | None \<Rightarrow> (case rest of [] \<Rightarrow> None | x # rest' \<Rightarrow> parse_flags x rest'))"

definition config_flag :: "string list \<Rightarrow> string option" where
  "config_flag args =
     (case parse_flags '''' args of
        Some (path, []) \<Rightarrow> if path = '''' then None else Some path
      | _ \<Rightarrow> None)"

subsection \<open>How a served program ends\<close>

text \<open>Either serving ends by itself, closed or not, or a signal arrives and the shutdown meets its deadline or not.\<close>

datatype serve_end = ServeEnded bool | Signalled bool

definition serve_result :: "string \<Rightarrow> string \<Rightarrow> serve_end \<Rightarrow> unit result" where
  "serve_result unexpected deadline e =
     (case e of
        ServeEnded clean \<Rightarrow> if \<not> clean then Inl (Errorf unexpected) else Inr ()
      | Signalled in_time \<Rightarrow> if \<not> in_time then Inl (Errorf deadline) else Inr ())"

subsection \<open>The console\<close>

text \<open>
  The world of the program: standard input and output, randomness, the calls that fail, the file as \<^verbatim>\<open>Lstat\<close> and \<^verbatim>\<open>Open\<close> see it,
  and what the start and the server meet. \<open>wd_meddle\<close> is what others do to the files while a password is replaced.
\<close>

record cli_world =
  wd_terminal :: "bool option"
  wd_stdin :: "string option"
  wd_write_ok :: bool
  wd_random :: "string option"
  wd_bad_first :: "syscall \<Rightarrow> bool"
  wd_bad :: "syscall \<Rightarrow> bool"
  wd_meddle :: "fsys \<Rightarrow> fsys"
  wd_temp :: string
  wd_inode :: nat
  wd_lstat :: "string \<Rightarrow> file_info option"
  wd_open :: "string \<Rightarrow> opened"
  wd_ca :: "string \<Rightarrow> bool option"
  wd_operations :: "string \<Rightarrow> unit result"
  wd_onboarding_ca :: "file_info option"
  wd_onboarding_good :: bool
  wd_files :: "asset gomap"
  wd_listen_ok :: bool
  wd_end :: serve_end

datatype cli_output = OutToken string string | OutUpdated | OutHash string | OutServed

definition hashPassword :: "kdf_fn \<Rightarrow> cli_world \<Rightarrow> cli_output result" where
  "hashPassword kdf w =
     bindE (readPasswordStdin (wd_terminal w) (wd_stdin w)) (\<lambda>p.
     bindE (HashPassword kdf (wd_random w) p) (\<lambda>e.
     if wd_write_ok w then Inr (OutHash e) else Inl (Errorf ''cannot write password hash'')))"

definition generate_token :: "(string \<Rightarrow> string) \<Rightarrow> cli_world \<Rightarrow> cli_output result" where
  "generate_token sha w =
     bindE (GenerateReadAPIToken sha (wd_random w)) (\<lambda>(token, hash).
     if wd_write_ok w then Inr (OutToken token hash) else Inl (Errorf ''cannot write generated API token''))"

definition set_password ::
  "net_env \<Rightarrow> (string \<Rightarrow> string \<Rightarrow> bool) \<Rightarrow> config_codec \<Rightarrow> kdf_fn \<Rightarrow> cli_world \<Rightarrow> string list \<Rightarrow> fsys \<Rightarrow> cli_output result \<times> fsys" where
  "set_password net same K kdf w args fs =
     (case config_flag args of
        None \<Rightarrow> (Inl (Errorf ''usage: fleet-console set-password --config FILE (password on stdin)''), fs)
      | Some path \<Rightarrow>
          (case readPasswordStdin (wd_terminal w) (wd_stdin w) of
             Inl e \<Rightarrow> (Inl e, fs)
           | Inr p \<Rightarrow>
               (case SetPassword (wd_bad_first w) (wd_bad w) (wd_meddle w) (wd_temp w) (wd_inode w) net same K kdf (wd_random w) path p fs of
                  (Inl e, fs') \<Rightarrow> (Inl e, fs')
                | (Inr _, fs') \<Rightarrow> (Inr OutUpdated, fs'))))"

definition serve :: "net_env \<Rightarrow> (string \<Rightarrow> string \<Rightarrow> bool) \<Rightarrow> config_codec \<Rightarrow> cli_world \<Rightarrow> string list \<Rightarrow> cli_output result" where
  "serve net same K w args =
     (case config_flag args of
        None \<Rightarrow> Inl (Errorf ''usage: fleet-console serve --config FILE'')
      | Some path \<Rightarrow>
          bindE (serve_setup net same (kc_config K) (wd_lstat w path) (wd_open w path) (wd_ca w) (wd_operations w) (wd_onboarding_ca w)
                   (wd_onboarding_good w) (wd_files w)) (\<lambda>_.
          if \<not> wd_listen_ok w then Inl (Errorf ''cannot listen on the configured loopback address'')
          else bindE (serve_result ''HTTP server stopped unexpectedly'' ''HTTP server shutdown deadline exceeded'' (wd_end w)) (\<lambda>_. Inr OutServed)))"

definition console_run ::
  "net_env \<Rightarrow> (string \<Rightarrow> string \<Rightarrow> bool) \<Rightarrow> config_codec \<Rightarrow> kdf_fn \<Rightarrow> (string \<Rightarrow> string) \<Rightarrow> cli_world \<Rightarrow> string list \<Rightarrow> fsys \<Rightarrow> cli_output result \<times> fsys" where
  "console_run net same K kdf sha w args fs =
     (case args of
        [] \<Rightarrow> (Inl (Errorf ''usage: fleet-console hash-password | generate-api-token | set-password --config FILE | serve --config FILE''), fs)
      | c # rest \<Rightarrow>
          if rest = [] \<and> c = ''generate-api-token'' then (generate_token sha w, fs)
          else if c = ''set-password'' then set_password net same K kdf w rest fs
          else if rest = [] \<and> c = ''hash-password'' then (hashPassword kdf w, fs)
          else if c \<noteq> ''serve''
          then (Inl (Errorf ''usage: fleet-console hash-password | generate-api-token | set-password --config FILE | serve --config FILE''), fs)
          else (serve net same K w rest, fs))"

subsection \<open>The broker\<close>

definition NewControlServer :: "net_env \<Rightarrow> ControlConfig \<Rightarrow> ControlConfig result" where
  "NewControlServer net cfg = bindE (ControlConfig_validate net cfg) (\<lambda>_. Inr cfg)"

definition control_run ::
  "net_env \<Rightarrow> (string \<Rightarrow> ControlConfig option) \<Rightarrow> (string \<Rightarrow> opened) \<Rightarrow> (syscall \<Rightarrow> bool) \<Rightarrow> dial_outcome \<Rightarrow> int \<Rightarrow> nat \<Rightarrow> serve_end \<Rightarrow> string list
     \<Rightarrow> fsys \<Rightarrow> unit result \<times> ControlConfig option \<times> fsys" where
  "control_run net decode open_file bad dial euid inode fin args fs =
     (case config_flag args of
        None \<Rightarrow> (Inl (Errorf ''usage: fleet-console-control --config FILE''), None, fs)
      | Some path \<Rightarrow>
          if euid \<noteq> 0 then (Inl (Errorf ''control broker must run as root''), None, fs)
          else case bindE (LoadControlConfig net decode (open_file path)) (NewControlServer net) of
            Inl e \<Rightarrow> (Inl e, None, fs)
          | Inr cfg \<Rightarrow>
              (case ListenControlSocket net bad dial euid inode cfg fs of
                 (Inl e, fs') \<Rightarrow> (Inl e, None, fs')
               | (Inr _, fs') \<Rightarrow>
                   (serve_result ''control server stopped unexpectedly'' ''control shutdown deadline exceeded'' fin, Some cfg, fs')))"

subsection \<open>Laws\<close>

lemma config_flag_forms:
  assumes "path \<noteq> ''''"
  shows "config_flag [''--config'', path] = Some path" "config_flag [''-config'', path] = Some path"
    "config_flag [''--config='' @ path] = Some path" "config_flag [] = None" "config_flag (''file'' # args) = None"
  using assms by (simp_all add: config_flag_def flag_name_def flag_value_def strip_dashes_def)

text \<open>Only \<^verbatim>\<open>set-password\<close> writes a file; the password is never an argument.\<close>

lemma console_run_writes:
  assumes "console_run net same K kdf sha w args fs = (r, fs')" "fs' \<noteq> fs"
  shows "\<exists>rest path p. args = ''set-password'' # rest \<and> config_flag rest = Some path
    \<and> readPasswordStdin (wd_terminal w) (wd_stdin w) = Inr p
    \<and> fs' = snd (SetPassword (wd_bad_first w) (wd_bad w) (wd_meddle w) (wd_temp w) (wd_inode w) net same K kdf (wd_random w) path p fs)"
  using assms
  by (auto simp: console_run_def set_password_def split: list.splits if_splits option.splits sum.splits prod.splits)

lemma readPassword_line:
  assumes "readPasswordStdin terminal data = Inr p"
  shows "CHR 0x0A \<notin> set p" "CHR 0x0D \<notin> set p" "terminal = Some False" "length p \<le> 1026"
  using assms
  by (auto simp: readPasswordStdin_def TrimSuffix_def Let_def split: if_splits option.splits)

text \<open>A console that served was set up: it has a validated configuration and listens on a loopback address.\<close>

lemma serve_was_set_up:
  assumes "console_run net same K kdf sha w args fs = (Inr OutServed, fs')"
  shows "\<exists>rest path addr d server. args = ''serve'' # rest \<and> config_flag rest = Some path
    \<and> serve_setup net same (kc_config K) (wd_lstat w path) (wd_open w path) (wd_ca w) (wd_operations w) (wd_onboarding_ca w) (wd_onboarding_good w)
        (wd_files w) = Inr (addr, d, server)
    \<and> (\<exists>host port. SplitHostPort addr = Some (host, port) \<and> loopbackHost net host \<and> port_ok port)"
proof -
  obtain rest path x where c: "args = ''serve'' # rest" "config_flag rest = Some path"
      "serve_setup net same (kc_config K) (wd_lstat w path) (wd_open w path) (wd_ca w) (wd_operations w) (wd_onboarding_ca w) (wd_onboarding_good w)
         (wd_files w) = Inr x"
    using assms
    by (auto simp: console_run_def set_password_def generate_token_def hashPassword_def serve_def bindE_eq_Inr
        split: list.splits if_splits option.splits sum.splits prod.splits)
  obtain addr d server where x: "x = (addr, d, server)" by (cases x rule: prod_cases3)
  from serve_is_local(1) [OF c(3) [unfolded x]] c x show ?thesis by blast
qed

text \<open>The broker serves only as root with a validated configuration, whose upstream is a loopback address.\<close>

lemma control_run_root:
  assumes "control_run net decode open_file bad dial euid inode fin args fs = (r, Some cfg, fs')"
  shows "euid = 0" "ControlConfig_validate net cfg = Inr ()" "validSocketPath (cc_SocketPath cfg)"
    "listenControlSocket bad dial 0 inode (cc_SocketPath cfg) 0 fs = (Inr (), fs')"
proof -
  have l: "euid = 0" "ListenControlSocket net bad dial 0 inode cfg fs = (Inr (), fs')"
    using assms by (auto simp: control_run_def split: option.splits if_splits sum.splits prod.splits)
  then show "euid = 0" "ControlConfig_validate net cfg = Inr ()" "listenControlSocket bad dial 0 inode (cc_SocketPath cfg) 0 fs = (Inr (), fs')"
    by (auto simp: ListenControlSocket_def split: sum.splits)
  then show "validSocketPath (cc_SocketPath cfg)" by (auto simp: listenControlSocket_def split: if_splits)
qed

end
