(* ===== verification/Spec2Isabelle.thy ===== *)
theory Spec2Isabelle
  imports Fleet_Progress Agones_Safety Console_Auth_Laws Console_Control_Laws Console_Safety Console_Views Console_Files_Laws Fleet_Setup Console_Commands
begin

text \<open>
  A verification of the fleet control plane: the manager that places two-player rooms on game server
  workers (\<^verbatim>\<open>pkg/fleetmanager\<close>, \<^verbatim>\<open>internal/state\<close>, \<^verbatim>\<open>internal/provider\<close>), the client that runs those workers
  as Agones game servers (\<^verbatim>\<open>internal/agones\<close>), and the operators' console (\<^verbatim>\<open>internal/console\<close>).

  \<^bold>\<open>How the parts interact.\<close> Several controllers share one durable state through a transactional store. A controller
  ticks: it renews a lease, ages workers, expires and places allocations, decides on new and idle workers and on
  those to poll, start and stop, in one transaction; then it calls the provider outside of any transaction and
  records the answers in further transactions. Workers report by HTTP (bootstrap, heartbeat); Nakama's hooks
  request and cancel allocations. The console reads a snapshot of the fleet and the clusters, and passes a few
  operator actions through a broker with its own credential to the manager, and node onboarding and retirement as
  resources to an enrollment cluster.

  \<^bold>\<open>Theories of the manager.\<close>
  \<^item> \<^verbatim>\<open>Fleet_Prelude\<close>, \<^verbatim>\<open>Go_Stdlib\<close>: lists as Go maps (association lists in some order; a loop over a map takes
    an order as a parameter where the order matters), result types, the string and number functions of Go that are used.
  \<^item> \<^verbatim>\<open>Fleet_State\<close> (state.go, policy.go), \<^verbatim>\<open>Fleet_Store\<close> (Memory and Postgres stores, their common contract as a
    locale), \<^verbatim>\<open>Fleet_Provider\<close> (provider.go), \<^verbatim>\<open>Fleet_Config\<close>, \<^verbatim>\<open>Fleet_Policy\<close>, \<^verbatim>\<open>Fleet_Timing\<close>, \<^verbatim>\<open>Fleet_Token\<close>.
  \<^item> \<^verbatim>\<open>Fleet_Manager\<close> (manager.go), \<^verbatim>\<open>Fleet_Lifecycle\<close> (lifecycle.go: Tick and the provider calls, split at their
    transactions), \<^verbatim>\<open>Fleet_Http\<close> (http.go), \<^verbatim>\<open>Fleet_Nakama\<close> (nakama.go).
  \<^item> \<^verbatim>\<open>Fleet_Invariant\<close>, \<^verbatim>\<open>Fleet_Preservation\<close>, \<^verbatim>\<open>Fleet_Operations\<close>: the invariant of the state, and that every
    operation keeps it and moves every allocation and worker only forward.
  \<^item> \<^verbatim>\<open>Fleet_System\<close>: the system as a step relation - several controllers, each between any two transactions of start,
    poll and stop, with arbitrary clocks, random identifiers, provider answers and crashes - and its reachable states;
    \<^verbatim>\<open>Fleet_Example\<close>: a concrete run for the witnesses.
  \<^item> \<^verbatim>\<open>Fleet_Progress\<close>: what a tick and a request achieve - the queue is served (C35), the placement is the best fit
    whatever the order of the map (C36), a room is requested once (C40).
  \<^item> \<^verbatim>\<open>Fleet_Env\<close> (the configuration read from the environment: FromEnv of both config.go and parseServerEnvironment),
    \<^verbatim>\<open>Fleet_Setup\<close> (New, Init and Run of manager.go, the registration with Nakama, setup.go): the start is all or nothing (C24),
    opening a namespace is a step of \<^verbatim>\<open>Fleet_System\<close>, and a loop that ends gives up its lease.
  This theory holds C1 to C12, the properties of every reachable system.

  \<^bold>\<open>Theories of the Agones client.\<close> \<^verbatim>\<open>Agones_Config\<close> (config.go), \<^verbatim>\<open>Agones_Client\<close> (client.go: an interaction with
  the API server is a tree of requests whose answers are arbitrary), \<^verbatim>\<open>Agones_Safety\<close> (C13 to C18).

  \<^bold>\<open>Theories of the console.\<close>
  \<^item> \<^verbatim>\<open>Console_Encoding\<close>, \<^verbatim>\<open>Console_Auth\<close>, \<^verbatim>\<open>Console_Auth_Laws\<close> (auth.go, api_token.go; C19 to C23).
  \<^item> \<^verbatim>\<open>Console_Json\<close>, \<^verbatim>\<open>Console_Config\<close>, \<^verbatim>\<open>Console_Alerts\<close>, \<^verbatim>\<open>Console_Alerts_Laws\<close> (alerts.go, operations_file.go; C25 to C27).
  \<^item> \<^verbatim>\<open>Console_Control\<close>, \<^verbatim>\<open>Console_Control_Laws\<close> (control.go, policy.go: broker and client; C28 to C30, where an action
    through console and broker refines the manager's own operation).
  \<^item> \<^verbatim>\<open>Console_Redact\<close>, \<^verbatim>\<open>Console_Enrollment\<close>, \<^verbatim>\<open>Console_Backend\<close>, \<^verbatim>\<open>Console_Onboarding\<close>, \<^verbatim>\<open>Console_Retirement\<close>,
    \<^verbatim>\<open>Console_Api\<close>, \<^verbatim>\<open>Console_Server\<close> (source.go, enrollment_client.go, onboarding.go, retirement.go, api_v1.go,
    capacity.go, http.go).
  \<^item> \<^verbatim>\<open>Console_Server_Laws\<close>, \<^verbatim>\<open>Console_Transparent\<close>, \<^verbatim>\<open>Console_Safety\<close>: every call of the server to its backend and to the
    cluster is recorded, which changes nothing, and policies on calls are carried through all handlers (C31 to C34).
  \<^item> \<^verbatim>\<open>Console_Logs\<close>, \<^verbatim>\<open>Console_Snapshot\<close> (the rest of source.go: log queries, the data source, the projections of fleet,
    nodes, pods and events), \<^verbatim>\<open>Console_Redact_Laws\<close> (the matcher decides the language of the expression; redacted and cut texts
    hold no credential), \<^verbatim>\<open>Console_Views\<close> (C37, C38).
  \<^item> \<^verbatim>\<open>Console_Files\<close> (config.go, password.go, fileops_unix.go, operations_file.go, feishu.go, and the sockets of control.go,
    over a file system whose calls may fail and that others change), \<^verbatim>\<open>Console_Files_Laws\<close> (saving implements the abstract
    outcomes of \<^verbatim>\<open>Console_Alerts\<close>, replacing the configuration is atomic, a bound socket is one the client accepts; C39).
  \<^item> \<^verbatim>\<open>Console_Start\<close> (NewServer, the data source's alerts, evaluation with delivery, the loop of the observer, the setup of
    the served program), \<^verbatim>\<open>Console_Commands\<close> (the command lines of cmd/fleet-console and cmd/fleet-console-control): a console
    that serves listens on a loopback address, the broker serves only as root.

  \<^bold>\<open>Parameters.\<close> Arguments of the definitions stand for what is not Go code of the repository or is not
  deterministic: HMAC, SHA-256 and PBKDF2; JSON encoders and decoders; time parsing and clocks; random bytes and
  identifiers; the order of a range over a map and of a sort's ties; the answers of the provider, of the API servers and
  of the network; whether a file or a commit succeeds. The theorems hold for all of them unless a hypothesis names
  what is used (for instance that a digest has 32 bytes).

  \<^bold>\<open>Bounds and fuel.\<close> Listing game servers stops after 100 pages because the code does. Waiting for an enrollment
  polls at most 20 times: the code waits at most 4 seconds in steps of 200 milliseconds. All other recursions are
  structural. Go's \<^verbatim>\<open>int\<close> and \<^verbatim>\<open>int64\<close> are unbounded integers where the code bounds the values, and binary64
  numbers are rationals rounded as the code rounds them.

  \<^bold>\<open>Not modelled.\<close> SQL text and the schema migration with its command, TLS and HTTP transport settings, timeouts of
  connections, response headers, log lines, locks (a handler is one step; the manager's interleavings are those of its
  transactions), and the tickers: the loops of the manager and of the observer are sequences of rounds, pruning is one round. The console's concurrent reads of one snapshot are taken one after the other. The hooks
  registered with Nakama are named by their registration; what they do is \<^verbatim>\<open>Fleet_Nakama\<close>.
\<close>

subsection \<open>Properties of every reachable system\<close>

text \<open>
  C1. No user is in two live rooms: in every reachable system two different allocations that are both
  not terminal have disjoint user lists, whatever the interleaving of ticks, heartbeats, requests,
  crashes and provider answers.
\<close>

theorem users_hold_one_room:
  assumes "reachable cfg mac cd parse_time rnd y" "id_source rnd" "config_bounds cfg"
    and "map_of (t_allocs (y_t y)) k = Some a" "map_of (t_allocs (y_t y)) l = Some b" "k \<noteq> l"
    and "\<not> Terminal (a_State a)" "\<not> Terminal (a_State b)"
  shows "set (a_UserIDs a) \<inter> set (a_UserIDs b) = {}"
  using txn_invD(2)[OF reachable_inv[OF assms(1-3)]] assms(4-8)
  by (auto simp: allocs_inv_def apart_def)

theorem users_hold_one_room_witness: "set (a_UserIDs ex_a1) \<inter> set (a_UserIDs ex_a2) = {}"
proof (rule users_hold_one_room[OF ex_y_reach ex_rnd_source ex_cfg_bounds])
  show "map_of (t_allocs (y_t ex_y)) ''xx'' = Some ex_a1" "map_of (t_allocs (y_t ex_y)) ''xxxx'' = Some ex_a2"
    by (simp_all add: ex_y_allocs)
qed (simp_all add: ex_a1_def ex_a2_def)

text \<open>
  C2. Capacity: in every reachable system a worker never hosts more live rooms than the room limit it
  was created with, and it hosts rooms only while it is ready, suspect or draining.
\<close>

theorem rooms_within_capacity:
  assumes "reachable cfg mac cd parse_time rnd y" "id_source rnd" "config_bounds cfg"
    and "map_of (t_workers (y_t y)) k = Some w"
  shows "Occupied (t_s (y_t y)) k \<le> w_MaxRooms w
    \<and> (0 < Occupied (t_s (y_t y)) k \<longrightarrow> w_State w = WReady \<or> w_State w = WSuspect \<or> w_State w = WDraining)"
  using txn_invD(5)[OF reachable_inv[OF assms(1-3)]] assms(4)
  by (auto simp: capacity_inv_def serving_def)

theorem rooms_within_capacity_witness:
  "\<exists>w. map_of (t_workers (y_t ex_y)) ''x'' = Some w \<and> Occupied (t_s (y_t ex_y)) ''x'' = 2
     \<and> Occupied (t_s (y_t ex_y)) ''x'' \<le> w_MaxRooms w"
  using ex_y_worker rooms_within_capacity[OF ex_y_reach ex_rnd_source ex_cfg_bounds] by blast

text \<open>
  C3. The instance limit holds: the number of workers that count against it, those not stopped and not
  failed before they had an instance, never exceeds \<^verbatim>\<open>MaxInstances\<close>.
\<close>

theorem instances_within_limit:
  assumes "reachable cfg mac cd parse_time rnd y" "id_source rnd" "config_bounds cfg"
  shows "liveCount (t_s (y_t y)) \<le> cfg_MaxInstances cfg"
  by (rule txn_invD(9)[OF reachable_inv[OF assms]])

theorem instances_within_limit_witness: "liveCount (t_s (y_t ex_y)) \<le> 3"
  using instances_within_limit[OF ex_y_reach ex_rnd_source ex_cfg_bounds] by (simp add: ex_cfg_def)

text \<open>
  C4. The provider is never asked to stop an instance that hosts a live room: whenever a controller is
  between the check of \<^verbatim>\<open>stop\<close> and the end of its provider calls, the worker has no live room, even if
  the lease has meanwhile passed to another controller.
\<close>

theorem stop_only_empty:
  assumes "reachable cfg mac cd parse_time rnd y" "id_source rnd" "config_bounds cfg"
    and "y_pc y p = CallStop w"
  shows "Occupied (t_s (y_t y)) (w_ID w) = 0"
proof -
  have "sys_inv cfg rnd y" by (rule reachable_sys_inv[OF assms(1-3)])
  then show ?thesis using sys_pc[OF _ assms(4)] gone_empty reachable_inv[OF assms(1-3)] by simp
qed

theorem stop_only_empty_witness:
  "\<exists>w. y_pc ex_stopping ''A'' = CallStop w \<and> w_ID w = ''x'' \<and> Occupied (t_s (y_t ex_stopping)) (w_ID w) = 0"
  using ex_stopping_pc stop_only_empty[OF ex_stopping_reach ex_rnd_source ex_cfg_bounds] by blast

text \<open>
  C5. A requested worker is created by one controller: two controllers are never inside the create call
  of \<^verbatim>\<open>start\<close> for the same worker at the same time.
\<close>

theorem one_creator:
  assumes "reachable cfg mac cd parse_time rnd y" "id_source rnd" "config_bounds cfg"
    and "y_pc y p = CallStart n w" "y_pc y q = CallStart m v" "w_ID w = w_ID v"
  shows "p = q"
  using reachable_sys_inv[OF assms(1-3)] assms(4-6) by (auto simp: sys_inv_def starters_unique_def)

theorem one_creator_witness:
  "\<exists>n w. y_pc ex_created ''A'' = CallStart n w \<and> (\<forall>q m v. y_pc ex_created q = CallStart m v \<and> w_ID v = w_ID w \<longrightarrow> ''A'' = q)"
  using ex_created_pc one_creator[OF ex_created_reach ex_rnd_source ex_cfg_bounds] by metis

text \<open>
  C6. No transaction of a tick dereferences a missing worker: although workers are deleted by pruning,
  at each point where \<^verbatim>\<open>start\<close>, \<^verbatim>\<open>poll\<close> and \<^verbatim>\<open>stop\<close> use the looked-up pointer without a check, it is not
  nil, for every clock reading and every provider answer.
\<close>

theorem no_nil_dereference:
  assumes "reachable cfg mac cd parse_time rnd y" "id_source rnd" "config_bounds cfg"
  shows "\<not> panics cfg parse_time p y"
  by (rule sys_inv_no_panic[OF reachable_sys_inv[OF assms]])

theorem no_nil_dereference_witness: "\<not> panics ex_cfg ex_pt ''A'' ex_stopping"
  by (rule no_nil_dereference[OF ex_stopping_reach ex_rnd_source ex_cfg_bounds])

text \<open>
  C7. Allocations only move forward: from any reachable system on, as long as an allocation is kept, its
  identity, users, room and epoch stay, its phase never moves back, a terminal phase is final, the
  worker it was placed on is never changed, and each change of phase raises its revision.
\<close>

theorem allocations_move_forward:
  assumes "(step cfg mac cd parse_time rnd)\<^sup>*\<^sup>* y y'" "reachable cfg mac cd parse_time rnd y"
    "id_source rnd" "config_bounds cfg"
    and "map_of (t_allocs (y_t y)) k = Some a" "map_of (t_allocs (y_t y')) k = Some a'"
  shows "a_UserIDs a' = a_UserIDs a \<and> a_RequestKey a' = a_RequestKey a \<and> a_RoomID a' = a_RoomID a
    \<and> a_Epoch a' = a_Epoch a
    \<and> alloc_rank (a_State a) \<le> alloc_rank (a_State a')
    \<and> (Terminal (a_State a) \<longrightarrow> a_State a' = a_State a)
    \<and> (a_WorkerID a \<noteq> '''' \<longrightarrow> a_WorkerID a' = a_WorkerID a)
    \<and> (a_State a' \<noteq> a_State a \<longrightarrow> a_Revision a < a_Revision a')"
proof -
  have "k \<in> drawn rnd (t_n (y_t y))" using txn_inv_alloc(2)[OF reachable_inv[OF assms(2-4)] assms(5)] .
  then show ?thesis
    using evolves_alloc[OF conjunct1[OF steps_evolve[OF assms(1-4)]] _ assms(6)] assms(5)
    by (auto simp: alloc_evolves_def)
qed

theorem allocations_move_forward_witness:
  "\<exists>a. map_of (t_allocs (y_t ex_mid)) ''xx'' = Some a \<and> a_State a = AWaiting \<and> a_Revision a < a_Revision ex_a1
     \<and> alloc_rank (a_State a) \<le> alloc_rank (a_State ex_a1)"
proof -
  obtain a where a: "map_of (t_allocs (y_t ex_mid)) ''xx'' = Some a" "a_State a = AWaiting"
    using ex_mid_entries by blast
  have "map_of (t_allocs (y_t ex_y)) ''xx'' = Some ex_a1" by (simp add: ex_y_allocs)
  from allocations_move_forward[OF ex_mid_run(2) ex_mid_reach ex_rnd_source ex_cfg_bounds a(1) this] a
  show ?thesis by (auto simp: ex_a1_def)
qed

text \<open>
  C8. Workers keep their identity and never come back: as long as a worker is kept, its build, region,
  room limit, and once set its instance, its boot and its processor resources stay; one that is
  stopping, stopped, lost or failed never leaves that group, so it serves no further room; none returns
  to being requested; and the heartbeat sequence never decreases.
\<close>

theorem workers_keep_identity:
  assumes "(step cfg mac cd parse_time rnd)\<^sup>*\<^sup>* y y'" "reachable cfg mac cd parse_time rnd y"
    "id_source rnd" "config_bounds cfg"
    and "map_of (t_workers (y_t y)) k = Some w" "map_of (t_workers (y_t y')) k = Some w'"
  shows "w_BuildHash w' = w_BuildHash w \<and> w_Region w' = w_Region w \<and> w_MaxRooms w' = w_MaxRooms w
    \<and> (w_ProviderID w \<noteq> '''' \<longrightarrow> w_ProviderID w' = w_ProviderID w)
    \<and> (w_BootID w \<noteq> '''' \<longrightarrow> w_BootID w' = w_BootID w)
    \<and> (w_PolicyRevision w \<noteq> 0 \<longrightarrow> w_CPURequest w' = w_CPURequest w \<and> w_CPULimit w' = w_CPULimit w)
    \<and> (w_State w \<in> {WStopping, WStopped, WLost, WFailed} \<longrightarrow> w_State w' \<in> {WStopping, WStopped, WLost, WFailed})
    \<and> (w_State w \<noteq> WRequested \<longrightarrow> w_State w' \<noteq> WRequested)
    \<and> w_LastSequence w \<le> w_LastSequence w'"
proof -
  have "k \<in> drawn rnd (t_n (y_t y))" using txn_inv_worker(2)[OF reachable_inv[OF assms(2-4)] assms(5)] .
  then show ?thesis
    using evolves_worker[OF conjunct1[OF steps_evolve[OF assms(1-4)]] _ assms(6)] assms(5)
    by (auto simp: worker_evolves_def gone_def)
qed

theorem workers_keep_identity_witness:
  "\<exists>w w'. map_of (t_workers (y_t ex_mid)) ''x'' = Some w \<and> map_of (t_workers (y_t ex_y)) ''x'' = Some w'
     \<and> w_BootID w = ''1'' \<and> w_BootID w' = w_BootID w \<and> w_LastSequence w \<le> w_LastSequence w'"
proof -
  obtain w w' where w: "map_of (t_workers (y_t ex_mid)) ''x'' = Some w" "w_BootID w = ''1''"
    and w': "map_of (t_workers (y_t ex_y)) ''x'' = Some w'"
    using ex_mid_entries ex_y_worker by blast
  from workers_keep_identity[OF ex_mid_run(2) ex_mid_reach ex_rnd_source ex_cfg_bounds w(1) w'] w w'
  show ?thesis by auto
qed

text \<open>
  C9. Seats: in every reachable system an assigned or active allocation has two distinct users, one
  session for each in their order, with seats 0 and 1, and a worker that is still known.
\<close>

theorem rooms_are_seated:
  assumes "reachable cfg mac cd parse_time rnd y" "id_source rnd" "config_bounds cfg"
    and "map_of (t_allocs (y_t y)) k = Some a" "a_State a = AAssigned \<or> a_State a = AActive"
  shows "validUsers (a_UserIDs a) \<and> map se_UserID (a_Sessions a) = a_UserIDs a
    \<and> map se_Seat (a_Sessions a) = [0, 1] \<and> map_of (t_workers (y_t y)) (a_WorkerID a) \<noteq> None"
proof -
  note inv = reachable_inv[OF assms(1-3)]
  have ok: "alloc_ok k a" by (rule txn_inv_alloc(1)[OF inv assms(4)])
  then have "a_WorkerID a \<noteq> ''''" "\<not> Terminal (a_State a)" using assms(5) by (auto simp: alloc_ok_def)
  then show ?thesis using txn_invD(6)[OF inv] ok assms(4,5) by (auto simp: hosted_inv_def alloc_ok_def seated_def)
qed

theorem rooms_are_seated_witness:
  "map se_UserID (a_Sessions ex_a1) = [''u'', ''v''] \<and> map se_Seat (a_Sessions ex_a1) = [0, 1]"
proof -
  have "map_of (t_allocs (y_t ex_y)) ''xx'' = Some ex_a1" by (simp add: ex_y_allocs)
  from rooms_are_seated[OF ex_y_reach ex_rnd_source ex_cfg_bounds this]
  show ?thesis by (simp add: ex_a1_def)
qed

text \<open>
  C10. A request key names one allocation: in every reachable system two different allocations, terminal
  ones included, have different request keys and different rooms.
\<close>

theorem request_keys_unique:
  assumes "reachable cfg mac cd parse_time rnd y" "id_source rnd" "config_bounds cfg"
    and "map_of (t_allocs (y_t y)) k = Some a" "map_of (t_allocs (y_t y)) l = Some b" "k \<noteq> l"
  shows "a_RequestKey a \<noteq> a_RequestKey b \<and> a_RoomID a \<noteq> a_RoomID b"
  using txn_invD(2)[OF reachable_inv[OF assms(1-3)]] assms(4-6)
  by (auto simp: allocs_inv_def apart_def)

theorem request_keys_unique_witness: "a_RequestKey ex_a1 \<noteq> a_RequestKey ex_a2 \<and> a_RoomID ex_a1 \<noteq> a_RoomID ex_a2"
proof (rule request_keys_unique[OF ex_y_reach ex_rnd_source ex_cfg_bounds])
  show "map_of (t_allocs (y_t ex_y)) ''xx'' = Some ex_a1" "map_of (t_allocs (y_t ex_y)) ''xxxx'' = Some ex_a2"
    by (simp_all add: ex_y_allocs)
qed simp





end
